(* ===== verification/Prelude.thy ===== *)
theory Prelude
  imports Main
begin

text \<open>
  What every component of the development shares: the exceptions of the C++ code as values, the
  collections of simplification rules, reachability of a transition system with the rule that
  proves an invariant of it, and the interface of a round trip between two representations.
\<close>

named_theorems handler_defs \<open>the handlers of a component, to be unfolded\<close>
named_theorems codec_simps \<open>round trips of elementary conversions\<close>

section \<open>Exceptions as values\<close>

text \<open>
  An exception of the source is a value of \<open>cpp_exn\<close>; an operation that can throw has a result
  \<open>cpp_exn + 'a\<close>, with \<open>Inl\<close> for the exception.
\<close>

datatype cpp_exn =
    StdException string
  | InvalidArgument string
  | RuntimeError string
  | PackageNotFoundError string
  | ParameterNotDeclaredException string
  | ParameterTypeException string
  | RclError
  | NullDereference string
  | UseAfterFree string
  | OutOfBounds string

type_synonym 'a result = "cpp_exn + 'a"

section \<open>Transition systems\<close>

text \<open>\<open>reach init step\<close> are the states a run of \<open>step\<close> from a state of \<open>init\<close> comes to.\<close>

inductive reach :: "('s \<Rightarrow> bool) \<Rightarrow> ('s \<Rightarrow> 's \<Rightarrow> bool) \<Rightarrow> 's \<Rightarrow> bool"
  for init :: "'s \<Rightarrow> bool" and step :: "'s \<Rightarrow> 's \<Rightarrow> bool" where
  reach_init: "init s \<Longrightarrow> reach init step s"
| reach_step: "reach init step s \<Longrightarrow> step s t \<Longrightarrow> reach init step t"

lemma reach_steps: "reach init step s \<Longrightarrow> step\<^sup>*\<^sup>* s t \<Longrightarrow> reach init step t"
  by (rotate_tac 1, induction rule: rtranclp_induct) (auto intro: reach_step)

text \<open>The interface of an inductive invariant: it holds at the start and every step keeps it.\<close>

locale invariant_system =
  fixes init :: "'s \<Rightarrow> bool"
    and step :: "'s \<Rightarrow> 's \<Rightarrow> bool"
    and inv :: "'s \<Rightarrow> bool"
  assumes inv_init: "init s \<Longrightarrow> inv s"
    and inv_step: "inv s \<Longrightarrow> step s t \<Longrightarrow> inv t"
begin

lemma reach_inv: "reach init step s \<Longrightarrow> inv s"
  by (induction rule: reach.induct) (auto intro: inv_init inv_step)

lemma steps_inv: "inv s \<Longrightarrow> step\<^sup>*\<^sup>* s t \<Longrightarrow> inv t"
  by (rotate_tac 1, induction rule: rtranclp_induct) (auto intro: inv_step)

end

text \<open>
  The interface of a refinement: \<open>abs\<close> maps every step of a system to a step of its specification or
  to no step at all. What holds of every state the specification comes to holds of the system.
\<close>

locale simulation = invariant_system init step inv
  for init :: "'s \<Rightarrow> bool" and step :: "'s \<Rightarrow> 's \<Rightarrow> bool" and inv :: "'s \<Rightarrow> bool" +
  fixes abs :: "'s \<Rightarrow> 'a" and spec_init :: "'a \<Rightarrow> bool" and spec_step :: "'a \<Rightarrow> 'a \<Rightarrow> bool"
  assumes abs_init: "init s \<Longrightarrow> spec_init (abs s)"
    and abs_step: "inv s \<Longrightarrow> step s t \<Longrightarrow> spec_step (abs s) (abs t) \<or> abs t = abs s"
begin

lemma reach_abs: "reach init step s \<Longrightarrow> reach spec_init spec_step (abs s)"
proof (induction rule: reach.induct)
  case (reach_step s t)
  from abs_step [OF reach_inv [OF reach_step.hyps(1)] reach_step.hyps(2)] reach_step.IH
  show ?case by (auto intro: reach.reach_step)
qed (auto intro: reach.reach_init abs_init)

end

text \<open>The interface of a run that must end: a measure that every step makes smaller.\<close>

locale terminating_system =
  fixes step :: "'s \<Rightarrow> 's \<Rightarrow> bool" and ok :: "'s \<Rightarrow> bool" and rank :: "'s \<Rightarrow> nat"
  assumes step_ok: "ok s \<Longrightarrow> step s t \<Longrightarrow> ok t"
    and step_rank: "ok s \<Longrightarrow> step s t \<Longrightarrow> rank t < rank s"
begin

lemma run_bounded: "(step ^^ n) s t \<Longrightarrow> ok s \<Longrightarrow> ok t \<and> rank t + n \<le> rank s"
proof (induction n arbitrary: t)
  case (Suc n)
  then obtain u where "(step ^^ n) s u" "step u t" by auto
  with Suc step_ok [of u t] step_rank [of u t] show ?case by force
qed simp

lemma steps_ok: "step\<^sup>*\<^sup>* s t \<Longrightarrow> ok s \<Longrightarrow> ok t"
  by (induction rule: rtranclp_induct) (auto intro: step_ok)

lemma run_ends: "ok s \<Longrightarrow> \<exists>t. step\<^sup>*\<^sup>* s t \<and> (\<nexists>u. step t u)"
proof (induction "rank s" arbitrary: s rule: less_induct)
  case less
  show ?case
  proof (cases "\<exists>u. step s u")
    case True
    then obtain u where "step s u" by blast
    with less step_ok step_rank obtain t where "step\<^sup>*\<^sup>* u t" "\<nexists>v. step t v" by blast
    with \<open>step s u\<close> show ?thesis by (meson converse_rtranclp_into_rtranclp)
  qed blast
qed

end

section \<open>Round trips\<close>

text \<open>
  The interface of a conversion: decoding an encoded value gives the value back. \<open>ok\<close> are the
  values the encoding can represent.
\<close>

locale codec =
  fixes enc :: "'a \<Rightarrow> 'b" and dec :: "'b \<Rightarrow> 'a option" and ok :: "'a \<Rightarrow> bool"
  assumes dec_enc: "ok x \<Longrightarrow> dec (enc x) = Some x"
begin

lemma enc_inj: "ok x \<Longrightarrow> ok y \<Longrightarrow> enc x = enc y \<Longrightarrow> x = y"
  by (metis dec_enc option.inject)

lemma enc_list_round_trip:
  "list_all ok xs \<Longrightarrow> those (map dec (map enc xs)) = Some xs"
  by (induction xs) (auto simp: dec_enc)

end

section \<open>Lists\<close>

lemma length_rest_of_split:
  assumes "cs \<noteq> []"
  shows "length (drop 1 (dropWhile P cs)) < length cs"
proof -
  have "length (dropWhile P cs) \<le> length cs" by (rule length_dropWhile_le)
  moreover have "0 < length cs" using assms by simp
  ultimately have "length (dropWhile P cs) - 1 < length cs" by linarith
  then show ?thesis by simp
qed

text \<open>
  Repeated \<open>std::getline\<close> with a delimiter: the pieces between delimiters, with no last piece when
  the text ends in a delimiter.
\<close>

function getline_all :: "char \<Rightarrow> string \<Rightarrow> string list" where
  "getline_all d cs =
     (if cs = [] then []
      else takeWhile (\<lambda>c. c \<noteq> d) cs # getline_all d (drop 1 (dropWhile (\<lambda>c. c \<noteq> d) cs)))"
  by auto

termination getline_all
  by (relation "measure (length \<circ> snd)") (use length_rest_of_split in auto)

declare getline_all.simps [simp del]

lemma getline_all_Nil [simp]: "getline_all d [] = []"
  by (simp add: getline_all.simps)

lemma getline_all_Cons [simp]:
  "getline_all d (c # cs) =
     takeWhile (\<lambda>c. c \<noteq> d) (c # cs) # getline_all d (drop 1 (dropWhile (\<lambda>c. c \<noteq> d) (c # cs)))"
  by (simp add: getline_all.simps [of d "c # cs"])

section \<open>Decimal numbers\<close>

text \<open>\<open>std::to_string\<close> of an integer.\<close>

definition digit_char :: "nat \<Rightarrow> char" where
  "digit_char d = char_of (48 + d)"

fun show_nat :: "nat \<Rightarrow> string" where
  "show_nat n = (if n < 10 then [digit_char n] else show_nat (n div 10) @ [digit_char (n mod 10)])"

declare show_nat.simps [simp del]

definition show_int :: "int \<Rightarrow> string" where
  "show_int i = (if i < 0 then ''-'' @ show_nat (nat (- i)) else show_nat (nat i))"

definition digit_value :: "char \<Rightarrow> nat" where
  "digit_value c = of_char c - 48"

lemma digit_value_char: "d < 10 \<Longrightarrow> digit_value (digit_char d) = d"
  by (simp add: digit_value_def digit_char_def)

text \<open>The number a string of digits denotes; it recovers the number that was shown.\<close>

definition read_nat :: "string \<Rightarrow> nat" where
  "read_nat cs = foldl (\<lambda>n c. 10 * n + digit_value c) 0 cs"

lemma read_show_nat: "read_nat (show_nat n) = n"
proof (induction n rule: show_nat.induct)
  case (1 n)
  show ?case
  proof (cases "n < 10")
    case True
    then show ?thesis by (simp add: show_nat.simps [of n] read_nat_def digit_value_char)
  next
    case False
    with 1 have "read_nat (show_nat (n div 10)) = n div 10" by simp
    with False show ?thesis
      by (simp add: show_nat.simps [of n] read_nat_def digit_value_char)
  qed
qed

lemma show_nat_inj: "show_nat m = show_nat n \<Longrightarrow> m = n"
  by (metis read_show_nat)

lemma show_nat_nonempty: "show_nat n \<noteq> []"
  by (simp add: show_nat.simps [of n])

end
