(* ===== verification/Rtt_Action_Server.thy ===== *)
theory Rtt_Action_Server
  imports Prelude
begin

text \<open>
  The class \<open>RTTActionServer\<close> of \<open>rtt_ros2_actions/rtt_action_server.hpp\<close>: the thin wrapper of an
  \<open>rclcpp_action::Server\<close>, its registration of handlers and the dispatch of goal, cancel and
  accepted requests to them.
\<close>

section \<open>Data\<close>

text \<open>The answers of the two request callbacks of \<open>rclcpp_action\<close>.\<close>

datatype GoalResponse = GOAL_REJECT | ACCEPT_AND_EXECUTE | ACCEPT_AND_DEFER
datatype CancelResponse = CANCEL_REJECT | CANCEL_ACCEPT

text \<open>
  The members of the class. \<open>'n\<close> is the type of ROS nodes, \<open>'srv\<close> of \<open>rclcpp_action\<close> servers,
  \<open>'op\<close> of RTT operations and \<open>'cb\<close> of the plain callbacks (\<open>std::function\<close>); a null pointer, an
  operation caller with no operation and an empty function are \<open>None\<close>.
\<close>

record ('n, 'srv, 'op, 'cb) rtt_action_server =
  ras_name :: string
  ras_node :: "'n option"
  ras_server :: "'srv option"
  goal_operation :: "'op option"
  cancel_operation :: "'op option"
  accepted_operation :: "'op option"
  goal_callback :: "'cb option"
  cancel_callback :: "'cb option"
  accepted_callback :: "'cb option"

text \<open>
  What the dispatch relies on outside the class: whether an operation fits one of the three
  signatures (then the \<open>RTT::OperationCaller\<close> made of it is ready), and what calling a callback or
  an operation does to the state \<open>'m\<close> of the program. \<open>'u\<close> are goal identifiers, \<open>'g\<close> goals and
  \<open>'h\<close> goal handles.
\<close>

record ('op, 'cb, 'u, 'g, 'h, 'm) handler_env =
  goal_signature_ok :: "'op \<Rightarrow> bool"
  cancel_signature_ok :: "'op \<Rightarrow> bool"
  accepted_signature_ok :: "'op \<Rightarrow> bool"
  run_goal_callback :: "'cb \<Rightarrow> 'u \<Rightarrow> 'g \<Rightarrow> 'm \<Rightarrow> GoalResponse \<times> 'm"
  run_cancel_callback :: "'cb \<Rightarrow> 'h \<Rightarrow> 'm \<Rightarrow> CancelResponse \<times> 'm"
  run_accepted_callback :: "'cb \<Rightarrow> 'h \<Rightarrow> 'm \<Rightarrow> 'm"
  call_goal_operation :: "'op \<Rightarrow> 'u \<Rightarrow> 'g \<Rightarrow> 'm \<Rightarrow> GoalResponse \<times> 'm"
  call_cancel_operation :: "'op \<Rightarrow> 'h \<Rightarrow> 'm \<Rightarrow> CancelResponse \<times> 'm"
  send_accepted_operation :: "'op \<Rightarrow> 'h \<Rightarrow> 'm \<Rightarrow> 'm"

section \<open>Construction and registration\<close>

definition RTTActionServer :: "string \<Rightarrow> ('n, 'srv, 'op, 'cb) rtt_action_server" where
  "RTTActionServer name =
     \<lparr>ras_name = name, ras_node = None, ras_server = None,
      goal_operation = None, cancel_operation = None, accepted_operation = None,
      goal_callback = None, cancel_callback = None, accepted_callback = None\<rparr>"

definition ras_getName :: "('n, 'srv, 'op, 'cb) rtt_action_server \<Rightarrow> string" where
  "ras_getName a = ras_name a"

text \<open>\<open>ready()\<close> of an operation caller.\<close>

definition caller_ready :: "('op \<Rightarrow> bool) \<Rightarrow> 'op option \<Rightarrow> bool" where
  "caller_ready fits caller = (case caller of None \<Rightarrow> False | Some op \<Rightarrow> fits op)"

definition registerGoalOperation ::
  "('op, 'cb, 'u, 'g, 'h, 'm) handler_env \<Rightarrow> 'op option \<Rightarrow>
   ('n, 'srv, 'op, 'cb) rtt_action_server \<Rightarrow> bool \<times> ('n, 'srv, 'op, 'cb) rtt_action_server" where
  "registerGoalOperation E operation a =
     (case operation of
        None \<Rightarrow> (False, a)
      | Some op \<Rightarrow>
          let a' = a\<lparr>goal_operation := Some op\<rparr>
          in if \<not> caller_ready (goal_signature_ok E) (goal_operation a') then (False, a')
             else (True, a'))"

definition registerCancelOperation ::
  "('op, 'cb, 'u, 'g, 'h, 'm) handler_env \<Rightarrow> 'op option \<Rightarrow>
   ('n, 'srv, 'op, 'cb) rtt_action_server \<Rightarrow> bool \<times> ('n, 'srv, 'op, 'cb) rtt_action_server" where
  "registerCancelOperation E operation a =
     (case operation of
        None \<Rightarrow> (False, a)
      | Some op \<Rightarrow>
          let a' = a\<lparr>cancel_operation := Some op\<rparr>
          in if \<not> caller_ready (cancel_signature_ok E) (cancel_operation a') then (False, a')
             else (True, a'))"

definition registerAcceptedOperation ::
  "('op, 'cb, 'u, 'g, 'h, 'm) handler_env \<Rightarrow> 'op option \<Rightarrow>
   ('n, 'srv, 'op, 'cb) rtt_action_server \<Rightarrow> bool \<times> ('n, 'srv, 'op, 'cb) rtt_action_server" where
  "registerAcceptedOperation E operation a =
     (case operation of
        None \<Rightarrow> (False, a)
      | Some op \<Rightarrow>
          let a' = a\<lparr>accepted_operation := Some op\<rparr>
          in if \<not> caller_ready (accepted_signature_ok E) (accepted_operation a') then (False, a')
             else (True, a'))"

definition registerGoalCallback ::
  "'cb option \<Rightarrow> ('n, 'srv, 'op, 'cb) rtt_action_server \<Rightarrow> ('n, 'srv, 'op, 'cb) rtt_action_server" where
  "registerGoalCallback callback a = a\<lparr>goal_callback := callback\<rparr>"

definition registerCancelCallback ::
  "'cb option \<Rightarrow> ('n, 'srv, 'op, 'cb) rtt_action_server \<Rightarrow> ('n, 'srv, 'op, 'cb) rtt_action_server" where
  "registerCancelCallback callback a = a\<lparr>cancel_callback := callback\<rparr>"

definition registerAcceptedCallback ::
  "'cb option \<Rightarrow> ('n, 'srv, 'op, 'cb) rtt_action_server \<Rightarrow> ('n, 'srv, 'op, 'cb) rtt_action_server" where
  "registerAcceptedCallback callback a = a\<lparr>accepted_callback := callback\<rparr>"

section \<open>Connection\<close>

text \<open>
  \<open>connect\<close> looks the node of the owning component up (\<open>getNode\<close>, of the node component) and
  creates the server on it; \<open>create_server\<close> is \<open>rclcpp_action::create_server\<close>, which may throw.
\<close>

definition ras_connect ::
  "('tc \<Rightarrow> 'n option) \<Rightarrow> ('n \<Rightarrow> string \<Rightarrow> 'srv result) \<Rightarrow> 'tc \<Rightarrow> string \<Rightarrow>
   ('n, 'srv, 'op, 'cb) rtt_action_server \<Rightarrow> bool \<times> ('n, 'srv, 'op, 'cb) rtt_action_server" where
  "ras_connect getNode create_server owner action_name a =
     (let a1 = a\<lparr>ras_node := getNode owner\<rparr>
      in case ras_node a1 of
           None \<Rightarrow> (False, a1)
         | Some node \<Rightarrow>
             (case create_server node (if action_name = [] then ras_name a1 else action_name) of
                Inl e \<Rightarrow> (False, a1\<lparr>ras_server := None, ras_node := None\<rparr>)
              | Inr server \<Rightarrow> (True, a1\<lparr>ras_server := Some server\<rparr>)))"

definition ras_connected :: "('n, 'srv, 'op, 'cb) rtt_action_server \<Rightarrow> bool" where
  "ras_connected a = (ras_server a \<noteq> None)"

definition ras_shutdown ::
  "('n, 'srv, 'op, 'cb) rtt_action_server \<Rightarrow> ('n, 'srv, 'op, 'cb) rtt_action_server" where
  "ras_shutdown a = a\<lparr>ras_server := None, ras_node := None\<rparr>"

text \<open>The destructor, and the accessors of the server and of its node, which may be null.\<close>

definition RTTActionServer_destroy ::
  "('n, 'srv, 'op, 'cb) rtt_action_server \<Rightarrow> ('n, 'srv, 'op, 'cb) rtt_action_server" where
  "RTTActionServer_destroy a = ras_shutdown a"

definition ras_action_server :: "('n, 'srv, 'op, 'cb) rtt_action_server \<Rightarrow> 'srv option" where
  "ras_action_server a = ras_server a"

definition ras_get_node :: "('n, 'srv, 'op, 'cb) rtt_action_server \<Rightarrow> 'n option" where
  "ras_get_node a = ras_node a"

section \<open>Dispatch\<close>

definition handleGoal ::
  "('op, 'cb, 'u, 'g, 'h, 'm) handler_env \<Rightarrow> ('n, 'srv, 'op, 'cb) rtt_action_server \<Rightarrow>
   'u \<Rightarrow> 'g \<Rightarrow> 'm \<Rightarrow> GoalResponse \<times> 'm" where
  "handleGoal E a uuid goal m =
     (case goal_callback a of
        Some cb \<Rightarrow> run_goal_callback E cb uuid goal m
      | None \<Rightarrow>
          if caller_ready (goal_signature_ok E) (goal_operation a)
          then call_goal_operation E (the (goal_operation a)) uuid goal m
          else if accepted_callback a \<noteq> None
                  \<or> caller_ready (accepted_signature_ok E) (accepted_operation a)
          then (ACCEPT_AND_EXECUTE, m)
          else (GOAL_REJECT, m))"

definition handleCancel ::
  "('op, 'cb, 'u, 'g, 'h, 'm) handler_env \<Rightarrow> ('n, 'srv, 'op, 'cb) rtt_action_server \<Rightarrow>
   'h \<Rightarrow> 'm \<Rightarrow> CancelResponse \<times> 'm" where
  "handleCancel E a gh m =
     (case cancel_callback a of
        Some cb \<Rightarrow> run_cancel_callback E cb gh m
      | None \<Rightarrow>
          if caller_ready (cancel_signature_ok E) (cancel_operation a)
          then call_cancel_operation E (the (cancel_operation a)) gh m
          else (CANCEL_REJECT, m))"

definition handleAccepted ::
  "('op, 'cb, 'u, 'g, 'h, 'm) handler_env \<Rightarrow> ('n, 'srv, 'op, 'cb) rtt_action_server \<Rightarrow>
   'h \<Rightarrow> 'm \<Rightarrow> 'm" where
  "handleAccepted E a gh m =
     (case accepted_callback a of
        Some cb \<Rightarrow> run_accepted_callback E cb gh m
      | None \<Rightarrow>
          if caller_ready (accepted_signature_ok E) (accepted_operation a)
          then send_accepted_operation E (the (accepted_operation a)) gh m
          else m)"

section \<open>Properties\<close>

text \<open>With no goal handler registered, a goal request is accepted exactly when the accepted goal
  will reach somebody: the accepted callback, or the accepted operation where there is no callback;
  otherwise it is rejected, and the answer changes nothing. Cancel requests without a cancel handler
  are rejected.\<close>

lemma default_goal_policy:
  assumes "goal_callback a = None" and "\<not> caller_ready (goal_signature_ok E) (goal_operation a)"
  shows "(handleGoal E a uuid goal m = (ACCEPT_AND_EXECUTE, m) \<longleftrightarrow>
      (\<exists>cb. accepted_callback a = Some cb \<and> (\<forall>h m. handleAccepted E a h m = run_accepted_callback E cb h m))
      \<or> (\<exists>op. accepted_callback a = None \<and> accepted_operation a = Some op \<and> accepted_signature_ok E op
             \<and> (\<forall>h m. handleAccepted E a h m = send_accepted_operation E op h m)))
    \<and> (handleGoal E a uuid goal m \<noteq> (ACCEPT_AND_EXECUTE, m) \<longrightarrow>
         handleGoal E a uuid goal m = (GOAL_REJECT, m) \<and> (\<forall>h m. handleAccepted E a h m = m))
    \<and> (cancel_callback a = None \<and> \<not> caller_ready (cancel_signature_ok E) (cancel_operation a) \<longrightarrow>
         handleCancel E a h m = (CANCEL_REJECT, m))"
  using assms
  by (auto simp: handleGoal_def handleAccepted_def handleCancel_def caller_ready_def split: option.splits)

text \<open>C25: Connecting: on success the server is connected, on the node of the owner, under the given
  action name or under the name of the server when none is given; when creating the server throws,
  nothing stays connected; when there is no node, an existing connection stays. The registered
  handlers are never touched, and a shutdown disconnects.\<close>

theorem ras_connect_correct:
  assumes "ras_connect getNode create_server tc action_name a = (b, a')"
  shows "(b \<longleftrightarrow> (\<exists>node server. getNode tc = Some node
            \<and> create_server node (if action_name = [] then ras_getName a else action_name) = Inr server
            \<and> ras_node a' = Some node \<and> ras_server a' = Some server))
    \<and> (\<not> b \<longrightarrow> (ras_connected a' \<longleftrightarrow> getNode tc = None \<and> ras_connected a))
    \<and> a'\<lparr>ras_node := ras_node a, ras_server := ras_server a\<rparr> = a
    \<and> \<not> ras_connected (ras_shutdown a')"
  using assms
  by (auto simp: ras_connect_def ras_connected_def ras_shutdown_def ras_getName_def Let_def
      split: option.splits sum.splits)

theorem ras_connect_correct_witness:
  "\<exists>a'. ras_connect (\<lambda>_::unit. Some ''node'') (\<lambda>n topic. Inr (n, topic)) () []
        (RTTActionServer ''echo'' :: (string, string \<times> string, nat, nat) rtt_action_server) = (True, a')
     \<and> ras_server a' = Some (''node'', ''echo'')"
proof -
  obtain b a' where r: "ras_connect (\<lambda>_::unit. Some ''node'') (\<lambda>n topic. Inr (n, topic)) () []
      (RTTActionServer ''echo'' :: (string, string \<times> string, nat, nat) rtt_action_server) = (b, a')"
    by fastforce
  moreover have b: b using r by (simp add: ras_connect_def RTTActionServer_def)
  ultimately show ?thesis
    using ras_connect_correct [OF r] by (auto simp: ras_getName_def RTTActionServer_def)
qed

end
