(* ===== verification/Goal_Handle.thy ===== *)
theory Goal_Handle
  imports Prelude
begin

text \<open>
  The part of \<open>rclcpp_action\<close> the action servers rely on, which is not code of this repository:
  the operations of \<open>rclcpp_action::ServerGoalHandle\<close> as a record of functions, a parameter of the
  model, and the goal state machine documented for ROS 2 actions as the laws of a locale. The
  theory ends with one concrete set of operations that satisfies the laws.
\<close>

section \<open>The goal state machine\<close>

text \<open>The states of a goal, and the events that move a goal from one state to the next.\<close>

datatype goal_status = ACCEPTED | EXECUTING | CANCELING | SUCCEEDED | CANCELED | ABORTED

datatype goal_event = EXECUTE | CANCEL_GOAL | SUCCEED | ABORT | CANCELED_EV

fun goal_next :: "goal_status \<Rightarrow> goal_event \<Rightarrow> goal_status option" where
  "goal_next ACCEPTED EXECUTE = Some EXECUTING"
| "goal_next ACCEPTED CANCEL_GOAL = Some CANCELING"
| "goal_next EXECUTING CANCEL_GOAL = Some CANCELING"
| "goal_next EXECUTING SUCCEED = Some SUCCEEDED"
| "goal_next EXECUTING ABORT = Some ABORTED"
| "goal_next CANCELING SUCCEED = Some SUCCEEDED"
| "goal_next CANCELING ABORT = Some ABORTED"
| "goal_next CANCELING CANCELED_EV = Some CANCELED"
| "goal_next _ _ = None"

definition terminal :: "goal_status \<Rightarrow> bool" where
  "terminal x = (x = SUCCEEDED \<or> x = CANCELED \<or> x = ABORTED)"

lemma goal_next_terminal: "terminal x \<Longrightarrow> goal_next x ev = None"
  by (cases x; cases ev) (auto simp: terminal_def)

text \<open>
  The states are ordered by how far a goal has come; finished states are maximal, and every transition
  moves a goal forward.
\<close>

fun status_rank :: "goal_status \<Rightarrow> nat" where
  "status_rank ACCEPTED = 0"
| "status_rank EXECUTING = 1"
| "status_rank CANCELING = 2"
| "status_rank _ = 3"

instantiation goal_status :: order
begin

definition less_eq_goal_status :: "goal_status \<Rightarrow> goal_status \<Rightarrow> bool" where
  "less_eq_goal_status x y \<longleftrightarrow> x = y \<or> status_rank x < status_rank y"

definition less_goal_status :: "goal_status \<Rightarrow> goal_status \<Rightarrow> bool" where
  "less_goal_status x y \<longleftrightarrow> status_rank x < status_rank y"

instance
  by standard (auto simp: less_eq_goal_status_def less_goal_status_def)

end

lemma goal_next_forward: "goal_next x ev = Some y \<Longrightarrow> x < y"
  by (cases x; cases ev) (auto simp: less_goal_status_def)

lemma terminal_maximal: "terminal x \<Longrightarrow> x \<le> y \<longleftrightarrow> y = x"
  by (cases x; cases y) (auto simp: less_eq_goal_status_def terminal_def)

lemma released_forward: "x \<le> (if terminal x then x else CANCELED)"
  by (cases x) (auto simp: less_eq_goal_status_def terminal_def)

lemma accepted_le [simp]: "ACCEPTED \<le> x"
  by (cases x) (auto simp: less_eq_goal_status_def)

lemma status_le_simps [simp]:
  "EXECUTING \<le> CANCELING" "EXECUTING \<le> SUCCEEDED" "EXECUTING \<le> CANCELED" "EXECUTING \<le> ABORTED"
  "CANCELING \<le> SUCCEEDED" "CANCELING \<le> CANCELED" "CANCELING \<le> ABORTED"
  by (simp_all add: less_eq_goal_status_def)

section \<open>The operations of a goal handle\<close>

text \<open>
  \<open>'w\<close> is the state of the middleware, \<open>'h\<close> are goal handles (equality is equality of the shared
  pointers), \<open>'g\<close> goals, \<open>'r\<close> results and \<open>'f\<close> feedback messages. The last three operations are
  those the middleware itself performs: accepting a new goal, the transition to \<open>CANCELING\<close> after a
  cancel request was accepted, and the destruction of a handle nobody refers to.
\<close>

record ('w, 'h, 'g, 'r, 'f) goal_handle_api =
  is_active :: "'w \<Rightarrow> 'h \<Rightarrow> bool"
  is_executing :: "'w \<Rightarrow> 'h \<Rightarrow> bool"
  is_canceling :: "'w \<Rightarrow> 'h \<Rightarrow> bool"
  get_goal :: "'w \<Rightarrow> 'h \<Rightarrow> 'g"
  execute :: "'w \<Rightarrow> 'h \<Rightarrow> 'w result"
  succeed :: "'w \<Rightarrow> 'h \<Rightarrow> 'r \<Rightarrow> 'w result"
  abort_goal :: "'w \<Rightarrow> 'h \<Rightarrow> 'r \<Rightarrow> 'w result"
  canceled :: "'w \<Rightarrow> 'h \<Rightarrow> 'r \<Rightarrow> 'w result"
  publish_feedback :: "'w \<Rightarrow> 'h \<Rightarrow> 'f \<Rightarrow> 'w"
  accept_goal :: "'w \<Rightarrow> 'h \<Rightarrow> 'g \<Rightarrow> 'w"
  cancel_goal :: "'w \<Rightarrow> 'h \<Rightarrow> 'w result"
  release_handle :: "'w \<Rightarrow> 'h \<Rightarrow> 'w"

text \<open>
  \<open>goal_op op w h ev\<close> says that the operation is the transition \<open>ev\<close> of the goal state machine on
  the goal \<open>h\<close>: it throws where the machine has no such transition, and otherwise moves the goal,
  records the result given with it, and leaves every other goal alone. \<open>st\<close> and \<open>res\<close> read the
  state and the result of a goal.
\<close>

definition goal_transition ::
  "('w \<Rightarrow> 'h \<Rightarrow> goal_status option) \<Rightarrow> ('w \<Rightarrow> 'h \<Rightarrow> 'r option) \<Rightarrow>
   'w \<Rightarrow> 'h \<Rightarrow> goal_event \<Rightarrow> 'r option \<Rightarrow> 'w result \<Rightarrow> bool" where
  "goal_transition st res w h ev r out =
     (case Option.bind (st w h) (\<lambda>x. goal_next x ev) of
        None \<Rightarrow> (\<exists>e. out = Inl e)
      | Some y \<Rightarrow> (\<exists>w'. out = Inr w' \<and> st w' = (st w)(h \<mapsto> y)
                    \<and> res w' = (case r of None \<Rightarrow> res w | Some v \<Rightarrow> (res w)(h \<mapsto> v))))"

locale goal_handles =
  fixes A :: "('w, 'h, 'g, 'r, 'f) goal_handle_api"
    and st :: "'w \<Rightarrow> 'h \<Rightarrow> goal_status option"
    and res :: "'w \<Rightarrow> 'h \<Rightarrow> 'r option"
  assumes is_active_iff:
      "is_active A w h \<longleftrightarrow> st w h \<in> {Some ACCEPTED, Some EXECUTING, Some CANCELING}"
    and is_executing_iff: "is_executing A w h \<longleftrightarrow> st w h = Some EXECUTING"
    and is_canceling_iff: "is_canceling A w h \<longleftrightarrow> st w h = Some CANCELING"
    and execute_law: "goal_transition st res w h EXECUTE None (execute A w h)"
    and succeed_law: "goal_transition st res w h SUCCEED (Some r) (succeed A w h r)"
    and abort_law: "goal_transition st res w h ABORT (Some r) (abort_goal A w h r)"
    and canceled_law: "goal_transition st res w h CANCELED_EV (Some r) (canceled A w h r)"
    and cancel_goal_law: "goal_transition st res w h CANCEL_GOAL None (cancel_goal A w h)"
    and feedback_law: "st (publish_feedback A w h f) = st w \<and> res (publish_feedback A w h f) = res w"
    and accept_law: "st w h = None \<Longrightarrow>
          st (accept_goal A w h g) = (st w)(h \<mapsto> ACCEPTED) \<and> res (accept_goal A w h g) = res w"
    and release_law: "st (release_handle A w h) =
          (st w)(h := map_option (\<lambda>x. if terminal x then x else CANCELED) (st w h))
          \<and> (\<forall>h'. h' \<noteq> h \<or> (\<exists>x. st w h = Some x \<and> terminal x)
                \<longrightarrow> res (release_handle A w h) h' = res w h')"
begin

lemmas status_iffs = is_active_iff is_executing_iff is_canceling_iff

text \<open>Each law read at a given state of the goal.\<close>

lemma execute_accepted:
  assumes "st w h = Some ACCEPTED"
  obtains w' where "execute A w h = Inr w'" "st w' = (st w)(h \<mapsto> EXECUTING)" "res w' = res w"
  using execute_law [of w h] assms by (auto simp: goal_transition_def)

lemma succeed_running:
  assumes "st w h = Some EXECUTING \<or> st w h = Some CANCELING"
  obtains w' where "succeed A w h r = Inr w'" "st w' = (st w)(h \<mapsto> SUCCEEDED)"
    "res w' = (res w)(h \<mapsto> r)"
  using succeed_law [of w h r] assms by (auto simp: goal_transition_def)

lemma abort_running:
  assumes "st w h = Some EXECUTING \<or> st w h = Some CANCELING"
  obtains w' where "abort_goal A w h r = Inr w'" "st w' = (st w)(h \<mapsto> ABORTED)"
    "res w' = (res w)(h \<mapsto> r)"
  using abort_law [of w h r] assms by (auto simp: goal_transition_def)

lemma canceled_canceling:
  assumes "st w h = Some CANCELING"
  obtains w' where "canceled A w h r = Inr w'" "st w' = (st w)(h \<mapsto> CANCELED)"
    "res w' = (res w)(h \<mapsto> r)"
  using canceled_law [of w h r] assms by (auto simp: goal_transition_def)

lemma cancel_goal_Inr:
  assumes "cancel_goal A w h = Inr w'"
  shows "(st w h = Some ACCEPTED \<or> st w h = Some EXECUTING)
    \<and> st w' = (st w)(h \<mapsto> CANCELING) \<and> res w' = res w"
  using cancel_goal_law [of w h] assms
  by (cases "st w h"; cases "the (st w h)") (auto simp: goal_transition_def)

end

section \<open>A set of operations that satisfies the laws\<close>

record ('h, 'g, 'r) rcl_goals =
  rcl_status :: "'h \<Rightarrow> goal_status option"
  rcl_goal :: "'h \<Rightarrow> 'g option"
  rcl_result :: "'h \<Rightarrow> 'r option"

definition rcl_move ::
  "goal_event \<Rightarrow> 'r option \<Rightarrow> ('h, 'g, 'r) rcl_goals \<Rightarrow> 'h \<Rightarrow> ('h, 'g, 'r) rcl_goals result" where
  "rcl_move ev r w h =
     (case Option.bind (rcl_status w h) (\<lambda>x. goal_next x ev) of
        None \<Rightarrow> Inl (RuntimeError ''goal_handle attempted invalid transition'')
      | Some y \<Rightarrow> Inr (w\<lparr>rcl_status := (rcl_status w)(h \<mapsto> y),
                        rcl_result := (case r of None \<Rightarrow> rcl_result w
                                       | Some v \<Rightarrow> (rcl_result w)(h \<mapsto> v))\<rparr>))"

definition rcl_api :: "(('h, 'g, 'r) rcl_goals, 'h, 'g, 'r, 'f) goal_handle_api" where
  "rcl_api =
     \<lparr>is_active = (\<lambda>w h. rcl_status w h \<in> {Some ACCEPTED, Some EXECUTING, Some CANCELING}),
      is_executing = (\<lambda>w h. rcl_status w h = Some EXECUTING),
      is_canceling = (\<lambda>w h. rcl_status w h = Some CANCELING),
      get_goal = (\<lambda>w h. the (rcl_goal w h)),
      execute = rcl_move EXECUTE None,
      succeed = (\<lambda>w h r. rcl_move SUCCEED (Some r) w h),
      abort_goal = (\<lambda>w h r. rcl_move ABORT (Some r) w h),
      canceled = (\<lambda>w h r. rcl_move CANCELED_EV (Some r) w h),
      publish_feedback = (\<lambda>w h f. w),
      accept_goal = (\<lambda>w h g. w\<lparr>rcl_status := (rcl_status w)(h \<mapsto> ACCEPTED),
                               rcl_goal := (rcl_goal w)(h \<mapsto> g)\<rparr>),
      cancel_goal = rcl_move CANCEL_GOAL None,
      release_handle = (\<lambda>w h. w\<lparr>rcl_status := (rcl_status w)
        (h := map_option (\<lambda>x. if terminal x then x else CANCELED) (rcl_status w h))\<rparr>)\<rparr>"

lemma rcl_move_transition:
  "goal_transition rcl_status rcl_result w h ev r (rcl_move ev r w h)"
  by (simp add: goal_transition_def rcl_move_def split: option.splits)

interpretation rcl: goal_handles rcl_api rcl_status rcl_result
  by unfold_locales (simp_all add: rcl_api_def rcl_move_transition)

text \<open>The start of the middleware: no goal is known.\<close>

definition rcl_empty :: "('h, 'g, 'r) rcl_goals" where
  "rcl_empty = \<lparr>rcl_status = Map.empty, rcl_goal = Map.empty, rcl_result = Map.empty\<rparr>"

end
