(* ===== verification/Simple_Action_Server.thy ===== *)
theory Simple_Action_Server
  imports Rtt_Action_Server Goal_Handle
begin

text \<open>
  The class \<open>SimpleActionServer\<close> of \<open>rtt_ros2_actions/simple_action_server.hpp\<close>: the emulation of
  the ROS 1 action server, with an active and a pending slot, on top of deferred ROS 2 goals. Every
  method is one definition over the state of the object; a section of a method that holds the
  mutex is one definition of its own where the method holds it for a part only.
\<close>

section \<open>State\<close>

text \<open>The four operations the constructor makes, and the messages sent to the owner's thread.\<close>

datatype sas_operation = GoalCallbackOp | CancelCallbackOp | AcceptedCallbackOp | CancelHandlerOp

datatype 'h sas_message = AcceptedMsg 'h | CancelMsg 'h

text \<open>
  The members of the object, and \<open>world\<close>, the state of the middleware its goal handles point into.
  \<open>'hk\<close> is the type of the user's hooks.
\<close>

record ('w, 'h, 'hk, 'n, 'srv, 'cb) sas =
  world :: 'w
  action_server :: "('n, 'srv, sas_operation, 'cb) rtt_action_server"
  action_name :: string
  goal_active :: "'h option"
  goal_pending :: "'h option"
  new_goal_hook :: "'hk option"
  cancel_goal_hook :: "'hk option"

section \<open>Construction and life cycle\<close>

text \<open>
  The constructor throws when there is no owner service or it belongs to no component, and registers
  three of its four operations with the action server. \<open>getOwner\<close> is the method of
  \<open>RTT::Service\<close>, and \<open>E\<close> tells whether the operations fit the signatures they are registered for.
\<close>

definition SimpleActionServer ::
  "(sas_operation, 'cb, 'u, 'g, 'h, 'm) handler_env \<Rightarrow> ('svc \<Rightarrow> 'tc option) \<Rightarrow> 'w \<Rightarrow>
   'svc option \<Rightarrow> string \<Rightarrow> ('tc \<times> ('w, 'h, 'hk, 'n, 'srv, 'cb) sas) result" where
  "SimpleActionServer E getOwner w owner_service name =
     (case owner_service of
        None \<Rightarrow> Inl (InvalidArgument ''SimpleActionServer: owner service pointer must be valid'')
      | Some svc \<Rightarrow>
          (case getOwner svc of
             None \<Rightarrow> Inl (InvalidArgument
               ''SimpleActionServer: owner service must belong to a TaskContext'')
           | Some owner \<Rightarrow>
               let a0 = RTTActionServer name;
                   a1 = snd (registerGoalOperation E (Some GoalCallbackOp) a0);
                   a2 = snd (registerCancelOperation E (Some CancelCallbackOp) a1);
                   a3 = snd (registerAcceptedOperation E (Some AcceptedCallbackOp) a2)
               in Inr (owner, \<lparr>world = w, action_server = a3, action_name = [],
                               goal_active = None, goal_pending = None,
                               new_goal_hook = None, cancel_goal_hook = None\<rparr>)))"

definition sas_getName :: "('w, 'h, 'hk, 'n, 'srv, 'cb) sas \<Rightarrow> string" where
  "sas_getName s = ras_getName (action_server s)"

definition sas_ready :: "('w, 'h, 'hk, 'n, 'srv, 'cb) sas \<Rightarrow> bool" where
  "sas_ready s = ras_connected (action_server s)"

definition setActionName ::
  "string \<Rightarrow> ('w, 'h, 'hk, 'n, 'srv, 'cb) sas \<Rightarrow> ('w, 'h, 'hk, 'n, 'srv, 'cb) sas" where
  "setActionName name s = s\<lparr>action_name := name\<rparr>"

text \<open>The argument \<open>publish_feedback\<close> of the source is only logged.\<close>

definition sas_start ::
  "('tc \<Rightarrow> 'n option) \<Rightarrow> ('n \<Rightarrow> string \<Rightarrow> 'srv result) \<Rightarrow> 'tc \<Rightarrow>
   ('w, 'h, 'hk, 'n, 'srv, 'cb) sas \<Rightarrow> bool \<times> ('w, 'h, 'hk, 'n, 'srv, 'cb) sas" where
  "sas_start getNode create_server owner s =
     (if ras_connected (action_server s) then (True, s)
      else let (ok, a) = ras_connect getNode create_server owner (action_name s) (action_server s)
           in (ok, s\<lparr>action_server := a\<rparr>))"

definition sas_shutdown ::
  "('w, 'h, 'hk, 'n, 'srv, 'cb) sas \<Rightarrow> ('w, 'h, 'hk, 'n, 'srv, 'cb) sas" where
  "sas_shutdown s =
     s\<lparr>goal_active := None, goal_pending := None,
       action_server := ras_shutdown (action_server s)\<rparr>"

text \<open>The destructor.\<close>

definition SimpleActionServer_destroy ::
  "('w, 'h, 'hk, 'n, 'srv, 'cb) sas \<Rightarrow> ('w, 'h, 'hk, 'n, 'srv, 'cb) sas" where
  "SimpleActionServer_destroy s = sas_shutdown s"

definition setGoalHook ::
  "'hk option \<Rightarrow> ('w, 'h, 'hk, 'n, 'srv, 'cb) sas \<Rightarrow> ('w, 'h, 'hk, 'n, 'srv, 'cb) sas" where
  "setGoalHook hook s = s\<lparr>new_goal_hook := hook\<rparr>"

definition setCancelHook ::
  "'hk option \<Rightarrow> ('w, 'h, 'hk, 'n, 'srv, 'cb) sas \<Rightarrow> ('w, 'h, 'hk, 'n, 'srv, 'cb) sas" where
  "setCancelHook hook s = s\<lparr>cancel_goal_hook := hook\<rparr>"

section \<open>Queries\<close>

definition pendingGoalHandle ::
  "('w, 'h, 'g, 'r, 'f) goal_handle_api \<Rightarrow> ('w, 'h, 'hk, 'n, 'srv, 'cb) sas \<Rightarrow> 'h option" where
  "pendingGoalHandle A s =
     (case goal_pending s of
        None \<Rightarrow> None
      | Some h \<Rightarrow> if is_active A (world s) h \<and> \<not> is_executing A (world s) h
                    \<and> \<not> is_canceling A (world s) h
                 then Some h else None)"

definition isActive ::
  "('w, 'h, 'g, 'r, 'f) goal_handle_api \<Rightarrow> ('w, 'h, 'hk, 'n, 'srv, 'cb) sas \<Rightarrow> bool" where
  "isActive A s = (case goal_active s of None \<Rightarrow> False | Some h \<Rightarrow> is_executing A (world s) h)"

definition isPreempting ::
  "('w, 'h, 'g, 'r, 'f) goal_handle_api \<Rightarrow> ('w, 'h, 'hk, 'n, 'srv, 'cb) sas \<Rightarrow> bool" where
  "isPreempting A s = (case goal_active s of None \<Rightarrow> False | Some h \<Rightarrow> is_canceling A (world s) h)"

text \<open>The same under its historical spelling.\<close>

definition isPreemting ::
  "('w, 'h, 'g, 'r, 'f) goal_handle_api \<Rightarrow> ('w, 'h, 'hk, 'n, 'srv, 'cb) sas \<Rightarrow> bool" where
  "isPreemting A s = isPreempting A s"

definition isPending ::
  "('w, 'h, 'g, 'r, 'f) goal_handle_api \<Rightarrow> ('w, 'h, 'hk, 'n, 'srv, 'cb) sas \<Rightarrow> bool" where
  "isPending A s = (pendingGoalHandle A s \<noteq> None)"

definition getActiveGoal ::
  "('w, 'h, 'g, 'r, 'f) goal_handle_api \<Rightarrow> ('w, 'h, 'hk, 'n, 'srv, 'cb) sas \<Rightarrow> 'g option" where
  "getActiveGoal A s =
     (case goal_active s of
        None \<Rightarrow> None
      | Some h \<Rightarrow> if is_executing A (world s) h \<or> is_canceling A (world s) h
                 then Some (get_goal A (world s) h) else None)"

definition getPendingGoal ::
  "('w, 'h, 'g, 'r, 'f) goal_handle_api \<Rightarrow> ('w, 'h, 'hk, 'n, 'srv, 'cb) sas \<Rightarrow> 'g option" where
  "getPendingGoal A s = map_option (get_goal A (world s)) (pendingGoalHandle A s)"

section \<open>Finishing goals\<close>

text \<open>\<open>prefer_canceled\<close> only selects a warning in the source; messages are not modelled.\<close>

definition finishActive ::
  "('w, 'h, 'g, 'r, 'f) goal_handle_api \<Rightarrow> 'r \<Rightarrow> bool \<Rightarrow> ('w, 'h, 'hk, 'n, 'srv, 'cb) sas \<Rightarrow>
   bool \<times> ('w, 'h, 'hk, 'n, 'srv, 'cb) sas" where
  "finishActive A result prefer_canceled s =
     (case goal_active s of
        None \<Rightarrow> (False, s)
      | Some h \<Rightarrow>
          if \<not> (is_executing A (world s) h \<or> is_canceling A (world s) h)
          then (False, s\<lparr>goal_active := None\<rparr>)
          else (case (if is_canceling A (world s) h then canceled A (world s) h result
                      else abort_goal A (world s) h result) of
                  Inl e \<Rightarrow> (False, s\<lparr>goal_active := None\<rparr>)
                | Inr w \<Rightarrow> (True, s\<lparr>world := w, goal_active := None\<rparr>)))"

definition terminateGoal ::
  "('w, 'h, 'g, 'r, 'f) goal_handle_api \<Rightarrow> 'h \<Rightarrow> 'r \<Rightarrow> 'w \<Rightarrow> 'w" where
  "terminateGoal A gh result w =
     (if is_canceling A w gh
      then (case canceled A w gh result of Inl e \<Rightarrow> w | Inr w' \<Rightarrow> w')
      else (case (if \<not> is_executing A w gh then execute A w gh else Inr w) of
              Inl e \<Rightarrow> w
            | Inr w1 \<Rightarrow> (case abort_goal A w1 gh result of Inl e \<Rightarrow> w1 | Inr w2 \<Rightarrow> w2)))"

definition acceptPending ::
  "('w, 'h, 'g, 'r, 'f) goal_handle_api \<Rightarrow> 'r \<Rightarrow> ('w, 'h, 'hk, 'n, 'srv, 'cb) sas \<Rightarrow>
   bool \<times> ('w, 'h, 'hk, 'n, 'srv, 'cb) sas" where
  "acceptPending A result s =
     (case pendingGoalHandle A s of
        None \<Rightarrow> (False, s)
      | Some pending \<Rightarrow>
          let s1 = snd (finishActive A result False s)
          in (case execute A (world s1) pending of
                Inl e \<Rightarrow> (False, s1\<lparr>goal_pending := None\<rparr>)
              | Inr w \<Rightarrow> (True, s1\<lparr>world := w, goal_active := Some pending,
                                  goal_pending := None\<rparr>)))"

definition rejectPending ::
  "('w, 'h, 'g, 'r, 'f) goal_handle_api \<Rightarrow> 'r \<Rightarrow> ('w, 'h, 'hk, 'n, 'srv, 'cb) sas \<Rightarrow>
   bool \<times> ('w, 'h, 'hk, 'n, 'srv, 'cb) sas" where
  "rejectPending A result s =
     (case pendingGoalHandle A s of
        None \<Rightarrow> (False, s)
      | Some pending \<Rightarrow>
          (True, s\<lparr>world := terminateGoal A pending result (world s), goal_pending := None\<rparr>))"

definition publishFeedback ::
  "('w, 'h, 'g, 'r, 'f) goal_handle_api \<Rightarrow> 'f \<Rightarrow> ('w, 'h, 'hk, 'n, 'srv, 'cb) sas \<Rightarrow>
   bool \<times> ('w, 'h, 'hk, 'n, 'srv, 'cb) sas" where
  "publishFeedback A feedback s =
     (case goal_active s of
        None \<Rightarrow> (False, s)
      | Some h \<Rightarrow>
          if \<not> (is_executing A (world s) h \<or> is_canceling A (world s) h) then (False, s)
          else (True, s\<lparr>world := publish_feedback A (world s) h feedback\<rparr>))"

definition abortActive ::
  "('w, 'h, 'g, 'r, 'f) goal_handle_api \<Rightarrow> 'r \<Rightarrow> ('w, 'h, 'hk, 'n, 'srv, 'cb) sas \<Rightarrow>
   bool \<times> ('w, 'h, 'hk, 'n, 'srv, 'cb) sas" where
  "abortActive A result s = finishActive A result False s"

definition cancelActive ::
  "('w, 'h, 'g, 'r, 'f) goal_handle_api \<Rightarrow> 'r \<Rightarrow> ('w, 'h, 'hk, 'n, 'srv, 'cb) sas \<Rightarrow>
   bool \<times> ('w, 'h, 'hk, 'n, 'srv, 'cb) sas" where
  "cancelActive A result s = finishActive A result True s"

definition succeedActive ::
  "('w, 'h, 'g, 'r, 'f) goal_handle_api \<Rightarrow> 'r \<Rightarrow> ('w, 'h, 'hk, 'n, 'srv, 'cb) sas \<Rightarrow>
   bool \<times> ('w, 'h, 'hk, 'n, 'srv, 'cb) sas" where
  "succeedActive A result s =
     (case goal_active s of
        None \<Rightarrow> (False, s)
      | Some h \<Rightarrow>
          if \<not> (is_executing A (world s) h \<or> is_canceling A (world s) h) then (False, s)
          else (case succeed A (world s) h result of
                  Inl e \<Rightarrow> (False, s)
                | Inr w \<Rightarrow> (True, s\<lparr>world := w, goal_active := None\<rparr>)))"

section \<open>The handlers of the four operations\<close>

definition goalCallback :: "'u \<Rightarrow> 'g \<Rightarrow> GoalResponse" where
  "goalCallback uuid goal = ACCEPT_AND_DEFER"

text \<open>The callback returns its answer and the messages it sends to the owner's thread.\<close>

definition cancelCallback ::
  "'h \<Rightarrow> ('w, 'h, 'hk, 'n, 'srv, 'cb) sas \<Rightarrow> CancelResponse \<times> 'h sas_message list" where
  "cancelCallback gh s =
     (if Some gh = goal_active s \<or> Some gh = goal_pending s
      then (CANCEL_ACCEPT, [CancelMsg gh])
      else (CANCEL_REJECT, []))"

text \<open>
  The section of \<open>acceptedCallback\<close> that holds the mutex, and the whole handler, which then runs the
  goal hook (\<open>run\<close>) on the goal. \<open>r0\<close> is the default constructed result.
\<close>

definition acceptedCallback_locked ::
  "('w, 'h, 'g, 'r, 'f) goal_handle_api \<Rightarrow> 'r \<Rightarrow> 'h \<Rightarrow> ('w, 'h, 'hk, 'n, 'srv, 'cb) sas \<Rightarrow>
   'hk option \<times> ('w, 'h, 'hk, 'n, 'srv, 'cb) sas" where
  "acceptedCallback_locked A r0 gh s =
     (let s1 = (case pendingGoalHandle A s of
                  None \<Rightarrow> s
                | Some replaced \<Rightarrow> s\<lparr>world := terminateGoal A replaced r0 (world s)\<rparr>)
      in (new_goal_hook s1, s1\<lparr>goal_pending := Some gh\<rparr>))"

definition acceptedCallback ::
  "('w, 'h, 'g, 'r, 'f) goal_handle_api \<Rightarrow> 'r \<Rightarrow>
   ('hk \<Rightarrow> 'g \<Rightarrow> ('w, 'h, 'hk, 'n, 'srv, 'cb) sas \<Rightarrow> ('w, 'h, 'hk, 'n, 'srv, 'cb) sas) \<Rightarrow>
   'h \<Rightarrow> ('w, 'h, 'hk, 'n, 'srv, 'cb) sas \<Rightarrow> ('w, 'h, 'hk, 'n, 'srv, 'cb) sas" where
  "acceptedCallback A r0 run gh s =
     (case acceptedCallback_locked A r0 gh s of
        (None, s1) \<Rightarrow> s1
      | (Some hook, s1) \<Rightarrow> run hook (get_goal A (world s1) gh) s1)"

text \<open>
  The first locked section of \<open>cancelHandler\<close>: whether the handled goal is the active one, the hook
  to call, and the state. The second section runs after the hook.
\<close>

definition cancelHandler_locked ::
  "('w, 'h, 'g, 'r, 'f) goal_handle_api \<Rightarrow> 'r \<Rightarrow> 'h \<Rightarrow> ('w, 'h, 'hk, 'n, 'srv, 'cb) sas \<Rightarrow>
   bool \<times> 'hk option \<times> ('w, 'h, 'hk, 'n, 'srv, 'cb) sas" where
  "cancelHandler_locked A r0 gh s =
     (if Some gh = goal_active s then (True, cancel_goal_hook s, s)
      else if Some gh = goal_pending s
      then (False, None, s\<lparr>world := terminateGoal A gh r0 (world s), goal_pending := None\<rparr>)
      else (False, None, s))"

definition cancelHandler_finish ::
  "('w, 'h, 'g, 'r, 'f) goal_handle_api \<Rightarrow> 'r \<Rightarrow> 'h \<Rightarrow> ('w, 'h, 'hk, 'n, 'srv, 'cb) sas \<Rightarrow>
   ('w, 'h, 'hk, 'n, 'srv, 'cb) sas" where
  "cancelHandler_finish A r0 gh s =
     (if Some gh = goal_active s then snd (finishActive A r0 True s) else s)"

definition cancelHandler ::
  "('w, 'h, 'g, 'r, 'f) goal_handle_api \<Rightarrow> 'r \<Rightarrow>
   ('hk \<Rightarrow> ('w, 'h, 'hk, 'n, 'srv, 'cb) sas \<Rightarrow> ('w, 'h, 'hk, 'n, 'srv, 'cb) sas) \<Rightarrow>
   'h \<Rightarrow> ('w, 'h, 'hk, 'n, 'srv, 'cb) sas \<Rightarrow> ('w, 'h, 'hk, 'n, 'srv, 'cb) sas" where
  "cancelHandler A r0 run gh s =
     (case cancelHandler_locked A r0 gh s of
        (False, hook, s1) \<Rightarrow> s1
      | (True, None, s1) \<Rightarrow> cancelHandler_finish A r0 gh s1
      | (True, Some hook, s1) \<Rightarrow> cancelHandler_finish A r0 gh (run hook s1))"

lemmas [handler_defs] =
  pendingGoalHandle_def isActive_def isPreempting_def isPending_def getActiveGoal_def
  getPendingGoal_def finishActive_def terminateGoal_def acceptPending_def rejectPending_def
  publishFeedback_def abortActive_def cancelActive_def succeedActive_def
  acceptedCallback_locked_def cancelHandler_locked_def cancelHandler_finish_def

end
