(* ===== verification/Action_Machine.thy ===== *)
theory Action_Machine
  imports Simple_Action_Server
begin

text \<open>
  The action server in its surroundings: the ROS executor that delivers goal and cancel requests
  through \<open>RTTActionServer\<close>, the middleware that performs the transition to \<open>CANCELING\<close> after a
  cancel callback has returned, the owner component's thread that runs the two queued handlers and
  the user's hooks, and any thread that calls a public method. A step is one section under the
  mutex of the server (or one transition of the middleware), and steps interleave freely. As the class
  demands, the owner has an active engine: an operation sent to its thread is queued, and stays queued
  until the thread runs it.
\<close>

section \<open>The public methods as calls\<close>

datatype ('r, 'f, 'hk) sas_call =
    AcceptPending 'r
  | RejectPending 'r
  | PublishFeedback 'f
  | AbortActive 'r
  | CancelActive 'r
  | SucceedActive 'r
  | SetGoalHook "'hk option"
  | SetCancelHook "'hk option"

fun perform_call ::
  "('w, 'h, 'g, 'r, 'f) goal_handle_api \<Rightarrow> ('r, 'f, 'hk) sas_call \<Rightarrow>
   ('w, 'h, 'hk, 'n, 'srv, 'cb) sas \<Rightarrow> bool \<times> ('w, 'h, 'hk, 'n, 'srv, 'cb) sas" where
  "perform_call A (AcceptPending r) s = acceptPending A r s"
| "perform_call A (RejectPending r) s = rejectPending A r s"
| "perform_call A (PublishFeedback f) s = publishFeedback A f s"
| "perform_call A (AbortActive r) s = abortActive A r s"
| "perform_call A (CancelActive r) s = cancelActive A r s"
| "perform_call A (SucceedActive r) s = succeedActive A r s"
| "perform_call A (SetGoalHook k) s = (True, setGoalHook k s)"
| "perform_call A (SetCancelHook k) s = (True, setCancelHook k s)"

section \<open>The machine\<close>

text \<open>What the owner's thread is doing.\<close>

datatype 'h owner_pc = OwnerIdle | InGoalHook | InCancelHook 'h

text \<open>
  \<open>messages\<close> are the operations sent to the owner's thread and not yet run; \<open>canceling\<close> are the goals
  whose cancel request was accepted and whose transition has not happened yet. \<open>dropped\<close> records,
  for the statements below only, the goals that \<open>shutdown()\<close> let go of.
\<close>

record ('w, 'h, 'hk, 'n, 'srv, 'cb) sas_machine =
  server :: "('w, 'h, 'hk, 'n, 'srv, 'cb) sas"
  messages :: "'h sas_message list"
  owner :: "'h owner_pc"
  canceling :: "'h list"
  dropped :: "'h set"

text \<open>
  The operations registered by the constructor as the dispatch of \<open>RTTActionServer\<close> sees them: the
  goal and the cancel operation run in the thread of the caller, the accepted operation is sent to
  the owner's thread. \<open>E0\<close> gives the meaning of plain callbacks, of which the server has none.
\<close>

fun sas_call_goal_operation :: "sas_operation \<Rightarrow> 'u \<Rightarrow> 'g \<Rightarrow> 'm \<Rightarrow> GoalResponse \<times> 'm" where
  "sas_call_goal_operation op uuid goal m = (goalCallback uuid goal, m)"

fun sas_call_cancel_operation ::
  "sas_operation \<Rightarrow> 'h \<Rightarrow> ('w, 'h, 'hk, 'n, 'srv, 'cb) sas_machine \<Rightarrow>
   CancelResponse \<times> ('w, 'h, 'hk, 'n, 'srv, 'cb) sas_machine" where
  "sas_call_cancel_operation op gh m =
     (let (resp, msgs) = cancelCallback gh (server m)
      in (resp, m\<lparr>messages := messages m @ msgs\<rparr>))"

fun sas_send_accepted_operation ::
  "sas_operation \<Rightarrow> 'h \<Rightarrow> ('w, 'h, 'hk, 'n, 'srv, 'cb) sas_machine \<Rightarrow>
   ('w, 'h, 'hk, 'n, 'srv, 'cb) sas_machine" where
  "sas_send_accepted_operation op gh m = m\<lparr>messages := messages m @ [AcceptedMsg gh]\<rparr>"

definition sas_env ::
  "(sas_operation, 'cb, 'u, 'g, 'h, ('w, 'h, 'hk, 'n, 'srv, 'cb) sas_machine) handler_env \<Rightarrow>
   (sas_operation, 'cb, 'u, 'g, 'h, ('w, 'h, 'hk, 'n, 'srv, 'cb) sas_machine) handler_env" where
  "sas_env E0 = E0\<lparr>
     goal_signature_ok := (\<lambda>op. op = GoalCallbackOp),
     cancel_signature_ok := (\<lambda>op. op = CancelCallbackOp),
     accepted_signature_ok := (\<lambda>op. op = AcceptedCallbackOp \<or> op = CancelHandlerOp),
     call_goal_operation := sas_call_goal_operation,
     call_cancel_operation := sas_call_cancel_operation,
     send_accepted_operation := sas_send_accepted_operation\<rparr>"

fun sas_message_handle :: "'h sas_message \<Rightarrow> 'h" where
  "sas_message_handle (AcceptedMsg h) = h"
| "sas_message_handle (CancelMsg h) = h"

text \<open>The handles somebody still holds a shared pointer to.\<close>

definition referenced :: "('w, 'h, 'hk, 'n, 'srv, 'cb) sas_machine \<Rightarrow> 'h set" where
  "referenced m =
     set_option (goal_active (server m)) \<union> set_option (goal_pending (server m))
     \<union> sas_message_handle ` set (messages m) \<union> set (canceling m)
     \<union> (case owner m of InCancelHook h \<Rightarrow> {h} | _ \<Rightarrow> {})"

text \<open>
  The steps the owner's thread and the middleware take by themselves, once a request is there: the
  transition of a goal whose cancel request was accepted (it throws when the goal has finished in the
  meantime), the two queued handlers, the return of the user's hooks, and the end of a goal that
  nobody refers to any more.
\<close>

inductive sas_progress ::
  "('w, 'h, 'g, 'r, 'f) goal_handle_api \<Rightarrow> ('w \<Rightarrow> 'h \<Rightarrow> goal_status option) \<Rightarrow> 'r \<Rightarrow>
   ('w, 'h, 'hk, 'n, 'srv, 'cb) sas_machine \<Rightarrow> ('w, 'h, 'hk, 'n, 'srv, 'cb) sas_machine \<Rightarrow> bool"
  for A :: "('w, 'h, 'g, 'r, 'f) goal_handle_api"
  and st :: "'w \<Rightarrow> 'h \<Rightarrow> goal_status option"
  and r0 :: 'r
  where
  cancel_transition:
    "canceling m = xs @ h # ys \<Longrightarrow> cancel_goal A (world (server m)) h = Inr w \<Longrightarrow>
     sas_progress A st r0 m (m\<lparr>server := (server m)\<lparr>world := w\<rparr>, canceling := xs @ ys\<rparr>)"
| cancel_transition_throws:
    "canceling m = xs @ h # ys \<Longrightarrow> cancel_goal A (world (server m)) h = Inl e \<Longrightarrow>
     sas_progress A st r0 m (m\<lparr>canceling := xs @ ys\<rparr>)"
| accepted_handler:
    "owner m = OwnerIdle \<Longrightarrow> messages m = xs @ AcceptedMsg h # ys \<Longrightarrow>
     acceptedCallback_locked A r0 h (server m) = (hook, s) \<Longrightarrow>
     sas_progress A st r0 m
       (m\<lparr>server := s, messages := xs @ ys,
          owner := (if hook = None then OwnerIdle else InGoalHook)\<rparr>)"
| goal_hook_returns:
    "owner m = InGoalHook \<Longrightarrow> sas_progress A st r0 m (m\<lparr>owner := OwnerIdle\<rparr>)"
| cancel_handler:
    "owner m = OwnerIdle \<Longrightarrow> messages m = xs @ CancelMsg h # ys \<Longrightarrow>
     cancelHandler_locked A r0 h (server m) = (active, hook, s) \<Longrightarrow>
     sas_progress A st r0 m
       (m\<lparr>server := s, messages := xs @ ys,
          owner := (if active then InCancelHook h else OwnerIdle)\<rparr>)"
| cancel_hook_returns:
    "owner m = InCancelHook h \<Longrightarrow>
     sas_progress A st r0 m
       (m\<lparr>server := cancelHandler_finish A r0 h (server m), owner := OwnerIdle\<rparr>)"
| handle_destroyed:
    "h \<notin> referenced m \<Longrightarrow> st (world (server m)) h = Some x \<Longrightarrow> \<not> terminal x \<Longrightarrow>
     sas_progress A st r0 m
       (m\<lparr>server := (server m)\<lparr>world := release_handle A (world (server m)) h\<rparr>\<rparr>)"

text \<open>
  The machine: those steps, the requests the executor delivers, the calls of public methods from any
  thread, and the destruction of the handle of a goal that has finished.
\<close>

inductive sas_step ::
  "('w, 'h, 'g, 'r, 'f) goal_handle_api \<Rightarrow> ('w \<Rightarrow> 'h \<Rightarrow> goal_status option) \<Rightarrow> 'r \<Rightarrow>
   (sas_operation, 'cb, 'u, 'g, 'h, ('w, 'h, 'hk, 'n, 'srv, 'cb) sas_machine) handler_env \<Rightarrow>
   ('w, 'h, 'hk, 'n, 'srv, 'cb) sas_machine \<Rightarrow> ('w, 'h, 'hk, 'n, 'srv, 'cb) sas_machine \<Rightarrow> bool"
  for A :: "('w, 'h, 'g, 'r, 'f) goal_handle_api"
  and st :: "'w \<Rightarrow> 'h \<Rightarrow> goal_status option"
  and r0 :: 'r
  and E0 :: "(sas_operation, 'cb, 'u, 'g, 'h, ('w, 'h, 'hk, 'n, 'srv, 'cb) sas_machine) handler_env"
  where
  goal_request:
    "sas_ready (server m) \<Longrightarrow> st (world (server m)) h = None \<Longrightarrow>
     handleGoal (sas_env E0) (action_server (server m)) uuid goal m = (ACCEPT_AND_DEFER, m1) \<Longrightarrow>
     m2 = m1\<lparr>server := (server m1)\<lparr>world := accept_goal A (world (server m1)) h goal\<rparr>\<rparr> \<Longrightarrow>
     sas_step A st r0 E0 m (handleAccepted (sas_env E0) (action_server (server m1)) h m2)"
| cancel_request:
    "sas_ready (server m) \<Longrightarrow> st (world (server m)) h \<noteq> None \<Longrightarrow>
     handleCancel (sas_env E0) (action_server (server m)) h m = (CANCEL_ACCEPT, m1) \<Longrightarrow>
     sas_step A st r0 E0 m (m1\<lparr>canceling := h # canceling m1\<rparr>)"
| progress: "sas_progress A st r0 m m' \<Longrightarrow> sas_step A st r0 E0 m m'"
| method_call:
    "perform_call A c (server m) = (b, s) \<Longrightarrow> sas_step A st r0 E0 m (m\<lparr>server := s\<rparr>)"
| server_start:
    "sas_start (\<lambda>_::unit. node) create_server () (server m) = (b, s) \<Longrightarrow>
     sas_step A st r0 E0 m (m\<lparr>server := s\<rparr>)"
| server_shutdown:
    "sas_step A st r0 E0 m
       (m\<lparr>server := sas_shutdown (server m),
          dropped := dropped m \<union> set_option (goal_active (server m))
                     \<union> set_option (goal_pending (server m))\<rparr>)"
| finished_handle_destroyed:
    "h \<notin> referenced m \<Longrightarrow>
     st (world (server m)) h = None \<or> (\<exists>x. st (world (server m)) h = Some x \<and> terminal x) \<Longrightarrow>
     sas_step A st r0 E0 m
       (m\<lparr>server := (server m)\<lparr>world := release_handle A (world (server m)) h\<rparr>\<rparr>)"

text \<open>The start: a server fresh from its constructor, in a middleware that knows no goal yet.\<close>

definition sas_init ::
  "('w \<Rightarrow> 'h \<Rightarrow> goal_status option) \<Rightarrow>
   (sas_operation, 'cb, 'u, 'g, 'h, ('w, 'h, 'hk, 'n, 'srv, 'cb) sas_machine) handler_env \<Rightarrow>
   ('w, 'h, 'hk, 'n, 'srv, 'cb) sas_machine \<Rightarrow> bool" where
  "sas_init st E0 m =
     ((\<exists>w name. SimpleActionServer (sas_env E0) Some w (Some ()) name = Inr ((), server m))
      \<and> (\<forall>h. st (world (server m)) h = None)
      \<and> messages m = [] \<and> owner m = OwnerIdle \<and> canceling m = [] \<and> dropped m = {})"

section \<open>The invariant\<close>

text \<open>
  The slots: the active goal is executing or being canceled, the pending goal is deferred or being
  canceled, and they are different goals.
\<close>

definition slots_ok ::
  "('w \<Rightarrow> 'h \<Rightarrow> goal_status option) \<Rightarrow> ('w, 'h, 'hk, 'n, 'srv, 'cb) sas \<Rightarrow> bool" where
  "slots_ok st s =
     ((\<forall>h. goal_active s = Some h \<longrightarrow> st (world s) h \<in> {Some EXECUTING, Some CANCELING})
      \<and> (\<forall>h. goal_pending s = Some h \<longrightarrow> st (world s) h \<in> {Some ACCEPTED, Some CANCELING})
      \<and> (\<forall>h. goal_active s = Some h \<longrightarrow> goal_pending s \<noteq> Some h))"

text \<open>The handlers stay registered the way the constructor left them.\<close>

definition wired :: "('n, 'srv, sas_operation, 'cb) rtt_action_server \<Rightarrow> bool" where
  "wired a =
     (goal_callback a = None \<and> cancel_callback a = None \<and> accepted_callback a = None
      \<and> goal_operation a = Some GoalCallbackOp \<and> cancel_operation a = Some CancelCallbackOp
      \<and> accepted_operation a = Some AcceptedCallbackOp)"

definition in_slots :: "('w, 'h, 'hk, 'n, 'srv, 'cb) sas \<Rightarrow> 'h \<Rightarrow> bool" where
  "in_slots s h = (goal_active s = Some h \<or> goal_pending s = Some h)"

definition awaited :: "'h sas_message list \<Rightarrow> 'h list" where
  "awaited ms = map sas_message_handle (filter (\<lambda>m. \<exists>h. m = AcceptedMsg h) ms)"

definition sas_inv ::
  "('w \<Rightarrow> 'h \<Rightarrow> goal_status option) \<Rightarrow> ('w, 'h, 'hk, 'n, 'srv, 'cb) sas_machine \<Rightarrow> bool" where
  "sas_inv st m =
     (slots_ok st (server m) \<and> wired (action_server (server m))
      \<and> distinct (awaited (messages m))
      \<and> (\<forall>h \<in> set (awaited (messages m)).
            st (world (server m)) h = Some ACCEPTED \<and> \<not> in_slots (server m) h \<and> h \<notin> dropped m)
      \<and> (\<forall>h \<in> set (canceling m).
            st (world (server m)) h \<noteq> None \<and> h \<notin> set (awaited (messages m)))
      \<and> (\<forall>h \<in> dropped m. st (world (server m)) h \<noteq> None \<and> \<not> in_slots (server m) h)
      \<and> (\<forall>h. st (world (server m)) h = Some EXECUTING
              \<longrightarrow> goal_active (server m) = Some h \<or> h \<in> dropped m)
      \<and> (\<forall>h. st (world (server m)) h = Some ACCEPTED
              \<longrightarrow> goal_pending (server m) = Some h \<or> h \<in> set (awaited (messages m))
                \<or> h \<in> dropped m))"

lemma awaited_simps [simp]:
  "awaited [] = []"
  "awaited (AcceptedMsg h # ms) = h # awaited ms"
  "awaited (CancelMsg h # ms) = awaited ms"
  "awaited (xs @ ys) = awaited xs @ awaited ys"
  by (auto simp: awaited_def)

section \<open>What each method does to the slots\<close>

text \<open>
  A change of the server that touches the goals of the slots only: it keeps the slots well formed,
  adds no goal to them, never leaves an executing or deferred goal behind without a slot, marks no
  goal as being cancelled, and moves every goal forward.
\<close>

definition slot_move ::
  "('w \<Rightarrow> 'h \<Rightarrow> goal_status option) \<Rightarrow> ('w \<Rightarrow> 'h \<Rightarrow> 'r option) \<Rightarrow> ('w, 'h, 'hk, 'n, 'srv, 'cb) sas \<Rightarrow>
   ('w, 'h, 'hk, 'n, 'srv, 'cb) sas \<Rightarrow> bool" where
  "slot_move st res s s' =
     (slots_ok st s' \<and> action_server s' = action_server s
      \<and> (\<forall>h. \<not> in_slots s h \<longrightarrow> st (world s') h = st (world s) h
            \<and> res (world s') h = res (world s) h \<and> \<not> in_slots s' h)
      \<and> (\<forall>h. in_slots s h \<longrightarrow> st (world s') h \<noteq> None
            \<and> (st (world s') h = Some EXECUTING \<longrightarrow> goal_active s' = Some h)
            \<and> (st (world s') h = Some ACCEPTED \<longrightarrow> goal_pending s' = Some h)
            \<and> (st (world s') h = Some CANCELING \<longrightarrow> st (world s) h = Some CANCELING)
            \<and> (goal_pending s' = Some h \<longrightarrow> goal_pending s = Some h)
            \<and> (\<forall>x. st (world s) h = Some x \<longrightarrow> (\<exists>y. st (world s') h = Some y \<and> x \<le> y))))"

lemma slots_okD:
  assumes "slots_ok st s"
  shows "goal_active s = Some h \<Longrightarrow> st (world s) h = Some EXECUTING \<or> st (world s) h = Some CANCELING"
    and "goal_pending s = Some h \<Longrightarrow> st (world s) h = Some ACCEPTED \<or> st (world s) h = Some CANCELING"
    and "goal_active s = Some h \<Longrightarrow> goal_pending s \<noteq> Some h"
  using assms by (auto simp: slots_ok_def)

context goal_handles
begin

lemma finishActive_effect:
  assumes "goal_active s = Some h"
    and "st (world s) h = Some EXECUTING \<or> st (world s) h = Some CANCELING"
  obtains w where "finishActive A r p s = (True, s\<lparr>world := w, goal_active := None\<rparr>)"
    and "st w = (st (world s))(h \<mapsto> (if st (world s) h = Some CANCELING then CANCELED else ABORTED))"
    and "res w = (res (world s))(h \<mapsto> r)"
proof (cases "st (world s) h = Some CANCELING")
  case True
  then obtain w where "canceled A (world s) h r = Inr w"
    "st w = (st (world s))(h \<mapsto> CANCELED)" "res w = (res (world s))(h \<mapsto> r)"
    by (rule canceled_canceling)
  with True assms(1) that show ?thesis by (simp add: finishActive_def status_iffs)
next
  case False
  with assms(2) have exec: "st (world s) h = Some EXECUTING" by simp
  then obtain w where "abort_goal A (world s) h r = Inr w"
    "st w = (st (world s))(h \<mapsto> ABORTED)" "res w = (res (world s))(h \<mapsto> r)"
    by (metis abort_running)
  with exec assms(1) that show ?thesis by (simp add: finishActive_def status_iffs)
qed

lemma terminateGoal_effect:
  assumes "st w h = Some ACCEPTED \<or> st w h = Some CANCELING"
  shows "st (terminateGoal A h r w) =
           (st w)(h \<mapsto> (if st w h = Some CANCELING then CANCELED else ABORTED))
         \<and> res (terminateGoal A h r w) = (res w)(h \<mapsto> r)"
proof (cases "st w h = Some CANCELING")
  case True
  then obtain w' where "canceled A w h r = Inr w'" "st w' = (st w)(h \<mapsto> CANCELED)"
    "res w' = (res w)(h \<mapsto> r)"
    by (rule canceled_canceling)
  with True show ?thesis by (simp add: terminateGoal_def status_iffs)
next
  case False
  with assms have acc: "st w h = Some ACCEPTED" by simp
  then obtain w1 where w1: "execute A w h = Inr w1" "st w1 = (st w)(h \<mapsto> EXECUTING)" "res w1 = res w"
    by (rule execute_accepted)
  then have "st w1 h = Some EXECUTING \<or> st w1 h = Some CANCELING" by simp
  then obtain w2 where "abort_goal A w1 h r = Inr w2" "st w2 = (st w1)(h \<mapsto> ABORTED)"
    "res w2 = (res w1)(h \<mapsto> r)"
    by (rule abort_running)
  with acc w1 show ?thesis by (simp add: terminateGoal_def status_iffs)
qed

lemma pendingGoalHandle_iff:
  assumes "slots_ok st s"
  shows "pendingGoalHandle A s = Some h \<longleftrightarrow> goal_pending s = Some h \<and> st (world s) h = Some ACCEPTED"
  using slots_okD(2) [OF assms]
  by (auto simp: pendingGoalHandle_def status_iffs split: option.splits if_splits)

lemma slot_move_refl: "slots_ok st s \<Longrightarrow> slot_move st res s s"
  by (auto simp: slot_move_def in_slots_def slots_ok_def)

lemma finishActive_move:
  assumes ok: "slots_ok st s"
  shows "slot_move st res s (snd (finishActive A r p s))"
proof (cases "goal_active s")
  case None
  with ok show ?thesis by (simp add: finishActive_def slot_move_refl)
next
  case (Some h)
  obtain w where w: "finishActive A r p s = (True, s\<lparr>world := w, goal_active := None\<rparr>)"
    "st w = (st (world s))(h \<mapsto> (if st (world s) h = Some CANCELING then CANCELED else ABORTED))"
    "res w = (res (world s))(h \<mapsto> r)"
    using finishActive_effect [OF Some slots_okD(1) [OF ok Some]] .
  show ?thesis
    using slots_okD [OF ok] Some by (auto simp: w slot_move_def in_slots_def slots_ok_def)
qed

lemma acceptPending_effect:
  assumes ok: "slots_ok st s" and p: "pendingGoalHandle A s = Some p"
  obtains w where "acceptPending A r s = (True, s\<lparr>world := w, goal_active := Some p, goal_pending := None\<rparr>)"
    and "st w p = Some EXECUTING"
    and "\<And>h. goal_active s = Some h \<Longrightarrow>
           st w h = Some (if st (world s) h = Some CANCELING then CANCELED else ABORTED)
           \<and> res w h = Some r"
    and "\<And>h. h \<noteq> p \<Longrightarrow> goal_active s \<noteq> Some h \<Longrightarrow> st w h = st (world s) h \<and> res w h = res (world s) h"
proof (cases "goal_active s")
  case None
  from p ok have "st (world s) p = Some ACCEPTED" by (simp add: pendingGoalHandle_iff)
  then obtain w where "execute A (world s) p = Inr w" "st w = (st (world s))(p \<mapsto> EXECUTING)"
    "res w = res (world s)"
    by (rule execute_accepted)
  with None p that show ?thesis by (simp add: acceptPending_def finishActive_def)
next
  case (Some h)
  from p ok have acc: "goal_pending s = Some p" "st (world s) p = Some ACCEPTED"
    by (simp_all add: pendingGoalHandle_iff)
  with ok Some have "p \<noteq> h" by (auto simp: slots_ok_def)
  obtain w1 where w1: "finishActive A r False s = (True, s\<lparr>world := w1, goal_active := None\<rparr>)"
    "st w1 = (st (world s))(h \<mapsto> (if st (world s) h = Some CANCELING then CANCELED else ABORTED))"
    "res w1 = (res (world s))(h \<mapsto> r)"
    using finishActive_effect [OF Some slots_okD(1) [OF ok Some]] .
  from w1(2) acc(2) \<open>p \<noteq> h\<close> have "st w1 p = Some ACCEPTED" by simp
  then obtain w where "execute A w1 p = Inr w" "st w = (st w1)(p \<mapsto> EXECUTING)" "res w = res w1"
    by (rule execute_accepted)
  with w1 p Some \<open>p \<noteq> h\<close> show ?thesis
    by (intro that [of w]) (auto simp: acceptPending_def)
qed

lemma acceptPending_move:
  assumes ok: "slots_ok st s"
  shows "slot_move st res s (snd (acceptPending A r s))"
proof (cases "pendingGoalHandle A s")
  case None
  with ok show ?thesis by (simp add: acceptPending_def slot_move_refl)
next
  case (Some p)
  then have p: "goal_pending s = Some p" "st (world s) p = Some ACCEPTED"
    using ok by (simp_all add: pendingGoalHandle_iff)
  from ok Some show ?thesis
  proof (rule acceptPending_effect [where r = r])
    fix w
    assume w: "acceptPending A r s = (True, s\<lparr>world := w, goal_active := Some p, goal_pending := None\<rparr>)"
      "st w p = Some EXECUTING"
      "\<And>h. goal_active s = Some h \<Longrightarrow>
           st w h = Some (if st (world s) h = Some CANCELING then CANCELED else ABORTED)
           \<and> res w h = Some r"
      "\<And>h. h \<noteq> p \<Longrightarrow> goal_active s \<noteq> Some h \<Longrightarrow> st w h = st (world s) h \<and> res w h = res (world s) h"
    show "slot_move st res s (snd (acceptPending A r s))"
      using slots_okD [OF ok] p w(2-4)
      by (auto simp: w(1) slot_move_def in_slots_def slots_ok_def)
  qed
qed

lemma terminate_pending_move:
  assumes ok: "slots_ok st s" and p: "goal_pending s = Some p"
  shows "slot_move st res s (s\<lparr>world := terminateGoal A p r (world s), goal_pending := None\<rparr>)"
  using slots_okD [OF ok] p terminateGoal_effect [OF slots_okD(2) [OF ok p], of r]
  by (auto simp: slot_move_def in_slots_def slots_ok_def)

lemma rejectPending_move:
  assumes ok: "slots_ok st s"
  shows "slot_move st res s (snd (rejectPending A r s))"
  using ok terminate_pending_move [OF ok]
  by (auto simp: rejectPending_def slot_move_refl pendingGoalHandle_iff split: option.split)

lemma succeedActive_effect:
  assumes ok: "slots_ok st s" and h: "goal_active s = Some h"
  obtains w where "succeedActive A r s = (True, s\<lparr>world := w, goal_active := None\<rparr>)"
    and "st w = (st (world s))(h \<mapsto> SUCCEEDED)" and "res w = (res (world s))(h \<mapsto> r)"
proof -
  note run = slots_okD(1) [OF ok h]
  obtain w where "succeed A (world s) h r = Inr w" "st w = (st (world s))(h \<mapsto> SUCCEEDED)"
    "res w = (res (world s))(h \<mapsto> r)"
    using succeed_running [OF run] .
  with h run show ?thesis by (intro that [of w]) (auto simp: succeedActive_def status_iffs)
qed

lemma succeedActive_move:
  assumes ok: "slots_ok st s"
  shows "slot_move st res s (snd (succeedActive A r s))"
proof (cases "goal_active s")
  case None
  with ok show ?thesis by (simp add: succeedActive_def slot_move_refl)
next
  case (Some h)
  obtain w where w: "succeedActive A r s = (True, s\<lparr>world := w, goal_active := None\<rparr>)"
    "st w = (st (world s))(h \<mapsto> SUCCEEDED)"
    "res w = (res (world s))(h \<mapsto> r)"
    using succeedActive_effect [OF ok Some] .
  show ?thesis
    using slots_okD [OF ok] Some by (auto simp: w slot_move_def in_slots_def slots_ok_def)
qed

lemma publishFeedback_move:
  assumes ok: "slots_ok st s"
  shows "slot_move st res s (snd (publishFeedback A f s))"
  using slots_okD [OF ok] ok feedback_law
  by (auto simp: publishFeedback_def slot_move_def in_slots_def slots_ok_def split: option.split)

lemma perform_call_move:
  assumes ok: "slots_ok st s"
  shows "slot_move st res s (snd (perform_call A c s))"
proof (cases c)
  case (SetGoalHook k)
  with slots_okD [OF ok] show ?thesis
    by (auto simp: slot_move_def in_slots_def slots_ok_def setGoalHook_def)
next
  case (SetCancelHook k)
  with slots_okD [OF ok] show ?thesis
    by (auto simp: slot_move_def in_slots_def slots_ok_def setCancelHook_def)
qed (simp_all add: ok acceptPending_move rejectPending_move publishFeedback_move
       abortActive_def cancelActive_def finishActive_move succeedActive_move)

lemma cancelHandler_locked_move:
  assumes ok: "slots_ok st s" and "cancelHandler_locked A r0 h s = (active, hook, s')"
  shows "slot_move st res s s'"
  using assms terminate_pending_move [OF ok, of h r0]
  by (auto simp: cancelHandler_locked_def slot_move_refl split: if_splits)

lemma cancelHandler_finish_move:
  "slots_ok st s \<Longrightarrow> slot_move st res s (cancelHandler_finish A r0 h s)"
  by (simp add: cancelHandler_finish_def slot_move_refl finishActive_move)

end

section \<open>Every step keeps the invariant\<close>

lemma wired_dispatch:
  assumes "wired a"
  shows "handleGoal (sas_env E0) a uuid goal m = (ACCEPT_AND_DEFER, m)"
    and "handleCancel (sas_env E0) a h m = sas_call_cancel_operation CancelCallbackOp h m"
    and "handleAccepted (sas_env E0) a h m = m\<lparr>messages := messages m @ [AcceptedMsg h]\<rparr>"
  using assms
  by (simp_all add: wired_def handleGoal_def handleCancel_def handleAccepted_def sas_env_def
      caller_ready_def goalCallback_def)

lemma cancel_request_effect:
  assumes "wired a" and "handleCancel (sas_env E0) a h m = (CANCEL_ACCEPT, m1)"
  shows "m1 = m\<lparr>messages := messages m @ [CancelMsg h]\<rparr>" and "in_slots (server m) h"
  using assms(2)
  by (auto simp: wired_dispatch(2) [OF assms(1)] cancelCallback_def in_slots_def split: if_splits)

lemma constructed_wired:
  assumes "SimpleActionServer (sas_env E0) getOwner w svc name = Inr (tc, s)"
  shows "wired (action_server s) \<and> goal_active s = None \<and> goal_pending s = None \<and> world s = w"
  using assms
  by (auto simp: SimpleActionServer_def wired_def registerGoalOperation_def
      registerCancelOperation_def registerAcceptedOperation_def RTTActionServer_def sas_env_def
      caller_ready_def Let_def split: option.splits)

lemma start_keeps_wired:
  assumes "sas_start getNode create tc s = (b, s')"
  shows "wired (action_server s') = wired (action_server s)
    \<and> world s' = world s \<and> goal_active s' = goal_active s \<and> goal_pending s' = goal_pending s"
  using assms
  by (auto simp: sas_start_def ras_connect_def wired_def Let_def split: if_splits option.splits sum.splits)

lemma sas_invD:
  assumes "sas_inv st m"
  shows "slots_ok st (server m)" and "wired (action_server (server m))"
    and "distinct (awaited (messages m))"
    and "h \<in> set (awaited (messages m)) \<Longrightarrow>
           st (world (server m)) h = Some ACCEPTED \<and> \<not> in_slots (server m) h \<and> h \<notin> dropped m"
    and "h \<in> set (canceling m) \<Longrightarrow>
           st (world (server m)) h \<noteq> None \<and> h \<notin> set (awaited (messages m))"
    and "h \<in> dropped m \<Longrightarrow> st (world (server m)) h \<noteq> None \<and> \<not> in_slots (server m) h"
    and "st (world (server m)) h = Some EXECUTING \<Longrightarrow> goal_active (server m) = Some h \<or> h \<in> dropped m"
    and "st (world (server m)) h = Some ACCEPTED \<Longrightarrow>
           goal_pending (server m) = Some h \<or> h \<in> set (awaited (messages m)) \<or> h \<in> dropped m"
  using assms by (simp_all add: sas_inv_def)

text \<open>A step that moves the slots only.\<close>

lemma sas_inv_slot_move:
  assumes inv: "sas_inv st m" and mv: "slot_move st res (server m) s"
  shows "sas_inv st (m\<lparr>server := s\<rparr>)"
proof -
  note mv' = mv [unfolded slot_move_def]
  have kept: "st (world s) h = st (world (server m)) h \<and> \<not> in_slots s h" if "\<not> in_slots (server m) h" for h
    using mv' that by blast
  have exec: "goal_active s = Some h \<or> h \<in> dropped m" if "st (world s) h = Some EXECUTING" for h
    using mv' that sas_invD(7) [OF inv, of h] by (cases "in_slots (server m) h") (auto simp: in_slots_def)
  have acc: "goal_pending s = Some h \<or> h \<in> set (awaited (messages m)) \<or> h \<in> dropped m"
    if "st (world s) h = Some ACCEPTED" for h
    using mv' that sas_invD(8) [OF inv, of h] by (cases "in_slots (server m) h") (auto simp: in_slots_def)
  have can: "st (world s) h \<noteq> None" if "st (world (server m)) h \<noteq> None" for h
    using mv' that by (cases "in_slots (server m) h") auto
  show ?thesis
    unfolding sas_inv_def
    using mv' kept exec acc can sas_invD(2-6) [OF inv] by simp
qed

lemma sas_inv_fields:
  "sas_inv st m \<Longrightarrow> sas_inv st (m\<lparr>owner := x\<rparr>)"
  "sas_inv st m \<Longrightarrow> set ys \<subseteq> set (canceling m) \<Longrightarrow> sas_inv st (m\<lparr>canceling := ys\<rparr>)"
  "sas_inv st m \<Longrightarrow> messages m = us @ CancelMsg h # vs \<Longrightarrow> sas_inv st (m\<lparr>messages := us @ vs\<rparr>)"
  by (auto simp: sas_inv_def)

context goal_handles
begin

lemma goal_request_inv:
  assumes inv: "sas_inv st m" and new: "st (world (server m)) h = None"
  shows "sas_inv st (m\<lparr>server := (server m)\<lparr>world := accept_goal A (world (server m)) h g\<rparr>,
                      messages := messages m @ [AcceptedMsg h]\<rparr>)"
proof -
  have st': "st (accept_goal A (world (server m)) h g) = (st (world (server m)))(h \<mapsto> ACCEPTED)"
    using accept_law [OF new] by simp
  have slots: "\<not> in_slots (server m) h"
    using slots_okD(1,2) [OF sas_invD(1) [OF inv]] new by (auto simp: in_slots_def)
  have fresh: "h \<notin> set (awaited (messages m))" "h \<notin> set (canceling m)" "h \<notin> dropped m"
    using sas_invD(4-6) [OF inv, of h] new by auto
  show ?thesis
    using inv slots fresh by (auto simp: sas_inv_def st' slots_ok_def in_slots_def)
qed

lemma cancel_request_inv:
  assumes inv: "sas_inv st m" and known: "st (world (server m)) h \<noteq> None"
    and run: "handleCancel (sas_env E0) (action_server (server m)) h m = (CANCEL_ACCEPT, m1)"
  shows "sas_inv st (m1\<lparr>canceling := h # canceling m1\<rparr>)"
proof -
  have m1: "m1 = m\<lparr>messages := messages m @ [CancelMsg h]\<rparr>" and slot: "in_slots (server m) h"
    using cancel_request_effect [OF sas_invD(2) [OF inv] run] by simp_all
  have "h \<notin> set (awaited (messages m))"
    using sas_invD(4) [OF inv, of h] slot by blast
  with inv known show ?thesis by (simp add: m1 sas_inv_def)
qed

lemma cancel_transition_inv:
  assumes inv: "sas_inv st m" and h: "canceling m = xs @ h # ys"
    and w: "cancel_goal A (world (server m)) h = Inr w"
  shows "sas_inv st (m\<lparr>server := (server m)\<lparr>world := w\<rparr>, canceling := xs @ ys\<rparr>)"
proof -
  have st': "st w = (st (world (server m)))(h \<mapsto> CANCELING)"
    using cancel_goal_Inr [OF w] by simp
  have "h \<notin> set (awaited (messages m))"
    using sas_invD(5) [OF inv, of h] h by simp
  then show ?thesis
    using inv h by (auto simp: sas_inv_def st' slots_ok_def in_slots_def)
qed

lemma accepted_handler_inv:
  assumes inv: "sas_inv st m" and ms: "messages m = xs @ AcceptedMsg h # ys"
    and run: "acceptedCallback_locked A r0 h (server m) = (hook, s)"
  shows "sas_inv st (m\<lparr>server := s, messages := xs @ ys, owner := x\<rparr>)"
proof -
  let ?s = "server m"
  note ok = sas_invD(1) [OF inv]
  have h: "st (world ?s) h = Some ACCEPTED" "\<not> in_slots ?s h" "h \<notin> dropped m"
    using sas_invD(4) [OF inv, of h] ms by auto
  have rest: "distinct (awaited (xs @ ys))" "h \<notin> set (awaited (xs @ ys))"
    using sas_invD(3) [OF inv] ms by auto
  show ?thesis
  proof (cases "pendingGoalHandle A ?s")
    case None
    then have "s = ?s\<lparr>goal_pending := Some h\<rparr>"
      using run by (simp add: acceptedCallback_locked_def Let_def)
    moreover have "\<And>p. goal_pending ?s = Some p \<Longrightarrow> st (world ?s) p = Some CANCELING"
      using None slots_okD(2) [OF ok] pendingGoalHandle_iff [OF ok]
      by (metis option.distinct(1))
    ultimately show ?thesis
      using inv h rest ms by (auto simp: sas_inv_def slots_ok_def in_slots_def)
  next
    case (Some p)
    then have p: "goal_pending ?s = Some p" "st (world ?s) p = Some ACCEPTED"
      using pendingGoalHandle_iff [OF ok] by auto
    have s: "s = ?s\<lparr>world := terminateGoal A p r0 (world ?s), goal_pending := Some h\<rparr>"
      using run Some by (simp add: acceptedCallback_locked_def Let_def)
    have st': "st (terminateGoal A p r0 (world ?s)) = (st (world ?s))(p \<mapsto> ABORTED)"
      using terminateGoal_effect [of "world ?s" p r0] p by simp
    show ?thesis
      using inv h rest ms p by (auto simp: sas_inv_def slots_ok_def in_slots_def s st')
  qed
qed

lemma shutdown_inv:
  assumes inv: "sas_inv st m"
  shows "sas_inv st (m\<lparr>server := sas_shutdown (server m),
     dropped := dropped m \<union> set_option (goal_active (server m)) \<union> set_option (goal_pending (server m))\<rparr>)"
  using inv
  by (fastforce simp: sas_inv_def slots_ok_def in_slots_def sas_shutdown_def ras_shutdown_def wired_def)

lemma release_inv:
  assumes inv: "sas_inv st m" and h: "h \<notin> referenced m"
  shows "sas_inv st (m\<lparr>server := (server m)\<lparr>world := release_handle A (world (server m)) h\<rparr>\<rparr>)"
proof -
  let ?w = "world (server m)"
  have st': "st (release_handle A ?w h) =
     (st ?w)(h := map_option (\<lambda>x. if terminal x then x else CANCELED) (st ?w h))"
    using release_law by blast
  have h': "\<not> in_slots (server m) h" "h \<notin> set (awaited (messages m))" "h \<notin> set (canceling m)"
    using h by (auto simp: referenced_def in_slots_def awaited_def)
  have "st (release_handle A ?w h) h \<noteq> Some EXECUTING" "st (release_handle A ?w h) h \<noteq> Some ACCEPTED"
    by (auto simp: st' terminal_def)
  then show ?thesis
    using inv h' by (auto simp: sas_inv_def slots_ok_def in_slots_def st')
qed

lemma sas_progress_inv:
  assumes "sas_progress A st r0 m m'" and "sas_inv st m"
  shows "sas_inv st m'"
  using assms
proof (induction rule: sas_progress.induct)
  case (accepted_handler m xs h ys hook s)
  then show ?case by (intro accepted_handler_inv)
next
  case (cancel_handler m xs h ys active hook s)
  then have "sas_inv st (m\<lparr>server := s\<rparr>)"
    using sas_inv_slot_move cancelHandler_locked_move sas_invD(1) by blast
  with cancel_handler show ?case
    using sas_inv_fields(1,3) [of st "m\<lparr>server := s\<rparr>"] by (simp add: sas_inv_fields)
next
  case (cancel_hook_returns m h)
  then show ?case
    using sas_inv_fields(1) sas_inv_slot_move cancelHandler_finish_move sas_invD(1) by blast
qed (auto intro: cancel_transition_inv sas_inv_fields release_inv)

lemma sas_step_inv:
  assumes "sas_step A st r0 E0 m m'" and "sas_inv st m"
  shows "sas_inv st m'"
  using assms
proof (induction rule: sas_step.induct)
  case (goal_request m h uuid goal m1 m2)
  then show ?case
    using goal_request_inv [of m h goal] sas_invD(2) [of st m] by (simp add: wired_dispatch)
next
  case (cancel_request m h m1)
  then show ?case
    by (blast intro: cancel_request_inv)
next
  case (method_call c m b s)
  then show ?case
    using sas_inv_slot_move perform_call_move sas_invD(1) by (metis snd_conv)
next
  case (server_start node create_server m b s)
  then show ?case
    using start_keeps_wired [OF server_start(1)] by (simp add: sas_inv_def slots_ok_def in_slots_def)
qed (auto intro: sas_progress_inv shutdown_inv release_inv)

lemma sas_init_inv: "sas_init st E0 m \<Longrightarrow> sas_inv st m"
  by (auto simp: sas_init_def sas_inv_def slots_ok_def in_slots_def dest!: constructed_wired)

end

sublocale goal_handles \<subseteq> sas: invariant_system
  "sas_init st E0" "sas_step A st r0 E0" "sas_inv st"
  for r0 E0
  by unfold_locales (auto intro: sas_init_inv sas_step_inv)

context goal_handles
begin

lemma sas_reach_inv: "reach (sas_init st E0) (sas_step A st r0 E0) m \<Longrightarrow> sas_inv st m"
  by (rule sas.reach_inv)

lemma sas_reach_slots: "reach (sas_init st E0) (sas_step A st r0 E0) m \<Longrightarrow> slots_ok st (server m)"
  by (rule sas_invD(1) [OF sas_reach_inv])

end

end
