(* ===== verification/Action_Theorems.thy ===== *)
theory Action_Theorems
  imports Action_Machine
begin

text \<open>
  The correctness of the action server: what its methods do, that they implement the ROS 1 action
  server the class emulates, and what holds in every state that requests, cancellations, handlers,
  hooks and method calls can bring it to in any order.
\<close>

section \<open>The ROS 1 action server\<close>

text \<open>
  The abstract server: an active goal with the mark whether its client asked to cancel it (the ROS 1
  state PREEMPTING), a pending goal, and the goals that are finished, each with its final status and
  result.
\<close>

record ('h, 'r) ros1_server =
  ros1_active :: "('h \<times> bool) option"
  ros1_pending :: "'h option"
  ros1_finished :: "'h \<Rightarrow> (goal_status \<times> 'r option) option"

definition ros1_finish :: "'r \<Rightarrow> ('h, 'r) ros1_server \<Rightarrow> bool \<times> ('h, 'r) ros1_server" where
  "ros1_finish r a =
     (case ros1_active a of
        None \<Rightarrow> (False, a)
      | Some (h, preempting) \<Rightarrow>
          (True, a\<lparr>ros1_active := None,
                   ros1_finished := (ros1_finished a)
                     (h \<mapsto> (if preempting then CANCELED else ABORTED, Some r))\<rparr>))"

fun ros1_call :: "('r, 'f, 'hk) sas_call \<Rightarrow> ('h, 'r) ros1_server \<Rightarrow> bool \<times> ('h, 'r) ros1_server" where
  "ros1_call (AcceptPending r) a =
     (case ros1_pending a of
        None \<Rightarrow> (False, a)
      | Some p \<Rightarrow> (True, (snd (ros1_finish r a))\<lparr>ros1_active := Some (p, False), ros1_pending := None\<rparr>))"
| "ros1_call (RejectPending r) a =
     (case ros1_pending a of
        None \<Rightarrow> (False, a)
      | Some p \<Rightarrow> (True, a\<lparr>ros1_pending := None,
                          ros1_finished := (ros1_finished a)(p \<mapsto> (ABORTED, Some r))\<rparr>))"
| "ros1_call (PublishFeedback f) a = (ros1_active a \<noteq> None, a)"
| "ros1_call (AbortActive r) a = ros1_finish r a"
| "ros1_call (CancelActive r) a = ros1_finish r a"
| "ros1_call (SucceedActive r) a =
     (case ros1_active a of
        None \<Rightarrow> (False, a)
      | Some (h, _) \<Rightarrow> (True, a\<lparr>ros1_active := None,
                               ros1_finished := (ros1_finished a)(h \<mapsto> (SUCCEEDED, Some r))\<rparr>))"
| "ros1_call (SetGoalHook k) a = (True, a)"
| "ros1_call (SetCancelHook k) a = (True, a)"

text \<open>The abstraction of a concrete server.\<close>

definition finished_goals ::
  "('w \<Rightarrow> 'h \<Rightarrow> goal_status option) \<Rightarrow> ('w \<Rightarrow> 'h \<Rightarrow> 'r option) \<Rightarrow> 'w \<Rightarrow>
   'h \<Rightarrow> (goal_status \<times> 'r option) option" where
  "finished_goals st res w h =
     (case st w h of None \<Rightarrow> None | Some x \<Rightarrow> if terminal x then Some (x, res w h) else None)"

definition ros1_abs ::
  "('w \<Rightarrow> 'h \<Rightarrow> goal_status option) \<Rightarrow> ('w \<Rightarrow> 'h \<Rightarrow> 'r option) \<Rightarrow>
   ('w, 'h, 'hk, 'n, 'srv, 'cb) sas \<Rightarrow> ('h, 'r) ros1_server" where
  "ros1_abs st res s =
     \<lparr>ros1_active = map_option (\<lambda>h. (h, st (world s) h = Some CANCELING)) (goal_active s),
      ros1_pending = (case goal_pending s of
                        None \<Rightarrow> None
                      | Some h \<Rightarrow> if st (world s) h = Some ACCEPTED then Some h else None),
      ros1_finished = finished_goals st res (world s)\<rparr>"

lemma finished_goals_upd:
  assumes "st w' = (st w)(h \<mapsto> x)" and "res w' = (res w)(h \<mapsto> r)" and "terminal x"
  shows "finished_goals st res w' = (finished_goals st res w)(h \<mapsto> (x, Some r))"
  using assms by (auto simp: finished_goals_def fun_eq_iff split: option.split)

lemma finished_goals_running:
  assumes "st w' = (st w)(h \<mapsto> x)" and "res w' = res w" and "\<not> terminal x"
    and "st w h = Some y" and "\<not> terminal y"
  shows "finished_goals st res w' = finished_goals st res w"
  using assms by (auto simp: finished_goals_def fun_eq_iff split: option.split)

lemma terminal_simps [simp]:
  "terminal SUCCEEDED" "terminal CANCELED" "terminal ABORTED"
  "\<not> terminal ACCEPTED" "\<not> terminal EXECUTING" "\<not> terminal CANCELING"
  by (simp_all add: terminal_def)

context goal_handles
begin

lemma finishActive_refines:
  assumes ok: "slots_ok st s"
  shows "ros1_finish r (ros1_abs st res s) =
    map_prod id (ros1_abs st res) (finishActive A r p s)"
proof (cases "goal_active s")
  case None
  then show ?thesis by (simp add: ros1_finish_def ros1_abs_def finishActive_def)
next
  case (Some h)
  obtain w where w: "finishActive A r p s = (True, s\<lparr>world := w, goal_active := None\<rparr>)"
    "st w = (st (world s))(h \<mapsto> (if st (world s) h = Some CANCELING then CANCELED else ABORTED))"
    "res w = (res (world s))(h \<mapsto> r)"
    using finishActive_effect [OF Some slots_okD(1) [OF ok Some]] .
  have fin: "finished_goals st res w = (finished_goals st res (world s))
      (h \<mapsto> (if st (world s) h = Some CANCELING then CANCELED else ABORTED, Some r))"
    by (rule finished_goals_upd [OF w(2,3)]) simp
  show ?thesis
    using Some slots_okD(3) [OF ok Some] w(2)
    by (auto simp: w(1) ros1_finish_def ros1_abs_def fin split: option.split)
qed

lemma finishActive_keeps_deferred:
  assumes ok: "slots_ok st s" and p: "st (world s) p = Some ACCEPTED"
  shows "st (world (snd (finishActive A r b s))) p = Some ACCEPTED"
proof (cases "goal_active s")
  case None
  then show ?thesis using p by (simp add: finishActive_def)
next
  case (Some h)
  obtain w where "finishActive A r b s = (True, s\<lparr>world := w, goal_active := None\<rparr>)"
    "st w = (st (world s))(h \<mapsto> (if st (world s) h = Some CANCELING then CANCELED else ABORTED))"
    using finishActive_effect [OF Some slots_okD(1) [OF ok Some]] .
  moreover have "h \<noteq> p" using slots_okD(1) [OF ok Some] p by auto
  ultimately show ?thesis using p by auto
qed

lemma acceptPending_refines:
  assumes ok: "slots_ok st s"
  shows "ros1_call (AcceptPending r) (ros1_abs st res s) =
    map_prod id (ros1_abs st res) (acceptPending A r s)"
proof (cases "pendingGoalHandle A s")
  case None
  then have "ros1_pending (ros1_abs st res s) = None"
    using pendingGoalHandle_iff [OF ok] by (auto simp: ros1_abs_def split: option.split)
  with None show ?thesis by (simp add: acceptPending_def)
next
  case (Some p)
  then have p: "goal_pending s = Some p" "st (world s) p = Some ACCEPTED"
    using pendingGoalHandle_iff [OF ok] by simp_all
  let ?s1 = "snd (finishActive A r False s)"
  have s1: "st (world ?s1) p = Some ACCEPTED"
    using finishActive_keeps_deferred [OF ok] p by simp
  obtain w where w: "execute A (world ?s1) p = Inr w" "st w = (st (world ?s1))(p \<mapsto> EXECUTING)"
    "res w = res (world ?s1)"
    using execute_accepted [OF s1] .
  have fin: "finished_goals st res w = finished_goals st res (world ?s1)"
    by (rule finished_goals_running [OF w(2,3) _ s1]) simp_all
  have "snd (ros1_finish r (ros1_abs st res s)) = ros1_abs st res ?s1"
    by (simp add: finishActive_refines [OF ok, of r False])
  moreover have "acceptPending A r s = (True, ?s1\<lparr>world := w, goal_active := Some p, goal_pending := None\<rparr>)"
    using Some w(1) by (simp add: acceptPending_def Let_def)
  moreover have "ros1_pending (ros1_abs st res s) = Some p"
    using p by (simp add: ros1_abs_def)
  ultimately show ?thesis
    using w(2) by (simp add: ros1_abs_def fin)
qed

lemma rejectPending_refines:
  assumes ok: "slots_ok st s"
  shows "ros1_call (RejectPending r) (ros1_abs st res s) =
    map_prod id (ros1_abs st res) (rejectPending A r s)"
proof (cases "pendingGoalHandle A s")
  case None
  then have "ros1_pending (ros1_abs st res s) = None"
    using pendingGoalHandle_iff [OF ok] by (auto simp: ros1_abs_def split: option.split)
  with None show ?thesis by (simp add: rejectPending_def)
next
  case (Some p)
  then have p: "goal_pending s = Some p" "st (world s) p = Some ACCEPTED"
    using pendingGoalHandle_iff [OF ok] by simp_all
  let ?w = "terminateGoal A p r (world s)"
  have w: "st ?w = (st (world s))(p \<mapsto> ABORTED)" "res ?w = (res (world s))(p \<mapsto> r)"
    using terminateGoal_effect [of "world s" p r] p by simp_all
  have fin: "finished_goals st res ?w = (finished_goals st res (world s))(p \<mapsto> (ABORTED, Some r))"
    by (rule finished_goals_upd [OF w]) simp
  show ?thesis
    using Some p slots_okD(1,3) [OF ok]
    by (cases "goal_active s") (auto simp: rejectPending_def ros1_abs_def fin w(1))
qed

lemma succeedActive_refines:
  assumes ok: "slots_ok st s"
  shows "ros1_call (SucceedActive r) (ros1_abs st res s) =
    map_prod id (ros1_abs st res) (succeedActive A r s)"
proof (cases "goal_active s")
  case None
  then show ?thesis by (simp add: ros1_abs_def succeedActive_def)
next
  case (Some h)
  obtain w where w: "succeedActive A r s = (True, s\<lparr>world := w, goal_active := None\<rparr>)"
    "st w = (st (world s))(h \<mapsto> SUCCEEDED)" "res w = (res (world s))(h \<mapsto> r)"
    using succeedActive_effect [OF ok Some] .
  have fin: "finished_goals st res w = (finished_goals st res (world s))(h \<mapsto> (SUCCEEDED, Some r))"
    by (rule finished_goals_upd [OF w(2,3)]) simp
  show ?thesis
    using Some slots_okD(3) [OF ok Some] w(2)
    by (auto simp: w(1) ros1_abs_def fin split: option.split)
qed

lemma perform_call_refines:
  assumes ok: "slots_ok st s"
  shows "ros1_call c (ros1_abs st res s) = map_prod id (ros1_abs st res) (perform_call A c s)"
proof (cases c)
  case (PublishFeedback f)
  show ?thesis
    using slots_okD(1) [OF ok] feedback_law
    by (auto simp: PublishFeedback publishFeedback_def ros1_abs_def finished_goals_def status_iffs
        fun_eq_iff split: option.split)
next
  case (SetGoalHook k)
  then show ?thesis by (simp add: setGoalHook_def ros1_abs_def split: option.split)
next
  case (SetCancelHook k)
  then show ?thesis by (simp add: setCancelHook_def ros1_abs_def split: option.split)
next
  case (AcceptPending r)
  then show ?thesis using acceptPending_refines [OF ok, of r] by simp
next
  case (RejectPending r)
  then show ?thesis using rejectPending_refines [OF ok, of r] by simp
next
  case (SucceedActive r)
  then show ?thesis using succeedActive_refines [OF ok, of r] by simp
next
  case (AbortActive r)
  then show ?thesis using finishActive_refines [OF ok, of r False] by (simp add: abortActive_def)
next
  case (CancelActive r)
  then show ?thesis using finishActive_refines [OF ok, of r True] by (simp add: cancelActive_def)
qed

text \<open>A finished goal keeps its status and its result in every step.\<close>

lemma slot_move_finished:
  assumes "slots_ok st s" and "slot_move st res s s'" and "st (world s) h = Some x" and "terminal x"
  shows "st (world s') h = Some x \<and> res (world s') h = res (world s) h"
proof -
  have "\<not> in_slots s h"
    using slots_okD(1,2) [OF assms(1)] assms(3,4) by (auto simp: in_slots_def)
  with assms(2,3) show ?thesis by (auto simp: slot_move_def)
qed

lemma accepted_handler_finished:
  assumes ok: "slots_ok st s" and "acceptedCallback_locked A r0 g s = (hook, s')"
    and "st (world s) h = Some x" and "terminal x"
  shows "st (world s') h = Some x \<and> res (world s') h = res (world s) h"
proof (cases "pendingGoalHandle A s")
  case None
  with assms show ?thesis by (auto simp: acceptedCallback_locked_def Let_def)
next
  case (Some p)
  then have "st (world s) p = Some ACCEPTED" using pendingGoalHandle_iff [OF ok] by simp
  then show ?thesis
    using assms Some terminateGoal_effect [of "world s" p r0]
    by (auto simp: acceptedCallback_locked_def Let_def)
qed

lemma sas_progress_finished:
  assumes "sas_progress A st r0 m m'" and "sas_inv st m"
    and "st (world (server m)) h = Some x" and "terminal x"
  shows "st (world (server m')) h = Some x \<and> res (world (server m')) h = res (world (server m)) h"
  using assms
proof (induction rule: sas_progress.induct)
  case (cancel_transition m xs g ys w)
  then show ?case using cancel_goal_Inr [OF cancel_transition(2)] by auto
next
  case (accepted_handler m xs g ys hook s)
  then show ?case using accepted_handler_finished sas_invD(1) by fastforce
next
  case (cancel_handler m xs g ys active hook s)
  then show ?case
    using slot_move_finished [OF sas_invD(1) cancelHandler_locked_move] sas_invD(1) by fastforce
next
  case (cancel_hook_returns m g)
  then show ?case
    using slot_move_finished [OF sas_invD(1) cancelHandler_finish_move] sas_invD(1) by fastforce
next
  case (handle_destroyed g m y)
  then show ?case using release_law [of "world (server m)" g] by auto
qed simp_all

lemma sas_step_finished:
  assumes "sas_step A st r0 E0 m m'" and "sas_inv st m"
    and "st (world (server m)) h = Some x" and "terminal x"
  shows "st (world (server m')) h = Some x \<and> res (world (server m')) h = res (world (server m)) h"
  using assms
proof (induction rule: sas_step.induct)
  case (goal_request m g uuid goal m1 m2)
  then show ?case
    using sas_invD(2) [of st m] accept_law [OF goal_request(2)] by (auto simp: wired_dispatch)
next
  case (cancel_request m g m1)
  then show ?case
    using cancel_request_effect [OF sas_invD(2) [of st m] cancel_request(3)] by simp
next
  case (progress m m')
  then show ?case by (rule sas_progress_finished)
next
  case (method_call c m b s)
  then show ?case
    using slot_move_finished [OF sas_invD(1) perform_call_move] sas_invD(1)
    by (metis sas_machine.select_convs(1) sas_machine.surjective sas_machine.update_convs(1) snd_conv)
next
  case (server_start node create_server m b s)
  then show ?case using start_keeps_wired [OF server_start(1)] by simp
next
  case (server_shutdown m)
  then show ?case by (simp add: sas_shutdown_def)
next
  case (finished_handle_destroyed g m)
  then show ?case using release_law [of "world (server m)" g] by auto
qed

lemma steps_finished:
  assumes "(sas_step A st r0 E0)\<^sup>*\<^sup>* m m'" and "sas_inv st m"
    and "st (world (server m)) h = Some x" and "terminal x"
  shows "st (world (server m')) h = Some x \<and> res (world (server m')) h = res (world (server m)) h"
  using assms(1)
proof (induction rule: rtranclp_induct)
  case base
  with assms(3) show ?case by simp
next
  case (step m1 m2)
  with sas_step_finished [OF step(2) sas.steps_inv [OF assms(2) step(1)] _ assms(4)]
  show ?case by simp
qed

text \<open>Every step moves a goal forward in the order of its states, and forgets none.\<close>

lemma slot_move_forward:
  assumes "slot_move st res s s'" and "st (world s) h = Some x"
  shows "\<exists>y. st (world s') h = Some y \<and> x \<le> y"
  using assms by (cases "in_slots s h") (auto simp: slot_move_def)

lemma accepted_handler_forward:
  assumes ok: "slots_ok st s" and run: "acceptedCallback_locked A r0 g s = (hook, s')"
    and "st (world s) h = Some x"
  shows "\<exists>y. st (world s') h = Some y \<and> x \<le> y"
proof (cases "pendingGoalHandle A s")
  case None
  with run assms(3) show ?thesis by (auto simp: acceptedCallback_locked_def Let_def)
next
  case (Some p)
  then have "st (world s) p = Some ACCEPTED" using pendingGoalHandle_iff [OF ok] by simp
  then show ?thesis
    using run assms(3) Some terminateGoal_effect [of "world s" p r0]
    by (auto simp: acceptedCallback_locked_def Let_def)
qed

lemma release_forward:
  "st w h = Some x \<Longrightarrow> \<exists>y. st (release_handle A w g) h = Some y \<and> x \<le> y"
  using release_law [of w g] released_forward [of x] by (cases "h = g") auto

lemma sas_progress_forward:
  assumes "sas_progress A st r0 m m'" and "sas_inv st m" and "st (world (server m)) h = Some x"
  shows "\<exists>y. st (world (server m')) h = Some y \<and> x \<le> y"
  using assms
proof (induction rule: sas_progress.induct)
  case (cancel_transition m xs g ys w)
  then show ?case using cancel_goal_Inr [OF cancel_transition(2)] by (cases "h = g") auto
next
  case (accepted_handler m xs g ys hook s)
  then show ?case using accepted_handler_forward sas_invD(1) by fastforce
next
  case (cancel_handler m xs g ys active hook s)
  then show ?case
    using slot_move_forward [OF cancelHandler_locked_move] sas_invD(1) by fastforce
next
  case (cancel_hook_returns m g)
  then show ?case using slot_move_forward [OF cancelHandler_finish_move] sas_invD(1) by fastforce
next
  case (handle_destroyed g m y)
  then show ?case using release_forward by simp
qed simp_all

lemma sas_step_forward:
  assumes "sas_step A st r0 E0 m m'" and "sas_inv st m" and "st (world (server m)) h = Some x"
  shows "\<exists>y. st (world (server m')) h = Some y \<and> x \<le> y"
  using assms
proof (induction rule: sas_step.induct)
  case (goal_request m g uuid goal m1 m2)
  then show ?case
    using sas_invD(2) [of st m] accept_law [OF goal_request(2)] by (auto simp: wired_dispatch)
next
  case (cancel_request m g m1)
  then show ?case
    using cancel_request_effect [OF sas_invD(2) [of st m] cancel_request(3)] by simp
next
  case (progress m m')
  then show ?case by (rule sas_progress_forward)
next
  case (method_call c m b s)
  from slot_move_forward [OF perform_call_move [OF sas_invD(1) [OF method_call(2)], of c] method_call(3)]
  show ?case using method_call(1) by simp
next
  case (server_start node create_server m b s)
  then show ?case using start_keeps_wired [OF server_start(1)] by simp
next
  case (server_shutdown m)
  then show ?case by (simp add: sas_shutdown_def)
next
  case (finished_handle_destroyed g m)
  then show ?case using release_forward by simp
qed

lemma steps_forward:
  assumes "(sas_step A st r0 E0)\<^sup>*\<^sup>* m m'" and "sas_inv st m" and "st (world (server m)) h = Some x"
  shows "\<exists>y. st (world (server m')) h = Some y \<and> x \<le> y"
  using assms(1)
proof (induction rule: rtranclp_induct)
  case (step m1 m2)
  then obtain y where "st (world (server m1)) h = Some y" "x \<le> y" by blast
  with sas_step_forward [OF step(2) sas.steps_inv [OF assms(2) step(1)]] show ?case
    by (meson order_trans)
qed (use assms(3) in simp)

end

section \<open>Runs of the machine\<close>

text \<open>
  An executable scheduler: each event performs one step of the machine, with the messages of the
  owner's thread taken in the order they were sent.
\<close>

datatype ('h, 'u, 'g, 'r, 'f, 'hk) sas_event =
    GoalRequest 'h 'u 'g
  | CancelRequest 'h
  | CancelTransition
  | OwnerMessage
  | HookReturns
  | MethodCall "('r, 'f, 'hk) sas_call"
  | StartServer

fun sas_do ::
  "('w, 'h, 'g, 'r, 'f) goal_handle_api \<Rightarrow> ('w \<Rightarrow> 'h \<Rightarrow> goal_status option) \<Rightarrow> 'r \<Rightarrow>
   (sas_operation, 'cb, 'u, 'g, 'h, ('w, 'h, 'hk, 'n, 'srv, 'cb) sas_machine) handler_env \<Rightarrow>
   ('n \<Rightarrow> string \<Rightarrow> 'srv result) \<Rightarrow> 'n option \<Rightarrow>
   ('h, 'u, 'g, 'r, 'f, 'hk) sas_event \<Rightarrow> ('w, 'h, 'hk, 'n, 'srv, 'cb) sas_machine \<Rightarrow>
   ('w, 'h, 'hk, 'n, 'srv, 'cb) sas_machine option" where
  "sas_do A st r0 E0 create node (GoalRequest h uuid goal) m =
     (if sas_ready (server m) \<and> st (world (server m)) h = None
      then (case handleGoal (sas_env E0) (action_server (server m)) uuid goal m of
              (ACCEPT_AND_DEFER, m1) \<Rightarrow>
                let m2 = m1\<lparr>server := (server m1)\<lparr>world := accept_goal A (world (server m1)) h goal\<rparr>\<rparr>
                in Some (handleAccepted (sas_env E0) (action_server (server m1)) h m2)
            | _ \<Rightarrow> None)
      else None)"
| "sas_do A st r0 E0 create node (CancelRequest h) m =
     (if sas_ready (server m) \<and> st (world (server m)) h \<noteq> None
      then (case handleCancel (sas_env E0) (action_server (server m)) h m of
              (CANCEL_ACCEPT, m1) \<Rightarrow> Some (m1\<lparr>canceling := h # canceling m1\<rparr>)
            | _ \<Rightarrow> None)
      else None)"
| "sas_do A st r0 E0 create node CancelTransition m =
     (case canceling m of
        [] \<Rightarrow> None
      | h # hs \<Rightarrow>
          (case cancel_goal A (world (server m)) h of
             Inl e \<Rightarrow> Some (m\<lparr>canceling := hs\<rparr>)
           | Inr w \<Rightarrow> Some (m\<lparr>server := (server m)\<lparr>world := w\<rparr>, canceling := hs\<rparr>)))"
| "sas_do A st r0 E0 create node OwnerMessage m =
     (if owner m \<noteq> OwnerIdle then None else
      case messages m of
        [] \<Rightarrow> None
      | AcceptedMsg h # ms \<Rightarrow>
          (case acceptedCallback_locked A r0 h (server m) of
             (hook, s) \<Rightarrow> Some (m\<lparr>server := s, messages := ms,
                                   owner := (if hook = None then OwnerIdle else InGoalHook)\<rparr>))
      | CancelMsg h # ms \<Rightarrow>
          (case cancelHandler_locked A r0 h (server m) of
             (active, hook, s) \<Rightarrow> Some (m\<lparr>server := s, messages := ms,
                                   owner := (if active then InCancelHook h else OwnerIdle)\<rparr>)))"
| "sas_do A st r0 E0 create node HookReturns m =
     (case owner m of
        OwnerIdle \<Rightarrow> None
      | InGoalHook \<Rightarrow> Some (m\<lparr>owner := OwnerIdle\<rparr>)
      | InCancelHook h \<Rightarrow>
          Some (m\<lparr>server := cancelHandler_finish A r0 h (server m), owner := OwnerIdle\<rparr>))"
| "sas_do A st r0 E0 create node (MethodCall c) m =
     Some (m\<lparr>server := snd (perform_call A c (server m))\<rparr>)"
| "sas_do A st r0 E0 create node StartServer m =
     Some (m\<lparr>server := snd (sas_start (\<lambda>_::unit. node) create () (server m))\<rparr>)"

lemma sas_do_owner_message:
  assumes do: "sas_do A st r0 E0 create node OwnerMessage m = Some m'"
  shows "sas_progress A st r0 m m'"
proof -
  from do have idle: "owner m = OwnerIdle" by (simp split: if_splits)
  show ?thesis
  proof (cases "messages m")
    case Nil
    with do show ?thesis by (simp split: if_splits)
  next
    case (Cons msg ms)
    show ?thesis
    proof (cases msg)
      case (AcceptedMsg h)
      obtain hook s where run: "acceptedCallback_locked A r0 h (server m) = (hook, s)" by fastforce
      have "m' = m\<lparr>server := s, messages := ms, owner := (if hook = None then OwnerIdle else InGoalHook)\<rparr>"
        using do idle Cons AcceptedMsg run by simp
      then show ?thesis
        using sas_progress.accepted_handler [OF idle _ run, where xs = "[]" and ys = ms and st = st]
          Cons AcceptedMsg by simp
    next
      case (CancelMsg h)
      obtain active hook s where run: "cancelHandler_locked A r0 h (server m) = (active, hook, s)"
        by (metis prod.collapse)
      have "m' = m\<lparr>server := s, messages := ms, owner := (if active then InCancelHook h else OwnerIdle)\<rparr>"
        using do idle Cons CancelMsg run by simp
      then show ?thesis
        using sas_progress.cancel_handler [OF idle _ run, where xs = "[]" and ys = ms and st = st]
          Cons CancelMsg by simp
    qed
  qed
qed

lemma sas_do_step:
  assumes "sas_do A st r0 E0 create node e m = Some m'"
  shows "sas_step A st r0 E0 m m'"
proof (cases e)
  case (GoalRequest h uuid goal)
  with assms show ?thesis
    by (auto simp: Let_def split: if_splits prod.splits GoalResponse.splits intro: sas_step.goal_request [OF _ _ _ refl])
next
  case (CancelRequest h)
  with assms show ?thesis
    by (auto split: if_splits prod.splits CancelResponse.splits intro: sas_step.cancel_request)
next
  case CancelTransition
  with assms show ?thesis
    by (auto split: list.splits sum.splits
        intro: sas_step.progress sas_progress.cancel_transition [where xs = "[]", simplified]
          sas_progress.cancel_transition_throws [where xs = "[]", simplified])
next
  case OwnerMessage
  with assms show ?thesis by (simp add: sas_do_owner_message sas_step.progress)
next
  case HookReturns
  with assms show ?thesis
    by (auto split: owner_pc.splits
        intro: sas_step.progress sas_progress.goal_hook_returns sas_progress.cancel_hook_returns)
next
  case (MethodCall c)
  with assms show ?thesis by (auto intro: sas_step.method_call prod.collapse [symmetric])
next
  case StartServer
  with assms show ?thesis by (auto intro: sas_step.server_start prod.collapse [symmetric])
qed

fun sas_run ::
  "('w, 'h, 'g, 'r, 'f) goal_handle_api \<Rightarrow> ('w \<Rightarrow> 'h \<Rightarrow> goal_status option) \<Rightarrow> 'r \<Rightarrow>
   (sas_operation, 'cb, 'u, 'g, 'h, ('w, 'h, 'hk, 'n, 'srv, 'cb) sas_machine) handler_env \<Rightarrow>
   ('n \<Rightarrow> string \<Rightarrow> 'srv result) \<Rightarrow> 'n option \<Rightarrow>
   ('h, 'u, 'g, 'r, 'f, 'hk) sas_event list \<Rightarrow> ('w, 'h, 'hk, 'n, 'srv, 'cb) sas_machine \<Rightarrow>
   ('w, 'h, 'hk, 'n, 'srv, 'cb) sas_machine option" where
  "sas_run A st r0 E0 create node [] m = Some m"
| "sas_run A st r0 E0 create node (e # es) m =
     Option.bind (sas_do A st r0 E0 create node e m) (sas_run A st r0 E0 create node es)"

lemma sas_run_steps:
  "sas_run A st r0 E0 create node es m = Some m' \<Longrightarrow> (sas_step A st r0 E0)\<^sup>*\<^sup>* m m'"
proof (induction es arbitrary: m)
  case (Cons e es)
  then obtain m1 where "sas_do A st r0 E0 create node e m = Some m1"
    "sas_run A st r0 E0 create node es m1 = Some m'"
    by (auto simp: bind_eq_Some_conv)
  with Cons.IH show ?case by (meson converse_rtranclp_into_rtranclp sas_do_step)
qed simp

lemma sas_run_reach:
  assumes "sas_init st E0 m" and "sas_run A st r0 E0 create node es m = Some m'"
  shows "reach (sas_init st E0) (sas_step A st r0 E0) m'"
  using sas_run_steps [OF assms(2)]
  by (induction rule: rtranclp_induct) (auto intro: reach.intros assms(1))

section \<open>A server to run\<close>

text \<open>
  A server as the constructor leaves it, on the operations of \<open>rcl_api\<close>, with goals and handles that
  are numbers and results that are integers.
\<close>

type_synonym demo_machine =
  "((nat, nat, int) rcl_goals, nat, unit, unit, unit, unit) sas_machine"

definition demo_env ::
  "(sas_operation, unit, unit, nat, nat, demo_machine) handler_env" where
  "demo_env =
     \<lparr>goal_signature_ok = (\<lambda>_. False), cancel_signature_ok = (\<lambda>_. False),
      accepted_signature_ok = (\<lambda>_. False),
      run_goal_callback = (\<lambda>_ _ _ m. (GOAL_REJECT, m)),
      run_cancel_callback = (\<lambda>_ _ m. (CANCEL_REJECT, m)),
      run_accepted_callback = (\<lambda>_ _ m. m),
      call_goal_operation = (\<lambda>_ _ _ m. (GOAL_REJECT, m)),
      call_cancel_operation = (\<lambda>_ _ m. (CANCEL_REJECT, m)),
      send_accepted_operation = (\<lambda>_ _ m. m)\<rparr>"

definition demo_init :: demo_machine where
  "demo_init =
     \<lparr>server = \<lparr>world = rcl_empty,
        action_server = \<lparr>ras_name = ''fibonacci'', ras_node = None, ras_server = None,
          goal_operation = Some GoalCallbackOp, cancel_operation = Some CancelCallbackOp,
          accepted_operation = Some AcceptedCallbackOp,
          goal_callback = None, cancel_callback = None, accepted_callback = None\<rparr>,
        action_name = [], goal_active = None, goal_pending = None,
        new_goal_hook = None, cancel_goal_hook = None\<rparr>,
      messages = [], owner = OwnerIdle, canceling = [], dropped = {}\<rparr>"

abbreviation demo_run ::
  "(nat, unit, nat, int, unit, unit) sas_event list \<Rightarrow> demo_machine \<Rightarrow> demo_machine option" where
  "demo_run \<equiv> sas_run (rcl_api :: ((nat, nat, int) rcl_goals, nat, nat, int, unit) goal_handle_api)
     rcl_status 0 demo_env (\<lambda>_ _. Inr ()) (Some ())"

lemma demo_init_ok: "sas_init rcl_status demo_env demo_init"
  unfolding sas_init_def
  by (simp add: demo_init_def demo_env_def sas_env_def SimpleActionServer_def RTTActionServer_def
      registerGoalOperation_def registerCancelOperation_def registerAcceptedOperation_def
      caller_ready_def rcl_empty_def)

lemmas demo_eval =
  demo_init_def demo_env_def sas_env_def caller_ready_def handleGoal_def handleCancel_def
  handleAccepted_def goalCallback_def cancelCallback_def sas_ready_def ras_connected_def
  sas_start_def ras_connect_def rcl_api_def rcl_move_def rcl_empty_def Let_def
  acceptedCallback_locked_def cancelHandler_locked_def cancelHandler_finish_def finishActive_def
  terminateGoal_def pendingGoalHandle_def acceptPending_def rejectPending_def succeedActive_def
  isActive_def isPreempting_def

text \<open>Start the server, receive a goal, defer it and accept it: goal 0 executes.\<close>

definition demo_executing :: "(nat, unit, nat, int, unit, unit) sas_event list" where
  "demo_executing = [StartServer, GoalRequest 0 () 7, OwnerMessage, MethodCall (AcceptPending 5)]"

lemma demo_executing_run:
  "\<exists>m. demo_run demo_executing demo_init = Some m
     \<and> rcl_status (world (server m)) = [0 \<mapsto> EXECUTING] \<and> goal_active (server m) = Some 0
     \<and> dropped m = {}"
  by (simp add: demo_executing_def demo_eval)

section \<open>Properties of every reachable state\<close>

text \<open>C1: Whatever the order of goal requests, cancel requests, handlers, hooks and method calls, at
  most one goal that was not let go of by a shutdown is executing, and it is the goal of the active
  slot, which \<open>isActive()\<close> reports.\<close>

theorem at_most_one_executing:
  assumes api: "goal_handles A st res"
    and run: "reach (sas_init st E0) (sas_step A st r0 E0) m"
    and h: "st (world (server m)) h = Some EXECUTING" "h \<notin> dropped m"
    and h': "st (world (server m)) h' = Some EXECUTING" "h' \<notin> dropped m"
  shows "h = h' \<and> goal_active (server m) = Some h \<and> isActive A (server m)"
proof -
  have inv: "sas_inv st m" by (rule goal_handles.sas_reach_inv [OF api run])
  from sas_invD(7) [OF inv] h h' have "goal_active (server m) = Some h" "goal_active (server m) = Some h'"
    by blast+
  with h show ?thesis by (simp add: isActive_def goal_handles.is_executing_iff [OF api])
qed

theorem at_most_one_executing_witness:
  "\<exists>m. reach (sas_init rcl_status demo_env)
         (sas_step (rcl_api :: ((nat, nat, int) rcl_goals, nat, nat, int, unit) goal_handle_api)
            rcl_status 0 demo_env) m
     \<and> rcl_status (world (server m)) 0 = Some EXECUTING
     \<and> goal_active (server m) = Some 0"
proof -
  obtain m where m: "demo_run demo_executing demo_init = Some m"
    "rcl_status (world (server m)) = [0 \<mapsto> EXECUTING]" "dropped m = {}"
    using demo_executing_run by blast
  note run = sas_run_reach [OF demo_init_ok m(1)]
  have exec: "rcl_status (world (server m)) 0 = Some EXECUTING" "0 \<notin> dropped m" using m by simp_all
  from at_most_one_executing [OF rcl.goal_handles_axioms run exec exec] run exec show ?thesis by blast
qed

text \<open>In every reachable state the active slot holds a goal exactly when one of \<open>isActive()\<close> and
  \<open>isPreempting()\<close> is true, never both; then \<open>getActiveGoal()\<close> returns that goal, and it is not
  the goal of the pending slot.\<close>

lemma active_slot_meaning:
  assumes api: "goal_handles A st res"
    and run: "reach (sas_init st E0) (sas_step A st r0 E0) m"
  shows "(isActive A (server m) \<or> isPreempting A (server m)) = (goal_active (server m) \<noteq> None)
    \<and> \<not> (isActive A (server m) \<and> isPreempting A (server m))
    \<and> getActiveGoal A (server m) = map_option (get_goal A (world (server m))) (goal_active (server m))
    \<and> (goal_active (server m) = None \<or> goal_active (server m) \<noteq> goal_pending (server m))"
proof -
  have ok: "slots_ok st (server m)" by (rule goal_handles.sas_reach_slots [OF api run])
  show ?thesis
  proof (cases "goal_active (server m)")
    case None
    then show ?thesis by (simp add: isActive_def isPreempting_def getActiveGoal_def)
  next
    case (Some h)
    with slots_okD(1) [OF ok Some] slots_okD(3) [OF ok Some] show ?thesis
      by (auto simp: isActive_def isPreempting_def getActiveGoal_def goal_handles.status_iffs [OF api])
  qed
qed

text \<open>C7: No deferred goal is forgotten. A goal the middleware accepted and nobody has executed,
  cancelled or finished, and that no shutdown let go of, sits in the pending slot, or its accepted
  handler is still queued for the owner's thread exactly once, and not both.\<close>

theorem deferred_goal_tracked:
  assumes api: "goal_handles A st res"
    and run: "reach (sas_init st E0) (sas_step A st r0 E0) m"
    and h: "st (world (server m)) h = Some ACCEPTED" "h \<notin> dropped m"
  shows "(goal_pending (server m) = Some h) \<noteq> (AcceptedMsg h \<in> set (messages m))
    \<and> count_list (messages m) (AcceptedMsg h) \<le> 1"
proof -
  have inv: "sas_inv st m" by (rule goal_handles.sas_reach_inv [OF api run])
  have mem: "AcceptedMsg h \<in> set ms \<longleftrightarrow> h \<in> set (awaited ms)" for ms :: "'b sas_message list"
    by (force simp: awaited_def image_iff)
  have "distinct (awaited ms) \<Longrightarrow> count_list ms (AcceptedMsg h) \<le> 1" for ms :: "'b sas_message list"
  proof (induction ms)
    case (Cons msg ms)
    then show ?case using mem [of ms] by (cases msg) (auto simp: count_list_0_iff)
  qed simp
  then show ?thesis
    using sas_invD(3,4,8) [OF inv] h mem [of "messages m"] by (auto simp: in_slots_def)
qed

theorem deferred_goal_tracked_witness:
  "\<exists>m. demo_run [StartServer, GoalRequest 3 () 7] demo_init = Some m
     \<and> rcl_status (world (server m)) 3 = Some ACCEPTED
     \<and> (goal_pending (server m) = Some 3) \<noteq> (AcceptedMsg 3 \<in> set (messages m))"
proof -
  obtain m where m: "demo_run [StartServer, GoalRequest 3 () 7] demo_init = Some m"
    "rcl_status (world (server m)) 3 = Some ACCEPTED" "3 \<notin> dropped m"
    by (simp add: demo_eval)
  from deferred_goal_tracked [OF rcl.goal_handles_axioms sas_run_reach [OF demo_init_ok m(1)] m(2,3)] m
  show ?thesis by blast
qed





section \<open>The handlers\<close>

text \<open>C16: A new goal takes the pending slot: the deferred goal that was there is finished as ABORTED
  with the default result, the new goal is pending and still deferred, the active goal and every
  other goal are as they were, and the goal hook, if one is set, runs on the new goal.\<close>

theorem acceptedCallback_correct:
  assumes api: "goal_handles A st res" and ok: "slots_ok st s"
    and new: "st (world s) gh = Some ACCEPTED" "\<not> in_slots s gh"
  shows "\<exists>w. acceptedCallback A r0 run gh s =
      (let s1 = s\<lparr>world := w, goal_pending := Some gh\<rparr>
       in case new_goal_hook s of None \<Rightarrow> s1 | Some hook \<Rightarrow> run hook (get_goal A w gh) s1)
    \<and> (\<forall>h. st w h = (if goal_pending s = Some h \<and> st (world s) h = Some ACCEPTED
                      then Some ABORTED else st (world s) h))
    \<and> (\<forall>p. goal_pending s = Some p \<and> st (world s) p = Some ACCEPTED \<longrightarrow> res w p = Some r0)"
proof (cases "pendingGoalHandle A s")
  case None
  then have "\<nexists>h. goal_pending s = Some h \<and> st (world s) h = Some ACCEPTED"
    using goal_handles.pendingGoalHandle_iff [OF api ok] by auto
  with None show ?thesis
    by (intro exI [of _ "world s"])
       (auto simp: acceptedCallback_def acceptedCallback_locked_def Let_def split: option.split)
next
  case (Some p)
  then have p: "goal_pending s = Some p" "st (world s) p = Some ACCEPTED"
    using goal_handles.pendingGoalHandle_iff [OF api ok] by auto
  with goal_handles.terminateGoal_effect [OF api, of "world s" p r0] Some show ?thesis
    by (intro exI [of _ "terminateGoal A p r0 (world s)"])
       (auto simp: acceptedCallback_def acceptedCallback_locked_def Let_def split: option.split)
qed

theorem acceptedCallback_correct_witness:
  "\<exists>m w. demo_run [StartServer, GoalRequest 0 () 7, OwnerMessage, GoalRequest 1 () 8] demo_init = Some m
     \<and> acceptedCallback (rcl_api :: ((nat, nat, int) rcl_goals, nat, nat, int, unit) goal_handle_api)
         0 (\<lambda>_ _ s. s) 1 (server m) = (server m)\<lparr>world := w, goal_pending := Some 1\<rparr>
     \<and> rcl_status w 0 = Some ABORTED \<and> rcl_status w 1 = Some ACCEPTED"
proof -
  obtain m where m: "demo_run [StartServer, GoalRequest 0 () 7, OwnerMessage, GoalRequest 1 () 8] demo_init = Some m"
    "rcl_status (world (server m)) = [0 \<mapsto> ACCEPTED, 1 \<mapsto> ACCEPTED]" "goal_pending (server m) = Some 0"
    "goal_active (server m) = None" "new_goal_hook (server m) = None"
    by (simp add: demo_eval)
  have ok: "slots_ok rcl_status (server m)"
    by (rule rcl.sas_reach_slots [OF sas_run_reach [OF demo_init_ok m(1)]])
  have new: "rcl_status (world (server m)) 1 = Some ACCEPTED" "\<not> in_slots (server m) 1"
    using m by (simp_all add: in_slots_def)
  from acceptedCallback_correct [OF rcl.goal_handles_axioms ok new, of 0 "\<lambda>_ _ s. s"] m
  show ?thesis by (fastforce simp: Let_def)
qed

text \<open>The cancel handler of the active goal, of the pending goal, and of any other.\<close>

lemma cancelHandler_active:
  assumes api: "goal_handles A st res" and act: "goal_active s = Some gh"
    and s1: "s1 = (case cancel_goal_hook s of None \<Rightarrow> s | Some hook \<Rightarrow> run hook s)"
  shows "(goal_active s1 = Some gh \<and> st (world s1) gh = Some CANCELING \<longrightarrow>
       (\<exists>w. cancelHandler A r0 run gh s = s1\<lparr>world := w, goal_active := None\<rparr>
          \<and> st w = (st (world s1))(gh \<mapsto> CANCELED) \<and> res w = (res (world s1))(gh \<mapsto> r0)))
    \<and> (goal_active s1 \<noteq> Some gh \<longrightarrow> cancelHandler A r0 run gh s = s1)"
proof -
  have run: "cancelHandler A r0 run gh s = cancelHandler_finish A r0 gh s1"
    using act s1 by (simp add: cancelHandler_def cancelHandler_locked_def split: option.split)
  show ?thesis
  proof (cases "goal_active s1 = Some gh \<and> st (world s1) gh = Some CANCELING")
    case True
    then obtain w where w: "finishActive A r0 True s1 = (True, s1\<lparr>world := w, goal_active := None\<rparr>)"
      "st w = (st (world s1))(gh \<mapsto> (if st (world s1) gh = Some CANCELING then CANCELED else ABORTED))"
      "res w = (res (world s1))(gh \<mapsto> r0)"
      using goal_handles.finishActive_effect [OF api] by metis
    with True show ?thesis by (auto simp: run cancelHandler_finish_def)
  next
    case False
    then show ?thesis by (auto simp: run cancelHandler_finish_def)
  qed
qed

lemma cancelHandler_pending:
  assumes api: "goal_handles A st res" and ok: "slots_ok st s"
    and act: "goal_active s \<noteq> Some gh"
  shows "(goal_pending s = Some gh \<longrightarrow>
       (\<exists>w. cancelHandler A r0 run gh s = s\<lparr>world := w, goal_pending := None\<rparr>
          \<and> st w = (st (world s))(gh \<mapsto> (if st (world s) gh = Some CANCELING then CANCELED else ABORTED))
          \<and> res w = (res (world s))(gh \<mapsto> r0)))
    \<and> (goal_pending s \<noteq> Some gh \<longrightarrow> cancelHandler A r0 run gh s = s)"
  using act goal_handles.terminateGoal_effect [OF api slots_okD(2) [OF ok], of gh r0]
  by (auto simp: cancelHandler_def cancelHandler_locked_def)

text \<open>C17: Handling a cancellation. When the goal is active and the hook leaves it active and being
  cancelled, the handler finishes it as CANCELED with the default result and frees the active slot;
  when the hook took it out of the active slot, the handler changes nothing more. When the goal is
  pending, it is finished, as CANCELED when the transition to CANCELING has happened, and the pending
  slot is free. A goal that is in neither slot any more is left alone.\<close>

theorem cancelHandler_correct:
  assumes api: "goal_handles A st res" and ok: "slots_ok st s"
    and s1: "s1 = (case cancel_goal_hook s of None \<Rightarrow> s | Some hook \<Rightarrow> run hook s)"
  shows "(goal_active s = Some gh \<longrightarrow>
       (goal_active s1 = Some gh \<and> st (world s1) gh = Some CANCELING \<longrightarrow>
         (\<exists>w. cancelHandler A r0 run gh s = s1\<lparr>world := w, goal_active := None\<rparr>
            \<and> st w = (st (world s1))(gh \<mapsto> CANCELED) \<and> res w = (res (world s1))(gh \<mapsto> r0)))
       \<and> (goal_active s1 \<noteq> Some gh \<longrightarrow> cancelHandler A r0 run gh s = s1))
    \<and> (goal_active s \<noteq> Some gh \<and> goal_pending s = Some gh \<longrightarrow>
       (\<exists>w. cancelHandler A r0 run gh s = s\<lparr>world := w, goal_pending := None\<rparr>
          \<and> st w = (st (world s))(gh \<mapsto> (if st (world s) gh = Some CANCELING then CANCELED else ABORTED))
          \<and> res w = (res (world s))(gh \<mapsto> r0)))
    \<and> (\<not> in_slots s gh \<longrightarrow> cancelHandler A r0 run gh s = s)"
  using cancelHandler_active [of A st res s gh s1 run r0, OF api _ s1] cancelHandler_pending [OF api ok, of gh r0 run]
  by (simp add: in_slots_def)

theorem cancelHandler_correct_witness:
  "\<exists>m w. demo_run (demo_executing @ [CancelRequest 0, CancelTransition]) demo_init = Some m
     \<and> cancelHandler (rcl_api :: ((nat, nat, int) rcl_goals, nat, nat, int, unit) goal_handle_api)
         0 (\<lambda>_ s. s) 0 (server m) = (server m)\<lparr>world := w, goal_active := None\<rparr>
     \<and> rcl_status w 0 = Some CANCELED"
proof -
  obtain m where m: "demo_run (demo_executing @ [CancelRequest 0, CancelTransition]) demo_init = Some m"
    "goal_active (server m) = Some 0" "rcl_status (world (server m)) 0 = Some CANCELING"
    "cancel_goal_hook (server m) = None"
    by (simp add: demo_executing_def demo_eval)
  have ok: "slots_ok rcl_status (server m)"
    by (rule rcl.sas_reach_slots [OF sas_run_reach [OF demo_init_ok m(1)]])
  from cancelHandler_correct [OF rcl.goal_handles_axioms ok refl, where run = "\<lambda>_ s. s" and gh = 0 and ?r0.0 = 0,
      THEN conjunct1] m
  show ?thesis by fastforce
qed

text \<open>The cancel handler of the active goal, with its hook, as two steps of the owner's thread.\<close>

lemma cancel_handler_steps:
  assumes "owner m = OwnerIdle" and "CancelMsg h \<in> set (messages m)" and "goal_active (server m) = Some h"
  obtains m' where "(sas_progress A st r0)\<^sup>*\<^sup>* m m'" "server m' = cancelHandler_finish A r0 h (server m)"
proof -
  obtain xs ys where ms: "messages m = xs @ CancelMsg h # ys"
    using assms(2) by (auto simp: in_set_conv_decomp)
  let ?m1 = "m\<lparr>messages := xs @ ys, owner := InCancelHook h\<rparr>"
  have "cancelHandler_locked A r0 h (server m) = (True, cancel_goal_hook (server m), server m)"
    using assms(3) by (simp add: cancelHandler_locked_def)
  from cancel_handler [OF assms(1) ms this] have "sas_progress A st r0 m ?m1" by simp
  moreover have "sas_progress A st r0 ?m1 (?m1\<lparr>server := cancelHandler_finish A r0 h (server ?m1), owner := OwnerIdle\<rparr>)"
    by (rule cancel_hook_returns) simp
  ultimately show ?thesis
    by (intro that [of "?m1\<lparr>server := cancelHandler_finish A r0 h (server ?m1), owner := OwnerIdle\<rparr>"]) auto
qed

text \<open>C37: The order of the owner's thread and the middleware decides what a cancelled client sees. The
  cancel callback queues the cancel handler before the middleware moves the goal to CANCELING. In every
  state in which the cancel request of the executing goal was accepted and both are still to come, the
  goal can end as ABORTED, when the handler runs first, and as CANCELED, when the transition does.\<close>

theorem cancel_outcome_depends_on_order:
  assumes api: "goal_handles A st res"
    and "owner m = OwnerIdle" "CancelMsg h \<in> set (messages m)" "h \<in> set (canceling m)"
    and active: "goal_active (server m) = Some h" "st (world (server m)) h = Some EXECUTING"
  shows "(\<exists>m'. (sas_progress A st r0)\<^sup>*\<^sup>* m m' \<and> st (world (server m')) h = Some ABORTED)
    \<and> (\<exists>m'. (sas_progress A st r0)\<^sup>*\<^sup>* m m' \<and> st (world (server m')) h = Some CANCELED)"
proof
  have finish: "st (world (cancelHandler_finish A r0 h s)) h = Some (if st (world s) h = Some CANCELING then CANCELED else ABORTED)"
    if s: "goal_active s = Some h" "st (world s) h = Some EXECUTING \<or> st (world s) h = Some CANCELING" for s
  proof -
    obtain w where "finishActive A r0 True s = (True, s\<lparr>world := w, goal_active := None\<rparr>)"
      "st w = (st (world s))(h \<mapsto> (if st (world s) h = Some CANCELING then CANCELED else ABORTED))"
      using goal_handles.finishActive_effect [OF api s, of r0 True] by blast
    with s(1) show ?thesis by (simp add: cancelHandler_finish_def)
  qed
  obtain m' where "(sas_progress A st r0)\<^sup>*\<^sup>* m m'" "server m' = cancelHandler_finish A r0 h (server m)"
    using cancel_handler_steps [OF assms(2,3) active(1)] .
  with finish [OF active(1)] active(2) show "\<exists>m'. (sas_progress A st r0)\<^sup>*\<^sup>* m m' \<and> st (world (server m')) h = Some ABORTED"
    by (intro exI [of _ m']) simp
  obtain w where w: "cancel_goal A (world (server m)) h = Inr w" "st w = (st (world (server m)))(h \<mapsto> CANCELING)"
    using goal_handles.cancel_goal_law [OF api, of "world (server m)" h] active(2)
    by (auto simp: goal_transition_def)
  obtain xs ys where can: "canceling m = xs @ h # ys" using assms(4) by (auto simp: in_set_conv_decomp)
  let ?m1 = "m\<lparr>server := (server m)\<lparr>world := w\<rparr>, canceling := xs @ ys\<rparr>"
  have step: "sas_progress A st r0 m ?m1" by (rule cancel_transition [OF can w(1)])
  have "owner ?m1 = OwnerIdle" "CancelMsg h \<in> set (messages ?m1)" "goal_active (server ?m1) = Some h"
    using assms(2,3) active(1) by simp_all
  then obtain m' where "(sas_progress A st r0)\<^sup>*\<^sup>* ?m1 m'" "server m' = cancelHandler_finish A r0 h (server ?m1)"
    by (rule cancel_handler_steps)
  with step finish [of "server ?m1"] active(1) w(2)
  show "\<exists>m'. (sas_progress A st r0)\<^sup>*\<^sup>* m m' \<and> st (world (server m')) h = Some CANCELED"
    by (intro exI [of _ m']) (auto intro: converse_rtranclp_into_rtranclp)
qed

theorem cancel_outcome_depends_on_order_witness:
  "\<exists>m m' m''. demo_run (demo_executing @ [CancelRequest 0]) demo_init = Some m
     \<and> (sas_progress (rcl_api :: ((nat, nat, int) rcl_goals, nat, nat, int, unit) goal_handle_api) rcl_status 0)\<^sup>*\<^sup>* m m'
     \<and> rcl_status (world (server m')) 0 = Some ABORTED
     \<and> (sas_progress (rcl_api :: ((nat, nat, int) rcl_goals, nat, nat, int, unit) goal_handle_api) rcl_status 0)\<^sup>*\<^sup>* m m''
     \<and> rcl_status (world (server m'')) 0 = Some CANCELED"
proof -
  obtain m where m: "demo_run (demo_executing @ [CancelRequest 0]) demo_init = Some m"
    "owner m = OwnerIdle" "CancelMsg 0 \<in> set (messages m)" "0 \<in> set (canceling m)"
    "goal_active (server m) = Some 0" "rcl_status (world (server m)) 0 = Some EXECUTING"
    by (simp add: demo_executing_def demo_eval)
  from cancel_outcome_depends_on_order [OF rcl.goal_handles_axioms m(2-6)] m(1) show ?thesis by blast
qed



end
