(* ===== verification/Action_Liveness.thy ===== *)
theory Action_Liveness
  imports Action_Theorems
begin

text \<open>
  Every accepted cancel request is concluded: an invariant that ties each goal being cancelled to the
  handler that will finish it, and a rank that every step of the owner's thread and the middleware
  lowers, so that these threads come to rest, with all requests served.
\<close>

section \<open>The invariant\<close>

text \<open>
  The goals somebody asked to cancel, from the request the server accepted to the end of its handler;
  and what the server owes such a goal: it is a known goal whose acceptance has been handled, and as
  long as it is in a slot, its cancel handler is queued or in the user's hook.
\<close>

definition cancel_requested ::
  "('w \<Rightarrow> 'h \<Rightarrow> goal_status option) \<Rightarrow> ('w, 'h, 'hk, 'n, 'srv, 'cb) sas_machine \<Rightarrow> 'h \<Rightarrow> bool" where
  "cancel_requested st m h =
     (CancelMsg h \<in> set (messages m) \<or> h \<in> set (canceling m) \<or> owner m = InCancelHook h
      \<or> st (world (server m)) h = Some CANCELING)"

definition cancel_attended ::
  "('w \<Rightarrow> 'h \<Rightarrow> goal_status option) \<Rightarrow> ('w, 'h, 'hk, 'n, 'srv, 'cb) sas_machine \<Rightarrow> 'h \<Rightarrow> bool" where
  "cancel_attended st m h =
     (st (world (server m)) h \<noteq> None \<and> h \<notin> set (awaited (messages m))
      \<and> (in_slots (server m) h \<longrightarrow> CancelMsg h \<in> set (messages m) \<or> owner m = InCancelHook h))"

definition cancel_inv ::
  "('w \<Rightarrow> 'h \<Rightarrow> goal_status option) \<Rightarrow> ('w, 'h, 'hk, 'n, 'srv, 'cb) sas_machine \<Rightarrow> bool" where
  "cancel_inv st m =
     ((\<forall>h. cancel_requested st m h \<longrightarrow> cancel_attended st m h)
      \<and> (\<forall>h. owner m = InCancelHook h \<longrightarrow> goal_pending (server m) \<noteq> Some h)
      \<and> finite (dom (st (world (server m)))))"

text \<open>The goals that are not finished.\<close>

definition open_goals :: "('w \<Rightarrow> 'h \<Rightarrow> goal_status option) \<Rightarrow> 'w \<Rightarrow> 'h set" where
  "open_goals st w = {h. \<exists>x. st w h = Some x \<and> \<not> terminal x}"

definition progress_rank ::
  "('w \<Rightarrow> 'h \<Rightarrow> goal_status option) \<Rightarrow> ('w, 'h, 'hk, 'n, 'srv, 'cb) sas_machine \<Rightarrow> nat" where
  "progress_rank st m =
     2 * length (messages m) + length (canceling m) + (if owner m = OwnerIdle then 0 else 1)
     + card (open_goals st (world (server m)))"

lemma cancel_invD:
  assumes "cancel_inv st m"
  shows "cancel_requested st m h \<Longrightarrow> cancel_attended st m h"
    and "owner m = InCancelHook h \<Longrightarrow> goal_pending (server m) \<noteq> Some h"
    and "finite (dom (st (world (server m))))"
  using assms by (simp_all add: cancel_inv_def)

text \<open>A step that forgets no goal somebody asked to cancel, and adds none.\<close>

definition cancel_kept ::
  "('w \<Rightarrow> 'h \<Rightarrow> goal_status option) \<Rightarrow> ('w, 'h, 'hk, 'n, 'srv, 'cb) sas_machine \<Rightarrow>
   ('w, 'h, 'hk, 'n, 'srv, 'cb) sas_machine \<Rightarrow> bool" where
  "cancel_kept st m m' =
     ((\<forall>h. cancel_attended st m h \<longrightarrow> cancel_attended st m' h)
      \<and> (\<forall>h. cancel_requested st m' h \<longrightarrow> cancel_requested st m h)
      \<and> (\<forall>h. owner m' = InCancelHook h \<longrightarrow> goal_pending (server m') \<noteq> Some h)
      \<and> finite (dom (st (world (server m')))))"

lemma cancel_kept_inv: "cancel_inv st m \<Longrightarrow> cancel_kept st m m' \<Longrightarrow> cancel_inv st m'"
  by (simp add: cancel_inv_def cancel_kept_def)

lemmas cancel_defs = cancel_kept_def cancel_attended_def cancel_requested_def

lemma open_goals_finite: "cancel_inv st m \<Longrightarrow> finite (open_goals st (world (server m)))"
  by (rule finite_subset [OF _ cancel_invD(3)]) (auto simp: open_goals_def)

text \<open>A move of the slots.\<close>

lemma slot_moveD:
  assumes "slots_ok st s" and "slot_move st res s s'"
  shows "in_slots s' h \<Longrightarrow> in_slots s h"
    and "st (world s') h = Some CANCELING \<Longrightarrow> st (world s) h = Some CANCELING"
    and "st (world s') h = None \<longleftrightarrow> st (world s) h = None"
    and "goal_pending s' = Some h \<Longrightarrow> goal_pending s = Some h"
proof -
  have out: "\<not> in_slots s h \<Longrightarrow> st (world s') h = st (world s) h \<and> \<not> in_slots s' h"
    and inn: "in_slots s h \<Longrightarrow> st (world s') h \<noteq> None
      \<and> (st (world s') h = Some CANCELING \<longrightarrow> st (world s) h = Some CANCELING)
      \<and> (goal_pending s' = Some h \<longrightarrow> goal_pending s = Some h)"
    using assms(2) unfolding slot_move_def by blast+
  have known: "in_slots s h \<Longrightarrow> st (world s) h \<noteq> None"
    using slots_okD(1,2) [OF assms(1), of h] by (auto simp: in_slots_def)
  show "in_slots s' h \<Longrightarrow> in_slots s h" using out by blast
  show "st (world s') h = Some CANCELING \<Longrightarrow> st (world s) h = Some CANCELING"
    using out inn by metis
  show "st (world s') h = None \<longleftrightarrow> st (world s) h = None" using out inn known by metis
  have "goal_pending s' = Some h \<Longrightarrow> in_slots s' h" by (simp add: in_slots_def)
  then show "goal_pending s' = Some h \<Longrightarrow> goal_pending s = Some h"
    using out inn by blast
qed

lemma slot_move_kept:
  assumes inv: "sas_inv st m" and cinv: "cancel_inv st m" and mv: "slot_move st res (server m) s"
  shows "cancel_kept st m (m\<lparr>server := s\<rparr>)"
proof -
  note d = slot_moveD [OF sas_invD(1) [OF inv] mv]
  have "dom (st (world s)) = dom (st (world (server m)))" using d(3) by (simp add: dom_def)
  then show ?thesis
    using d cancel_invD(2,3) [OF cinv] unfolding cancel_defs by simp metis
qed

lemma slot_move_open:
  assumes ok: "slots_ok st s" and mv: "slot_move st res s s'"
  shows "open_goals st (world s') \<subseteq> open_goals st (world s)"
proof
  fix h
  assume h: "h \<in> open_goals st (world s')"
  show "h \<in> open_goals st (world s)"
  proof (cases "in_slots s h")
    case True
    with slots_okD(1,2) [OF ok, of h] show ?thesis by (auto simp: open_goals_def in_slots_def)
  next
    case False
    with h mv show ?thesis by (auto simp: open_goals_def slot_move_def)
  qed
qed

context goal_handles
begin

section \<open>Every step keeps it\<close>

text \<open>The handler of an accepted goal only finishes the goal it replaces.\<close>

lemma accepted_handler_effect:
  assumes ok: "slots_ok st s" and run: "acceptedCallback_locked A r0 h s = (hook, s')"
  obtains w where "s' = s\<lparr>world := w, goal_pending := Some h\<rparr>"
    and "st w = st (world s) \<or> (\<exists>p. goal_pending s = Some p \<and> st (world s) p = Some ACCEPTED
           \<and> st w = (st (world s))(p \<mapsto> ABORTED))"
proof (cases "pendingGoalHandle A s")
  case None
  then have "s' = s\<lparr>world := world s, goal_pending := Some h\<rparr>"
    using run by (simp add: acceptedCallback_locked_def Let_def)
  with that [of "world s"] show ?thesis by simp
next
  case (Some p)
  then have p: "goal_pending s = Some p" "st (world s) p = Some ACCEPTED"
    using pendingGoalHandle_iff [OF ok] by auto
  have "s' = s\<lparr>world := terminateGoal A p r0 (world s), goal_pending := Some h\<rparr>"
    using run Some by (simp add: acceptedCallback_locked_def Let_def)
  with that p terminateGoal_effect [of "world s" p r0] show ?thesis by simp
qed

lemma accepted_handler_kept:
  assumes inv: "sas_inv st m" and cinv: "cancel_inv st m" and idle: "owner m = OwnerIdle"
    and ms: "messages m = xs @ AcceptedMsg h # ys"
    and run: "acceptedCallback_locked A r0 h (server m) = (hook, s)"
  shows "cancel_kept st m (m\<lparr>server := s, messages := xs @ ys,
           owner := (if hook = None then OwnerIdle else InGoalHook)\<rparr>)"
proof -
  let ?w = "world (server m)"
  obtain w where s: "s = (server m)\<lparr>world := w, goal_pending := Some h\<rparr>"
    and w: "st w = st ?w \<or> (\<exists>p. goal_pending (server m) = Some p \<and> st ?w p = Some ACCEPTED
        \<and> st w = (st ?w)(p \<mapsto> ABORTED))"
    using accepted_handler_effect [OF sas_invD(1) [OF inv] run] .
  have known: "st ?w g \<noteq> None \<Longrightarrow> st w g \<noteq> None"
    and "st w g = Some CANCELING \<Longrightarrow> st ?w g = Some CANCELING" for g
    using w by (auto split: if_splits)
  moreover have "finite (dom (st w))"
    using w cancel_invD(3) [OF cinv] by auto
  ultimately show ?thesis
    using ms idle by (auto simp: cancel_defs s in_slots_def)
qed

lemma cancel_handler_kept:
  assumes inv: "sas_inv st m" and cinv: "cancel_inv st m" and idle: "owner m = OwnerIdle"
    and ms: "messages m = xs @ CancelMsg h # ys"
    and run: "cancelHandler_locked A r0 h (server m) = (active, hook, s)"
  shows "cancel_kept st m (m\<lparr>server := s, messages := xs @ ys,
           owner := (if active then InCancelHook h else OwnerIdle)\<rparr>)"
proof -
  note ok = sas_invD(1) [OF inv]
  have c: "cancel_kept st m (m\<lparr>server := s\<rparr>)"
    by (rule slot_move_kept [OF inv cinv cancelHandler_locked_move [OF ok run]])
  show ?thesis
  proof (cases "goal_active (server m) = Some h")
    case True
    then have "active" "s = server m" using run by (simp_all add: cancelHandler_locked_def)
    with c ms idle slots_okD(3) [OF ok True] show ?thesis by (auto simp: cancel_defs)
  next
    case False
    then have "\<not> active" "\<not> in_slots s h"
      using run by (auto simp: cancelHandler_locked_def in_slots_def split: if_splits)
    with c ms idle show ?thesis by (auto simp: cancel_defs)
  qed
qed

lemma cancel_hook_kept:
  assumes inv: "sas_inv st m" and cinv: "cancel_inv st m" and own: "owner m = InCancelHook h"
  shows "cancel_kept st m (m\<lparr>server := cancelHandler_finish A r0 h (server m), owner := OwnerIdle\<rparr>)"
proof -
  note ok = sas_invD(1) [OF inv]
  let ?s = "cancelHandler_finish A r0 h (server m)"
  have c: "cancel_kept st m (m\<lparr>server := ?s\<rparr>)"
    by (rule slot_move_kept [OF inv cinv cancelHandler_finish_move [OF ok]])
  have "goal_active ?s \<noteq> Some h"
  proof (cases "goal_active (server m) = Some h")
    case True
    obtain w where "finishActive A r0 True (server m) = (True, (server m)\<lparr>world := w, goal_active := None\<rparr>)"
      using finishActive_effect [OF True slots_okD(1) [OF ok True]] .
    with True show ?thesis by (simp add: cancelHandler_finish_def)
  next
    case False
    then show ?thesis by (auto simp: cancelHandler_finish_def)
  qed
  moreover have "goal_pending ?s \<noteq> Some h" using c own by (simp add: cancel_kept_def)
  ultimately have "\<not> in_slots ?s h" by (simp add: in_slots_def)
  with c own show ?thesis by (auto simp: cancel_defs)
qed

lemma release_kept:
  assumes "cancel_inv st m"
  shows "cancel_kept st m (m\<lparr>server := (server m)\<lparr>world := release_handle A (world (server m)) h\<rparr>\<rparr>)"
proof -
  let ?w = "world (server m)"
  have "st (release_handle A ?w h) g = Some CANCELING \<Longrightarrow> st ?w g = Some CANCELING"
    and "st (release_handle A ?w h) g = None \<longleftrightarrow> st ?w g = None" for g
    using release_law [of ?w h] by (auto split: if_splits)
  moreover have "dom (st (release_handle A ?w h)) = dom (st ?w)"
    using release_law [of ?w h] by (auto simp: dom_def)
  ultimately show ?thesis
    using cancel_invD(2,3) [OF assms] by (auto simp: cancel_defs in_slots_def)
qed

lemma cancel_transition_kept:
  assumes cinv: "cancel_inv st m" and h: "canceling m = xs @ h # ys"
    and w: "cancel_goal A (world (server m)) h = Inr w"
  shows "cancel_kept st m (m\<lparr>server := (server m)\<lparr>world := w\<rparr>, canceling := xs @ ys\<rparr>)"
  using cancel_goal_Inr [OF w] h cancel_invD(2,3) [OF cinv]
  by (auto simp: cancel_defs in_slots_def split: if_splits)

lemma sas_progress_kept:
  assumes "sas_progress A st r0 m m'" and "sas_inv st m" and "cancel_inv st m"
  shows "cancel_kept st m m'"
  using assms
proof (induction rule: sas_progress.induct)
  case (cancel_transition_throws m xs h ys e)
  then show ?case using cancel_invD(2,3) [of st m] by (auto simp: cancel_defs)
next
  case (goal_hook_returns m)
  then show ?case using cancel_invD(2,3) [of st m] by (auto simp: cancel_defs)
next
  case (accepted_handler m xs h ys hook s)
  then show ?case by (intro accepted_handler_kept)
next
  case (cancel_handler m xs h ys active hook s)
  then show ?case by (intro cancel_handler_kept)
qed (auto intro: cancel_transition_kept cancel_hook_kept release_kept)

lemma goal_request_cancel_inv:
  assumes inv: "sas_inv st m" and cinv: "cancel_inv st m" and new: "st (world (server m)) h = None"
  shows "cancel_inv st (m\<lparr>server := (server m)\<lparr>world := accept_goal A (world (server m)) h g\<rparr>,
                      messages := messages m @ [AcceptedMsg h]\<rparr>)"
proof -
  have old: "cancel_requested st m k \<Longrightarrow> cancel_attended st m k \<and> k \<noteq> h" for k
    using cancel_invD(1) [OF cinv, of k] new by (auto simp: cancel_attended_def)
  show ?thesis
    using old accept_law [OF new] cancel_invD(2,3) [OF cinv]
    by (auto simp: cancel_inv_def cancel_requested_def cancel_attended_def in_slots_def split: if_splits)
qed

lemma cancel_request_cancel_inv:
  assumes inv: "sas_inv st m" and cinv: "cancel_inv st m" and known: "st (world (server m)) h \<noteq> None"
    and run: "handleCancel (sas_env E0) (action_server (server m)) h m = (CANCEL_ACCEPT, m1)"
  shows "cancel_inv st (m1\<lparr>canceling := h # canceling m1\<rparr>)"
proof -
  have m1: "m1 = m\<lparr>messages := messages m @ [CancelMsg h]\<rparr>" and slot: "in_slots (server m) h"
    using cancel_request_effect [OF sas_invD(2) [OF inv] run] by simp_all
  have "h \<notin> set (awaited (messages m))"
    using sas_invD(4) [OF inv, of h] slot by blast
  with cinv known show ?thesis
    by (auto simp: m1 cancel_inv_def cancel_requested_def cancel_attended_def)
qed

lemma sas_step_cancel_inv:
  assumes "sas_step A st r0 E0 m m'" and "sas_inv st m" and "cancel_inv st m"
  shows "cancel_inv st m'"
  using assms
proof (induction rule: sas_step.induct)
  case (goal_request m h uuid goal m1 m2)
  then show ?case
    using goal_request_cancel_inv [of m h goal] sas_invD(2) [of st m] by (simp add: wired_dispatch)
next
  case (cancel_request m h m1)
  then show ?case by (blast intro: cancel_request_cancel_inv)
next
  case (progress m m')
  then show ?case using cancel_kept_inv sas_progress_kept by blast
next
  case (method_call c m b s)
  then show ?case
    using cancel_kept_inv slot_move_kept perform_call_move sas_invD(1) by (metis snd_conv)
next
  case (server_start node create_server m b s)
  then show ?case
    using start_keeps_wired [OF server_start(1)]
    by (simp add: cancel_inv_def cancel_requested_def cancel_attended_def in_slots_def)
next
  case (server_shutdown m)
  then show ?case
    by (simp add: cancel_inv_def cancel_requested_def cancel_attended_def in_slots_def sas_shutdown_def)
next
  case (finished_handle_destroyed h m)
  then show ?case using cancel_kept_inv release_kept by blast
qed

lemma sas_init_cancel_inv: "sas_init st E0 m \<Longrightarrow> cancel_inv st m"
  by (auto simp: sas_init_def cancel_inv_def cancel_requested_def dom_def dest!: constructed_wired)

section \<open>Every step of the handlers lowers the rank\<close>

lemma accepted_handler_open:
  assumes ok: "slots_ok st s" and run: "acceptedCallback_locked A r0 h s = (hook, s')"
  shows "open_goals st (world s') \<subseteq> open_goals st (world s)"
proof -
  obtain w where "s' = s\<lparr>world := w, goal_pending := Some h\<rparr>"
    and "st w = st (world s) \<or> (\<exists>p. goal_pending s = Some p \<and> st (world s) p = Some ACCEPTED
           \<and> st w = (st (world s))(p \<mapsto> ABORTED))"
    using accepted_handler_effect [OF ok run] .
  then show ?thesis by (auto simp: open_goals_def split: if_splits)
qed

lemma sas_progress_open:
  assumes "sas_progress A st r0 m m'" and "sas_inv st m"
  shows "open_goals st (world (server m')) \<subseteq> open_goals st (world (server m))"
  using assms
proof (induction rule: sas_progress.induct)
  case (cancel_transition m xs h ys w)
  then show ?case
    using cancel_goal_Inr [OF cancel_transition(2)] by (auto simp: open_goals_def split: if_splits)
next
  case (accepted_handler m xs h ys hook s)
  then show ?case using accepted_handler_open sas_invD(1) by fastforce
next
  case (cancel_handler m xs h ys active hook s)
  then show ?case using slot_move_open cancelHandler_locked_move sas_invD(1) by fastforce
next
  case (cancel_hook_returns m h)
  then show ?case using slot_move_open cancelHandler_finish_move sas_invD(1) by fastforce
next
  case (handle_destroyed h m x)
  then show ?case
    using release_law [of "world (server m)" h] by (auto simp: open_goals_def split: if_splits)
qed simp_all

lemma sas_progress_rank:
  assumes step: "sas_progress A st r0 m m'" and inv: "sas_inv st m" and cinv: "cancel_inv st m"
  shows "progress_rank st m' < progress_rank st m"
proof -
  have le: "card (open_goals st (world (server m'))) \<le> card (open_goals st (world (server m)))"
    by (rule card_mono [OF open_goals_finite [OF cinv] sas_progress_open [OF step inv]])
  from step le cinv show ?thesis
  proof (induction rule: sas_progress.induct)
    case (handle_destroyed h m x)
    let ?w = "world (server m)"
    have "open_goals st (release_handle A ?w h) = open_goals st ?w - {h}"
      using release_law [of ?w h] by (auto simp: open_goals_def split: if_splits)
    moreover have "h \<in> open_goals st ?w" using handle_destroyed by (simp add: open_goals_def)
    ultimately show ?case
      using card_Diff1_less [OF open_goals_finite [OF handle_destroyed(5)]]
      by (simp add: progress_rank_def)
  qed (auto simp: progress_rank_def)
qed

text \<open>Where the owner's thread and the middleware have nothing left to do.\<close>

lemma at_rest:
  assumes inv: "sas_inv st m" and cinv: "cancel_inv st m" and rest: "\<nexists>m'. sas_progress A st r0 m m'"
  shows "messages m = [] \<and> owner m = OwnerIdle \<and> canceling m = []"
proof -
  have idle: "owner m = OwnerIdle"
    using rest goal_hook_returns cancel_hook_returns by (metis owner_pc.exhaust)
  have "messages m = []"
  proof (rule ccontr)
    assume "messages m \<noteq> []"
    then obtain msg ms where ms: "messages m = [] @ msg # ms" by (cases "messages m") auto
    with rest idle show False
      using accepted_handler [OF idle, of "[]"] cancel_handler [OF idle, of "[]"]
      by (metis sas_message.exhaust surj_pair)
  qed
  moreover have "canceling m = []"
  proof (rule ccontr)
    assume "canceling m \<noteq> []"
    then obtain h hs where "canceling m = [] @ h # hs" by (cases "canceling m") auto
    with rest show False
      using cancel_transition [of m "[]"] cancel_transition_throws [of m "[]"] by (metis sum.exhaust_sel)
  qed
  ultimately show ?thesis using idle by simp
qed

lemma rest_status:
  assumes inv: "sas_inv st m" and cinv: "cancel_inv st m" and rest: "\<nexists>m'. sas_progress A st r0 m m'"
    and x: "st (world (server m)) h = Some x" and open_goal: "\<not> terminal x"
  shows "x = EXECUTING \<and> goal_active (server m) = Some h \<or> x = ACCEPTED \<and> goal_pending (server m) = Some h"
proof -
  note quiet = at_rest [OF inv cinv rest]
  have "h \<in> referenced m" using rest handle_destroyed [of h m st x A r0] x open_goal by blast
  then have slot: "in_slots (server m) h"
    using quiet by (auto simp: referenced_def in_slots_def)
  have "x \<noteq> CANCELING"
  proof
    assume "x = CANCELING"
    then have "cancel_attended st m h"
      using cancel_invD(1) [OF cinv, of h] x by (simp add: cancel_requested_def)
    with slot quiet show False by (simp add: cancel_attended_def)
  qed
  with slot slots_okD [OF sas_invD(1) [OF inv], of h] x show ?thesis by (auto simp: in_slots_def)
qed

end

sublocale goal_handles \<subseteq> live: invariant_system
  "sas_init st E0" "sas_step A st r0 E0" "\<lambda>m. sas_inv st m \<and> cancel_inv st m"
  for r0 E0
  by unfold_locales (auto intro: sas_init_inv sas_step_inv sas_init_cancel_inv sas_step_cancel_inv)

sublocale goal_handles \<subseteq> owner: terminating_system
  "sas_progress A st r0" "\<lambda>m. sas_inv st m \<and> cancel_inv st m" "progress_rank st"
  for r0
  by unfold_locales (auto intro: sas_progress_inv cancel_kept_inv sas_progress_kept sas_progress_rank)

context goal_handles
begin

lemma reach_live:
  "reach (sas_init st E0) (sas_step A st r0 E0) m \<Longrightarrow> sas_inv st m \<and> cancel_inv st m"
  by (rule live.reach_inv)

lemma progress_ends:
  "sas_inv st m \<and> cancel_inv st m \<Longrightarrow>
   \<exists>m'. (sas_progress A st r0)\<^sup>*\<^sup>* m m' \<and> (\<nexists>u. sas_progress A st r0 m' u)"
  by (rule owner.run_ends)

lemma progress_bounded:
  "sas_inv st m \<and> cancel_inv st m \<Longrightarrow> (sas_progress A st r0 ^^ n) m m' \<Longrightarrow> n \<le> progress_rank st m"
  using owner.run_bounded by fastforce

lemma progress_live:
  "(sas_progress A st r0)\<^sup>*\<^sup>* m m' \<Longrightarrow> sas_inv st m \<and> cancel_inv st m \<Longrightarrow> sas_inv st m' \<and> cancel_inv st m'"
  by (rule owner.steps_ok)

lemma progress_attended:
  assumes "(sas_progress A st r0)\<^sup>*\<^sup>* m m'" and "sas_inv st m \<and> cancel_inv st m"
    and "cancel_attended st m h"
  shows "cancel_attended st m' h"
  using assms
proof (induction rule: rtranclp_induct)
  case (step m1 m2)
  have "cancel_kept st m1 m2"
    using sas_progress_kept [OF step(2)] progress_live [OF step(1)] step(4) by blast
  then show ?case using step by (simp add: cancel_kept_def)
qed simp

end

text \<open>C3: The action server serves every request that reached it, however the owner's thread and the
  middleware are scheduled. From every reachable state, their steps alone come to an end after at
  most \<open>progress_rank\<close> of them; and wherever they end, no message is queued, no hook is running and no
  transition is due, every goal whose cancel request the server had accepted is finished, and a goal
  that is not finished is executing in the active slot or deferred in the pending slot.\<close>

theorem requests_conclude:
  assumes api: "goal_handles A st res"
    and run: "reach (sas_init st E0) (sas_step A st r0 E0) m"
  shows "(\<exists>m'. (sas_progress A st r0)\<^sup>*\<^sup>* m m' \<and> (\<nexists>u. sas_progress A st r0 m' u))
    \<and> (\<forall>n m'. (sas_progress A st r0 ^^ n) m m' \<longrightarrow> n \<le> progress_rank st m)
    \<and> (\<forall>m'. (sas_progress A st r0)\<^sup>*\<^sup>* m m' \<and> (\<nexists>u. sas_progress A st r0 m' u) \<longrightarrow>
         messages m' = [] \<and> owner m' = OwnerIdle \<and> canceling m' = []
         \<and> (\<forall>h. cancel_requested st m h \<longrightarrow>
               (\<exists>x. st (world (server m')) h = Some x \<and> terminal x))
         \<and> (\<forall>h x. st (world (server m')) h = Some x \<longrightarrow> terminal x
               \<or> x = EXECUTING \<and> goal_active (server m') = Some h
               \<or> x = ACCEPTED \<and> goal_pending (server m') = Some h))"
proof -
  have inv: "sas_inv st m \<and> cancel_inv st m" by (rule goal_handles.reach_live [OF api run])
  have conclude: "messages m' = [] \<and> owner m' = OwnerIdle \<and> canceling m' = []
         \<and> (\<forall>h. cancel_requested st m h \<longrightarrow>
               (\<exists>x. st (world (server m')) h = Some x \<and> terminal x))
         \<and> (\<forall>h x. st (world (server m')) h = Some x \<longrightarrow> terminal x
               \<or> x = EXECUTING \<and> goal_active (server m') = Some h
               \<or> x = ACCEPTED \<and> goal_pending (server m') = Some h)"
    if steps: "(sas_progress A st r0)\<^sup>*\<^sup>* m m'" and rest: "\<nexists>u. sas_progress A st r0 m' u" for m'
  proof -
    have inv': "sas_inv st m'" "cancel_inv st m'"
      using goal_handles.progress_live [OF api steps inv] by simp_all
    note quiet = goal_handles.at_rest [OF api inv' rest]
    note status = goal_handles.rest_status [OF api inv' rest]
    have "\<exists>x. st (world (server m')) h = Some x \<and> terminal x" if req: "cancel_requested st m h" for h
    proof -
      have "cancel_attended st m' h"
        using goal_handles.progress_attended [OF api steps inv] cancel_invD(1) [OF _ req] inv by blast
      with quiet status [of h] show ?thesis by (auto simp: cancel_attended_def in_slots_def)
    qed
    with quiet status show ?thesis by blast
  qed
  with goal_handles.progress_bounded [OF api inv] goal_handles.progress_ends [OF api inv, of r0]
  show ?thesis by blast
qed

theorem requests_conclude_witness:
  "\<exists>m m' x. demo_run (demo_executing @ [CancelRequest 0]) demo_init = Some m
     \<and> cancel_requested rcl_status m 0 \<and> rcl_status (world (server m)) 0 = Some EXECUTING
     \<and> (sas_progress (rcl_api :: ((nat, nat, int) rcl_goals, nat, nat, int, unit) goal_handle_api)
          rcl_status 0)\<^sup>*\<^sup>* m m'
     \<and> rcl_status (world (server m')) 0 = Some x \<and> terminal x"
proof -
  obtain m where m: "demo_run (demo_executing @ [CancelRequest 0]) demo_init = Some m"
    "rcl_status (world (server m)) 0 = Some EXECUTING" "canceling m = [0]"
    by (simp add: demo_executing_def demo_eval)
  then have "cancel_requested rcl_status m 0" by (simp add: cancel_requested_def)
  with requests_conclude [OF rcl.goal_handles_axioms sas_run_reach [OF demo_init_ok m(1)]] m
  show ?thesis by meson
qed

end
