(* ===== verification/Rtt_Service.thy ===== *)
theory Rtt_Service
  imports Prelude "HOL-Library.AList"
begin

text \<open>
  The part of the Orocos RTT the components rely on, which is not code of this repository: services
  with named sub-services and operations (\<open>RTT::Service\<close>) as a record of functions, a parameter of
  the model, and their documented behaviour as the laws of a locale. The theory ends with service
  trees, one concrete set of operations that satisfies the laws.
\<close>

section \<open>Services\<close>

text \<open>
  \<open>'s\<close> are services, \<open>'n\<close> what a service of type \<open>rtt_ros2_node::Node\<close> carries and \<open>'op\<close> operations.
  \<open>as_node\<close> is the cast to \<open>Node\<close>; \<open>put_service s n c\<close> is \<open>s\<close> with \<open>c\<close> as its sub-service \<open>n\<close>, which
  describes both \<open>addService\<close> of a new name and a change inside the sub-service itself.
\<close>

record ('s, 'n, 'op) rtt_service_api =
  getService :: "'s \<Rightarrow> string \<Rightarrow> 's option"
  getProviderNames :: "'s \<Rightarrow> string list"
  getOperation :: "'s \<Rightarrow> string \<Rightarrow> 'op option"
  as_node :: "'s \<Rightarrow> 'n option"
  node_service :: "'n \<Rightarrow> 's"
  new_service :: "string \<Rightarrow> 's"
  put_service :: "'s \<Rightarrow> string \<Rightarrow> 's \<Rightarrow> 's"
  addOperation :: "'s \<Rightarrow> string \<Rightarrow> 'op \<Rightarrow> 's"

definition hasService :: "('s, 'n, 'op) rtt_service_api \<Rightarrow> 's \<Rightarrow> string \<Rightarrow> bool" where
  "hasService R s n = (getService R s n \<noteq> None)"

text \<open>\<open>provides(n)\<close> returns the sub-service \<open>n\<close> and creates it when there is none.\<close>

definition provides :: "('s, 'n, 'op) rtt_service_api \<Rightarrow> 's \<Rightarrow> string \<Rightarrow> 's" where
  "provides R s n = (case getService R s n of Some c \<Rightarrow> c | None \<Rightarrow> new_service R n)"

text \<open>\<open>addService\<close> refuses a name that is taken.\<close>

definition addService :: "('s, 'n, 'op) rtt_service_api \<Rightarrow> 's \<Rightarrow> string \<Rightarrow> 's \<Rightarrow> bool \<times> 's" where
  "addService R s n c = (if hasService R s n then (False, s) else (True, put_service R s n c))"

text \<open>The name \<open>this\<close> stands for the service itself, so the laws leave it out.\<close>

locale rtt_services =
  fixes R :: "('s, 'n, 'op) rtt_service_api"
  assumes get_put: "n \<noteq> ''this'' \<Longrightarrow> m \<noteq> ''this'' \<Longrightarrow>
      getService R (put_service R s n c) m = (if m = n then Some c else getService R s m)"
    and names_put: "n \<noteq> ''this'' \<Longrightarrow>
      set (getProviderNames R (put_service R s n c)) = insert n (set (getProviderNames R s))"
    and names_get: "n \<in> set (getProviderNames R s) \<Longrightarrow> n \<noteq> ''this'' \<and> getService R s n \<noteq> None"
    and get_names: "n \<noteq> ''this'' \<Longrightarrow> getService R s n \<noteq> None \<Longrightarrow> n \<in> set (getProviderNames R s)"
    and operation_put: "getOperation R (put_service R s n c) m = getOperation R s m"
    and node_put: "as_node R (put_service R s n c) = as_node R s"
    and as_node_service: "as_node R (node_service R x) = Some x"
    and new_empty: "m \<noteq> ''this'' \<Longrightarrow> getService R (new_service R n) m = None"
    and new_node: "as_node R (new_service R n) = None"
    and get_add: "m \<noteq> ''this'' \<Longrightarrow> getService R (addOperation R s n f) m = getService R s m"
    and operation_add: "getOperation R (addOperation R s n f) m =
      (if m = n then Some f else getOperation R s m)"
begin

lemma get_put_same: "n \<noteq> ''this'' \<Longrightarrow> getService R (put_service R s n c) n = Some c"
  by (simp add: get_put)

lemma provides_put: "n \<noteq> ''this'' \<Longrightarrow> provides R (put_service R s n c) n = c"
  by (simp add: provides_def get_put)

lemma addService_has: "n \<noteq> ''this'' \<Longrightarrow> hasService R (snd (addService R s n c)) n"
  by (simp add: addService_def hasService_def get_put)

lemma addService_first_wins:
  "n \<noteq> ''this'' \<Longrightarrow> fst (addService R (snd (addService R s n c)) n d) = False"
  by (simp add: addService_def hasService_def get_put)

end

section \<open>Service trees\<close>

datatype ('n, 'op) svc_tree =
  SvcTree (tree_node: "'n option") (tree_ops: "(string \<times> 'op) list")
    (tree_subs: "(string \<times> ('n, 'op) svc_tree) list")

definition tree_get :: "('n, 'op) svc_tree \<Rightarrow> string \<Rightarrow> ('n, 'op) svc_tree option" where
  "tree_get t n = (if n = ''this'' then Some t else map_of (tree_subs t) n)"

definition tree_api :: "(('n, 'op) svc_tree, 'n, 'op) rtt_service_api" where
  "tree_api =
     \<lparr>getService = tree_get,
      getProviderNames = (\<lambda>t. filter (\<lambda>n. n \<noteq> ''this'') (map fst (tree_subs t))),
      getOperation = (\<lambda>t. map_of (tree_ops t)),
      as_node = tree_node,
      node_service = (\<lambda>x. SvcTree (Some x) [] []),
      new_service = (\<lambda>n. SvcTree None [] []),
      put_service = (\<lambda>t n c. SvcTree (tree_node t) (tree_ops t) (AList.update n c (tree_subs t))),
      addOperation = (\<lambda>t n f. SvcTree (tree_node t) (AList.update n f (tree_ops t)) (tree_subs t))\<rparr>"

interpretation trees: rtt_services tree_api
proof (unfold_locales, goal_cases)
  case (3 n s)
  then show ?case by (auto simp: tree_api_def tree_get_def weak_map_of_SomeI)
next
  case (4 n s)
  then show ?case
    by (auto simp: tree_api_def tree_get_def image_iff dest!: map_of_SomeD) force
qed (auto simp: tree_api_def tree_get_def update_conv' update_keys)

end
