(* ===== verification/Import.thy ===== *)
theory Import
  imports Rtt_Service "HOL-Library.Multiset"
begin

text \<open>
  The package \<open>rtt_ros2\<close>: finding a ROS package and importing its Orocos plugins together with those
  of its plugin dependencies (\<open>rtt_ros2.cpp\<close>), and the plugin that offers both as operations
  (\<open>rtt_ros2_service.cpp\<close>). The worklist of \<open>import\<close> keeps no set of visited packages, so the loop is a
  \<open>partial_function\<close> whose value \<open>None\<close> is a loop that never ends.
\<close>

section \<open>The environment\<close>

text \<open>
  The third-party calls: the ament index (\<open>get_resource\<close> for the resource type
  \<open>rtt_ros2_plugin_depends\<close> returns its content and the prefix path if there is one, and throws for an
  empty name; the other two throw \<open>PackageNotFoundError\<close>, here \<open>None\<close>), the file system, and the texts that
  the query for \<open>plugin_depend\<close> selects in a \<open>package.xml\<close>, \<open>None\<close> when the query has no result because the
  file is not well-formed.
\<close>

record package_env =
  get_resource :: "string \<Rightarrow> (string \<times> string) option result"
  get_package_share_directory :: "string \<Rightarrow> string option"
  get_package_prefix :: "string \<Rightarrow> string option"
  path_append :: "string \<Rightarrow> string \<Rightarrow> string"
  is_regular_file :: "string \<Rightarrow> bool"
  xml_plugin_depends :: "string \<Rightarrow> string list option"

text \<open>\<open>RTT::ComponentLoader\<close>: \<open>import\<close> returns whether it succeeded.\<close>

record 'l loader_api =
  getComponentPath :: "'l \<Rightarrow> string"
  isImported :: "'l \<Rightarrow> string \<Rightarrow> bool"
  loader_import :: "'l \<Rightarrow> string \<Rightarrow> string \<Rightarrow> bool \<times> 'l"

section \<open>The code\<close>

definition find :: "package_env \<Rightarrow> string \<Rightarrow> string" where
  "find E package =
     (case get_package_share_directory E package of
        Some d \<Rightarrow> d
      | None \<Rightarrow> [])"

record import_state =
  missing_packages :: "string set"
  deps_to_import :: "string list"
  search_paths :: "string list"

definition orocos_path :: "package_env \<Rightarrow> string \<Rightarrow> string" where
  "orocos_path E prefix = path_append E (path_append E prefix ''lib'') ''orocos''"

text \<open>
  One round of the loop: what happens to the package at the head of the queue, and the names pushed
  onto the queue. \<open>get_package_prefix\<close> is called outside the \<open>try\<close> block, and the result of the query is
  used without a check.
\<close>

definition import_visit ::
  "package_env \<Rightarrow> string \<Rightarrow> import_state \<Rightarrow> (string list \<times> import_state) result" where
  "import_visit E dep_name st =
     (case get_resource E dep_name of
        Inl e \<Rightarrow> Inl e
      | Inr (Some (plugin_depends, prefix_path)) \<Rightarrow>
          Inr (getline_all (CHR '';'') plugin_depends,
            st\<lparr>deps_to_import := deps_to_import st @ [dep_name],
               search_paths := search_paths st @ [orocos_path E prefix_path]\<rparr>)
      | Inr None \<Rightarrow>
          (case get_package_share_directory E dep_name of
             None \<Rightarrow> Inr ([], st\<lparr>missing_packages := insert dep_name (missing_packages st)\<rparr>)
           | Some dir \<Rightarrow>
               let package_xml_path = path_append E dir ''package.xml''
               in if \<not> is_regular_file E package_xml_path
                  then Inr ([], st\<lparr>missing_packages := insert dep_name (missing_packages st)\<rparr>)
                  else case get_package_prefix E dep_name of
                         None \<Rightarrow> Inl (PackageNotFoundError dep_name)
                       | Some prefix \<Rightarrow>
                           (case xml_plugin_depends E package_xml_path of
                              None \<Rightarrow> Inl (NullDereference ''xpath_obj'')
                            | Some plugin_depends \<Rightarrow>
                                Inr (plugin_depends,
                                  st\<lparr>deps_to_import := deps_to_import st @ [dep_name],
                                     search_paths := search_paths st @ [orocos_path E prefix]\<rparr>))))"

partial_function (option) import_loop ::
  "package_env \<Rightarrow> string list \<Rightarrow> import_state \<Rightarrow> import_state result option" where
  "import_loop E dep_names st =
     (case dep_names of
        [] \<Rightarrow> Some (Inr st)
      | dep_name # rest \<Rightarrow>
          (case import_visit E dep_name st of
             Inl e \<Rightarrow> Some (Inl e)
           | Inr (pushed, st') \<Rightarrow> import_loop E (rest @ pushed) st'))"

text \<open>The path list: prepend the search paths in reverse order, each once.\<close>

fun build_path_list :: "string list \<Rightarrow> string set \<Rightarrow> string \<Rightarrow> string" where
  "build_path_list [] seen path_list = path_list"
| "build_path_list (p # ps) seen path_list =
     (if p \<in> seen then build_path_list ps seen path_list
      else build_path_list ps (insert p seen) (p @ '':'' @ path_list))"

fun import_each :: "'l loader_api \<Rightarrow> string \<Rightarrow> string list \<Rightarrow> string set \<Rightarrow> 'l \<Rightarrow> string set \<times> 'l" where
  "import_each L path_list [] missing l = (missing, l)"
| "import_each L path_list (p # ps) missing l =
     (if p = ''rtt_ros2'' \<or> isImported L l p then import_each L path_list ps missing l
      else case loader_import L l p path_list of
             (True, l') \<Rightarrow> import_each L path_list ps missing l'
           | (False, l') \<Rightarrow> import_each L path_list ps (insert p missing) l')"

definition import_empty :: import_state where
  "import_empty = \<lparr>missing_packages = {}, deps_to_import = [], search_paths = []\<rparr>"

definition import ::
  "package_env \<Rightarrow> 'l loader_api \<Rightarrow> string \<Rightarrow> 'l \<Rightarrow> (bool \<times> 'l) result option" where
  "import E L package l =
     (case import_loop E [package] import_empty of
        None \<Rightarrow> None
      | Some (Inl e) \<Rightarrow> Some (Inl e)
      | Some (Inr st) \<Rightarrow>
          let (missing, l') =
            (if deps_to_import st = [] then (missing_packages st, l)
             else import_each L (build_path_list (rev (search_paths st)) {} (getComponentPath L l))
                    (rev (deps_to_import st)) (missing_packages st) l)
          in Some (Inr (missing = {}, l')))"

datatype ros_operation = OpFind | OpImport

definition loadROSService :: "('s, 'n, 'op) rtt_service_api \<Rightarrow> (ros_operation \<Rightarrow> 'op) \<Rightarrow> 's \<Rightarrow> 's" where
  "loadROSService R op global =
     (let ros = provides R global ''ros'';
          ros = addOperation R ros ''find'' (op OpFind);
          ros = addOperation R ros ''import'' (op OpImport)
      in put_service R global ''ros'' ros)"

definition ros_loadRTTPlugin ::
  "('s, 'n, 'op) rtt_service_api \<Rightarrow> (ros_operation \<Rightarrow> 'op) \<Rightarrow> 'tc option \<Rightarrow> 's \<Rightarrow> bool \<times> 's" where
  "ros_loadRTTPlugin R op tc global =
     (if tc \<noteq> None then (False, global) else (True, loadROSService R op global))"

definition ros_getRTTPluginName :: string where
  "ros_getRTTPluginName = ''ros2''"

section \<open>What the loop computes\<close>

text \<open>The packages that are found, and the names their visit pushes.\<close>

definition has_manifest :: "package_env \<Rightarrow> string \<Rightarrow> string \<Rightarrow> bool" where
  "has_manifest E p dir \<longleftrightarrow>
     get_package_share_directory E p = Some dir \<and> is_regular_file E (path_append E dir ''package.xml'')"

definition found :: "package_env \<Rightarrow> string \<Rightarrow> bool" where
  "found E p \<longleftrightarrow> (\<exists>r. get_resource E p = Inr (Some r)) \<or> (\<exists>dir. has_manifest E p dir)"

definition plugin_deps :: "package_env \<Rightarrow> string \<Rightarrow> string list" where
  "plugin_deps E p =
     (case get_resource E p of
        Inl e \<Rightarrow> []
      | Inr (Some (plugin_depends, _)) \<Rightarrow> getline_all (CHR '';'') plugin_depends
      | Inr None \<Rightarrow>
          (case get_package_share_directory E p of
             Some dir \<Rightarrow>
               if is_regular_file E (path_append E dir ''package.xml'')
               then (case xml_plugin_depends E (path_append E dir ''package.xml'') of None \<Rightarrow> [] | Some ps \<Rightarrow> ps) else []
           | None \<Rightarrow> []))"

text \<open>The package and everything it depends on, directly or through other packages.\<close>

definition depends :: "package_env \<Rightarrow> (string \<times> string) set" where
  "depends E = {(d, p). d \<in> set (plugin_deps E p)}"

definition requires :: "package_env \<Rightarrow> string \<Rightarrow> string set" where
  "requires E package = {p. (p, package) \<in> (depends E)\<^sup>*}"

lemma plugin_deps_required:
  "p \<in> requires E package \<Longrightarrow> e \<in> set (plugin_deps E p) \<Longrightarrow> e \<in> requires E package"
  unfolding requires_def depends_def by (auto intro: converse_rtrancl_into_rtrancl)

lemma requires_self [simp]: "package \<in> requires E package"
  by (simp add: requires_def)

text \<open>
  An index that answers for every package needed: the name is one it accepts, the prefix of a package
  with a share directory is known, and the manifests are well-formed.
\<close>

definition package_ok :: "package_env \<Rightarrow> string \<Rightarrow> bool" where
  "package_ok E p \<longleftrightarrow>
     (\<exists>r. get_resource E p = Inr r \<and> (r = None \<longrightarrow> (\<forall>dir. has_manifest E p dir \<longrightarrow>
        get_package_prefix E p \<noteq> None \<and> xml_plugin_depends E (path_append E dir ''package.xml'') \<noteq> None)))"

definition index_ok :: "package_env \<Rightarrow> string \<Rightarrow> bool" where
  "index_ok E package = (\<forall>p \<in> requires E package. package_ok E p)"

lemma import_visit_cases:
  assumes "package_ok E p"
  obtains (missing) "\<not> found E p" "plugin_deps E p = []"
      "import_visit E p st = Inr ([], st\<lparr>missing_packages := insert p (missing_packages st)\<rparr>)"
    | (found) path where "found E p" "import_visit E p st = Inr (plugin_deps E p,
        st\<lparr>deps_to_import := deps_to_import st @ [p], search_paths := search_paths st @ [path]\<rparr>)"
proof -
  obtain r where r: "get_resource E p = Inr r" "r = None \<Longrightarrow> has_manifest E p dir \<Longrightarrow>
      get_package_prefix E p \<noteq> None \<and> xml_plugin_depends E (path_append E dir ''package.xml'') \<noteq> None" for dir
    using assms by (auto simp: package_ok_def)
  show ?thesis
  proof (cases r)
    case (Some x)
    with r(1) show ?thesis
      by (cases x, intro found) (auto simp: import_visit_def plugin_deps_def found_def)
  next
    case none: None
    show ?thesis
    proof (cases "\<exists>dir. has_manifest E p dir")
      case True
      then obtain dir where dir: "has_manifest E p dir" by blast
      then obtain pre ps where "get_package_prefix E p = Some pre"
        "xml_plugin_depends E (path_append E dir ''package.xml'') = Some ps"
        using r(2) [OF none, of dir] by auto
      with none r(1) dir show ?thesis
        by (intro found) (auto simp: import_visit_def plugin_deps_def found_def has_manifest_def)
    next
      case False
      with none r(1) show ?thesis
        by (intro missing) (auto simp: import_visit_def plugin_deps_def found_def has_manifest_def
            split: option.splits)
    qed
  qed
qed

lemma import_visit_pushes:
  assumes "package_ok E p"
  obtains st' where "import_visit E p st = Inr (plugin_deps E p, st')"
  using assms by (cases rule: import_visit_cases [of E p st]) auto

lemma import_loop_Nil: "import_loop E [] st = Some (Inr st)"
  by (simp add: import_loop.simps)

lemma import_loop_Cons:
  "import_visit E p st = Inr (ps, st') \<Longrightarrow> import_loop E (p # q) st = import_loop E (q @ ps) st'"
  by (subst import_loop.simps) simp

subsection \<open>It ends when the dependencies are well-founded, and only then\<close>

text \<open>
  The packages below which there is no endless chain of dependencies are the accessible part of
  \<open>depends\<close>.
\<close>

lemma requires_wf:
  assumes "package \<in> Wellfounded.acc (depends E)"
  shows "wf {(d, p). (d, p) \<in> depends E \<and> p \<in> requires E package}" (is "wf ?R")
proof -
  have "p \<in> Wellfounded.acc ?R" for p
  proof (cases "p \<in> requires E package")
    case True
    then have "p \<in> Wellfounded.acc (depends E)"
      using assms acc_downwards unfolding requires_def by fast
    then show ?thesis using acc_subset [of ?R "depends E"] by auto
  next
    case False
    then show ?thesis using accI [of p ?R] by auto
  qed
  then show ?thesis by (simp add: wf_iff_acc)
qed

lemma import_loop_returns:
  assumes ok: "index_ok E package" and acc: "package \<in> Wellfounded.acc (depends E)"
    and "set q \<subseteq> requires E package"
  shows "\<exists>st'. import_loop E q st = Some (Inr st')"
  using assms(3)
proof (induction "mset q" arbitrary: q st rule: wf_induct_rule [OF wf_mult1 [OF requires_wf [OF acc]]])
  case (1 q)
  show ?case
  proof (cases q)
    case Nil
    then show ?thesis by (simp add: import_loop_Nil)
  next
    case (Cons p r)
    with 1(2) have p: "p \<in> requires E package" by simp
    with ok have "package_ok E p" by (simp add: index_ok_def)
    then obtain st' where v: "import_visit E p st = Inr (plugin_deps E p, st')"
      by (rule import_visit_pushes)
    have "(mset (r @ plugin_deps E p), mset q)
        \<in> mult1 {(d, p). (d, p) \<in> depends E \<and> p \<in> requires E package}"
      unfolding Cons by (rule mult1I [of _ p "mset r" _ "mset (plugin_deps E p)"])
        (use p in \<open>auto simp: depends_def\<close>)
    moreover have "set (r @ plugin_deps E p) \<subseteq> requires E package"
      using 1(2) Cons p plugin_deps_required by auto
    ultimately obtain st'' where "import_loop E (r @ plugin_deps E p) st' = Some (Inr st'')"
      using 1(1) by blast
    then show ?thesis by (simp add: Cons import_loop_Cons [OF v])
  qed
qed

text \<open>A set of packages each of which depends on one of the set keeps the loop going for ever.\<close>

lemma import_loop_Some_avoids:
  assumes ok: "index_ok E package" and C: "\<And>p. p \<in> C \<Longrightarrow> set (plugin_deps E p) \<inter> C \<noteq> {}"
    and "import_loop E q st = Some r" and "set q \<subseteq> requires E package"
  shows "set q \<inter> C = {}"
proof -
  have "E = E \<longrightarrow> set q \<subseteq> requires E package \<longrightarrow> set q \<inter> C = {}"
  proof (rule import_loop.raw_induct [where P = "\<lambda>E' q st r. E' = E \<longrightarrow> set q \<subseteq> requires E package \<longrightarrow> set q \<inter> C = {}",
        OF _ assms(3)], intro impI)
    fix loop E' q st r
    assume IH: "\<And>E' q st r. loop E' q st = Some r \<Longrightarrow>
        E' = E \<longrightarrow> set q \<subseteq> requires E package \<longrightarrow> set q \<inter> C = {}"
      and body: "(case q of [] \<Rightarrow> Some (Inr st)
        | p # rest \<Rightarrow> (case import_visit E' p st of Inl e \<Rightarrow> Some (Inl e)
            | Inr (pushed, st') \<Rightarrow> loop E' (rest @ pushed) st')) = Some r"
      and E': "E' = E" and q: "set q \<subseteq> requires E package"
    show "set q \<inter> C = {}"
    proof (cases q)
      case (Cons p rest)
      with q ok have p: "p \<in> requires E package" "package_ok E p" by (auto simp: index_ok_def)
      obtain st' where v: "import_visit E p st = Inr (plugin_deps E p, st')"
        using import_visit_pushes [OF p(2)] .
      with body Cons E' have "loop E (rest @ plugin_deps E p) st' = Some r" by simp
      moreover have "set (rest @ plugin_deps E p) \<subseteq> requires E package"
        using q Cons p(1) plugin_deps_required by auto
      ultimately have "set (rest @ plugin_deps E p) \<inter> C = {}" using IH by blast
      with C [of p] Cons show ?thesis by auto
    qed simp
  qed
  with assms(4) show ?thesis by simp
qed

text \<open>The packages that are not accessible are such a set.\<close>

lemma import_loop_returns_iff:
  assumes ok: "index_ok E package"
  shows "import_loop E [package] st = None \<longleftrightarrow> package \<notin> Wellfounded.acc (depends E)"
proof -
  have "set (plugin_deps E p) \<inter> - Wellfounded.acc (depends E) \<noteq> {}"
    if "p \<in> - Wellfounded.acc (depends E)" for p
    using that accI [of p "depends E"] by (auto simp: depends_def)
  then have "import_loop E [package] st = Some r \<Longrightarrow> package \<in> Wellfounded.acc (depends E)" for r
    using import_loop_Some_avoids [OF ok, of "- Wellfounded.acc (depends E)" "[package]" st r] by simp
  then show ?thesis
    using import_loop_returns [OF ok, of "[package]" st] by (cases "import_loop E [package] st") auto
qed

subsection \<open>What it has collected when it ends\<close>

lemma import_loop_invariant:
  assumes step: "\<And>p q st ps st'. I (p # q) st \<Longrightarrow> import_visit E p st = Inr (ps, st') \<Longrightarrow> I (q @ ps) st'"
    and I: "I q st" and res: "import_loop E q st = Some (Inr st')"
  shows "I [] st'"
proof -
  have "E = E \<longrightarrow> Inr st' = (Inr st' :: import_state result) \<longrightarrow> I q st \<longrightarrow> I [] st'"
  proof (rule import_loop.raw_induct [where P = "\<lambda>E' q st r. E' = E \<longrightarrow> r = Inr st' \<longrightarrow> I q st \<longrightarrow> I [] st'",
        OF _ res], intro impI)
    fix loop E' q st and r :: "import_state result"
    assume IH: "\<And>E' q st r. loop E' q st = Some r \<Longrightarrow> E' = E \<longrightarrow> r = Inr st' \<longrightarrow> I q st \<longrightarrow> I [] st'"
      and body: "(case q of [] \<Rightarrow> Some (Inr st)
        | p # rest \<Rightarrow> (case import_visit E' p st of Inl e \<Rightarrow> Some (Inl e)
            | Inr (pushed, st') \<Rightarrow> loop E' (rest @ pushed) st')) = Some r"
      and E': "E' = E" and r: "r = Inr st'" and Iq: "I q st"
    show "I [] st'"
    proof (cases q)
      case Nil
      with body r Iq show ?thesis by simp
    next
      case (Cons p rest)
      with body r obtain ps st1 where v: "import_visit E p st = Inr (ps, st1)"
        by (auto simp: E' split: sum.splits)
      with body Cons E' r have "loop E (rest @ ps) st1 = Some (Inr st')" by simp
      with IH step [OF Iq [unfolded Cons] v] show ?thesis by blast
    qed
  qed
  with I show ?thesis by simp
qed

definition visited :: "import_state \<Rightarrow> string set" where
  "visited st = set (deps_to_import st) \<union> missing_packages st"

definition collected :: "package_env \<Rightarrow> string \<Rightarrow> string list \<Rightarrow> import_state \<Rightarrow> bool" where
  "collected E package q st \<longleftrightarrow>
     package \<in> visited st \<union> set q \<and> visited st \<union> set q \<subseteq> requires E package
     \<and> (\<forall>p \<in> visited st. set (plugin_deps E p) \<subseteq> visited st \<union> set q)
     \<and> (\<forall>p \<in> set (deps_to_import st). found E p) \<and> (\<forall>p \<in> missing_packages st. \<not> found E p)"

definition dependencies_later :: "package_env \<Rightarrow> string list \<Rightarrow> import_state \<Rightarrow> bool" where
  "dependencies_later E q st \<longleftrightarrow>
     (\<forall>ys d zs. deps_to_import st = ys @ d # zs \<longrightarrow>
        (\<forall>e \<in> set (plugin_deps E d). found E e \<longrightarrow> e \<in> set zs \<union> set q))"

lemma collected_ok: "index_ok E package \<Longrightarrow> collected E package (p # q) st \<Longrightarrow> package_ok E p"
  by (auto simp: index_ok_def collected_def)

lemma import_visit_collected:
  assumes ok: "index_ok E package" and c: "collected E package (p # q) st"
    and v: "import_visit E p st = Inr (ps, st')"
  shows "collected E package (q @ ps) st'"
  using collected_ok [OF ok c]
proof (cases rule: import_visit_cases [of E p st])
  case missing
  with v have "ps = []" "visited st' = insert p (visited st)"
    "st' = st\<lparr>missing_packages := insert p (missing_packages st)\<rparr>"
    by (auto simp: visited_def)
  with c missing show ?thesis by (auto simp: collected_def)
next
  case (found path)
  with v have st': "ps = plugin_deps E p" "visited st' = insert p (visited st)"
    "deps_to_import st' = deps_to_import st @ [p]" "missing_packages st' = missing_packages st"
    by (auto simp: visited_def)
  have "set (plugin_deps E p) \<subseteq> requires E package"
    using c plugin_deps_required by (auto simp: collected_def)
  with c found(1) show ?thesis
    unfolding collected_def st' by auto
qed

lemma import_visit_order:
  assumes ok: "package_ok E p" and c: "dependencies_later E (p # q) st"
    and v: "import_visit E p st = Inr (ps, st')"
  shows "dependencies_later E (q @ ps) st'"
  using ok
proof (cases rule: import_visit_cases [of E p st])
  case missing
  with v have st': "ps = []" "deps_to_import st' = deps_to_import st" by auto
  show ?thesis
    unfolding dependencies_later_def st'
  proof (intro allI impI ballI)
    fix ys d zs e
    assume "deps_to_import st = ys @ d # zs" "e \<in> set (plugin_deps E d)" "found E e"
    moreover from this c have "e \<in> set zs \<union> set (p # q)"
      unfolding dependencies_later_def by blast
    ultimately show "e \<in> set zs \<union> set (q @ [])" using missing(1) by auto
  qed
next
  case (found path)
  with v have st': "ps = plugin_deps E p" "deps_to_import st' = deps_to_import st @ [p]"
    by auto
  show ?thesis
    unfolding dependencies_later_def st'
  proof (intro allI impI ballI)
    fix ys d zs e
    assume eq: "deps_to_import st @ [p] = ys @ d # zs" and e: "e \<in> set (plugin_deps E d)" "found E e"
    show "e \<in> set zs \<union> set (q @ plugin_deps E p)"
    proof (cases zs rule: rev_cases)
      case Nil
      with eq e show ?thesis by simp
    next
      case (snoc zs' z)
      with eq have "deps_to_import st = ys @ d # zs'" "z = p"
        by (metis append.assoc append_Cons butlast_snoc, metis append.assoc append_Cons last_snoc)
      with c e show ?thesis by (auto simp: dependencies_later_def snoc)
    qed
  qed
qed

lemma import_loop_collects:
  assumes ok: "index_ok E package" and res: "import_loop E [package] import_empty = Some (Inr st)"
  shows "set (deps_to_import st) = {p \<in> requires E package. found E p}"
    and "missing_packages st = {p \<in> requires E package. \<not> found E p}"
proof -
  have "collected E package [package] import_empty"
    by (simp add: collected_def visited_def import_empty_def)
  with import_loop_invariant [where I = "collected E package", OF _ _ res]
    import_visit_collected [OF ok]
  have c: "collected E package [] st" by blast
  have "requires E package \<subseteq> visited st"
  proof
    fix p assume "p \<in> requires E package"
    then have "(p, package) \<in> (depends E)\<^sup>*" by (simp add: requires_def)
    then show "p \<in> visited st"
      by (induction rule: converse_rtrancl_induct) (use c in \<open>auto simp: collected_def depends_def\<close>)
  qed
  with c show "set (deps_to_import st) = {p \<in> requires E package. found E p}"
    and "missing_packages st = {p \<in> requires E package. \<not> found E p}"
    by (auto simp: collected_def visited_def)
qed

lemma import_loop_orders:
  assumes ok: "index_ok E package" and res: "import_loop E [package] import_empty = Some (Inr st)"
    and "rev (deps_to_import st) = ys @ d # zs" "e \<in> set (plugin_deps E d)" "found E e"
  shows "e \<in> set ys"
proof -
  let ?I = "\<lambda>q st. collected E package q st \<and> dependencies_later E q st"
  have "?I [package] import_empty"
    by (simp add: dependencies_later_def import_empty_def collected_def visited_def)
  with import_loop_invariant [where I = ?I, OF _ _ res]
    import_visit_order [OF collected_ok [OF ok]] import_visit_collected [OF ok]
  have "dependencies_later E [] st" by blast
  moreover have "deps_to_import st = rev zs @ d # rev ys"
    using assms(3) by (metis append.assoc append_Cons append_Nil rev.simps(2) rev_append rev_swap)
  ultimately show ?thesis using assms(4,5) by (fastforce simp: dependencies_later_def)
qed

subsection \<open>The path list\<close>

lemma build_path_list_eq:
  "build_path_list (rev ps) seen path =
     concat (map (\<lambda>p. p @ '':'') (remdups (filter (\<lambda>p. p \<notin> seen) ps))) @ path"
proof (induction ps arbitrary: seen path rule: rev_induct)
  case (snoc p ps)
  have "filter (\<lambda>q. q \<notin> insert p seen) ps = filter (\<lambda>q. q \<noteq> p) (filter (\<lambda>q. q \<notin> seen) ps)"
    by (induction ps) auto
  moreover have "remdups (xs @ [p]) = remdups (filter (\<lambda>q. q \<noteq> p) xs) @ [p]" for xs
    by (induction xs) auto
  ultimately show ?case using snoc by simp
qed simp

section \<open>The loader\<close>

text \<open>
  What \<open>import\<close> relies on: a package whose import succeeded is imported, and imported packages stay
  so.
\<close>

locale component_loader =
  fixes L :: "'l loader_api"
  assumes import_ok: "loader_import L l p path = (True, l') \<Longrightarrow> isImported L l' p"
    and import_keeps: "loader_import L l p path = (b, l') \<Longrightarrow> isImported L l q \<Longrightarrow> isImported L l' q"
begin

lemma import_each_Cons:
  assumes "import_each L path (p # ps) missing l = (missing', l')"
  obtains (skipped) "p = ''rtt_ros2'' \<or> isImported L l p" "import_each L path ps missing l = (missing', l')"
    | (imported) l1 where "loader_import L l p path = (True, l1)" "import_each L path ps missing l1 = (missing', l')"
    | (failed) l1 where "p \<noteq> ''rtt_ros2''" "loader_import L l p path = (False, l1)"
        "import_each L path ps (insert p missing) l1 = (missing', l')"
proof (cases "p = ''rtt_ros2'' \<or> isImported L l p")
  case True
  with assms show ?thesis by (intro skipped) auto
next
  case False
  obtain b l1 where "loader_import L l p path = (b, l1)" by fastforce
  with False assms show ?thesis
    by (cases b) (auto intro: imported failed)
qed

lemma import_each_keeps:
  "import_each L path ps missing l = (missing', l') \<Longrightarrow> isImported L l q \<Longrightarrow> isImported L l' q"
proof (induction ps arbitrary: missing l)
  case (Cons p ps)
  from Cons.prems(1) show ?case
    by (cases rule: import_each_Cons) (use Cons import_keeps in blast)+
qed simp

lemma import_each_missing:
  "import_each L path ps missing l = (missing', l') \<Longrightarrow> missing \<subseteq> missing'"
proof (induction ps arbitrary: missing l)
  case (Cons p ps)
  from Cons.prems show ?case
    by (cases rule: import_each_Cons) (use Cons.IH in blast)+
qed simp

lemma import_each_all:
  "import_each L path ps missing l = ({}, l') \<Longrightarrow> p \<in> set ps \<Longrightarrow> p \<noteq> ''rtt_ros2'' \<Longrightarrow>
    isImported L l' p"
proof (induction ps arbitrary: missing l)
  case (Cons q ps)
  from Cons.prems(1) show ?case
  proof (cases rule: import_each_Cons)
    case skipped
    with Cons import_each_keeps show ?thesis by auto
  next
    case (imported l1)
    with Cons import_each_keeps import_ok show ?thesis by auto
  next
    case (failed l1)
    with import_each_missing show ?thesis by blast
  qed
qed simp

text \<open>A package reported missing was missing before or its import failed.\<close>

lemma import_each_blames:
  "import_each L path ps missing l = (missing', l') \<Longrightarrow> p \<in> missing' \<Longrightarrow>
    p \<in> missing \<or> p \<in> set ps \<and> (\<exists>l1 l2. loader_import L l1 p path = (False, l2))"
proof (induction ps arbitrary: missing l)
  case (Cons q ps)
  from Cons.prems(1) show ?case
  proof (cases rule: import_each_Cons)
    case skipped
    with Cons.IH Cons.prems(2) show ?thesis by auto
  next
    case (imported l1)
    with Cons.IH Cons.prems(2) show ?thesis by auto
  next
    case (failed l1)
    with Cons.IH [OF failed(3) Cons.prems(2)] show ?thesis by auto
  qed
qed simp

text \<open>
  When every import that finds its dependencies imported succeeds, a list in which they come first
  is imported as a whole.
\<close>

lemma import_each_in_order:
  assumes can: "\<forall>l. \<forall>p \<in> S. \<forall>path.
      (\<forall>e \<in> set (deps p). e = ''rtt_ros2'' \<or> isImported L l e) \<longrightarrow> fst (loader_import L l p path)"
    and first: "\<forall>us d vs. ys @ ps = us @ d # vs \<longrightarrow> set (deps d) \<subseteq> set us"
    and S: "set ps \<subseteq> S" and ready: "\<forall>p \<in> set ys. p = ''rtt_ros2'' \<or> isImported L l p"
    and run: "import_each L path ps missing l = (missing', l')"
  shows "missing' = missing"
  using first S ready run
proof (induction ps arbitrary: ys l)
  case (Cons p ps)
  have deps: "\<forall>e \<in> set (deps p). e = ''rtt_ros2'' \<or> isImported L l e"
    using Cons.prems(1,3) by blast
  have order: "\<forall>us d vs. (ys @ [p]) @ ps = us @ d # vs \<longrightarrow> set (deps d) \<subseteq> set us"
    using Cons.prems(1) by simp
  from Cons.prems(4) show ?case
  proof (cases rule: import_each_Cons)
    case skipped
    with Cons.prems(3) have "\<forall>q \<in> set (ys @ [p]). q = ''rtt_ros2'' \<or> isImported L l q" by auto
    with Cons.IH [OF order _ _ skipped(2)] Cons.prems(2) show ?thesis by simp
  next
    case (imported l1)
    then have "\<forall>q \<in> set (ys @ [p]). q = ''rtt_ros2'' \<or> isImported L l1 q"
      using Cons.prems(3) import_ok import_keeps by auto
    with Cons.IH [OF order _ _ imported(2)] Cons.prems(2) show ?thesis by simp
  next
    case (failed l1)
    with can deps Cons.prems(2) show ?thesis by (metis fst_conv list.set_intros(1) subsetD)
  qed
qed simp

end

section \<open>Properties\<close>

lemma import_of_loop:
  assumes ok: "index_ok E package" and acc: "package \<in> Wellfounded.acc (depends E)"
  obtains st missing l' where "import_loop E [package] import_empty = Some (Inr st)"
    "import_each L (build_path_list (rev (search_paths st)) {} (getComponentPath L l))
       (rev (deps_to_import st)) (missing_packages st) l = (missing, l')"
    "import E L package l = Some (Inr (missing = {}, l'))"
proof -
  obtain st where st: "import_loop E [package] import_empty = Some (Inr st)"
    using import_loop_returns [OF ok acc, of "[package]"] by auto
  obtain missing l' where "import_each L (build_path_list (rev (search_paths st)) {} (getComponentPath L l))
      (rev (deps_to_import st)) (missing_packages st) l = (missing, l')" by fastforce
  with st show ?thesis
    by (intro that [of st missing l']) (auto simp: import_def)
qed

lemma import_none_iff: "import E L package l = None \<longleftrightarrow> import_loop E [package] import_empty = None"
  by (auto simp: import_def Let_def split: option.splits sum.splits prod.splits)



text \<open>A package that depends on itself through its plugin dependencies, or on one that does, makes
  \<open>import\<close> loop for ever: the worklist has no set of packages it has seen.\<close>

lemma import_loops_on_cycle:
  assumes ok: "index_ok E package" and "package \<in> C"
    and "\<And>p. p \<in> C \<Longrightarrow> set (plugin_deps E p) \<inter> C \<noteq> {}"
  shows "import E L package l = None"
  using import_loop_Some_avoids [OF ok, of C "[package]" import_empty] assms(2,3)
  by (cases "import_loop E [package] import_empty") (auto simp: import_none_iff)

text \<open>A name the index refuses, such as the empty one, and a manifest that is not well-formed make \<open>import\<close>
  throw at the first package that has one, before anything is imported.\<close>

lemma import_throws:
  "get_resource E package = Inl e \<Longrightarrow> import E L package l = Some (Inl e)"
  "get_resource E package = Inr None \<Longrightarrow> has_manifest E package dir \<Longrightarrow> get_package_prefix E package = Some pre \<Longrightarrow>
   xml_plugin_depends E (path_append E dir ''package.xml'') = None \<Longrightarrow>
   import E L package l = Some (Inl (NullDereference ''xpath_obj''))"
  by (simp_all add: import_def import_loop.simps import_visit_def has_manifest_def)

text \<open>The path list of the import is every search path once, the package's own first and its
  dependencies' after it, before the component path the loader already had.\<close>

lemma import_path_list:
  "build_path_list (rev ps) {} path = concat (map (\<lambda>p. p @ '':'') (remdups ps)) @ path
    \<and> distinct (remdups ps) \<and> set (remdups ps) = set ps"
  using build_path_list_eq [of ps "{}" path] by simp

section \<open>A concrete environment\<close>

text \<open>
  A loader that keeps the list of the imported packages and imports what \<open>ok\<close> allows, and an index
  given by a table of packages and their plugin dependencies.
\<close>

definition list_loader :: "(string list \<Rightarrow> string \<Rightarrow> bool) \<Rightarrow> string list loader_api" where
  "list_loader ok =
     \<lparr>getComponentPath = (\<lambda>l. ''/opt''), isImported = (\<lambda>l p. p \<in> set l),
      loader_import = (\<lambda>l p path. if ok l p then (True, p # l) else (False, l))\<rparr>"

interpretation list_loader: component_loader "list_loader ok" for ok
  by unfold_locales (auto simp: list_loader_def split: if_splits)

definition table_env :: "(string \<times> string) list \<Rightarrow> package_env" where
  "table_env t =
     \<lparr>get_resource = (\<lambda>p. if p = [] then Inl (RuntimeError ''empty resource name'')
                          else Inr (map_option (\<lambda>d. (d, ''/'' @ p)) (map_of t p))),
      get_package_share_directory = (\<lambda>p. None), get_package_prefix = (\<lambda>p. None),
      path_append = (\<lambda>a b. a @ ''/'' @ b), is_regular_file = (\<lambda>p. False),
      xml_plugin_depends = (\<lambda>p. None)\<rparr>"

lemma table_env_deps:
  "p \<noteq> [] \<Longrightarrow> plugin_deps (table_env t) p = (case map_of t p of None \<Rightarrow> [] | Some d \<Rightarrow> getline_all (CHR '';'') d)"
  "plugin_deps (table_env t) [] = []"
  by (simp_all add: plugin_deps_def table_env_def split: option.splits)

lemma table_env_index_ok: "[] \<notin> requires (table_env t) package \<Longrightarrow> index_ok (table_env t) package"
  by (auto simp: index_ok_def package_ok_def has_manifest_def table_env_def)

lemma table_env_found: "p \<noteq> [] \<Longrightarrow> found (table_env t) p \<longleftrightarrow> map_of t p \<noteq> None"
  by (auto simp: found_def has_manifest_def table_env_def)

text \<open>Package \<open>a\<close> depends on \<open>b\<close> and \<open>c\<close>.\<close>

definition demo_table :: "(string \<times> string) list" where
  "demo_table = [(''a'', ''b;c''), (''b'', []), (''c'', [])]"

lemma demo_table_depends: "depends (table_env demo_table) = {(''b'', ''a''), (''c'', ''a'')}"
proof -
  have "plugin_deps (table_env demo_table) p = (if p = ''a'' then [''b'', ''c''] else [])" for p
    by (cases "p = []") (auto simp: table_env_deps demo_table_def)
  then show ?thesis by (auto simp: depends_def split: if_splits)
qed

lemma demo_table_acc: "p \<in> Wellfounded.acc (depends (table_env demo_table))"
proof -
  have "wf (depends (table_env demo_table))"
    unfolding demo_table_depends
    by (rule finite_acyclic_wf) (auto simp: acyclic_def elim: tranclE converse_tranclE)
  then show ?thesis by (simp add: wf_iff_acc)
qed

lemma demo_table_requires: "requires (table_env demo_table) ''a'' = {''a'', ''b'', ''c''}"
proof -
  have "p = ''a'' \<or> p = ''b'' \<or> p = ''c''" if "(p, ''a'') \<in> {(''b'', ''a''), (''c'', ''a'')}\<^sup>*" for p
    using that by (cases rule: converse_rtranclE) auto
  then show ?thesis by (auto simp: requires_def demo_table_depends)
qed

lemma demo_table_ok: "index_ok (table_env demo_table) ''a''"
  by (rule table_env_index_ok) (simp add: demo_table_requires)

text \<open>Two packages that depend on each other.\<close>

definition demo_cycle :: "(string \<times> string) list" where
  "demo_cycle = [(''a'', ''b''), (''b'', ''a'')]"

lemma demo_cycle_deps:
  "plugin_deps (table_env demo_cycle) p = (if p = ''a'' then [''b''] else if p = ''b'' then [''a''] else [])"
  by (cases "p = []") (auto simp: table_env_deps demo_cycle_def)

lemma demo_cycle_ok: "index_ok (table_env demo_cycle) ''a''"
proof (rule table_env_index_ok)
  have "p \<noteq> []" if "(p, ''a'') \<in> (depends (table_env demo_cycle))\<^sup>*" for p
    using that by (cases rule: converse_rtranclE) (auto simp: depends_def demo_cycle_deps split: if_splits)
  then show "[] \<notin> requires (table_env demo_cycle) ''a''" by (auto simp: requires_def)
qed



end
