(* ===== verification/Node.thy ===== *)
theory Node
  imports Rtt_Service
begin

text \<open>
  The package \<open>rtt_ros2_node\<close>: the service that wraps a ROS node and its spinner thread
  (\<open>rtt_ros2_node.cpp\<close>, struct \<open>Node\<close>), the lookup of the node of a component, and the plugin that
  loads the service into a component or into the process (\<open>rtt_ros2_node_service.cpp\<close>).
\<close>

section \<open>Data\<close>

text \<open>
  The members of \<open>Node\<close>. Executors are numbered in the order they are made; \<open>executor_threads\<close> is
  the number of threads each was made with. \<open>node_thread\<close> is the executor whose \<open>spin()\<close> the spinner
  thread was made to call. \<open>spinning\<close> are the executors whose thread has entered \<open>spin()\<close>, and \<open>cancelled\<close>
  those whose running \<open>spin()\<close> was told to return.
\<close>

record 'rcl rosnode =
  rcl_node :: 'rcl
  node_executor :: "nat option"
  node_thread :: "nat option"
  spinning :: "nat set"
  cancelled :: "nat set"
  executor_threads :: "nat list"

text \<open>An \<open>RTT::TaskContext\<close> as far as it is used: its name and the service it provides.\<close>

record 's task_context =
  tc_name :: string
  tc_provides :: 's

text \<open>The options of a node that the package sets itself.\<close>

record node_options =
  allow_undeclared_parameters :: bool

text \<open>
  \<open>rclcpp::NodeOptions()\<close> is the parameter \<open>base\<close>.
\<close>

definition getDefaultNodeOptions :: "node_options \<Rightarrow> node_options" where
  "getDefaultNodeOptions base = base\<lparr>allow_undeclared_parameters := True\<rparr>"

text \<open>\<open>now\<close> is the system clock in nanoseconds.\<close>

definition default_node_name_from_owner :: "int \<Rightarrow> 's task_context option \<Rightarrow> string" where
  "default_node_name_from_owner now owner =
     (case owner of
        Some tc \<Rightarrow> tc_name tc
      | None \<Rightarrow> ''rtt_'' @ show_int now)"

section \<open>The spinner\<close>

text \<open>
  \<open>rclcpp::Executor::cancel()\<close> makes a running \<open>spin()\<close> return; it says nothing of a \<open>spin()\<close> that a thread
  enters later. Joining a thread returns when the \<open>spin()\<close> it runs returns; when that is never, the
  join never returns, which is \<open>None\<close>.
\<close>

definition cancel_executor :: "nat \<Rightarrow> 'rcl rosnode \<Rightarrow> 'rcl rosnode" where
  "cancel_executor e s = (if e \<in> spinning s then s\<lparr>cancelled := insert e (cancelled s)\<rparr> else s)"

definition join_thread :: "'rcl rosnode \<Rightarrow> nat \<Rightarrow> 'rcl rosnode option" where
  "join_thread s e = (if e \<in> cancelled s then Some (s\<lparr>node_thread := None\<rparr>) else None)"

definition node_cancel :: "'rcl rosnode \<Rightarrow> 'rcl rosnode option" where
  "node_cancel s =
     (let s1 = (case node_executor s of
                  None \<Rightarrow> s
                | Some e \<Rightarrow> cancel_executor e (s\<lparr>node_executor := None\<rparr>))
      in case node_thread s1 of
           None \<Rightarrow> Some s1
         | Some e \<Rightarrow> join_thread s1 e)"

definition node_spin :: "nat \<Rightarrow> 'rcl rosnode \<Rightarrow> 'rcl rosnode option" where
  "node_spin number_of_threads s =
     (case node_cancel s of
        None \<Rightarrow> None
      | Some s1 \<Rightarrow>
          let executor = length (executor_threads s1)
          in Some (s1\<lparr>executor_threads := executor_threads s1 @ [number_of_threads],
                      node_thread := Some executor, node_executor := Some executor\<rparr>))"

text \<open>
  The constructor all others delegate to. \<open>make_node\<close> is the constructor of \<open>rclcpp::Node\<close> and
  \<open>declare_parameter\<close> its method, which returns the value of the parameter \<open>spinner_threads\<close>.
\<close>

definition Node_with_name ::
  "int \<Rightarrow> (string \<Rightarrow> string \<Rightarrow> node_options \<Rightarrow> 'rcl) \<Rightarrow> ('rcl \<Rightarrow> string \<Rightarrow> int \<Rightarrow> int) \<Rightarrow>
   string \<Rightarrow> string \<Rightarrow> node_options \<Rightarrow> 's task_context option \<Rightarrow> 'rcl rosnode option" where
  "Node_with_name now make_node declare_parameter node_name namespace options owner =
     (let node = make_node (if node_name \<noteq> [] then node_name
                            else default_node_name_from_owner now owner) namespace options;
          s = \<lparr>rcl_node = node, node_executor = None, node_thread = None,
             spinning = {}, cancelled = {}, executor_threads = []\<rparr>;
          number_of_threads = declare_parameter node ''spinner_threads'' 1
      in if number_of_threads \<ge> 0 then node_spin (nat number_of_threads) s else Some s)"

definition Node_of_owner ::
  "int \<Rightarrow> (string \<Rightarrow> string \<Rightarrow> node_options \<Rightarrow> 'rcl) \<Rightarrow> ('rcl \<Rightarrow> string \<Rightarrow> int \<Rightarrow> int) \<Rightarrow>
   node_options \<Rightarrow> 's task_context option \<Rightarrow> 'rcl rosnode option" where
  "Node_of_owner now make_node declare_parameter base owner =
     Node_with_name now make_node declare_parameter (default_node_name_from_owner now owner) []
       (getDefaultNodeOptions base) owner"

definition Node_with_options ::
  "int \<Rightarrow> (string \<Rightarrow> string \<Rightarrow> node_options \<Rightarrow> 'rcl) \<Rightarrow> ('rcl \<Rightarrow> string \<Rightarrow> int \<Rightarrow> int) \<Rightarrow>
   node_options \<Rightarrow> 's task_context option \<Rightarrow> 'rcl rosnode option" where
  "Node_with_options now make_node declare_parameter options owner =
     Node_with_name now make_node declare_parameter (default_node_name_from_owner now owner) []
       options owner"

definition Node_with_name_and_options ::
  "int \<Rightarrow> (string \<Rightarrow> string \<Rightarrow> node_options \<Rightarrow> 'rcl) \<Rightarrow> ('rcl \<Rightarrow> string \<Rightarrow> int \<Rightarrow> int) \<Rightarrow>
   string \<Rightarrow> node_options \<Rightarrow> 's task_context option \<Rightarrow> 'rcl rosnode option" where
  "Node_with_name_and_options now make_node declare_parameter node_name options owner =
     Node_with_name now make_node declare_parameter node_name [] options owner"

text \<open>The destructor.\<close>

definition Node_destroy :: "'rcl rosnode \<Rightarrow> 'rcl rosnode option" where
  "Node_destroy s = node_cancel s"

section \<open>Looking a node up\<close>

text \<open>The loop over the provider names: the first service that is a \<open>Node\<close>.\<close>

fun find_node_service :: "('s, 'n, 'op) rtt_service_api \<Rightarrow> 's \<Rightarrow> string list \<Rightarrow> 'n option" where
  "find_node_service R s [] = None"
| "find_node_service R s (name # names) =
     (case Option.bind (getService R s name) (as_node R) of
        Some node \<Rightarrow> Some node
      | None \<Rightarrow> find_node_service R s names)"

definition global_node :: "('s, 'n, 'op) rtt_service_api \<Rightarrow> 's \<Rightarrow> 'n option" where
  "global_node R global =
     (case getService R global ''ros'' of
        None \<Rightarrow> None
      | Some ros \<Rightarrow> Option.bind (getService R ros ''rosnode'') (as_node R))"

definition getNodeService ::
  "('s, 'n, 'op) rtt_service_api \<Rightarrow> 's \<Rightarrow> 's task_context option \<Rightarrow> 'n option" where
  "getNodeService R global tc =
     (case tc of
        None \<Rightarrow> global_node R global
      | Some t \<Rightarrow>
          (case Option.bind (getService R (tc_provides t) ''Node'') (as_node R) of
             Some node \<Rightarrow> Some node
           | None \<Rightarrow>
               (case find_node_service R (tc_provides t) (getProviderNames R (tc_provides t)) of
                  Some node \<Rightarrow> Some node
                | None \<Rightarrow> global_node R global)))"

definition getNode ::
  "('s, 'rcl rosnode, 'op) rtt_service_api \<Rightarrow> 's \<Rightarrow> 's task_context option \<Rightarrow> 'rcl option" where
  "getNode R global tc = map_option rcl_node (getNodeService R global tc)"

section \<open>The plugin\<close>

text \<open>
  \<open>mk\<close> is the construction of the \<open>Node\<close> service. Creating the process-wide node fails when there
  is one already; the service \<open>ros\<close> of the global service is created on demand.
\<close>

definition create_named_node_with_options ::
  "('s, 'n, 'op) rtt_service_api \<Rightarrow> (string \<Rightarrow> string \<Rightarrow> 'o \<Rightarrow> 'n) \<Rightarrow>
   string \<Rightarrow> string \<Rightarrow> 'o \<Rightarrow> 's \<Rightarrow> bool \<times> 's" where
  "create_named_node_with_options R mk node_name namespace options global =
     (let ros = provides R global ''ros''
      in if hasService R ros ''rosnode'' then (False, put_service R global ''ros'' ros)
         else let ros1 = snd (addService R ros ''rosnode''
                                (node_service R (mk node_name namespace options)))
              in (True, put_service R global ''ros'' ros1))"

definition create_named_node_with_namespace ::
  "('s, 'n, 'op) rtt_service_api \<Rightarrow> (string \<Rightarrow> string \<Rightarrow> node_options \<Rightarrow> 'n) \<Rightarrow> node_options \<Rightarrow>
   string \<Rightarrow> string \<Rightarrow> 's \<Rightarrow> bool \<times> 's" where
  "create_named_node_with_namespace R mk base node_name namespace global =
     create_named_node_with_options R mk node_name namespace (getDefaultNodeOptions base) global"

definition create_named_node ::
  "('s, 'n, 'op) rtt_service_api \<Rightarrow> (string \<Rightarrow> string \<Rightarrow> node_options \<Rightarrow> 'n) \<Rightarrow> node_options \<Rightarrow>
   string \<Rightarrow> 's \<Rightarrow> bool \<times> 's" where
  "create_named_node R mk base node_name global =
     create_named_node_with_options R mk node_name [] (getDefaultNodeOptions base) global"

definition create_node ::
  "('s, 'n, 'op) rtt_service_api \<Rightarrow> (string \<Rightarrow> string \<Rightarrow> node_options \<Rightarrow> 'n) \<Rightarrow> node_options \<Rightarrow>
   's \<Rightarrow> bool \<times> 's" where
  "create_node R mk base global =
     create_named_node_with_options R mk [] [] (getDefaultNodeOptions base) global"

definition load_node_into_task_context ::
  "('s, 'n, 'op) rtt_service_api \<Rightarrow> ('s task_context \<Rightarrow> 'n) \<Rightarrow>
   's task_context \<Rightarrow> bool \<times> 's task_context" where
  "load_node_into_task_context R mk tc =
     (if hasService R (tc_provides tc) ''rosnode'' then (False, tc)
      else (True, tc\<lparr>tc_provides := snd (addService R (tc_provides tc) ''rosnode''
                                          (node_service R (mk tc)))\<rparr>))"

text \<open>
  The global part of the plugin: the operations of the service \<open>ros\<close>. \<open>op\<close> wraps a function as an
  operation; initialising the ROS context is the third-party call \<open>rclcpp::init\<close>.
\<close>

datatype node_operation =
  OpCreateNode | OpCreateNamedNode | OpCreateNamedNodeWithNamespace | OpCreateNamedNodeWithOptions

definition loadGlobalROSService ::
  "('s, 'n, 'op) rtt_service_api \<Rightarrow> (node_operation \<Rightarrow> 'op) \<Rightarrow> 's \<Rightarrow> 's" where
  "loadGlobalROSService R op global =
     (let ros = provides R global ''ros'';
          ros = addOperation R ros ''create_node'' (op OpCreateNode);
          ros = addOperation R ros ''create_named_node'' (op OpCreateNamedNode);
          ros = addOperation R ros ''create_named_node_with_namespace'' (op OpCreateNamedNodeWithNamespace);
          ros = addOperation R ros ''create_named_node_with_options'' (op OpCreateNamedNodeWithOptions)
      in put_service R global ''ros'' ros)"

text \<open>\<open>loadRTTPlugin\<close> of the package, on the global service and the component it is loaded into.\<close>

definition node_loadRTTPlugin ::
  "('s, 'n, 'op) rtt_service_api \<Rightarrow> (node_operation \<Rightarrow> 'op) \<Rightarrow> ('s task_context \<Rightarrow> 'n) \<Rightarrow>
   's \<Rightarrow> 's task_context option \<Rightarrow> bool \<times> 's \<times> 's task_context option" where
  "node_loadRTTPlugin R op mk global tc =
     (case tc of
        None \<Rightarrow> (True, loadGlobalROSService R op global, None)
      | Some t \<Rightarrow>
          (let (b, t') = load_node_into_task_context R mk t in (b, global, Some t')))"

definition node_getRTTPluginName :: string where
  "node_getRTTPluginName = ''rosnode''"

section \<open>Properties of the spinner\<close>

text \<open>
  The two operations of the service and the spinner thread, in any order. A thread enters \<open>spin()\<close> at
  some time after it was made; a call that cancels the executor comes before that time or after it.
\<close>

datatype node_op = Spin nat | Cancel | ThreadEnters

definition thread_enters :: "'rcl rosnode \<Rightarrow> 'rcl rosnode" where
  "thread_enters s =
     (case node_thread s of None \<Rightarrow> s | Some e \<Rightarrow> s\<lparr>spinning := insert e (spinning s)\<rparr>)"

fun node_perform :: "node_op \<Rightarrow> 'rcl rosnode \<Rightarrow> 'rcl rosnode option" where
  "node_perform (Spin k) s = node_spin k s"
| "node_perform Cancel s = node_cancel s"
| "node_perform ThreadEnters s = Some (thread_enters s)"

fun node_run :: "node_op list \<Rightarrow> 'rcl rosnode \<Rightarrow> 'rcl rosnode option" where
  "node_run [] s = Some s"
| "node_run (op # ops) s = Option.bind (node_perform op s) (node_run ops)"

text \<open>The abstract spinner: the thread does not exist, was made, or is spinning.\<close>

datatype spinner = Stopped | Starting | Spinning

fun spinner_next :: "node_op \<Rightarrow> spinner \<Rightarrow> spinner option" where
  "spinner_next ThreadEnters Starting = Some Spinning"
| "spinner_next ThreadEnters x = Some x"
| "spinner_next op Starting = None"
| "spinner_next Cancel x = Some Stopped"
| "spinner_next (Spin k) x = Some Starting"

fun_cases spinner_next_NoneE: "spinner_next op x = None"

fun spinner_run :: "node_op list \<Rightarrow> spinner \<Rightarrow> spinner option" where
  "spinner_run [] x = Some x"
| "spinner_run (op # ops) x = Option.bind (spinner_next op x) (spinner_run ops)"

definition spinner_state :: "'rcl rosnode \<Rightarrow> spinner" where
  "spinner_state s =
     (case node_thread s of
        None \<Rightarrow> Stopped
      | Some e \<Rightarrow> if e \<in> spinning s then Spinning else Starting)"

text \<open>
  The spinner thread runs the executor of the service, which is not cancelled, and every executor made
  before is.
\<close>

definition spinner_ok :: "'rcl rosnode \<Rightarrow> bool" where
  "spinner_ok s =
     (node_executor s = node_thread s
      \<and> (\<forall>e. node_thread s = Some e \<longrightarrow> e < length (executor_threads s) \<and> e \<notin> cancelled s)
      \<and> (\<forall>e < length (executor_threads s). node_thread s = Some e \<or> e \<in> cancelled s)
      \<and> (\<forall>e \<in> cancelled s \<union> spinning s. e < length (executor_threads s)))"

lemma node_cancel_starting:
  "spinner_ok s \<Longrightarrow> spinner_state s = Starting \<Longrightarrow> node_cancel s = None"
  by (auto simp: node_cancel_def spinner_ok_def spinner_state_def cancel_executor_def join_thread_def
      split: option.splits if_splits)

lemma node_cancel_ok:
  assumes "spinner_ok s" and "spinner_state s \<noteq> Starting"
  obtains s' where "node_cancel s = Some s'" "spinner_ok s'" "node_thread s' = None"
    "executor_threads s' = executor_threads s" "rcl_node s' = rcl_node s"
proof (cases "node_thread s")
  case None
  with assms have "node_cancel s = Some s"
    by (simp add: node_cancel_def spinner_ok_def)
  with assms None show ?thesis by (intro that [of s]) auto
next
  case (Some e)
  let ?s = "s\<lparr>node_executor := None, cancelled := insert e (cancelled s), node_thread := None\<rparr>"
  have "e \<in> spinning s" using assms(2) Some by (auto simp: spinner_state_def split: if_splits)
  then have "node_cancel s = Some ?s"
    using assms Some by (simp add: node_cancel_def spinner_ok_def cancel_executor_def join_thread_def)
  moreover have "spinner_ok ?s"
    using assms Some by (auto simp: spinner_ok_def)
  ultimately show ?thesis by (intro that [of ?s]) auto
qed

lemma node_spin_ok:
  assumes "spinner_ok s" and "spinner_state s \<noteq> Starting"
  obtains s' where "node_spin k s = Some s'" "spinner_ok s'" "spinner_state s' = Starting"
    "rcl_node s' = rcl_node s"
proof -
  obtain s1 where s1: "node_cancel s = Some s1" "spinner_ok s1" "node_thread s1 = None"
    "executor_threads s1 = executor_threads s" "rcl_node s1 = rcl_node s"
    using node_cancel_ok [OF assms] .
  let ?e = "length (executor_threads s1)"
  have fresh: "?e \<notin> cancelled s1" "?e \<notin> spinning s1"
    using s1(2) by (auto simp: spinner_ok_def)
  let ?s = "s1\<lparr>executor_threads := executor_threads s1 @ [k], node_thread := Some ?e, node_executor := Some ?e\<rparr>"
  have "spinner_ok ?s" "spinner_state ?s = Starting"
    using s1(2,3) fresh by (auto simp: spinner_ok_def spinner_state_def less_Suc_eq)
  then show ?thesis
    using s1 by (intro that [of ?s]) (auto simp: node_spin_def Let_def)
qed

lemma thread_enters_ok:
  assumes "spinner_ok s"
  shows "spinner_ok (thread_enters s)" and "rcl_node (thread_enters s) = rcl_node s"
    and "spinner_next ThreadEnters (spinner_state s) = Some (spinner_state (thread_enters s))"
  using assms by (auto simp: thread_enters_def spinner_ok_def spinner_state_def split: option.split)

text \<open>One operation, on the service and on the abstract spinner.\<close>

lemma node_perform_refines:
  assumes ok: "spinner_ok s"
  shows "map_option spinner_state (node_perform op s) = spinner_next op (spinner_state s)
    \<and> (\<forall>s'. node_perform op s = Some s' \<longrightarrow> spinner_ok s' \<and> rcl_node s' = rcl_node s)"
proof (cases "spinner_state s = Starting")
  case True
  with node_cancel_starting [OF ok] thread_enters_ok [OF ok] show ?thesis
    by (cases op) (auto simp: node_spin_def)
next
  case False
  show ?thesis
  proof (cases op)
    case (Spin k)
    obtain s' where "node_spin k s = Some s'" "spinner_ok s'" "spinner_state s' = Starting" "rcl_node s' = rcl_node s"
      using node_spin_ok [OF ok False] .
    with Spin False show ?thesis by (cases "spinner_state s") auto
  next
    case Cancel
    obtain s' where "node_cancel s = Some s'" "spinner_ok s'" "node_thread s' = None" "rcl_node s' = rcl_node s"
      using node_cancel_ok [OF ok False] .
    with Cancel False show ?thesis by (cases "spinner_state s") (auto simp: spinner_state_def)
  next
    case ThreadEnters
    with thread_enters_ok [OF ok] show ?thesis by simp
  qed
qed

lemma node_run_refines:
  "spinner_ok s \<Longrightarrow> map_option spinner_state (node_run ops s) = spinner_run ops (spinner_state s)
    \<and> (\<forall>s'. node_run ops s = Some s' \<longrightarrow> spinner_ok s' \<and> rcl_node s' = rcl_node s)"
proof (induction ops arbitrary: s)
  case (Cons op ops)
  note one = node_perform_refines [OF Cons.prems, of op]
  show ?case
  proof (cases "node_perform op s")
    case None
    with one show ?thesis by (auto dest: sym)
  next
    case (Some s1)
    with one have s1: "spinner_ok s1" "rcl_node s1 = rcl_node s"
      "spinner_next op (spinner_state s) = Some (spinner_state s1)" by auto
    have "node_run (op # ops) s = node_run ops s1" by (simp add: Some)
    moreover have "spinner_run (op # ops) (spinner_state s) = spinner_run ops (spinner_state s1)"
      by (simp add: s1(3))
    ultimately show ?thesis using Cons.IH [OF s1(1)] s1(2) by metis
  qed
qed simp

text \<open>The constructor starts the thread, unless the parameter asks for none; it never blocks.\<close>

lemma constructed_spinner_ok:
  obtains n s where "n = make_node (if name \<noteq> [] then name else default_node_name_from_owner now tc) ns opts"
    "Node_with_name now make_node declare_parameter name ns opts tc = Some s"
    "spinner_ok s" "rcl_node s = n"
    "spinner_state s = (if declare_parameter n ''spinner_threads'' 1 \<ge> 0 then Starting else Stopped)"
proof -
  define n where "n = make_node (if name \<noteq> [] then name else default_node_name_from_owner now tc) ns opts"
  let ?s = "\<lparr>rcl_node = n, node_executor = None, node_thread = None, spinning = {}, cancelled = {},
    executor_threads = []\<rparr>"
  have ok: "spinner_ok ?s" and stopped: "spinner_state ?s = Stopped"
    by (simp_all add: spinner_ok_def spinner_state_def)
  show ?thesis
  proof (cases "declare_parameter n ''spinner_threads'' 1 \<ge> 0")
    case True
    obtain s' where "node_spin (nat (declare_parameter n ''spinner_threads'' 1)) ?s = Some s'"
      "spinner_ok s'" "spinner_state s' = Starting" "rcl_node s' = rcl_node ?s"
      using node_spin_ok [OF ok] stopped by auto
    with True show ?thesis by (intro that [of n s']) (auto simp: Node_with_name_def Let_def n_def)
  next
    case False
    with ok stopped show ?thesis by (intro that [of n ?s]) (auto simp: Node_with_name_def Let_def n_def)
  qed
qed

text \<open>A call blocks exactly when it finds a thread that has not entered \<open>spin()\<close> yet.\<close>

lemma spinner_blocks_iff:
  "spinner_run ops x = None \<longleftrightarrow>
     (\<exists>i < length ops. ops ! i \<noteq> ThreadEnters \<and> spinner_run (take i ops) x = Some Starting)"
proof (induction ops arbitrary: x)
  case (Cons op ops)
  show ?case
  proof (cases "spinner_next op x")
    case None
    then have "op \<noteq> ThreadEnters" "x = Starting" by (auto elim: spinner_next_NoneE)
    with None show ?thesis by (simp add: Ex_less_Suc2)
  next
    case (Some y)
    then have "\<not> (op \<noteq> ThreadEnters \<and> x = Starting)" by (cases op) auto
    with Some Cons.IH [of y] show ?thesis by (auto simp: Ex_less_Suc2)
  qed
qed simp

text \<open>C8: The spinner of a node behaves as an automaton with three states, whatever the order of \<open>spin\<close>,
  \<open>cancel\<close> and the start of the spinner thread. As long as every call returns, one thread at most runs,
  it runs the executor the service holds, and every executor replaced on the way was cancelled. A call
  of \<open>spin\<close> or \<open>cancel\<close> never returns exactly when it finds a thread that was made and has not entered
  \<open>spin()\<close> yet, so calls that come after the thread has started never block.\<close>

theorem spinner_refines_automaton:
  assumes "Node_with_name now make_node declare_parameter name ns opts tc = Some s"
  shows "map_option spinner_state (node_run ops s) = spinner_run ops (spinner_state s)
    \<and> (node_run ops s = None \<longleftrightarrow>
        (\<exists>i < length ops. ops ! i \<noteq> ThreadEnters
           \<and> map_option spinner_state (node_run (take i ops) s) = Some Starting))
    \<and> (\<forall>s'. node_run ops s = Some s' \<longrightarrow> node_executor s' = node_thread s'
        \<and> (\<forall>e < length (executor_threads s'). node_thread s' \<noteq> Some e \<longrightarrow> e \<in> cancelled s')
        \<and> rcl_node s' = make_node (if name \<noteq> [] then name else default_node_name_from_owner now tc) ns opts)"
proof -
  have s: "spinner_ok s" "rcl_node s = make_node (if name \<noteq> [] then name else default_node_name_from_owner now tc) ns opts"
    using constructed_spinner_ok [of make_node name now tc ns opts declare_parameter] assms by force+
  note refines = node_run_refines [OF s(1)]
  have "node_run ops s = None \<longleftrightarrow> spinner_run ops (spinner_state s) = None"
    using refines [of ops] by (metis option.map_disc_iff)
  with refines s(2) show ?thesis by (auto simp: spinner_blocks_iff spinner_ok_def)
qed

theorem spinner_refines_automaton_witness:
  "\<exists>s. Node_with_name 5 (\<lambda>n ns opts. n) (\<lambda>_ _ d. d) [] [] (node_options.make False)
         (None :: nat task_context option) = Some s
     \<and> node_run [Cancel] s = None
     \<and> (\<exists>s'. node_run [ThreadEnters, Spin 2, ThreadEnters, Cancel, Cancel] s = Some s' \<and> rcl_node s' = ''rtt_5'')"
proof -
  obtain s where s: "Node_with_name 5 (\<lambda>n ns opts. n) (\<lambda>_ _ d. d) [] [] (node_options.make False)
      (None :: nat task_context option) = Some s" "spinner_state s = Starting"
    by (rule constructed_spinner_ok [of "\<lambda>n ns opts. n" "[]" 5 None "[]" "node_options.make False" "\<lambda>_ _ d. d"]) auto
  note run = spinner_refines_automaton [OF s(1)]
  have "node_run [Cancel] s = None" using run [of "[Cancel]"] s(2) by auto
  moreover have "\<exists>s'. node_run [ThreadEnters, Spin 2, ThreadEnters, Cancel, Cancel] s = Some s'"
    using run [of "[ThreadEnters, Spin 2, ThreadEnters, Cancel, Cancel]", THEN conjunct1] s(2) by auto
  ultimately show ?thesis
    using s(1) run [of "[ThreadEnters, Spin 2, ThreadEnters, Cancel, Cancel]"]
    by (auto simp: default_node_name_from_owner_def show_int_def show_nat.simps digit_char_def char_of_def bit_0)
qed

text \<open>Calls that come after the thread has started return.\<close>

lemma spinner_never_blocks:
  assumes "Node_with_name now make_node declare_parameter name ns opts tc = Some s"
    and "\<And>i. i < length ops \<Longrightarrow> ops ! i \<noteq> ThreadEnters \<Longrightarrow>
           spinner_run (take i ops) (spinner_state s) \<noteq> Some Starting"
  shows "\<exists>s'. node_run ops s = Some s'"
proof -
  have "spinner_ok s"
    using constructed_spinner_ok [of make_node name now tc ns opts declare_parameter] assms(1) by force
  with node_run_refines [of s ops] assms(2) have "node_run ops s \<noteq> None"
    using spinner_blocks_iff [of ops "spinner_state s"] by (metis option.map_disc_iff)
  then show ?thesis by blast
qed

section \<open>Properties of the lookup\<close>

lemma find_node_service_Some:
  "find_node_service R s names = Some x \<Longrightarrow> \<exists>n \<in> set names. Option.bind (getService R s n) (as_node R) = Some x"
  by (induction names) (auto split: option.splits)

lemma find_node_service_None:
  "find_node_service R s names = None \<longleftrightarrow> (\<forall>n \<in> set names. Option.bind (getService R s n) (as_node R) = None)"
  by (induction names) (auto split: option.splits)

text \<open>The sub-services of a component that are nodes.\<close>

definition component_nodes :: "('s, 'n, 'op) rtt_service_api \<Rightarrow> 's task_context \<Rightarrow> 'n set" where
  "component_nodes R tc =
     {x. \<exists>n \<in> set (getProviderNames R (tc_provides tc)).
           Option.bind (getService R (tc_provides tc) n) (as_node R) = Some x}"

context rtt_services
begin

lemma lookup_by_name_provided:
  assumes "Option.bind (getService R s ''Node'') (as_node R) = Some x"
  shows "''Node'' \<in> set (getProviderNames R s)"
  using assms get_names [of "''Node''" s] by (cases "getService R s ''Node''") auto

lemma getNodeService_component:
  assumes "component_nodes R tc \<noteq> {}"
  shows "\<exists>x \<in> component_nodes R tc. getNodeService R g (Some tc) = Some x"
proof (cases "Option.bind (getService R (tc_provides tc) ''Node'') (as_node R)")
  case None
  with assms have "find_node_service R (tc_provides tc) (getProviderNames R (tc_provides tc)) \<noteq> None"
    by (auto simp: component_nodes_def find_node_service_None)
  with None show ?thesis
    by (auto simp: getNodeService_def component_nodes_def dest: find_node_service_Some)
next
  case (Some x)
  with lookup_by_name_provided [OF Some] show ?thesis
    by (auto simp: getNodeService_def component_nodes_def)
qed

lemma getNodeService_global:
  assumes "component_nodes R tc = {}"
  shows "getNodeService R g (Some tc) = global_node R g"
proof -
  have "Option.bind (getService R (tc_provides tc) ''Node'') (as_node R) = None"
    using assms lookup_by_name_provided [of "tc_provides tc"]
    by (cases "Option.bind (getService R (tc_provides tc) ''Node'') (as_node R)")
       (auto simp: component_nodes_def)
  moreover have "find_node_service R (tc_provides tc) (getProviderNames R (tc_provides tc)) = None"
    using assms by (cases "find_node_service R (tc_provides tc) (getProviderNames R (tc_provides tc))")
      (auto simp: component_nodes_def dest: find_node_service_Some)
  ultimately show ?thesis by (simp add: getNodeService_def)
qed

lemma load_component_nodes:
  assumes "\<not> hasService R (tc_provides tc) ''rosnode''"
  shows "component_nodes R (snd (load_node_into_task_context R mk tc)) =
    insert (mk tc) (component_nodes R tc)"
proof -
  let ?s = "tc_provides tc" and ?c = "node_service R (mk tc)"
  have "snd (load_node_into_task_context R mk tc) =
      tc\<lparr>tc_provides := put_service R ?s ''rosnode'' ?c\<rparr>"
    using assms by (simp add: load_node_into_task_context_def addService_def)
  moreover have "n \<in> set (getProviderNames R ?s) \<Longrightarrow> n \<noteq> ''rosnode'' \<and> n \<noteq> ''this''" for n
    using assms names_get [of n ?s] by (auto simp: hasService_def)
  ultimately show ?thesis
    by (auto simp: component_nodes_def names_put get_put as_node_service split: if_splits)
qed

end

text \<open>The node of a component is one of its own node services when it has any, under whatever name
  it was loaded; otherwise it is the process-wide node, and there is none exactly when neither
  exists.\<close>

lemma getNode_prefers_component:
  assumes api: "rtt_services R"
  shows "(component_nodes R tc \<noteq> {} \<longrightarrow>
          (\<exists>x \<in> component_nodes R tc. getNode R g (Some tc) = Some (rcl_node x)))
    \<and> (component_nodes R tc = {} \<longrightarrow> getNode R g (Some tc) = getNode R g None)
    \<and> (getNode R g (Some tc) = None \<longleftrightarrow> component_nodes R tc = {} \<and> global_node R g = None)"
proof (cases "component_nodes R tc = {}")
  case True
  moreover have "getNodeService R g None = global_node R g" by (simp add: getNodeService_def)
  ultimately show ?thesis
    using rtt_services.getNodeService_global [OF api True, of g] by (simp add: getNode_def)
next
  case False
  with rtt_services.getNodeService_component [OF api False, of g] show ?thesis
    by (auto simp: getNode_def)
qed

text \<open>Loading the plugin into a component that has no node yet makes the component's node the new
  one; loading it again is refused and changes nothing.\<close>

lemma load_then_getNode:
  assumes api: "rtt_services R" and none: "component_nodes R tc = {}"
    and free: "\<not> hasService R (tc_provides tc) ''rosnode''"
    and load: "load_node_into_task_context R mk tc = (b, tc')"
  shows "b \<and> getNode R g (Some tc') = Some (rcl_node (mk tc))
    \<and> load_node_into_task_context R mk' tc' = (False, tc')"
proof -
  have nodes: "component_nodes R tc' = {mk tc}"
    using rtt_services.load_component_nodes [OF api free, of mk] none load by simp
  then have "getNode R g (Some tc') = Some (rcl_node (mk tc))"
    using rtt_services.getNodeService_component [OF api, of tc' g] by (auto simp: getNode_def)
  moreover have "hasService R (tc_provides tc') ''rosnode'' \<and> b"
    using load free rtt_services.addService_has [OF api, of "''rosnode''"]
    by (auto simp: load_node_into_task_context_def)
  ultimately show ?thesis by (simp add: load_node_into_task_context_def)
qed

context rtt_services
begin

lemma global_load_keeps_node:
  "global_node R (loadGlobalROSService R op g) = global_node R g"
  by (auto simp: global_node_def loadGlobalROSService_def Let_def
      get_put get_add provides_def new_empty split: option.splits)

end



end
