(* ===== verification/Topics.thy ===== *)
theory Topics
  imports Node
begin

text \<open>
  The package \<open>rtt_ros2_topics\<close>: the name and the quality of service of a stream
  (\<open>utilities.hpp\<close>, \<open>rostopic.hpp\<close>), the creation of publishers and subscriptions for a port
  (\<open>ros_type_transporter.hpp\<close>, \<open>ros_publisher.hpp\<close>, \<open>ros_subscription.hpp\<close>), the waitable that moves
  samples from the real-time side to the executor (\<open>waitable.hpp\<close>), and the plugin. Publisher, buffer
  and guard condition are third-party code: parameters and, for the buffer, a locale.
\<close>

section \<open>Topic names\<close>

text \<open>\<open>std::isupper\<close> and \<open>std::tolower\<close> in the C locale.\<close>

definition isupper :: "char \<Rightarrow> bool" where
  "isupper c = (65 \<le> (of_char c :: nat) \<and> (of_char c :: nat) \<le> 90)"

definition tolower :: "char \<Rightarrow> char" where
  "tolower c = (if isupper c then char_of ((of_char c :: nat) + 32) else c)"

text \<open>The loop that inserts underscores; the index skips the character it inserted before.\<close>

function insert_underscores :: "nat \<Rightarrow> string \<Rightarrow> string" where
  "insert_underscores i str =
     (if i < length str
      then if isupper (str ! i) then insert_underscores (i + 2) (take i str @ ''_'' @ drop i str)
           else insert_underscores (i + 1) str
      else str)"
  by auto

termination insert_underscores
  by (relation "measure (\<lambda>(i, str). length str - i)") auto

declare insert_underscores.simps [simp del]

definition convert_camel_case_to_lower_case_underscore :: "string \<Rightarrow> string" where
  "convert_camel_case_to_lower_case_underscore str = map tolower (insert_underscores 1 str)"

text \<open>A port: its name and the component that owns its interface, if any.\<close>

record 's port =
  port_name :: string
  port_owner :: "'s task_context option"

datatype conn_type = UNBUFFERED | DATA | BUFFER | CIRCULAR_BUFFER

record conn_policy =
  policy_type :: conn_type
  policy_size :: int
  policy_init :: bool
  policy_pull :: bool
  name_id :: string
  transport :: int

definition find_topic :: "'s port \<Rightarrow> conn_policy \<Rightarrow> string result" where
  "find_topic p policy =
     (let topic = name_id policy;
          topic = (if topic = [] then convert_camel_case_to_lower_case_underscore (port_name p) else topic)
      in if topic = [] then Inl (RuntimeError ''policy.name_id cannot be empty for an unnamed port'')
         else Inr topic)"

section \<open>Connection policies\<close>

text \<open>
  \<open>RTT::ConnPolicy::data()\<close> and \<open>RTT::ConnPolicy::buffer(size)\<close> are the parameters \<open>data\<close> and \<open>buffer\<close>.
\<close>

definition ORO_ROS2_PROTOCOL_ID :: int where
  "ORO_ROS2_PROTOCOL_ID = 32"

definition topic :: "conn_policy \<Rightarrow> string \<Rightarrow> bool \<Rightarrow> conn_policy" where
  "topic data name latch =
     data\<lparr>policy_init := latch, name_id := name, transport := ORO_ROS2_PROTOCOL_ID\<rparr>"

definition topicLatched :: "conn_policy \<Rightarrow> string \<Rightarrow> conn_policy" where
  "topicLatched data name = topic data name True"

definition topicBuffered :: "(int \<Rightarrow> conn_policy) \<Rightarrow> string \<Rightarrow> int \<Rightarrow> bool \<Rightarrow> conn_policy" where
  "topicBuffered buffer name sz latch =
     (buffer sz)\<lparr>policy_init := latch, name_id := name, transport := ORO_ROS2_PROTOCOL_ID\<rparr>"

definition topicDirect :: "(int \<Rightarrow> conn_policy) \<Rightarrow> string \<Rightarrow> int \<Rightarrow> bool \<Rightarrow> conn_policy" where
  "topicDirect buffer name sz latch =
     (buffer sz)\<lparr>policy_init := latch, name_id := name, transport := ORO_ROS2_PROTOCOL_ID,
       policy_type := UNBUFFERED\<rparr>"

section \<open>The waitable\<close>

text \<open>
  \<open>func\<close> is whether \<open>func_\<close> holds a function; \<open>guard\<close> is the state of the guard condition, which
  \<open>rcl_trigger_guard_condition\<close> sets and the wait of the executor consumes.
\<close>

record waitable =
  func :: bool
  has_work :: bool
  guard :: bool

definition Waitable :: "bool \<Rightarrow> waitable result" where
  "Waitable guard_init_ok =
     (if guard_init_ok then Inr \<lparr>func = True, has_work = False, guard = False\<rparr> else Inl RclError)"

text \<open>
  \<open>trigger\<close> is two writes that other threads can see one by one. Its result is the exception of a
  failing \<open>rcl_trigger_guard_condition\<close>.
\<close>

definition trigger_flag :: "waitable \<Rightarrow> waitable" where
  "trigger_flag w = w\<lparr>has_work := True\<rparr>"

definition trigger_guard :: "waitable \<Rightarrow> waitable" where
  "trigger_guard w = w\<lparr>guard := True\<rparr>"

definition waitable_trigger :: "bool \<Rightarrow> waitable \<Rightarrow> cpp_exn option \<times> waitable" where
  "waitable_trigger trigger_ok w =
     (let w1 = trigger_flag w
      in if trigger_ok then (None, trigger_guard w1) else (Some RclError, w1))"

definition waitable_cancel :: "waitable \<Rightarrow> waitable" where
  "waitable_cancel w = w\<lparr>func := False\<rparr>"

definition is_ready :: "waitable \<Rightarrow> bool" where
  "is_ready w = has_work w"

definition get_number_of_ready_guard_conditions :: nat where
  "get_number_of_ready_guard_conditions = 1"

text \<open>
  \<open>execute\<close>, split at the call of \<open>func_\<close>: \<open>None\<close> at the beginning is the early return. \<open>call\<close> is the
  function held by \<open>func_\<close>, on the state \<open>'x\<close> it works on.
\<close>

definition execute_begin :: "waitable \<Rightarrow> waitable option" where
  "execute_begin w = (if \<not> func w then None else Some (w\<lparr>has_work := False\<rparr>))"

definition execute_end :: "bool \<Rightarrow> bool \<Rightarrow> waitable \<Rightarrow> cpp_exn option \<times> waitable" where
  "execute_end trigger_ok r w = (if \<not> r then waitable_trigger trigger_ok w else (None, w))"

definition waitable_execute ::
  "bool \<Rightarrow> ('x \<Rightarrow> (bool \<times> 'x) option) \<Rightarrow> waitable \<times> 'x \<Rightarrow> (cpp_exn option \<times> waitable \<times> 'x) option" where
  "waitable_execute trigger_ok call = (\<lambda>(w, x).
     case execute_begin w of
       None \<Rightarrow> Some (None, w, x)
     | Some w1 \<Rightarrow>
         (case call x of
            None \<Rightarrow> None
          | Some (r, x') \<Rightarrow> (let (e, w2) = execute_end trigger_ok r w1 in Some (e, w2, x'))))"

text \<open>
  The rest of the interface of a waitable. The callback for event-driven executors is stored and
  never called; a wait set is the list of the guard conditions it waits for, here by the waitable they
  belong to; there is no data to take and there are no timers.
\<close>

record ('i, 'cb) waitable_object = waitable +
  waitable_id :: 'i
  on_ready_callback :: "'cb option"

definition add_to_wait_set :: "('i, 'cb) waitable_object \<Rightarrow> 'i list \<Rightarrow> 'i list" where
  "add_to_wait_set w wait_set = wait_set @ [waitable_id w]"

definition set_on_ready_callback :: "'cb \<Rightarrow> ('i, 'cb) waitable_object \<Rightarrow> ('i, 'cb) waitable_object" where
  "set_on_ready_callback callback w = w\<lparr>on_ready_callback := Some callback\<rparr>"

definition clear_on_ready_callback :: "('i, 'cb) waitable_object \<Rightarrow> ('i, 'cb) waitable_object" where
  "clear_on_ready_callback w = w\<lparr>on_ready_callback := None\<rparr>"

definition set_on_new_event_callback ::
  "'ecb \<Rightarrow> 'data \<Rightarrow> ('i, 'cb) waitable_object \<Rightarrow> ('i, 'cb) waitable_object" where
  "set_on_new_event_callback callback user_data w = w"

definition take_data :: "'data option" where
  "take_data = None"

definition take_data_by_entity_id :: "nat \<Rightarrow> 'data option" where
  "take_data_by_entity_id entity = None"

definition get_timers :: "'timer list" where
  "get_timers = []"

text \<open>
  The destructor throws nothing: an error of \<open>rcl_guard_condition_fini\<close> becomes a message, whose last
  part \<open>what\<close> describes the error. The result is the list of messages.
\<close>

definition Waitable_destroy :: "bool \<Rightarrow> string \<Rightarrow> string list" where
  "Waitable_destroy guard_fini_ok what =
     (if guard_fini_ok then [] else [''Error in destruction of rcl guard condition: '' @ what])"

section \<open>The publisher\<close>

text \<open>
  The third-party operations a publisher works with: \<open>'p\<close> is the state of \<open>rclcpp::Publisher\<close>, \<open>'b\<close> the
  upstream buffer. \<open>read_sample\<close> returns a sample exactly when the read is \<open>NewData\<close>; borrowing returns
  whether the loan is valid, and \<open>return_loan\<close> is the destructor of an unused loan.
\<close>

record ('p, 'b, 'm) channel_api =
  read_sample :: "'b \<Rightarrow> 'm option \<times> 'b"
  buffer_write :: "'b \<Rightarrow> 'm \<Rightarrow> 'b"
  publisher_publish :: "'p \<Rightarrow> 'm \<Rightarrow> 'p"
  can_loan_messages :: "'p \<Rightarrow> bool"
  borrow_loaned_message :: "'p \<Rightarrow> bool \<times> 'p"
  return_loan :: "'p \<Rightarrow> 'p"

text \<open>
  One round of the two loops: \<open>Some r\<close> is \<open>return r\<close>, \<open>None\<close> goes on.
\<close>

definition publish_round ::
  "('p, 'b, 'm) channel_api \<Rightarrow> 'p \<times> 'b \<Rightarrow> bool option \<times> 'p \<times> 'b" where
  "publish_round A = (\<lambda>(p, b).
     case read_sample A b of
       (None, b') \<Rightarrow> (Some True, p, b')
     | (Some m, b') \<Rightarrow> (None, publisher_publish A p m, b'))"

definition publish_round_loaned ::
  "('p, 'b, 'm) channel_api \<Rightarrow> 'p \<times> 'b \<Rightarrow> bool option \<times> 'p \<times> 'b" where
  "publish_round_loaned A = (\<lambda>(p, b).
     case borrow_loaned_message A p of
       (False, p1) \<Rightarrow> (Some False, p1, b)
     | (True, p1) \<Rightarrow>
         (case read_sample A b of
            (None, b') \<Rightarrow> (Some True, return_loan A p1, b')
          | (Some m, b') \<Rightarrow> (None, publisher_publish A p1 m, b')))"

partial_function (option) publish_impl ::
  "('p, 'b, 'm) channel_api \<Rightarrow> 'p \<times> 'b \<Rightarrow> (bool \<times> 'p \<times> 'b) option" where
  "publish_impl A x =
     (case publish_round A x of
        (Some r, x') \<Rightarrow> Some (r, x')
      | (None, x') \<Rightarrow> publish_impl A x')"

partial_function (option) publish_impl_loaned_message ::
  "('p, 'b, 'm) channel_api \<Rightarrow> 'p \<times> 'b \<Rightarrow> (bool \<times> 'p \<times> 'b) option" where
  "publish_impl_loaned_message A x =
     (case publish_round_loaned A x of
        (Some r, x') \<Rightarrow> Some (r, x')
      | (None, x') \<Rightarrow> publish_impl_loaned_message A x')"

definition publish :: "('p, 'b, 'm) channel_api \<Rightarrow> 'p \<times> 'b \<Rightarrow> (bool \<times> 'p \<times> 'b) option" where
  "publish A x =
     (if can_loan_messages A (fst x) then publish_impl_loaned_message A x else publish_impl A x)"

datatype write_status = WriteSuccess

definition pub_write :: "('p, 'b, 'm) channel_api \<Rightarrow> 'm \<Rightarrow> 'p \<Rightarrow> write_status \<times> 'p" where
  "pub_write A sample p = (WriteSuccess, publisher_publish A p sample)"

definition pub_signal :: "bool \<Rightarrow> waitable \<Rightarrow> bool result \<times> waitable" where
  "pub_signal trigger_ok w =
     (case waitable_trigger trigger_ok w of
        (Some e, w') \<Rightarrow> (Inl e, w')
      | (None, w') \<Rightarrow> (Inr True, w'))"

text \<open>Quality of service: the depth of the queue and whether durability is transient local.\<close>

record topic_qos =
  qos_depth :: nat
  qos_transient_local :: bool

definition qos_of_policy :: "conn_policy \<Rightarrow> topic_qos" where
  "qos_of_policy policy = \<lparr>qos_depth = nat (max 1 (policy_size policy)), qos_transient_local = policy_init policy\<rparr>"

text \<open>
  The third-party calls that create the channel elements can fail: whether a guard condition can be
  initialised, and whether \<open>create_publisher\<close> and \<open>create_subscription\<close> accept a topic name, which throw
  \<open>std::invalid_argument\<close> otherwise. \<open>expanded\<close> is the name of a topic as the node knows it.
\<close>

record 'rcl topics_env =
  guard_init_ok :: bool
  topic_accepted :: "string \<Rightarrow> bool"
  expanded :: "'rcl \<Rightarrow> string \<Rightarrow> string"

text \<open>
  The two channel elements after construction: the node they belong to, the topic and the quality
  of service they were created with; a publisher also has its waitable. The waitables registered
  with the node are a list of their identities; \<open>i\<close> is the identity of the new one.
\<close>

record ('rcl, 'i) ros_publisher =
  pub_node :: 'rcl
  pub_topic :: string
  pub_qos :: topic_qos
  pub_waitable :: waitable
  pub_waitable_id :: 'i

record 'rcl ros_subscription =
  sub_node :: 'rcl
  sub_topic :: string
  sub_qos :: topic_qos

definition RosPublisherChannelElement ::
  "'rcl topics_env \<Rightarrow> 's port \<Rightarrow> conn_policy \<Rightarrow> 'rcl \<Rightarrow> 'i \<Rightarrow> 'i list \<Rightarrow>
   ('rcl, 'i) ros_publisher result \<times> 'i list" where
  "RosPublisherChannelElement T p policy node i waitables =
     (case Waitable (guard_init_ok T) of
        Inl e \<Rightarrow> (Inl e, waitables)
      | Inr w \<Rightarrow>
          (case find_topic p policy of
             Inl e \<Rightarrow> (Inl e, waitables)
           | Inr t \<Rightarrow>
               if \<not> topic_accepted T t then (Inl (InvalidArgument t), waitables)
               else (Inr \<lparr>pub_node = node, pub_topic = t, pub_qos = qos_of_policy policy, pub_waitable = w,
                       pub_waitable_id = i\<rparr>,
                     waitables @ [i])))"

definition RosPublisherChannelElement_destroy ::
  "('rcl, 'i) ros_publisher \<times> 'i list \<Rightarrow> ('rcl, 'i) ros_publisher \<times> 'i list" where
  "RosPublisherChannelElement_destroy = (\<lambda>(s, waitables).
     (s\<lparr>pub_waitable := waitable_cancel (pub_waitable s)\<rparr>, remove1 (pub_waitable_id s) waitables))"

definition RosSubscriptionChannelElement ::
  "'rcl topics_env \<Rightarrow> 's port \<Rightarrow> conn_policy \<Rightarrow> 'rcl \<Rightarrow> 'rcl ros_subscription result" where
  "RosSubscriptionChannelElement T p policy node =
     (case find_topic p policy of
        Inl e \<Rightarrow> Inl e
      | Inr t \<Rightarrow>
          if \<not> topic_accepted T t then Inl (InvalidArgument t)
          else Inr \<lparr>sub_node = node, sub_topic = t, sub_qos = qos_of_policy policy\<rparr>)"

text \<open>What the channel elements tell Orocos about themselves.\<close>

definition pub_inputReady :: "('rcl, 'i) ros_publisher \<Rightarrow> bool" where
  "pub_inputReady s = True"

definition pub_isRemoteElement :: "('rcl, 'i) ros_publisher \<Rightarrow> bool" where
  "pub_isRemoteElement s = True"

definition pub_getElementName :: "('rcl, 'i) ros_publisher \<Rightarrow> string" where
  "pub_getElementName s = ''RosPublisherChannelElement''"

definition pub_getRemoteURI :: "'rcl topics_env \<Rightarrow> ('rcl, 'i) ros_publisher \<Rightarrow> string" where
  "pub_getRemoteURI T s = expanded T (pub_node s) (pub_topic s)"

definition sub_inputReady :: "'rcl ros_subscription \<Rightarrow> bool" where
  "sub_inputReady s = True"

definition sub_isRemoteElement :: "'rcl ros_subscription \<Rightarrow> bool" where
  "sub_isRemoteElement s = True"

definition sub_getElementName :: "'rcl ros_subscription \<Rightarrow> string" where
  "sub_getElementName s = ''RosSubscriptionChannelElement''"

definition sub_getRemoteURI :: "'rcl topics_env \<Rightarrow> 'rcl ros_subscription \<Rightarrow> string" where
  "sub_getRemoteURI T s = expanded T (sub_node s) (sub_topic s)"

text \<open>The callback of a subscription hands the message down the channel; its write status is dropped.\<close>

definition sub_callback :: "('b \<Rightarrow> 'm \<Rightarrow> 'st \<times> 'b) \<Rightarrow> 'm \<Rightarrow> 'b \<Rightarrow> 'b" where
  "sub_callback write_down msg b = snd (write_down b msg)"

section \<open>Creating a stream\<close>

datatype ('rcl, 'i, 'b) stream =
    PublisherStream "('rcl, 'i) ros_publisher"
  | BufferedPublisherStream 'b "('rcl, 'i) ros_publisher"
  | SubscriptionStream "'rcl ros_subscription"

text \<open>
  \<open>build\<close> is \<open>ConnFactory::buildDataStorage\<close>; \<open>Inr None\<close> is the null pointer. A publisher that is not
  returned is destroyed with the last pointer to it.
\<close>

definition createStream ::
  "('s, 'rcl rosnode, 'op) rtt_service_api \<Rightarrow> 's \<Rightarrow> 'rcl topics_env \<Rightarrow> (conn_policy \<Rightarrow> 'b option) \<Rightarrow>
   's port \<Rightarrow> conn_policy \<Rightarrow> bool \<Rightarrow> 'i \<Rightarrow> 'i list \<Rightarrow> ('rcl, 'i, 'b) stream option result \<times> 'i list" where
  "createStream R global T build p policy is_sender i waitables =
     (if policy_pull policy then (Inr None, waitables)
      else case getNode R global (port_owner p) of
             None \<Rightarrow> (Inr None, waitables)
           | Some node \<Rightarrow>
               if is_sender then
                 (case RosPublisherChannelElement T p policy node i waitables of
                    (Inl e, waitables) \<Rightarrow> (Inl e, waitables)
                  | (Inr channel, waitables) \<Rightarrow>
                      if policy_type policy = UNBUFFERED then (Inr (Some (PublisherStream channel)), waitables)
                      else (case build policy of
                              None \<Rightarrow> (Inr None, snd (RosPublisherChannelElement_destroy (channel, waitables)))
                            | Some buf \<Rightarrow> (Inr (Some (BufferedPublisherStream buf channel)), waitables)))
               else (map_sum id (\<lambda>channel. Some (SubscriptionStream channel))
                       (RosSubscriptionChannelElement T p policy node), waitables))"

section \<open>The plugin\<close>

datatype topic_operation = OpTopic | OpTopicLatched | OpTopicBuffered | OpTopicDirect

definition topics_loadGlobalROSService ::
  "('s, 'n, 'op) rtt_service_api \<Rightarrow> (topic_operation \<Rightarrow> 'op) \<Rightarrow> 's \<Rightarrow> 's" where
  "topics_loadGlobalROSService R op global =
     (let ros = provides R global ''ros'';
          ros = addOperation R ros ''topic'' (op OpTopic);
          ros = addOperation R ros ''topicLatched'' (op OpTopicLatched);
          ros = addOperation R ros ''topicBuffered'' (op OpTopicBuffered);
          ros = addOperation R ros ''topicDirect'' (op OpTopicDirect)
      in put_service R global ''ros'' ros)"

definition topics_loadRTTPlugin ::
  "('s, 'n, 'op) rtt_service_api \<Rightarrow> (topic_operation \<Rightarrow> 'op) \<Rightarrow> 'tc option \<Rightarrow> 's \<Rightarrow> bool \<times> 's" where
  "topics_loadRTTPlugin R op tc global =
     (if tc \<noteq> None then (False, global) else (True, topics_loadGlobalROSService R op global))"

section \<open>Properties of topic names\<close>

text \<open>The conversion, said without indices: an underscore before every capital but the first character.\<close>

definition underscored :: "string \<Rightarrow> string" where
  "underscored cs = concat (map (\<lambda>c. if isupper c then [CHR ''_'', c] else [c]) cs)"

fun camel_to_underscore :: "string \<Rightarrow> string" where
  "camel_to_underscore [] = []"
| "camel_to_underscore (c # cs) = map tolower (c # underscored cs)"

lemma insert_underscores_append:
  "insert_underscores (length us) (us @ cs) = us @ underscored cs"
proof (induction cs arbitrary: us)
  case Nil
  show ?case by (simp add: insert_underscores.simps underscored_def)
next
  case (Cons c cs)
  show ?case
  proof (cases "isupper c")
    case True
    then have "insert_underscores (length us) (us @ c # cs) =
        insert_underscores (length (us @ [CHR ''_'', c])) ((us @ [CHR ''_'', c]) @ cs)"
      by (subst insert_underscores.simps) simp
    also have "\<dots> = us @ underscored (c # cs)"
      using True by (subst Cons.IH) (simp add: underscored_def)
    finally show ?thesis .
  next
    case False
    then have "insert_underscores (length us) (us @ c # cs) =
        insert_underscores (length (us @ [c])) ((us @ [c]) @ cs)"
      by (subst insert_underscores.simps) simp
    also have "\<dots> = us @ underscored (c # cs)"
      using False by (subst Cons.IH) (simp add: underscored_def)
    finally show ?thesis .
  qed
qed

lemma convert_eq: "convert_camel_case_to_lower_case_underscore str = camel_to_underscore str"
proof (cases str)
  case Nil
  then show ?thesis
    by (simp add: convert_camel_case_to_lower_case_underscore_def insert_underscores.simps)
next
  case (Cons c cs)
  with insert_underscores_append [of "[c]" cs] show ?thesis
    by (simp add: convert_camel_case_to_lower_case_underscore_def)
qed

lemma tolower_not_upper: "\<not> isupper (tolower c)"
proof (cases "isupper c")
  case True
  then have "(of_char c :: nat) + 32 < 256" by (simp add: isupper_def)
  with True show ?thesis by (simp add: tolower_def isupper_def)
qed (simp add: tolower_def)

lemma convert_no_capitals: "c \<in> set (convert_camel_case_to_lower_case_underscore str) \<Longrightarrow> \<not> isupper c"
  using tolower_not_upper by (auto simp: convert_camel_case_to_lower_case_underscore_def)

lemma camel_fixpoint: "(\<And>c. c \<in> set cs \<Longrightarrow> \<not> isupper c) \<Longrightarrow> camel_to_underscore cs = cs"
proof (cases cs)
  case (Cons c ds)
  assume low: "\<And>c. c \<in> set cs \<Longrightarrow> \<not> isupper c"
  then have "underscored ds = ds"
    unfolding Cons by (induction ds) (auto simp: underscored_def)
  with low show ?thesis by (auto simp: Cons tolower_def intro: map_idI)
qed simp

text \<open>C36: The topic name made of a port name has an underscore before every capital letter but the first
  character and is in lower case; a name already of that form is left as it is. \<open>find_topic\<close> throws
  exactly when neither the policy nor the port has a name.\<close>

theorem topic_name_correct:
  "convert_camel_case_to_lower_case_underscore str = camel_to_underscore str
    \<and> list_all (\<lambda>c. \<not> isupper c) (convert_camel_case_to_lower_case_underscore str)
    \<and> convert_camel_case_to_lower_case_underscore (convert_camel_case_to_lower_case_underscore str)
        = convert_camel_case_to_lower_case_underscore str
    \<and> find_topic p policy =
        (if name_id policy \<noteq> [] then Inr (name_id policy)
         else if port_name p \<noteq> [] then Inr (camel_to_underscore (port_name p))
         else Inl (RuntimeError ''policy.name_id cannot be empty for an unnamed port''))"
proof -
  have "camel_to_underscore (convert_camel_case_to_lower_case_underscore str)
      = convert_camel_case_to_lower_case_underscore str"
    using convert_no_capitals by (rule camel_fixpoint)
  moreover have "camel_to_underscore cs = [] \<longleftrightarrow> cs = []" for cs by (cases cs) auto
  ultimately show ?thesis
    using convert_no_capitals by (auto simp: convert_eq find_topic_def list_all_iff Let_def)
qed

section \<open>Properties of streams\<close>

text \<open>The publisher of a stream, if it has one.\<close>

fun stream_publisher :: "('rcl, 'i, 'b) stream \<Rightarrow> ('rcl, 'i) ros_publisher option" where
  "stream_publisher (PublisherStream q) = Some q"
| "stream_publisher (BufferedPublisherStream buf q) = Some q"
| "stream_publisher (SubscriptionStream q) = None"

lemma createStream_waitables:
  assumes "i \<notin> set waitables" and "createStream R g T build p policy is_sender i waitables = (r, waitables')"
  shows "case r of
      Inr (Some stream) \<Rightarrow>
        (case stream_publisher stream of
           Some q \<Rightarrow> waitables' = waitables @ [i] \<and> snd (RosPublisherChannelElement_destroy (q, waitables')) = waitables
         | None \<Rightarrow> waitables' = waitables)
    | _ \<Rightarrow> waitables' = waitables"
  using assms
  by (auto simp: createStream_def RosPublisherChannelElement_def RosSubscriptionChannelElement_def
      RosPublisherChannelElement_destroy_def remove1_append map_sum_def
      split: if_splits option.splits sum.splits prod.splits)


text \<open>Middleware that accepts every topic.\<close>

definition any_topic :: "'rcl topics_env" where
  "any_topic = \<lparr>guard_init_ok = True, topic_accepted = (\<lambda>t. True), expanded = (\<lambda>n t. t)\<rparr>"


section \<open>Properties of publishing\<close>

text \<open>
  The interface of the upstream buffer: \<open>contents\<close> are the samples not read yet, oldest first.
\<close>

locale sample_buffer =
  fixes A :: "('p, 'b, 'm) channel_api" and contents :: "'b \<Rightarrow> 'm list"
  assumes read_empty: "contents b = [] \<Longrightarrow> fst (read_sample A b) = None \<and> contents (snd (read_sample A b)) = []"
    and read_first: "contents b = m # ms \<Longrightarrow> fst (read_sample A b) = Some m \<and> contents (snd (read_sample A b)) = ms"
begin

lemma publish_round_empty:
  "contents b = [] \<Longrightarrow> \<exists>b'. publish_round A (p, b) = (Some True, p, b') \<and> contents b' = []"
  using read_empty [of b] by (cases "read_sample A b") (simp add: publish_round_def)

lemma publish_round_Cons:
  "contents b = m # ms \<Longrightarrow>
    \<exists>b'. publish_round A (p, b) = (None, publisher_publish A p m, b') \<and> contents b' = ms"
  using read_first [of b m ms] by (cases "read_sample A b") (simp add: publish_round_def)

end

text \<open>The interface of the publisher: \<open>published\<close> are the messages published so far.\<close>

locale sample_channel = sample_buffer A contents
  for A :: "('p, 'b, 'm) channel_api" and contents :: "'b \<Rightarrow> 'm list" +
  fixes published :: "'p \<Rightarrow> 'm list"
  assumes published_publish: "published (publisher_publish A p m) = published p @ [m]"
    and published_borrow: "published (snd (borrow_loaned_message A p)) = published p"
    and published_return: "published (return_loan A p) = published p"
begin

lemma publish_impl_drains:
  "\<exists>p' b'. publish_impl A (p, b) = Some (True, p', b')
     \<and> published p' = published p @ contents b \<and> contents b' = []"
proof (induction "contents b" arbitrary: p b)
  case Nil
  then obtain b' where "publish_round A (p, b) = (Some True, p, b')" "contents b' = []"
    using publish_round_empty [of b p] by auto
  then show ?case using Nil by (subst publish_impl.simps) (simp add: Nil [symmetric])
next
  case (Cons m ms)
  then obtain b1 where r: "publish_round A (p, b) = (None, publisher_publish A p m, b1)" "contents b1 = ms"
    using publish_round_Cons [of b m ms p] by metis
  with Cons.hyps(1) [of b1 "publisher_publish A p m"] show ?case
    by (subst publish_impl.simps) (simp add: Cons.hyps(2) [symmetric] r published_publish)
qed

lemma publish_impl_loaned_prefix:
  "\<exists>r p' b' ms. publish_impl_loaned_message A (p, b) = Some (r, p', b')
     \<and> contents b = ms @ contents b' \<and> published p' = published p @ ms
     \<and> (r \<longrightarrow> contents b' = []) \<and> (\<not> r \<longrightarrow> (\<exists>p1. borrow_loaned_message A p1 = (False, p')))"
proof (induction "contents b" arbitrary: p b)
  case Nil
  obtain ok p1 where bor: "borrow_loaned_message A p = (ok, p1)" by fastforce
  obtain b' where rd: "read_sample A b = (None, b')" "contents b' = []"
    using read_empty [of b] Nil by (cases "read_sample A b") auto
  have "published p1 = published p" "published (return_loan A p1) = published p"
    using published_borrow [of p] published_return [of p1] bor by simp_all
  then show ?case
    by (cases ok; subst publish_impl_loaned_message.simps)
       (use bor rd Nil in \<open>auto simp: publish_round_loaned_def\<close>)
next
  case (Cons m ms)
  obtain ok p1 where bor: "borrow_loaned_message A p = (ok, p1)" by fastforce
  then have p1: "published p1 = published p" using published_borrow [of p] by simp
  obtain b1 where rd: "read_sample A b = (Some m, b1)" "contents b1 = ms"
    using read_first [of b m ms] Cons.hyps(2) by (cases "read_sample A b") auto
  show ?case
  proof (cases ok)
    case True
    obtain r p' b' ms' where IH: "publish_impl_loaned_message A (publisher_publish A p1 m, b1) = Some (r, p', b')"
      "ms = ms' @ contents b'" "published p' = (published p1 @ [m]) @ ms'" "r \<longrightarrow> contents b' = []"
      "\<not> r \<longrightarrow> (\<exists>p1. borrow_loaned_message A p1 = (False, p'))"
      using Cons.hyps(1) [of b1 "publisher_publish A p1 m"] rd(2) unfolding published_publish by metis
    have "publish_impl_loaned_message A (p, b) = Some (r, p', b')"
      using True bor rd IH(1) by (subst publish_impl_loaned_message.simps) (simp add: publish_round_loaned_def)
    moreover have "contents b = (m # ms') @ contents b'" "published p' = published p @ (m # ms')"
      using Cons.hyps(2) IH(2,3) p1 by simp_all
    ultimately show ?thesis using IH(4,5) by blast
  next
    case False
    then show ?thesis
      by (subst publish_impl_loaned_message.simps) (use bor p1 in \<open>auto simp: publish_round_loaned_def\<close>)
  qed
qed

lemma publish_prefix:
  "\<exists>r p' b' ms. publish A (p, b) = Some (r, p', b')
     \<and> contents b = ms @ contents b' \<and> published p' = published p @ ms
     \<and> (r \<longrightarrow> contents b' = [])
     \<and> (\<not> r \<longrightarrow> can_loan_messages A p \<and> (\<exists>p1. borrow_loaned_message A p1 = (False, p')))"
  using publish_impl_drains [of p b] publish_impl_loaned_prefix [of p b]
  by (cases "can_loan_messages A p") (fastforce simp: publish_def)+

end

text \<open>A list of samples as buffer and a list of published messages as publisher.\<close>

definition list_channel :: "(nat \<Rightarrow> bool) \<Rightarrow> bool \<Rightarrow> ('m list, 'm list, 'm) channel_api" where
  "list_channel loan_ok can_loan =
     \<lparr>read_sample = (\<lambda>b. case b of [] \<Rightarrow> (None, []) | m # ms \<Rightarrow> (Some m, ms)),
      buffer_write = (\<lambda>b m. b @ [m]),
      publisher_publish = (\<lambda>p m. p @ [m]),
      can_loan_messages = (\<lambda>p. can_loan),
      borrow_loaned_message = (\<lambda>p. (loan_ok (length p), p)),
      return_loan = (\<lambda>p. p)\<rparr>"

interpretation list_channel: sample_channel "list_channel loan_ok can_loan" "\<lambda>b. b" "\<lambda>p. p"
  for loan_ok can_loan
  by unfold_locales (auto simp: list_channel_def)

text \<open>C12: Running the waitable of a publisher returns. It publishes a first part of the waiting samples,
  each once and oldest first, and the rest stays in the buffer. The rest is empty unless a loan
  failed, and then the waitable is triggered again, so that no sample is forgotten.\<close>

theorem execute_publishes:
  assumes ch: "sample_channel A contents published" and "func w"
  shows "\<exists>w' p' b' ms. waitable_execute True (publish A) (w, p, b) = Some (None, w', p', b')
    \<and> contents b = ms @ contents b' \<and> published p' = published p @ ms
    \<and> (contents b' \<noteq> [] \<longrightarrow> can_loan_messages A p \<and> (\<exists>p1. borrow_loaned_message A p1 = (False, p'))
         \<and> has_work w' \<and> guard w')"
proof -
  obtain r p' b' ms where "publish A (p, b) = Some (r, p', b')"
    "contents b = ms @ contents b'" "published p' = published p @ ms"
    "r \<longrightarrow> contents b' = []"
    "\<not> r \<longrightarrow> can_loan_messages A p \<and> (\<exists>p1. borrow_loaned_message A p1 = (False, p'))"
    using sample_channel.publish_prefix [OF ch] by blast
  with assms(2) show ?thesis
    by (cases r) (auto simp: waitable_execute_def execute_begin_def execute_end_def
        waitable_trigger_def trigger_flag_def trigger_guard_def)
qed

theorem execute_publishes_witness:
  "\<exists>w'. waitable_execute True (publish (list_channel (\<lambda>n. True) False)) (waitable.make True True False, [], [4, 5::nat])
     = Some (None, w', [4, 5], [])"
  using execute_publishes [OF list_channel.sample_channel_axioms [of "\<lambda>n. True" False],
      of "waitable.make True True False" "[]" "[4, 5::nat]"]
  by (auto simp: waitable.make_def list_channel_def)

end
