(* ===== verification/Channel_Machine.thy ===== *)
theory Channel_Machine
  imports Topics "HOL-Library.Sublist"
begin

text \<open>
  The buffered publisher of \<open>rtt_ros2_topics\<close> at work: writers of samples, the executor that runs the
  waitable, and the destruction of the publisher, as steps in any interleaving. The machine refines
  a queue; no wake-up is lost; the executor alone empties the buffer; a cancelled publisher is silent.
\<close>

section \<open>Writers and the executor, interleaved\<close>

text \<open>
  The writer of a sample puts it into the buffer and then triggers the waitable, in three steps that
  other threads can come between: \<open>wrote\<close> writers have written and not yet set the flag, \<open>flagged\<close> ones
  have not yet triggered the guard condition. The executor waits for the guard condition, which
  consumes it, asks \<open>is_ready\<close>, and executes the waitable: it decides once whether messages are loaned
  (\<open>Draining True\<close>) and then makes one round of the loop of \<open>publish\<close> at a time; the
  function must not be cancelled meanwhile, since \<open>cancel\<close> takes the same mutex. \<open>written\<close> is the
  history of the samples written, which no operation reads.
\<close>

datatype executor_phase = Waiting | Woken | Ready | Draining bool | Drained bool | Retriggering

record ('p, 'b, 'm) channel_state =
  wait :: waitable
  phase :: executor_phase
  wrote :: nat
  flagged :: nat
  pub :: 'p
  buf :: 'b
  written :: "'m list"

definition channel_round ::
  "('p, 'b, 'm) channel_api \<Rightarrow> bool \<Rightarrow> 'p \<times> 'b \<Rightarrow> bool option \<times> 'p \<times> 'b" where
  "channel_round A loaned = (if loaned then publish_round_loaned A else publish_round A)"

inductive channel_step ::
  "('p, 'b, 'm) channel_api \<Rightarrow> ('p, 'b, 'm) channel_state \<Rightarrow> ('p, 'b, 'm) channel_state \<Rightarrow> bool"
  for A where
  put_sample: "channel_step A s (s\<lparr>buf := buffer_write A (buf s) m, wrote := Suc (wrote s),
    written := written s @ [m]\<rparr>)"
| set_flag: "wrote s = Suc n \<Longrightarrow>
    channel_step A s (s\<lparr>wait := trigger_flag (wait s), wrote := n, flagged := Suc (flagged s)\<rparr>)"
| set_guard: "flagged s = Suc n \<Longrightarrow>
    channel_step A s (s\<lparr>wait := trigger_guard (wait s), flagged := n\<rparr>)"
| wake: "phase s = Waiting \<Longrightarrow> guard (wait s) \<Longrightarrow>
    channel_step A s (s\<lparr>wait := (wait s)\<lparr>guard := False\<rparr>, phase := Woken\<rparr>)"
| ask: "phase s = Woken \<Longrightarrow>
    channel_step A s (s\<lparr>phase := (if is_ready (wait s) then Ready else Waiting)\<rparr>)"
| skipped: "phase s = Ready \<Longrightarrow> execute_begin (wait s) = None \<Longrightarrow> channel_step A s (s\<lparr>phase := Waiting\<rparr>)"
| enter: "phase s = Ready \<Longrightarrow> execute_begin (wait s) = Some w \<Longrightarrow>
    channel_step A s (s\<lparr>wait := w, phase := Draining (can_loan_messages A (pub s))\<rparr>)"
| round: "phase s = Draining l \<Longrightarrow> channel_round A l (pub s, buf s) = (r, p, b) \<Longrightarrow>
    channel_step A s (s\<lparr>pub := p, buf := b,
      phase := (case r of None \<Rightarrow> Draining l | Some d \<Rightarrow> Drained d)\<rparr>)"
| leave: "phase s = Drained True \<Longrightarrow> channel_step A s (s\<lparr>phase := Waiting\<rparr>)"
| retrigger: "phase s = Drained False \<Longrightarrow>
    channel_step A s (s\<lparr>wait := trigger_flag (wait s), phase := Retriggering\<rparr>)"
| retriggered: "phase s = Retriggering \<Longrightarrow>
    channel_step A s (s\<lparr>wait := trigger_guard (wait s), phase := Waiting\<rparr>)"
| cancel: "phase s \<in> {Waiting, Woken, Ready} \<Longrightarrow>
    channel_step A s (s\<lparr>wait := waitable_cancel (wait s)\<rparr>)"

inductive_cases channel_stepE: "channel_step A s t"

definition channel_init :: "('b \<Rightarrow> 'm list) \<Rightarrow> ('p \<Rightarrow> 'm list) \<Rightarrow> ('p, 'b, 'm) channel_state \<Rightarrow> bool" where
  "channel_init contents published s \<longleftrightarrow> Waitable True = Inr (wait s) \<and> phase s = Waiting \<and> wrote s = 0
     \<and> flagged s = 0 \<and> contents (buf s) = [] \<and> published (pub s) = [] \<and> written s = []"

text \<open>
  The specification of the channel: a queue that accepts samples, of which it may forget some as
  the storage of the connection prescribes, and delivers them from its front.
\<close>

record 'm queue_spec =
  accepted :: "'m list"
  waiting :: "'m list"
  delivered :: "'m list"

inductive queue_step :: "('m list \<Rightarrow> 'm \<Rightarrow> 'm list) \<Rightarrow> 'm queue_spec \<Rightarrow> 'm queue_spec \<Rightarrow> bool"
  for keep where
  accept: "queue_step keep q (q\<lparr>accepted := accepted q @ [m], waiting := keep (waiting q) m\<rparr>)"
| deliver: "waiting q = m # ms \<Longrightarrow>
    queue_step keep q (q\<lparr>waiting := ms, delivered := delivered q @ [m]\<rparr>)"

definition queue_init :: "'m queue_spec \<Rightarrow> bool" where
  "queue_init q \<longleftrightarrow> q = \<lparr>accepted = [], waiting = [], delivered = []\<rparr>"

definition queue_of ::
  "('b \<Rightarrow> 'm list) \<Rightarrow> ('p \<Rightarrow> 'm list) \<Rightarrow> ('p, 'b, 'm) channel_state \<Rightarrow> 'm queue_spec" where
  "queue_of contents published s =
     \<lparr>accepted = written s, waiting = contents (buf s), delivered = published (pub s)\<rparr>"

text \<open>
  What the storages of RTT keep when a sample is written: a data object the new sample only, a buffer
  of size \<open>n\<close> drops the new sample when it is full, a circular buffer the oldest one. An unbuffered
  connection has no storage.
\<close>

fun storage_keep :: "conn_type \<Rightarrow> nat \<Rightarrow> 'm list \<Rightarrow> 'm \<Rightarrow> 'm list" where
  "storage_keep UNBUFFERED n ws m = ws"
| "storage_keep DATA n ws m = [m]"
| "storage_keep BUFFER n ws m = (if length ws < n then ws @ [m] else ws)"
| "storage_keep CIRCULAR_BUFFER n ws m = (if length ws < n then ws @ [m] else tl (ws @ [m]))"

text \<open>The steps of the executor alone: nothing is written, triggered by a writer or cancelled.\<close>

definition executor_step ::
  "('p, 'b, 'm) channel_api \<Rightarrow> ('p, 'b, 'm) channel_state \<Rightarrow> ('p, 'b, 'm) channel_state \<Rightarrow> bool" where
  "executor_step A s t \<longleftrightarrow> channel_step A s t \<and> written t = written s \<and> wrote t = wrote s
     \<and> flagged t = flagged s \<and> func (wait t) = func (wait s)"

text \<open>
  As long as a sample waits, something is under way that leads to its being read.
\<close>

definition noticed :: "('b \<Rightarrow> 'm list) \<Rightarrow> ('p, 'b, 'm) channel_state \<Rightarrow> bool" where
  "noticed contents s \<longleftrightarrow>
     (func (wait s) \<longrightarrow> contents (buf s) \<noteq> [] \<longrightarrow>
        wrote s > 0 \<or> phase s \<in> {Draining True, Draining False, Drained False}
        \<or> has_work (wait s) \<and> (flagged s > 0 \<or> guard (wait s) \<or> phase s \<in> {Woken, Ready, Retriggering}))
     \<and> (phase s \<notin> {Waiting, Woken, Ready} \<longrightarrow> func (wait s))"

text \<open>What the specification promises about every storage.\<close>

lemma storage_keep_subseq: "subseq (storage_keep ty n ws m) (ws @ [m])"
proof -
  have "subseq (tl (ws @ [m])) (ws @ [m])" by (metis subseq_order.order_refl sublist_tl sublist_imp_subseq)
  then show ?thesis by (cases ty) (auto simp: list_emb_append2)
qed

lemma reach_queue_subseq:
  assumes "reach queue_init (queue_step (storage_keep ty n)) q"
  shows "subseq (delivered q @ waiting q) (accepted q)"
  using assms
proof (induction rule: reach.induct)
  case (reach_step q r)
  from reach_step.hyps(2) reach_step.IH show ?case
  proof (cases rule: queue_step.cases)
    case (accept m)
    have "subseq (delivered q @ storage_keep ty n (waiting q) m) (delivered q @ waiting q @ [m])"
      by (intro list_emb_append_mono subseq_order.order_refl storage_keep_subseq)
    moreover have "subseq ((delivered q @ waiting q) @ [m]) (accepted q @ [m])"
      using reach_step.IH by (intro list_emb_append_mono) auto
    ultimately show ?thesis using accept by (auto intro: subseq_order.order_trans)
  qed auto
qed (simp add: queue_init_def)

lemma reach_queue_newest:
  assumes "reach queue_init (queue_step (storage_keep ty n)) q"
    and "ty = DATA \<or> ty = CIRCULAR_BUFFER \<and> 0 < n"
  shows "accepted q \<noteq> [] \<longrightarrow> delivered q @ waiting q \<noteq> []
    \<and> last (delivered q @ waiting q) = last (accepted q)"
  using assms(1)
proof (induction rule: reach.induct)
  case (reach_step q r)
  from reach_step.hyps(2) reach_step.IH assms(2) show ?case
    by (cases rule: queue_step.cases) (auto simp: last_append last_tl split: if_splits)
qed (simp add: queue_init_def)

lemma reach_queue_lossless:
  assumes "reach queue_init (queue_step (storage_keep ty n)) q"
    and "ty = BUFFER \<or> ty = CIRCULAR_BUFFER"
  shows "length (accepted q) \<le> n \<longrightarrow> delivered q @ waiting q = accepted q"
  using assms(1)
proof (induction rule: reach.induct)
  case (reach_step q r)
  from reach_step.hyps(2) show ?case
  proof (cases rule: queue_step.cases)
    case (accept m)
    have "length (waiting q) < n" if "Suc (length (accepted q)) \<le> n"
      using that reach_step.IH by (metis Suc_le_lessD le_SucI Suc_leD length_append linorder_not_less
          le_add2 order_trans)
    with accept assms(2) reach_step.IH show ?thesis by auto
  qed (use reach_step.IH in auto)
qed (simp add: queue_init_def)

context sample_channel
begin

lemma channel_round_effect:
  assumes "channel_round A l (p, b) = (r, p', b')"
  shows "r = None \<and> (\<exists>m. contents b = m # contents b' \<and> published p' = published p @ [m])
    \<or> r = Some True \<and> contents b = [] \<and> contents b' = [] \<and> published p' = published p
    \<or> r = Some False \<and> l \<and> \<not> fst (borrow_loaned_message A p)
        \<and> b' = b \<and> published p' = published p"
proof -
  obtain ok p1 where bor: "borrow_loaned_message A p = (ok, p1)" by fastforce
  then have p1: "published p1 = published p" using published_borrow [of p] by simp
  obtain x b1 where rd: "read_sample A b = (x, b1)" by fastforce
  have x: "(\<exists>m. x = Some m \<and> contents b = m # contents b1) \<or> x = None \<and> contents b = [] \<and> contents b1 = []"
    using rd read_empty [of b] read_first [of b] by (cases "contents b") auto
  show ?thesis
    using assms bor rd p1 x
    by (auto simp: channel_round_def publish_round_def publish_round_loaned_def published_publish
        published_return split: if_splits bool.splits)
qed

lemma channel_step_noticed: "noticed contents s \<Longrightarrow> channel_step A s t \<Longrightarrow> noticed contents t"
proof (erule channel_stepE, goal_cases)
  case (8 l r p b)
  then show ?case
    using channel_round_effect [of l "pub s" "buf s" r p b] by (cases l) (auto simp: noticed_def)
qed (auto simp: noticed_def trigger_flag_def trigger_guard_def is_ready_def execute_begin_def
    waitable_cancel_def split: if_splits)

end

sublocale sample_channel \<subseteq> channel: invariant_system "channel_init contents published" "channel_step A" "noticed contents"
proof unfold_locales
  show "noticed contents s" if "channel_init contents published s" for s :: "('p, 'b, 'm) channel_state"
    using that by (simp add: channel_init_def noticed_def)
qed (rule channel_step_noticed)

context sample_channel
begin

lemma channel_reach_noticed: "reach (channel_init contents published) (channel_step A) s \<Longrightarrow> noticed contents s"
  by (rule channel.reach_inv)

end

text \<open>
  The interface of a channel whose storage is known: \<open>keep\<close> is what it holds after a write. Through it
  the machine refines the queue.
\<close>

locale stored_channel = sample_channel A contents published
  for A :: "('p, 'b, 'm) channel_api" and contents :: "'b \<Rightarrow> 'm list" and published :: "'p \<Rightarrow> 'm list" +
  fixes keep :: "'m list \<Rightarrow> 'm \<Rightarrow> 'm list"
  assumes contents_write: "contents (buffer_write A b m) = keep (contents b) m"
begin

lemma channel_step_queue:
  assumes "channel_step A s t"
  shows "queue_step keep (queue_of contents published s) (queue_of contents published t)
    \<or> queue_of contents published t = queue_of contents published s"
  using assms
proof (cases rule: channel_step.cases)
  case (put_sample m)
  then show ?thesis
    using accept [of keep "queue_of contents published s" m] by (simp add: queue_of_def contents_write)
next
  case (round l r p b)
  from channel_round_effect [OF round(3)] show ?thesis
    using deliver [of "queue_of contents published s" _ "contents b" keep] round(1)
    by (auto simp: queue_of_def)
qed (auto simp: queue_of_def)

end

sublocale stored_channel \<subseteq> queue: simulation "channel_init contents published" "channel_step A"
  "noticed contents" "queue_of contents published" queue_init "queue_step keep"
proof unfold_locales
  show "queue_init (queue_of contents published s)" if "channel_init contents published s"
    for s :: "('p, 'b, 'm) channel_state"
    using that by (simp add: channel_init_def queue_of_def queue_init_def)
qed (rule channel_step_queue)

context stored_channel
begin

lemma channel_reach_queue:
  "reach (channel_init contents published) (channel_step A) s \<Longrightarrow>
    reach queue_init (queue_step keep) (queue_of contents published s)"
  by (rule queue.reach_abs)

end

text \<open>
  A channel with a storage of RTT, its samples in a list; and a run of it in which one sample was
  written and its writer is done.
\<close>

definition storage_channel ::
  "conn_type \<Rightarrow> nat \<Rightarrow> bool \<Rightarrow> ('m list, 'm list, 'm) channel_api" where
  "storage_channel ty n can_loan =
     (list_channel (\<lambda>k. True) can_loan)\<lparr>buffer_write := storage_keep ty n\<rparr>"

interpretation storage: stored_channel "storage_channel ty n can_loan" "\<lambda>b. b" "\<lambda>p. p" "storage_keep ty n"
  for ty n can_loan
  by unfold_locales (auto simp: storage_channel_def list_channel_def)

definition demo_channel :: "(nat list, nat list, nat) channel_api" where
  "demo_channel = storage_channel BUFFER 3 True"

definition demo_start :: "(nat list, nat list, nat) channel_state" where
  "demo_start = \<lparr>wait = \<lparr>func = True, has_work = False, guard = False\<rparr>, phase = Waiting, wrote = 0,
     flagged = 0, pub = [], buf = [], written = []\<rparr>"

definition demo_written :: "(nat list, nat list, nat) channel_state" where
  "demo_written = \<lparr>wait = \<lparr>func = True, has_work = True, guard = True\<rparr>, phase = Waiting, wrote = 0,
     flagged = 0, pub = [], buf = [4], written = [4]\<rparr>"

interpretation demo: stored_channel demo_channel "\<lambda>b. b" "\<lambda>p. p" "storage_keep BUFFER 3"
  unfolding demo_channel_def by (rule storage.stored_channel_axioms)

lemma demo_start_reach: "reach (channel_init (\<lambda>b. b) (\<lambda>p. p)) (channel_step demo_channel) demo_start"
  by (rule reach_init) (simp add: channel_init_def Waitable_def demo_start_def)

lemma demo_written_reach: "reach (channel_init (\<lambda>b. b) (\<lambda>p. p)) (channel_step demo_channel) demo_written"
proof -
  let ?s1 = "demo_start\<lparr>buf := [4], wrote := 1, written := [4]\<rparr>"
  let ?s2 = "?s1\<lparr>wait := trigger_flag (wait ?s1), wrote := 0, flagged := 1\<rparr>"
  have "channel_step demo_channel demo_start ?s1"
    using put_sample [of demo_channel demo_start 4]
    by (simp add: demo_start_def demo_channel_def storage_channel_def)
  moreover have "channel_step demo_channel ?s1 ?s2"
    using set_flag [of ?s1 0 demo_channel] by (simp add: demo_start_def)
  moreover have "channel_step demo_channel ?s2 demo_written"
    using set_guard [of ?s2 0 demo_channel]
    by (simp add: demo_start_def demo_written_def trigger_flag_def trigger_guard_def)
  ultimately show ?thesis using demo_start_reach by (blast intro: reach_step)
qed

text \<open>C4: The publisher's channel is a queue: in every interleaving of writers, executor and destruction it
  does what the specification of its storage allows. So samples are published in the order they were
  written, each at most once and none that was not written. With a data object or a circular buffer
  the newest sample is never lost, and a buffer loses nothing as long as no more samples were written
  than it has room for.\<close>

theorem channel_refines_queue:
  assumes "sample_channel A contents published"
    and "\<forall>b m. contents (buffer_write A b m) = storage_keep ty n (contents b) m"
    and "reach (channel_init contents published) (channel_step A) s"
  shows "reach queue_init (queue_step (storage_keep ty n)) (queue_of contents published s)
    \<and> subseq (published (pub s) @ contents (buf s)) (written s)
    \<and> (ty = DATA \<or> ty = CIRCULAR_BUFFER \<and> 0 < n \<longrightarrow> written s \<noteq> [] \<longrightarrow>
         published (pub s) @ contents (buf s) \<noteq> []
         \<and> last (published (pub s) @ contents (buf s)) = last (written s))
    \<and> (ty = BUFFER \<or> ty = CIRCULAR_BUFFER \<longrightarrow> length (written s) \<le> n \<longrightarrow>
         published (pub s) @ contents (buf s) = written s)"
proof -
  have "stored_channel A contents published (storage_keep ty n)"
    using assms(1,2) by (simp add: stored_channel_def stored_channel_axioms_def)
  then have q: "reach queue_init (queue_step (storage_keep ty n)) (queue_of contents published s)"
    using assms(3) by (rule stored_channel.channel_reach_queue)
  show ?thesis
    using q reach_queue_subseq [OF q] reach_queue_newest [OF q] reach_queue_lossless [OF q]
    by (simp add: queue_of_def)
qed

theorem channel_refines_queue_witness:
  "subseq (pub demo_written @ buf demo_written) (written demo_written)
     \<and> pub demo_written @ buf demo_written = written demo_written"
  using channel_refines_queue [OF demo.sample_channel_axioms _ demo_written_reach, of BUFFER 3] demo.contents_write
  by (simp add: demo_written_def)

text \<open>C6: No wake-up is lost: in every interleaving of writers with the executor, when a sample waits in
  the buffer of a publisher that is not being destroyed, no writer is in the middle of a write and
  the executor is waiting, then its guard condition is triggered and the waitable has work.\<close>

theorem no_lost_wakeup:
  assumes "sample_channel A contents published"
    and "reach (channel_init contents published) (channel_step A) s"
    and "func (wait s)" "contents (buf s) \<noteq> []" "wrote s = 0" "flagged s = 0" "phase s = Waiting"
  shows "guard (wait s) \<and> is_ready (wait s)"
  using sample_channel.channel_reach_noticed [OF assms(1,2)] assms(3-7)
  by (auto simp: noticed_def is_ready_def)

theorem no_lost_wakeup_witness:
  "reach (channel_init (\<lambda>b. b) (\<lambda>p. p)) (channel_step demo_channel) demo_written
     \<and> guard (wait demo_written) \<and> is_ready (wait demo_written)"
  using no_lost_wakeup [OF demo.sample_channel_axioms demo_written_reach] demo_written_reach
  by (simp add: demo_written_def)

section \<open>The executor alone\<close>

text \<open>How many steps the executor can still make: it decreases with each of them.\<close>

definition drain_rank :: "('b \<Rightarrow> 'm list) \<Rightarrow> ('p, 'b, 'm) channel_state \<Rightarrow> nat" where
  "drain_rank contents s =
     (let n = length (contents (buf s)); g = (if guard (wait s) then n + 5 else 0)
      in case phase s of
           Waiting \<Rightarrow> g | Woken \<Rightarrow> n + 4 + g | Ready \<Rightarrow> n + 3 + g | Draining l \<Rightarrow> n + 2 + g
         | Drained r \<Rightarrow> (if r then 1 else n + 7) + g | Retriggering \<Rightarrow> n + 6 + g)"

lemma drain_rank_bound: "drain_rank contents s \<le> 2 * length (contents (buf s)) + 12"
  by (simp add: drain_rank_def Let_def split: executor_phase.split)

lemma executor_stepI:
  "channel_step A s t \<Longrightarrow> written t = written s \<Longrightarrow> wrote t = wrote s \<Longrightarrow> flagged t = flagged s \<Longrightarrow>
    func (wait t) = func (wait s) \<Longrightarrow> \<exists>t. executor_step A s t"
  by (auto simp: executor_step_def)

lemma executor_progress:
  assumes "phase s = Waiting \<longrightarrow> guard (wait s)" "func (wait s)"
  shows "\<exists>t. executor_step A s t"
proof (cases "phase s")
  case Waiting
  with assms show ?thesis by (intro executor_stepI [OF wake]) simp_all
next
  case Woken
  then show ?thesis by (intro executor_stepI [OF ask]) simp_all
next
  case Ready
  with assms(2) show ?thesis
    by (intro executor_stepI [OF enter [where w = "wait s\<lparr>has_work := False\<rparr>"]])
      (simp_all add: execute_begin_def)
next
  case (Draining l)
  obtain r p b where "channel_round A l (pub s, buf s) = (r, p, b)" by (metis prod.exhaust)
  with Draining show ?thesis by (intro executor_stepI [OF round]) simp_all
next
  case (Drained r)
  then show ?thesis
    by (cases r) (auto intro: executor_stepI [OF leave] executor_stepI [OF retrigger] simp: trigger_flag_def)
next
  case Retriggering
  then show ?thesis by (intro executor_stepI [OF retriggered]) (simp_all add: trigger_guard_def)
qed

lemma executor_run_keeps:
  "(executor_step A)\<^sup>*\<^sup>* s t \<Longrightarrow> (channel_step A)\<^sup>*\<^sup>* s t \<and> written t = written s \<and> wrote t = wrote s
     \<and> flagged t = flagged s \<and> func (wait t) = func (wait s)"
  by (induction rule: rtranclp_induct) (auto simp: executor_step_def)

text \<open>The interface of a publisher that never fails to borrow a message.\<close>

locale lending_channel = sample_channel A contents published
  for A :: "('p, 'b, 'm) channel_api" and contents :: "'b \<Rightarrow> 'm list" and published :: "'p \<Rightarrow> 'm list" +
  assumes loans: "fst (borrow_loaned_message A p)"
begin

lemma executor_step_rank:
  assumes "executor_step A s t" "func (wait s)"
  shows "drain_rank contents t < drain_rank contents s"
proof -
  have "channel_step A s t" and keep: "func (wait t)" "written t = written s" "wrote t = wrote s" "flagged t = flagged s"
    using assms by (auto simp: executor_step_def)
  then show ?thesis
  proof (cases rule: channel_step.cases)
    case (round l r p b)
    with channel_round_effect [OF round(3)] loans [of "pub s"] show ?thesis
      by (auto simp: drain_rank_def Let_def)
  qed (use keep assms(2) in \<open>auto simp: drain_rank_def Let_def trigger_flag_def trigger_guard_def
      execute_begin_def waitable_cancel_def split: if_splits\<close>)
qed

end

sublocale lending_channel \<subseteq> drain: terminating_system "executor_step A" "\<lambda>s. func (wait s)" "drain_rank contents"
  by unfold_locales (auto simp: executor_step_def intro: executor_step_rank)

context lending_channel
begin

lemma executor_run_bounded:
  "(executor_step A ^^ k) s t \<Longrightarrow> func (wait s) \<Longrightarrow> k \<le> 2 * length (contents (buf s)) + 12"
  using drain.run_bounded [of k s t] drain_rank_bound [of contents s] by linarith

lemma executor_run_ends: "func (wait s) \<Longrightarrow> \<exists>t. (executor_step A)\<^sup>*\<^sup>* s t \<and> (\<nexists>u. executor_step A t u)"
  by (rule drain.run_ends)

lemma executor_run_queue:
  "(executor_step A)\<^sup>*\<^sup>* s t \<Longrightarrow> published (pub t) @ contents (buf t) = published (pub s) @ contents (buf s)"
proof (induction rule: rtranclp_induct)
  case (step t u)
  have "published (pub u) @ contents (buf u) = published (pub t) @ contents (buf t)"
    using step.hyps(2) unfolding executor_step_def
    by (elim conjE channel_stepE) (auto dest!: channel_round_effect)
  with step.IH show ?case by simp
qed simp

end

text \<open>C5: Left alone, the executor publishes everything: once no writer is in the middle of a write, every
  run of the executor of a publisher that is not destroyed ends, after at most a few steps for each
  waiting sample, and where it ends the buffer is empty and its samples were published in order,
  provided that borrowing a message never fails.\<close>

theorem executor_drains:
  assumes "sample_channel A contents published"
    and "\<forall>p. fst (borrow_loaned_message A p)"
    and "reach (channel_init contents published) (channel_step A) s"
    and "func (wait s)" "wrote s = 0" "flagged s = 0"
  shows "(\<exists>t. (executor_step A)\<^sup>*\<^sup>* s t \<and> (\<nexists>u. executor_step A t u))
    \<and> (\<forall>k t. (executor_step A ^^ k) s t \<longrightarrow> k \<le> 2 * length (contents (buf s)) + 12)
    \<and> (\<forall>t. (executor_step A)\<^sup>*\<^sup>* s t \<longrightarrow> (\<nexists>u. executor_step A t u) \<longrightarrow>
         contents (buf t) = [] \<and> published (pub t) = published (pub s) @ contents (buf s))"
proof (intro conjI allI impI)
  have ch: "lending_channel A contents published"
    using assms(1,2) by (simp add: lending_channel_def lending_channel_axioms_def)
  show "\<exists>t. (executor_step A)\<^sup>*\<^sup>* s t \<and> (\<nexists>u. executor_step A t u)"
    by (rule lending_channel.executor_run_ends [OF ch assms(4)])
  show "k \<le> 2 * length (contents (buf s)) + 12" if "(executor_step A ^^ k) s t" for k t
    by (rule lending_channel.executor_run_bounded [OF ch that assms(4)])
  fix t
  assume t: "(executor_step A)\<^sup>*\<^sup>* s t" "\<nexists>u. executor_step A t u"
  note keeps = executor_run_keeps [OF t(1)]
  have "phase t = Waiting" "\<not> guard (wait t)"
    using executor_progress [of t A] t(2) keeps assms(4) by auto
  moreover have "noticed contents t"
    using sample_channel.channel_reach_noticed [OF assms(1) reach_steps [OF assms(3)]] keeps by blast
  ultimately show "contents (buf t) = []" using keeps assms(4-6) by (auto simp: noticed_def)
  then show "published (pub t) = published (pub s) @ contents (buf s)"
    using lending_channel.executor_run_queue [OF ch t(1)] by simp
qed

interpretation demo_lending: lending_channel demo_channel "\<lambda>b. b" "\<lambda>p. p"
  by unfold_locales (simp add: demo_channel_def storage_channel_def list_channel_def)

theorem executor_drains_witness:
  "\<exists>t. (executor_step demo_channel)\<^sup>*\<^sup>* demo_written t \<and> buf t = [] \<and> pub t = [4]"
  using executor_drains [OF demo.sample_channel_axioms _ demo_written_reach] demo_lending.loans
  by (fastforce simp: demo_written_def)

text \<open>What happens to the buffer when only writers work on it.\<close>

definition only_written :: "('p, 'b, 'm) channel_api \<Rightarrow> 'b \<Rightarrow> 'b \<Rightarrow> bool" where
  "only_written A = (\<lambda>b b'. \<exists>m. b' = buffer_write A b m)\<^sup>*\<^sup>*"

lemma cancelled_step:
  assumes "channel_step A s t" "\<not> func (wait s)" "phase s \<in> {Waiting, Woken, Ready}"
  shows "\<not> func (wait t) \<and> phase t \<in> {Waiting, Woken, Ready} \<and> pub t = pub s
    \<and> (buf t = buf s \<or> (\<exists>m. buf t = buffer_write A (buf s) m))"
  using assms
  by (cases rule: channel_step.cases)
     (auto simp: trigger_flag_def trigger_guard_def execute_begin_def waitable_cancel_def)

lemma cancelled_steps:
  assumes "(channel_step A)\<^sup>*\<^sup>* s t" "\<not> func (wait s)" "phase s \<in> {Waiting, Woken, Ready}"
  shows "\<not> func (wait t) \<and> phase t \<in> {Waiting, Woken, Ready} \<and> pub t = pub s
    \<and> only_written A (buf s) (buf t)"
  using assms
proof (induction rule: rtranclp_induct)
  case base
  then show ?case by (simp add: only_written_def)
next
  case (step t u)
  have "only_written A (buf s) (buf u)"
    using step cancelled_step [OF step.hyps(2)]
    by (auto simp: only_written_def intro: rtranclp.rtrancl_into_rtrancl)
  with step cancelled_step [OF step.hyps(2)] show ?case by auto
qed



end
