(* ===== verification/Services.thy ===== *)
theory Services
  imports Node
begin

text \<open>
  The package \<open>rtt_ros2_services\<close>: the registry of service types
  (\<open>rtt_ros2_services_registry.cpp\<close>), the proxies between Orocos operations and ROS services
  (\<open>rtt_ros2_services_proxy.hpp\<close>), and the service that connects and disconnects them by name
  (\<open>rtt_ros2_services_plugin.cpp\<close>). The operation callers of RTT and the services of rclcpp are
  third-party code. Dereferencing a null pointer or a destroyed object is a value of \<open>cpp_exn\<close>.
\<close>

section \<open>The registry\<close>

text \<open>A factory is known by its type, which selects the proxies it makes.\<close>

record factory =
  factory_type :: string

type_synonym registry = "string \<Rightarrow> factory option"

definition RosServiceProxyFactory :: "string \<Rightarrow> factory" where
  "RosServiceProxyFactory service_type = \<lparr>factory_type = service_type\<rparr>"

text \<open>The name of the type a factory was made for.\<close>

definition factory_getType :: "factory \<Rightarrow> string" where
  "factory_getType f = factory_type f"

definition registry_Instance :: "registry option \<Rightarrow> registry option" where
  "registry_Instance s_instance = (if s_instance = None then Some (\<lambda>t. None) else s_instance)"

definition registry_Release :: "registry option \<Rightarrow> registry option" where
  "registry_Release s_instance = None"

definition registerServiceFactory :: "factory option \<Rightarrow> registry \<Rightarrow> bool \<times> registry" where
  "registerServiceFactory f factories =
     (case f of
        None \<Rightarrow> (False, factories)
      | Some factory \<Rightarrow> (True, factories(factory_getType factory \<mapsto> factory)))"

definition hasServiceFactory :: "registry \<Rightarrow> string \<Rightarrow> bool" where
  "hasServiceFactory factories service_type = (factories service_type \<noteq> None)"

definition getServiceFactory :: "registry \<Rightarrow> string \<Rightarrow> factory option" where
  "getServiceFactory factories service_type =
     (if hasServiceFactory factories service_type then factories service_type else None)"

section \<open>Proxies\<close>

text \<open>
  The third-party calls. \<open>ready t v op\<close>: an operation caller with the signature of variant \<open>v\<close> of the
  service type \<open>t\<close>, made for the operation \<open>op\<close>, is ready; \<open>n_variants t\<close> is the number of variants whose
  operation caller is not \<open>void\<close>; \<open>call_operation\<close> calls an operation with the request and the response,
  which it changes; \<open>service_accepted\<close>: \<open>create_service\<close> and \<open>create_client\<close> take the name of a service, and
  throw otherwise; \<open>variant_dispatch\<close> is the \<open>dispatch\<close> of a wrapper that specialises another variant;
  \<open>setImplementation\<close> returns whether an operation caller takes an implementation with the signature
  of the type.
\<close>

record ('r, 'c, 'op, 'req, 'resp) service_env =
  split :: "string \<Rightarrow> string list"
  requires_service :: "'r \<Rightarrow> string \<Rightarrow> 'r option"
  getOperationCaller :: "'r \<Rightarrow> string \<Rightarrow> 'c option"
  n_variants :: "string \<Rightarrow> nat"
  ready :: "string \<Rightarrow> nat \<Rightarrow> 'op \<Rightarrow> bool"
  call_operation :: "'op \<Rightarrow> 'req \<Rightarrow> 'resp \<Rightarrow> 'resp"
  variant_dispatch :: "string \<Rightarrow> nat \<Rightarrow> 'op \<Rightarrow> 'req \<Rightarrow> 'resp \<Rightarrow> 'resp"
  setImplementation :: "'c \<Rightarrow> string \<Rightarrow> bool"
  service_accepted :: "string \<Rightarrow> bool"
  send_request :: "string \<Rightarrow> 'req \<Rightarrow> 'resp"

text \<open>
  The variants are tried in turn, beginning with \<open>variant\<close>; the next one exists when its operation
  caller is not \<open>void\<close>.
\<close>

function server_caller_connect ::
  "('r, 'c, 'op, 'req, 'resp) service_env \<Rightarrow> string \<Rightarrow> nat \<Rightarrow> 'op \<Rightarrow> (nat \<times> 'op) option" where
  "server_caller_connect E t variant operation =
     (if ready E t variant operation then Some (variant, operation)
      else if variant + 1 < n_variants E t then server_caller_connect E t (variant + 1) operation
      else None)"
  by auto

termination server_caller_connect
  by (relation "measure (\<lambda>(E, t, variant, operation). n_variants E t - variant)") auto

declare server_caller_connect.simps [simp del]

text \<open>The wrapper of variant 0 is the default one: it calls the operation with request and response.\<close>

definition wrapper_dispatch ::
  "('r, 'c, 'op, 'req, 'resp) service_env \<Rightarrow> string \<Rightarrow> nat \<Rightarrow> 'op \<Rightarrow> 'req \<Rightarrow> 'resp \<Rightarrow> 'resp" where
  "wrapper_dispatch E t variant operation request response =
     (if variant = 0 then call_operation E operation request response
      else variant_dispatch E t variant operation request response)"

definition server_caller_dispatch ::
  "('r, 'c, 'op, 'req, 'resp) service_env \<Rightarrow> string \<Rightarrow> nat \<times> 'op \<Rightarrow> 'req \<Rightarrow> 'resp \<Rightarrow> 'resp result" where
  "server_caller_dispatch E t = (\<lambda>(variant, operation) request response.
     if \<not> ready E t variant operation then Inl (RuntimeError ''OperationCaller not ready'')
     else Inr (wrapper_dispatch E t variant operation request response))"

text \<open>
  A server proxy: \<open>server\<close> is the node on which the ROS service was created. \<open>sp_type\<close> is the template
  argument of the proxy.
\<close>

record ('rcl, 'op) server_proxy =
  sp_name :: string
  sp_type :: string
  impl :: "(nat \<times> 'op) option"
  server :: "'rcl option"

definition RosServiceServerProxy :: "string \<Rightarrow> string \<Rightarrow> ('rcl, 'op) server_proxy" where
  "RosServiceServerProxy t service_name = \<lparr>sp_name = service_name, sp_type = t, impl = None, server = None\<rparr>"

text \<open>The destructor takes the ROS service down; the name is that of the base class.\<close>

definition RosServiceServerProxy_destroy :: "('rcl, 'op) server_proxy \<Rightarrow> ('rcl, 'op) server_proxy" where
  "RosServiceServerProxy_destroy p = p\<lparr>server := None\<rparr>"

definition server_getServiceName :: "('rcl, 'op) server_proxy \<Rightarrow> string" where
  "server_getServiceName p = sp_name p"

definition server_connect ::
  "('r, 'c, 'op, 'req, 'resp) service_env \<Rightarrow> 'rcl option \<Rightarrow> 'op \<Rightarrow> ('rcl, 'op) server_proxy \<Rightarrow>
   bool result \<times> ('rcl, 'op) server_proxy" where
  "server_connect E node operation p =
     (case node of
        None \<Rightarrow> (Inr False, p)
      | Some n \<Rightarrow>
          (let p = p\<lparr>impl := server_caller_connect E (sp_type p) 0 operation\<rparr>
           in if impl p = None then (Inr False, p)
              else if \<not> service_accepted E (sp_name p) then (Inl (InvalidArgument (sp_name p)), p)
              else (Inr True, p\<lparr>server := Some n\<rparr>)))"

text \<open>The callback of the ROS service: a request that arrives while there is a server.\<close>

definition server_callback ::
  "('r, 'c, 'op, 'req, 'resp) service_env \<Rightarrow> ('rcl, 'op) server_proxy \<Rightarrow> 'req \<Rightarrow> 'resp \<Rightarrow> 'resp result" where
  "server_callback E p request response =
     (case impl p of
        None \<Rightarrow> Inl (NullDereference ''impl_'')
      | Some i \<Rightarrow> server_caller_dispatch E (sp_type p) i request response)"

text \<open>
  A client proxy has an identity, its address, because the function given to the operation caller
  captures it.
\<close>

record 'rcl client_proxy =
  cp_name :: string
  cp_type :: string
  cp_address :: nat
  client :: "'rcl option"

definition RosServiceClientProxy :: "string \<Rightarrow> nat \<Rightarrow> string \<Rightarrow> 'rcl client_proxy" where
  "RosServiceClientProxy t address service_name =
     \<lparr>cp_name = service_name, cp_type = t, cp_address = address, client = None\<rparr>"

text \<open>\<open>bound\<close> is the implementation of every operation caller: the proxy its function captured.\<close>

definition client_connect ::
  "('r, 'c, 'op, 'req, 'resp) service_env \<Rightarrow> 'rcl option \<Rightarrow> 'c \<Rightarrow> 'rcl client_proxy \<Rightarrow> ('c \<Rightarrow> nat option) \<Rightarrow>
   bool result \<times> 'rcl client_proxy \<times> ('c \<Rightarrow> nat option)" where
  "client_connect E node operation_caller p bound =
     (case node of
        None \<Rightarrow> (Inr False, p, bound)
      | Some n \<Rightarrow>
          if \<not> service_accepted E (cp_name p) then (Inl (InvalidArgument (cp_name p)), p, bound)
          else let p = p\<lparr>client := Some n\<rparr>
               in if setImplementation E operation_caller (cp_type p)
                  then (Inr True, p, bound(operation_caller \<mapsto> cp_address p))
                  else (Inr False, p, bound))"

definition create_server_proxy :: "factory \<Rightarrow> string \<Rightarrow> ('rcl, 'op) server_proxy" where
  "create_server_proxy f service_name = RosServiceServerProxy (factory_type f) service_name"

definition create_client_proxy :: "factory \<Rightarrow> nat \<Rightarrow> string \<Rightarrow> 'rcl client_proxy" where
  "create_client_proxy f address service_name = RosServiceClientProxy (factory_type f) address service_name"

section \<open>The service\<close>

text \<open>A component with its required interface.\<close>

record ('s, 'r) rtt_component = "'s task_context" +
  tc_requires :: 'r

record ('rcl, 'op, 'c) ros_service_service =
  rosservice_registry :: registry
  server_proxies :: "string \<Rightarrow> ('rcl, 'op) server_proxy option"
  client_proxies :: "string \<Rightarrow> 'rcl client_proxy option"
  bound_callers :: "'c \<Rightarrow> nat option"
  next_address :: nat

definition RosServiceService :: "registry \<Rightarrow> ('c \<Rightarrow> nat option) \<Rightarrow> ('rcl, 'op, 'c) ros_service_service" where
  "RosServiceService reg bound =
     \<lparr>rosservice_registry = reg, server_proxies = (\<lambda>n. None), client_proxies = (\<lambda>n. None),
      bound_callers = bound, next_address = 0\<rparr>"

text \<open>
  The operations the constructor of the service adds, those the requester on the client side
  (\<open>rosservice.hpp\<close>) asks for, and those of the global service that exports the registry
  (\<open>rtt_ros2_services_registry_plugin.cpp\<close>), which holds the instance of the registry.
\<close>

definition RosServiceService_operations :: "string list" where
  "RosServiceService_operations = [''connect'', ''disconnect'', ''disconnectAll'']"

definition RosService :: "string list" where
  "RosService = [''connect'', ''disconnect'', ''disconnectAll'']"

definition RosServiceRegistryService :: "registry option \<Rightarrow> registry option \<times> string list" where
  "RosServiceRegistryService s_instance =
     (registry_Instance s_instance,
      [''registerServiceFactory'', ''hasServiceFactory'', ''getServiceFactory'', ''listSrvs''])"

text \<open>The loop over all tokens but the last.\<close>

fun walk :: "('s \<Rightarrow> string \<Rightarrow> 's option) \<Rightarrow> 's \<Rightarrow> string list \<Rightarrow> 's option" where
  "walk sub s [] = Some s"
| "walk sub s (t # ts) = (case sub s t of Some s' \<Rightarrow> walk sub s' ts | None \<Rightarrow> None)"

definition get_owner_operation_caller ::
  "('r, 'c, 'op, 'req, 'resp) service_env \<Rightarrow> ('s, 'r) rtt_component option \<Rightarrow> string \<Rightarrow> 'c option result" where
  "get_owner_operation_caller E owner rtt_uri =
     (let tokens = split E rtt_uri
      in if tokens = [] then Inr None
         else case owner of
                None \<Rightarrow> Inl (NullDereference ''getOwner()'')
              | Some tc \<Rightarrow>
                  Inr (case walk (requires_service E) (tc_requires tc) (butlast tokens) of
                         None \<Rightarrow> None
                       | Some required \<Rightarrow> getOperationCaller E required (last tokens)))"

definition get_owner_operation ::
  "('s, 'n, 'op) rtt_service_api \<Rightarrow> ('r, 'c, 'op, 'req, 'resp) service_env \<Rightarrow>
   ('s, 'r) rtt_component option \<Rightarrow> string \<Rightarrow> 'op option result" where
  "get_owner_operation R E owner rtt_uri =
     (let tokens = split E rtt_uri
      in if tokens = [] then Inr None
         else case owner of
                None \<Rightarrow> Inl (NullDereference ''getOwner()'')
              | Some tc \<Rightarrow>
                  Inr (case walk (getService R) (tc_provides tc) (butlast tokens) of
                         None \<Rightarrow> None
                       | Some provided \<Rightarrow> getOperation R provided (last tokens)))"

definition connect_client ::
  "('s, 'rcl rosnode, 'op) rtt_service_api \<Rightarrow> ('r, 'c, 'op, 'req, 'resp) service_env \<Rightarrow> 's \<Rightarrow>
   ('s, 'r) rtt_component \<Rightarrow> 'c \<Rightarrow> string \<Rightarrow> string \<Rightarrow> ('rcl, 'op, 'c) ros_service_service \<Rightarrow>
   bool result \<times> ('rcl, 'op, 'c) ros_service_service" where
  "connect_client R E global tc operation_caller name t s =
     (let s = (if client_proxies s name = None
               then (case getServiceFactory (rosservice_registry s) t of
                       None \<Rightarrow> s
                     | Some f \<Rightarrow>
                         s\<lparr>client_proxies := (client_proxies s)(name \<mapsto>
                             create_client_proxy f (next_address s) name),
                           next_address := Suc (next_address s)\<rparr>)
               else s)
      in case client_proxies s name of
           None \<Rightarrow> (Inl (NullDereference ''getServiceFactory''), s)
         | Some p \<Rightarrow>
             (case client_connect E (getNode R global (Some (task_context.truncate tc))) operation_caller p (bound_callers s) of
                (ok, p', bound') \<Rightarrow>
                  (ok, s\<lparr>client_proxies := (client_proxies s)(name \<mapsto> p'), bound_callers := bound'\<rparr>)))"

definition connect_server ::
  "('s, 'rcl rosnode, 'op) rtt_service_api \<Rightarrow> ('r, 'c, 'op, 'req, 'resp) service_env \<Rightarrow> 's \<Rightarrow>
   ('s, 'r) rtt_component \<Rightarrow> 'op \<Rightarrow> string \<Rightarrow> string \<Rightarrow> ('rcl, 'op, 'c) ros_service_service \<Rightarrow>
   bool result \<times> ('rcl, 'op, 'c) ros_service_service" where
  "connect_server R E global tc operation name t s =
     (let s = (if server_proxies s name = None
               then (case getServiceFactory (rosservice_registry s) t of
                       None \<Rightarrow> s
                     | Some f \<Rightarrow>
                         s\<lparr>server_proxies := (server_proxies s)(name \<mapsto> create_server_proxy f name)\<rparr>)
               else s)
      in case server_proxies s name of
           None \<Rightarrow> (Inl (NullDereference ''getServiceFactory''), s)
         | Some p \<Rightarrow>
             (case server_connect E (getNode R global (Some (task_context.truncate tc))) operation p of
                (ok, p') \<Rightarrow> (ok, s\<lparr>server_proxies := (server_proxies s)(name \<mapsto> p')\<rparr>)))"

definition connect ::
  "('s, 'rcl rosnode, 'op) rtt_service_api \<Rightarrow> ('r, 'c, 'op, 'req, 'resp) service_env \<Rightarrow> 's \<Rightarrow>
   ('s, 'r) rtt_component option \<Rightarrow> string \<Rightarrow> string \<Rightarrow> string \<Rightarrow> ('rcl, 'op, 'c) ros_service_service \<Rightarrow>
   bool result \<times> ('rcl, 'op, 'c) ros_service_service" where
  "connect R E global owner rtt_operation_name ros_service_name ros_service_type s =
     (if \<not> hasServiceFactory (rosservice_registry s) ros_service_type then (Inr False, s)
      else case get_owner_operation_caller E owner rtt_operation_name of
             Inl e \<Rightarrow> (Inl e, s)
           | Inr (Some operation_caller) \<Rightarrow>
               connect_client R E global (the owner) operation_caller ros_service_name ros_service_type s
           | Inr None \<Rightarrow>
               (case get_owner_operation R E owner rtt_operation_name of
                  Inl e \<Rightarrow> (Inl e, s)
                | Inr (Some operation) \<Rightarrow>
                    connect_server R E global (the owner) operation ros_service_name ros_service_type s
                | Inr None \<Rightarrow>
                    (if owner = None then Inl (NullDereference ''getOwner()'') else Inr False, s)))"

definition disconnect :: "string \<Rightarrow> ('rcl, 'op, 'c) ros_service_service \<Rightarrow> bool \<times> ('rcl, 'op, 'c) ros_service_service" where
  "disconnect ros_service_name s =
     (let found = False;
          (s, found) = (if server_proxies s ros_service_name \<noteq> None
                        then (s\<lparr>server_proxies := (server_proxies s)(ros_service_name := None)\<rparr>, True)
                        else (s, found));
          (s, found) = (if client_proxies s ros_service_name \<noteq> None
                        then (s\<lparr>client_proxies := (client_proxies s)(ros_service_name := None)\<rparr>, True)
                        else (s, found))
      in (found, s))"

definition disconnectAll :: "('rcl, 'op, 'c) ros_service_service \<Rightarrow> ('rcl, 'op, 'c) ros_service_service" where
  "disconnectAll s = s\<lparr>server_proxies := (\<lambda>n. None), client_proxies := (\<lambda>n. None)\<rparr>"

text \<open>The destructor.\<close>

definition RosServiceService_destroy ::
  "('rcl, 'op, 'c) ros_service_service \<Rightarrow> ('rcl, 'op, 'c) ros_service_service" where
  "RosServiceService_destroy s = disconnectAll s"

text \<open>
  Calling an operation caller that was connected: the function it holds reads the member \<open>client_\<close> of
  the proxy it captured, which is one of the proxies alive or was destroyed. \<open>names\<close> are the names of
  the services in the map.
\<close>

definition proxy_at :: "string list \<Rightarrow> nat \<Rightarrow> ('rcl, 'op, 'c) ros_service_service \<Rightarrow> 'rcl client_proxy option" where
  "proxy_at names a s =
     (case filter (\<lambda>n. map_option cp_address (client_proxies s n) = Some a) names of
        [] \<Rightarrow> None
      | n # _ \<Rightarrow> client_proxies s n)"

definition call_operation_caller ::
  "('r, 'c, 'op, 'req, 'resp) service_env \<Rightarrow> string list \<Rightarrow> 'c \<Rightarrow> 'req \<Rightarrow> 'resp \<Rightarrow>
   ('rcl, 'op, 'c) ros_service_service \<Rightarrow> 'resp result option" where
  "call_operation_caller E names operation_caller request response s =
     (case bound_callers s operation_caller of
        None \<Rightarrow> None
      | Some a \<Rightarrow>
          Some (case proxy_at names a s of
                  None \<Rightarrow> Inl (UseAfterFree ''client_'')
                | Some p \<Rightarrow>
                    (if client p = None then Inr response
                     else Inr (send_request E (cp_name p) request))))"

section \<open>The registry and the variants\<close>

lemma register_lookup:
  "registerServiceFactory (Some f) reg = (True, reg') \<Longrightarrow>
    getServiceFactory reg' t = (if t = factory_type f then Some f else getServiceFactory reg t)"
  by (auto simp: registerServiceFactory_def getServiceFactory_def hasServiceFactory_def factory_getType_def)

text \<open>The variant that is chosen is the first one that is ready.\<close>

lemma server_caller_connect_first:
  "server_caller_connect E t v op = Some (w, o') \<Longrightarrow>
     o' = op \<and> v \<le> w \<and> ready E t w op \<and> (\<forall>u. v \<le> u \<and> u < w \<longrightarrow> \<not> ready E t u op)"
proof (induction E t v op rule: server_caller_connect.induct)
  case (1 E t v op)
  show ?case
  proof (cases "ready E t v op")
    case True
    with 1 have "w = v \<and> o' = op" by (simp add: server_caller_connect.simps [of E t v op])
    with True show ?thesis by auto
  next
    case False
    with 1 have IH: "o' = op" "v + 1 \<le> w" "ready E t w op" "\<forall>u. v + 1 \<le> u \<and> u < w \<longrightarrow> \<not> ready E t u op"
      by (simp_all add: server_caller_connect.simps [of E t v op] split: if_splits)
    have "\<not> ready E t u op" if "v \<le> u" "u < w" for u
      using that False IH(4) by (cases "u = v") auto
    with IH show ?thesis by simp
  qed
qed

lemma server_caller_connect_None:
  "server_caller_connect E t v op = None \<Longrightarrow> v \<le> u \<Longrightarrow> u < n_variants E t \<Longrightarrow> \<not> ready E t u op"
proof (induction E t v op rule: server_caller_connect.induct)
  case (1 E t v op)
  then have v: "\<not> ready E t v op"
    by (simp add: server_caller_connect.simps [of E t v op] split: if_splits)
  show ?case
  proof (cases "u = v")
    case False
    with 1 v show ?thesis by (simp add: server_caller_connect.simps [of E t v op])
  qed (use v in simp)
qed

lemma server_caller_connect_op: "server_caller_connect E t v op = Some (w, o') \<Longrightarrow> o' = op \<and> ready E t w op"
  by (simp add: server_caller_connect_first)

section \<open>The invariant\<close>

definition service_ok :: "('rcl, 'op, 'c) ros_service_service \<Rightarrow> bool" where
  "service_ok s \<longleftrightarrow>
     (\<forall>n p. server_proxies s n = Some p \<longrightarrow> sp_name p = n)
     \<and> (\<forall>n p. client_proxies s n = Some p \<longrightarrow> cp_name p = n \<and> cp_address p < next_address s)
     \<and> (\<forall>n m p q. client_proxies s n = Some p \<longrightarrow> client_proxies s m = Some q \<longrightarrow>
          cp_address p = cp_address q \<longrightarrow> n = m)
     \<and> (\<forall>t f. rosservice_registry s t = Some f \<longrightarrow> factory_type f = t)"

lemma disconnect_ok: "service_ok s \<Longrightarrow> service_ok (snd (disconnect n s))"
  by (auto simp: service_ok_def disconnect_def Let_def split: if_splits)

lemma disconnectAll_ok: "service_ok s \<Longrightarrow> service_ok (disconnectAll s)"
  by (auto simp: service_ok_def disconnectAll_def)

lemma disconnect_effect:
  "fst (disconnect n s) \<longleftrightarrow> server_proxies s n \<noteq> None \<or> client_proxies s n \<noteq> None"
  "server_proxies (snd (disconnect n s)) = (server_proxies s)(n := None)"
  "client_proxies (snd (disconnect n s)) = (client_proxies s)(n := None)"
  "bound_callers (snd (disconnect n s)) = bound_callers s"
  by (auto simp: disconnect_def Let_def fun_eq_iff)

lemma client_connect_effect:
  "client_connect E node c p bound = (r, p', bound') \<Longrightarrow>
     cp_name p' = cp_name p \<and> cp_address p' = cp_address p \<and> cp_type p' = cp_type p
     \<and> (r = Inr True \<longrightarrow> node \<noteq> None \<and> client p' = node \<and> bound' = bound(c \<mapsto> cp_address p))
     \<and> (r \<noteq> Inr True \<longrightarrow> bound' = bound)"
  by (auto simp: client_connect_def Let_def split: option.splits if_splits)

lemma server_connect_effect:
  "server_connect E node op p = (r, p') \<Longrightarrow>
     sp_name p' = sp_name p \<and> sp_type p' = sp_type p
     \<and> (r = Inr True \<longrightarrow> node \<noteq> None \<and> server p' = node
          \<and> (\<exists>v. impl p' = Some (v, op) \<and> server_caller_connect E (sp_type p) 0 op = Some (v, op)))"
  by (auto simp: server_connect_def Let_def dest: server_caller_connect_op split: option.splits if_splits)

lemma connect_client_ok:
  assumes ok: "service_ok s" and has: "hasServiceFactory (rosservice_registry s) t"
  obtains p p' r bound' s1 where "service_ok s1" "client_proxies s1 name = Some p"
    "client_proxies s name = None \<longrightarrow> cp_type p = t"
    "\<forall>m. m \<noteq> name \<longrightarrow> client_proxies s1 m = client_proxies s m" "server_proxies s1 = server_proxies s"
    "client_connect E (getNode R g (Some (task_context.truncate tc))) c p (bound_callers s1) = (r, p', bound')"
    "connect_client R E g tc c name t s =
       (r, s1\<lparr>client_proxies := (client_proxies s1)(name \<mapsto> p'), bound_callers := bound'\<rparr>)"
proof -
  obtain f where f: "getServiceFactory (rosservice_registry s) t = Some f" "factory_type f = t"
    using ok has by (auto simp: getServiceFactory_def hasServiceFactory_def service_ok_def)
  let ?s1 = "if client_proxies s name = None
    then s\<lparr>client_proxies := (client_proxies s)(name \<mapsto> create_client_proxy f (next_address s) name),
           next_address := Suc (next_address s)\<rparr> else s"
  have ok1: "service_ok ?s1"
    using ok by (auto simp: service_ok_def create_client_proxy_def RosServiceClientProxy_def)
      (metis less_irrefl less_SucI)+
  obtain p where p: "client_proxies ?s1 name = Some p" "client_proxies s name = None \<longrightarrow> cp_type p = t"
    by (cases "client_proxies s name") (auto simp: create_client_proxy_def RosServiceClientProxy_def f)
  obtain r p' bound' where c: "client_connect E (getNode R g (Some (task_context.truncate tc))) c p (bound_callers ?s1)
      = (r, p', bound')"
    by (metis prod_cases3)
  show ?thesis
    by (rule that [OF ok1 p _ _ c])
       (use f p(1) c in \<open>auto simp: connect_client_def Let_def\<close>)
qed

lemma connect_server_ok:
  assumes ok: "service_ok s" and has: "hasServiceFactory (rosservice_registry s) t"
  obtains p p' r s1 where "service_ok s1" "server_proxies s1 name = Some p"
    "server_proxies s name = None \<longrightarrow> sp_type p = t" "server_proxies s name \<noteq> None \<longrightarrow> s1 = s"
    "\<forall>m. m \<noteq> name \<longrightarrow> server_proxies s1 m = server_proxies s m" "client_proxies s1 = client_proxies s"
    "server_connect E (getNode R g (Some (task_context.truncate tc))) op p = (r, p')"
    "connect_server R E g tc op name t s = (r, s1\<lparr>server_proxies := (server_proxies s1)(name \<mapsto> p')\<rparr>)"
proof -
  obtain f where f: "getServiceFactory (rosservice_registry s) t = Some f" "factory_type f = t"
    using ok has by (auto simp: getServiceFactory_def hasServiceFactory_def service_ok_def)
  let ?s1 = "if server_proxies s name = None
    then s\<lparr>server_proxies := (server_proxies s)(name \<mapsto> create_server_proxy f name)\<rparr> else s"
  have ok1: "service_ok ?s1"
    using ok by (auto simp: service_ok_def create_server_proxy_def RosServiceServerProxy_def)
  obtain p where p: "server_proxies ?s1 name = Some p" "server_proxies s name = None \<longrightarrow> sp_type p = t"
    by (cases "server_proxies s name") (auto simp: create_server_proxy_def RosServiceServerProxy_def f)
  obtain r p' where c: "server_connect E (getNode R g (Some (task_context.truncate tc))) op p = (r, p')"
    by fastforce
  show ?thesis
    by (rule that [OF ok1 p _ _ _ c])
       (use f p(1) c in \<open>auto simp: connect_server_def Let_def\<close>)
qed

section \<open>Properties\<close>

lemma owner_lookup_Some:
  "get_owner_operation_caller E owner uri = Inr (Some c) \<Longrightarrow> \<exists>tc. owner = Some tc"
  "get_owner_operation R E owner uri = Inr (Some op) \<Longrightarrow> \<exists>tc. owner = Some tc"
  by (auto simp: get_owner_operation_caller_def get_owner_operation_def Let_def split: if_splits option.splits)

lemma service_ok_client_update:
  assumes "service_ok s" "client_proxies s n = Some p" "cp_name p' = cp_name p" "cp_address p' = cp_address p"
  shows "service_ok (s\<lparr>client_proxies := (client_proxies s)(n \<mapsto> p'), bound_callers := b\<rparr>)"
  using assms unfolding service_ok_def by (auto split: if_splits)

lemma service_ok_server_update:
  assumes "service_ok s" "server_proxies s n = Some p" "sp_name p' = sp_name p"
  shows "service_ok (s\<lparr>server_proxies := (server_proxies s)(n \<mapsto> p')\<rparr>)"
  using assms unfolding service_ok_def by auto

text \<open>The result of a \<open>connect\<close> that returns true, by the kind of operation it found.\<close>

lemma connect_client_case:
  assumes ok: "service_ok s" and has: "hasServiceFactory (rosservice_registry s) t"
    and res: "connect_client R E g tc c name t s = (r, s')"
  shows "service_ok s' \<and> server_proxies s' = server_proxies s
    \<and> (\<forall>m. m \<noteq> name \<longrightarrow> client_proxies s' m = client_proxies s m)
    \<and> (r = Inr True \<longrightarrow> (\<exists>p. client_proxies s' name = Some p \<and> cp_name p = name \<and> client p \<noteq> None
         \<and> client p = getNode R g (Some (task_context.truncate tc))
         \<and> bound_callers s' c = Some (cp_address p)
         \<and> (client_proxies s name = None \<longrightarrow> cp_type p = t)))"
proof -
  obtain p p' r' bound' s1 where s1: "service_ok s1" "client_proxies s1 name = Some p"
    "client_proxies s name = None \<longrightarrow> cp_type p = t"
    "\<forall>m. m \<noteq> name \<longrightarrow> client_proxies s1 m = client_proxies s m" "server_proxies s1 = server_proxies s"
    and c: "client_connect E (getNode R g (Some (task_context.truncate tc))) c p (bound_callers s1) = (r', p', bound')"
    and run: "connect_client R E g tc c name t s =
       (r', s1\<lparr>client_proxies := (client_proxies s1)(name \<mapsto> p'), bound_callers := bound'\<rparr>)"
    using connect_client_ok [OF ok has] .
  note eff = client_connect_effect [OF c]
  have s': "s' = s1\<lparr>client_proxies := (client_proxies s1)(name \<mapsto> p'), bound_callers := bound'\<rparr>" "r = r'"
    using res run by auto
  have "service_ok s'"
    unfolding s' using eff by (intro service_ok_client_update [OF s1(1,2)]) auto
  moreover have "cp_name p = name" using s1(1,2) by (auto simp: service_ok_def)
  ultimately show ?thesis using eff s1 by (auto simp: s')
qed

lemma connect_server_case:
  assumes ok: "service_ok s" and has: "hasServiceFactory (rosservice_registry s) t"
    and res: "connect_server R E g tc op name t s = (r, s')"
  shows "service_ok s' \<and> client_proxies s' = client_proxies s
    \<and> (\<forall>m. m \<noteq> name \<longrightarrow> server_proxies s' m = server_proxies s m)
    \<and> (r = Inr True \<longrightarrow> (\<exists>p v. server_proxies s' name = Some p \<and> sp_name p = name \<and> server p \<noteq> None
         \<and> server p = getNode R g (Some (task_context.truncate tc))
         \<and> impl p = Some (v, op) \<and> ready E (sp_type p) v op \<and> (\<forall>u < v. \<not> ready E (sp_type p) u op)
         \<and> (server_proxies s name = None \<longrightarrow> sp_type p = t)))"
proof -
  obtain p p' r' s1 where s1: "service_ok s1" "server_proxies s1 name = Some p"
    "server_proxies s name = None \<longrightarrow> sp_type p = t"
    "\<forall>m. m \<noteq> name \<longrightarrow> server_proxies s1 m = server_proxies s m" "client_proxies s1 = client_proxies s"
    and c: "server_connect E (getNode R g (Some (task_context.truncate tc))) op p = (r', p')"
    and run: "connect_server R E g tc op name t s = (r', s1\<lparr>server_proxies := (server_proxies s1)(name \<mapsto> p')\<rparr>)"
    using connect_server_ok [OF ok has] .
  note eff = server_connect_effect [OF c]
  have s': "s' = s1\<lparr>server_proxies := (server_proxies s1)(name \<mapsto> p')\<rparr>" "r = r'"
    using res run by auto
  have "service_ok s'"
    unfolding s' using eff by (intro service_ok_server_update [OF s1(1,2)]) auto
  moreover have "sp_name p = name" using s1(1,2) by (auto simp: service_ok_def)
  moreover have "\<exists>v. impl p' = Some (v, op) \<and> ready E (sp_type p) v op \<and> (\<forall>u < v. \<not> ready E (sp_type p) u op)"
    if "r = Inr True"
    using eff that server_caller_connect_first by (fastforce simp: s')
  ultimately show ?thesis using eff s1 by (auto simp: s')
qed

lemma connect_effect:
  assumes ok: "service_ok s"
    and res: "connect R E g owner op_name name t s = (r, s')"
  shows "service_ok s'
    \<and> (\<forall>m. m \<noteq> name \<longrightarrow> client_proxies s' m = client_proxies s m \<and> server_proxies s' m = server_proxies s m)
    \<and> (\<not> hasServiceFactory (rosservice_registry s) t \<longrightarrow> r = Inr False \<and> s' = s)
    \<and> (r = Inr True \<longrightarrow> (\<exists>tc node. owner = Some tc \<and> getNode R g (Some (task_context.truncate tc)) = Some node
         \<and> ((\<exists>c p. get_owner_operation_caller E owner op_name = Inr (Some c)
               \<and> client_proxies s' name = Some p \<and> cp_name p = name \<and> client p = Some node
               \<and> bound_callers s' c = Some (cp_address p))
            \<or> (\<exists>op p v. get_owner_operation_caller E owner op_name = Inr None
               \<and> get_owner_operation R E owner op_name = Inr (Some op)
               \<and> server_proxies s' name = Some p \<and> sp_name p = name \<and> server p = Some node
               \<and> impl p = Some (v, op) \<and> ready E (sp_type p) v op \<and> (\<forall>u < v. \<not> ready E (sp_type p) u op)))))"
proof (cases "hasServiceFactory (rosservice_registry s) t")
  case False
  with res ok show ?thesis by (auto simp: connect_def)
next
  case has: True
  consider (err) e where "get_owner_operation_caller E owner op_name = Inl e"
    | (client) c where "get_owner_operation_caller E owner op_name = Inr (Some c)"
    | (server) "get_owner_operation_caller E owner op_name = Inr None"
    by (metis option.exhaust sum.exhaust)
  then show ?thesis
  proof cases
    case err
    with has res ok show ?thesis by (auto simp: connect_def)
  next
    case (client c)
    then obtain tc where tc: "owner = Some tc" by (auto dest: owner_lookup_Some)
    with has res client have "connect_client R E g tc c name t s = (r, s')"
      by (simp add: connect_def)
    from connect_client_case [OF ok has this] client tc has show ?thesis by auto
  next
    case server
    show ?thesis
    proof (cases "get_owner_operation R E owner op_name")
      case (Inl e)
      with has res server ok show ?thesis by (auto simp: connect_def)
    next
      case (Inr o')
      show ?thesis
      proof (cases o')
        case None
        with has res server Inr ok show ?thesis by (auto simp: connect_def split: if_splits)
      next
        case (Some op)
        with Inr obtain tc where tc: "owner = Some tc" by (auto dest: owner_lookup_Some)
        with has res server Inr Some have "connect_server R E g tc op name t s = (r, s')"
          by (simp add: connect_def)
        from connect_server_case [OF ok has this] server Inr Some tc has show ?thesis by auto
      qed
    qed
  qed
qed

text \<open>C11: A \<open>connect\<close> keeps the maps of proxies well-formed and touches no other service name, also when it
  throws. An unknown
  service type is refused without any change. When it returns true the component has a node, and
  either the name is a required operation, which now calls a client of that service name, or it is
  not and is a provided one, which now serves requests through the first signature it fits.\<close>

theorem connect_correct:
  assumes ok: "service_ok s"
    and res: "connect R E g owner op_name name t s = (r, s')"
  shows "service_ok s'
    \<and> (\<forall>m. m \<noteq> name \<longrightarrow> client_proxies s' m = client_proxies s m \<and> server_proxies s' m = server_proxies s m)
    \<and> (\<not> hasServiceFactory (rosservice_registry s) t \<longrightarrow> r = Inr False \<and> s' = s)
    \<and> (r = Inr True \<longrightarrow> (\<exists>tc node. owner = Some tc \<and> getNode R g (Some (task_context.truncate tc)) = Some node
         \<and> ((\<exists>c p. get_owner_operation_caller E owner op_name = Inr (Some c)
               \<and> client_proxies s' name = Some p \<and> cp_name p = name \<and> client p = Some node
               \<and> bound_callers s' c = Some (cp_address p))
            \<or> (\<exists>op p v. get_owner_operation_caller E owner op_name = Inr None
               \<and> get_owner_operation R E owner op_name = Inr (Some op)
               \<and> server_proxies s' name = Some p \<and> sp_name p = name \<and> server p = Some node
               \<and> impl p = Some (v, op) \<and> ready E (sp_type p) v op \<and> (\<forall>u < v. \<not> ready E (sp_type p) u op)))))"
  by (rule connect_effect [OF assms])

lemma proxy_at_unique:
  assumes ok: "service_ok s" and p: "client_proxies s name = Some p" and "name \<in> set names"
  shows "proxy_at names (cp_address p) s = Some p"
proof -
  have eq: "map_option cp_address (client_proxies s n) = Some (cp_address p) \<longleftrightarrow> n = name" for n
    using ok p by (auto simp: service_ok_def)
  have "filter (\<lambda>n. map_option cp_address (client_proxies s n) = Some (cp_address p)) names =
      filter (\<lambda>n. n = name) names"
    by (simp only: eq)
  moreover from assms(3) have "\<exists>ns. filter (\<lambda>n. n = name) names = name # ns"
    by (induction names) auto
  ultimately show ?thesis using p by (auto simp: proxy_at_def)
qed

lemma proxy_at_None:
  assumes "\<And>n p. client_proxies s n = Some p \<Longrightarrow> cp_address p \<noteq> a"
  shows "proxy_at names a s = None"
proof -
  have "filter (\<lambda>n. map_option cp_address (client_proxies s n) = Some a) names = []"
    using assms by (auto simp: filter_empty_conv)
  then show ?thesis unfolding proxy_at_def by simp
qed

text \<open>C20: After a \<open>connect\<close> that returned true, calling a required operation sends the request to the ROS
  service of that name, and a request to the ROS service of a provided operation is dispatched to the
  operation through the first signature that fits, without an exception.\<close>

theorem connected_calls_forwarded:
  assumes ok: "service_ok s"
    and res: "connect R E g owner op_name name t s = (Inr True, s')"
    and names: "name \<in> set names"
  shows "(\<exists>c. get_owner_operation_caller E owner op_name = Inr (Some c)
        \<and> call_operation_caller E names c request response s' = Some (Inr (send_request E name request)))
    \<or> (\<exists>op p v. get_owner_operation R E owner op_name = Inr (Some op) \<and> server_proxies s' name = Some p
        \<and> server p \<noteq> None \<and> (\<forall>u < v. \<not> ready E (sp_type p) u op)
        \<and> server_callback E p request response = Inr (wrapper_dispatch E (sp_type p) v op request response))"
proof -
  have ok': "service_ok s'" and cases: "\<exists>tc node. owner = Some tc \<and> getNode R g (Some (task_context.truncate tc)) = Some node
         \<and> ((\<exists>c p. get_owner_operation_caller E owner op_name = Inr (Some c)
               \<and> client_proxies s' name = Some p \<and> cp_name p = name \<and> client p = Some node
               \<and> bound_callers s' c = Some (cp_address p))
            \<or> (\<exists>op p v. get_owner_operation_caller E owner op_name = Inr None
               \<and> get_owner_operation R E owner op_name = Inr (Some op)
               \<and> server_proxies s' name = Some p \<and> sp_name p = name \<and> server p = Some node
               \<and> impl p = Some (v, op) \<and> ready E (sp_type p) v op \<and> (\<forall>u < v. \<not> ready E (sp_type p) u op)))"
    using connect_effect [OF ok res] by simp_all
  from cases consider
      (client) c p node where "get_owner_operation_caller E owner op_name = Inr (Some c)"
        "client_proxies s' name = Some p" "cp_name p = name" "client p = Some node"
        "bound_callers s' c = Some (cp_address p)"
    | (server) op p v where "get_owner_operation R E owner op_name = Inr (Some op)"
        "server_proxies s' name = Some p" "server p \<noteq> None" "impl p = Some (v, op)"
        "ready E (sp_type p) v op" "\<forall>u < v. \<not> ready E (sp_type p) u op"
    by auto
  then show ?thesis
  proof cases
    case client
    with proxy_at_unique [OF ok' client(2) names] show ?thesis
      by (simp add: call_operation_caller_def)
  next
    case server
    then show ?thesis
      by (intro disjI2 exI [of _ op] exI [of _ p] exI [of _ v])
         (auto simp: server_callback_def server_caller_dispatch_def)
  qed
qed

text \<open>C38: Connecting a second, incompatible operation to a service name that is already served returns
  false but leaves the ROS service running without an implementation: the next request dereferences a
  null pointer, where it was served before.\<close>

theorem failed_reconnect_breaks_server:
  assumes ok: "service_ok s" and has: "hasServiceFactory (rosservice_registry s) t"
    and p: "server_proxies s name = Some p" "server p = Some n0" "impl p = Some (v, op0)"
    and live: "ready E (sp_type p) v op0"
    and caller: "get_owner_operation_caller E (Some tc) op_name = Inr None"
    and op: "get_owner_operation R E (Some tc) op_name = Inr (Some op)" "\<forall>u. \<not> ready E (sp_type p) u op"
    and node: "getNode R g (Some (task_context.truncate tc)) = Some node"
  shows "server_callback E p request response = Inr (wrapper_dispatch E (sp_type p) v op0 request response)
    \<and> (\<exists>s' p'. connect R E g (Some tc) op_name name t s = (Inr False, s')
        \<and> server_proxies s' name = Some p' \<and> server p' = Some n0
        \<and> server_callback E p' request response = Inl (NullDereference ''impl_''))"
proof -
  have none: "server_caller_connect E (sp_type p) 0 op = None"
    using op(2) server_caller_connect_op [of E "sp_type p" 0 op] by (cases "server_caller_connect E (sp_type p) 0 op") auto
  have "connect R E g (Some tc) op_name name t s =
      (Inr False, s\<lparr>server_proxies := (server_proxies s)(name \<mapsto> p\<lparr>impl := None\<rparr>)\<rparr>)"
    using has caller op(1) node p none by (simp add: connect_def connect_server_def server_connect_def)
  with p live show ?thesis by (simp add: server_callback_def server_caller_dispatch_def)
qed


section \<open>A concrete component\<close>

text \<open>
  Operations are numbers: operation \<open>k\<close> fits the variant \<open>k\<close> of a service type, of which there are two.
  The component has a node, provides the operations \<open>served\<close> and \<open>odd\<close> and requires \<open>wanted\<close>.
\<close>

definition demo_services :: "(string list, string, nat, nat, nat) service_env" where
  "demo_services =
     \<lparr>split = (\<lambda>u. filter (\<lambda>t. t \<noteq> []) (getline_all (CHR ''.'') u)),
      requires_service = (\<lambda>r n. None),
      getOperationCaller = (\<lambda>r n. if n \<in> set r then Some n else None),
      n_variants = (\<lambda>t. 2), ready = (\<lambda>t v op. v = op \<and> op < 2),
      call_operation = (\<lambda>op request response. request + op),
      variant_dispatch = (\<lambda>t v op request response. request + op),
      setImplementation = (\<lambda>c t. True), service_accepted = (\<lambda>n. n \<noteq> []), send_request = (\<lambda>n request. request + 100)\<rparr>"

definition demo_component :: "((nat rosnode, nat) svc_tree, string list) rtt_component" where
  "demo_component =
     \<lparr>tc_name = ''tc'', tc_provides = SvcTree None [(''served'', 1), (''odd'', 7)]
        [(''rosnode'', SvcTree (Some (rosnode.make 7 None None {} {} [])) [] [])],
      tc_requires = [''wanted'']\<rparr>"

abbreviation demo_global :: "(nat rosnode, nat) svc_tree" where
  "demo_global \<equiv> SvcTree None [] []"

definition demo_service :: "(nat, nat, string) ros_service_service" where
  "demo_service = RosServiceService [''Empty'' \<mapsto> \<lparr>factory_type = ''Empty''\<rparr>] (\<lambda>c. None)"

lemma demo_service_ok: "service_ok demo_service"
  by (auto simp: demo_service_def RosServiceService_def service_ok_def split: if_splits)

lemma demo_split: "split demo_services ''served'' = [''served'']" "split demo_services ''odd'' = [''odd'']"
  "split demo_services ''wanted'' = [''wanted'']"
  by (simp_all add: demo_services_def)

lemmas demo_connect_eval = connect_def connect_client_def connect_server_def client_connect_def server_connect_def
  demo_service_def RosServiceService_def
  hasServiceFactory_def getServiceFactory_def create_server_proxy_def create_client_proxy_def
  RosServiceServerProxy_def RosServiceClientProxy_def

lemma demo_node: "getNode tree_api demo_global (Some (task_context.truncate demo_component)) = Some 7"
  by (simp add: getNode_def getNodeService_def demo_component_def task_context.defs tree_api_def
      tree_get_def rosnode.make_def)

lemma demo_lookup:
  "get_owner_operation_caller demo_services (Some demo_component) ''wanted'' = Inr (Some ''wanted'')"
  "get_owner_operation_caller demo_services (Some demo_component) ''served'' = Inr None"
  "get_owner_operation_caller demo_services (Some demo_component) ''odd'' = Inr None"
  "get_owner_operation tree_api demo_services (Some demo_component) ''served'' = Inr (Some 1)"
  "get_owner_operation tree_api demo_services (Some demo_component) ''odd'' = Inr (Some 7)"
  by (simp_all add: get_owner_operation_caller_def get_owner_operation_def demo_split)
     (simp_all add: demo_services_def demo_component_def tree_api_def)

lemma demo_variants:
  "server_caller_connect demo_services t 0 (Suc 0) = Some (1, Suc 0)"
  "server_caller_connect demo_services t 0 7 = None"
  by (simp_all add: server_caller_connect.simps demo_services_def)

lemma demo_connect_client:
  "connect tree_api demo_services demo_global (Some demo_component) ''wanted'' ''/w'' ''Empty'' demo_service =
     (Inr True, demo_service\<lparr>client_proxies := [''/w'' \<mapsto> \<lparr>cp_name = ''/w'', cp_type = ''Empty'', cp_address = 0, client = Some 7\<rparr>],
        bound_callers := [''wanted'' \<mapsto> 0], next_address := 1\<rparr>)"
proof -
  have "setImplementation demo_services c t" "service_accepted demo_services ''/w''" for c t
    by (simp_all add: demo_services_def)
  then show ?thesis by (simp add: demo_connect_eval demo_lookup demo_node Let_def)
qed

lemma demo_connect_server:
  "connect tree_api demo_services demo_global (Some demo_component) ''served'' ''/s'' ''Empty'' demo_service =
     (Inr True, demo_service\<lparr>server_proxies := [''/s'' \<mapsto> \<lparr>sp_name = ''/s'', sp_type = ''Empty'',
        impl = Some (1, 1), server = Some 7\<rparr>]\<rparr>)"
proof -
  have "service_accepted demo_services ''/s''" by (simp add: demo_services_def)
  then show ?thesis by (simp add: demo_connect_eval demo_lookup demo_node demo_variants Let_def)
qed

theorem connect_correct_witness:
  "\<exists>s' p. connect tree_api demo_services demo_global (Some demo_component) ''wanted'' ''/w'' ''Empty'' demo_service = (Inr True, s')
     \<and> client_proxies s' ''/w'' = Some p \<and> client p = Some 7 \<and> bound_callers s' ''wanted'' = Some (cp_address p)"
  using connect_correct [OF demo_service_ok demo_connect_client] demo_connect_client demo_node
  by (auto simp: demo_lookup)

theorem connected_calls_forwarded_witness:
  "\<exists>s' p. connect tree_api demo_services demo_global (Some demo_component) ''served'' ''/s'' ''Empty'' demo_service = (Inr True, s')
     \<and> server_proxies s' ''/s'' = Some p
     \<and> (\<exists>v. server_callback demo_services p 5 0 = Inr (wrapper_dispatch demo_services (sp_type p) v 1 5 0))"
  using connected_calls_forwarded [OF demo_service_ok demo_connect_server, of "[''/s'']" 5 0] demo_connect_server
  by (auto simp: demo_lookup)

theorem failed_reconnect_breaks_server_witness:
  "\<exists>s s' p'. connect tree_api demo_services demo_global (Some demo_component) ''served'' ''/s'' ''Empty'' demo_service = (Inr True, s)
     \<and> connect tree_api demo_services demo_global (Some demo_component) ''odd'' ''/s'' ''Empty'' s = (Inr False, s')
     \<and> server_proxies s' ''/s'' = Some p' \<and> server_callback demo_services p' 5 0 = Inl (NullDereference ''impl_'')"
proof -
  let ?p = "\<lparr>sp_name = ''/s'', sp_type = ''Empty'', impl = Some (1, 1), server = Some 7\<rparr>"
  let ?s = "demo_service\<lparr>server_proxies := [''/s'' \<mapsto> ?p]\<rparr>"
  have "service_ok ?s" using demo_service_ok by (auto simp: service_ok_def)
  moreover have "hasServiceFactory (rosservice_registry ?s) ''Empty''" by (simp add: demo_connect_eval)
  moreover have "ready demo_services ''Empty'' 1 1" "\<forall>u. \<not> ready demo_services ''Empty'' u 7"
    by (simp_all add: demo_services_def)
  ultimately show ?thesis
    using failed_reconnect_breaks_server [of ?s "''Empty''" "''/s''" ?p 7 1 1 demo_services demo_component "''odd''"
        tree_api 7 demo_global 7 5 0] demo_connect_server demo_lookup demo_node
    by auto
qed


end
