(* ===== verification/Service_Machine.thy ===== *)
theory Service_Machine
  imports Services
begin

text \<open>
  The service of a component over its whole life: any sequence of \<open>connect\<close>, \<open>disconnect\<close> and
  \<open>disconnectAll\<close>, by operations of this or other components. The invariants say which sequences keep
  the connections sound; the two theorems on failing reconnections and on disconnecting show that
  their conditions are needed.
\<close>

section \<open>Steps\<close>

text \<open>
  A step with its effect on the history: \<open>Connected b\<close> is a \<open>connect\<close> that returned \<open>b\<close>, and a step that
  removes proxies is \<open>Disconnected\<close>. A \<open>connect\<close> that throws is \<open>Failed\<close>.
\<close>

datatype service_event = Connected bool | Failed | Disconnected

inductive service_step ::
  "('s, 'rcl rosnode, 'op) rtt_service_api \<Rightarrow> ('r, 'c, 'op, 'req, 'resp) service_env \<Rightarrow> 's \<Rightarrow>
   ('rcl, 'op, 'c) ros_service_service \<times> service_event list \<Rightarrow>
   ('rcl, 'op, 'c) ros_service_service \<times> service_event list \<Rightarrow> bool"
  for R E g where
  connecting: "connect R E g owner op_name name t s = (Inr b, s') \<Longrightarrow>
    service_step R E g (s, es) (s', es @ [Connected b])"
| failing: "connect R E g owner op_name name t s = (Inl e, s') \<Longrightarrow>
    service_step R E g (s, es) (s', es @ [Failed])"
| disconnecting: "service_step R E g (s, es) (snd (disconnect name s), es @ [Disconnected])"
| disconnecting_all: "service_step R E g (s, es) (disconnectAll s, es @ [Disconnected])"

inductive_cases service_stepE: "service_step R E g (s, es) t"

text \<open>A service as its constructor leaves it, for a registry that knows every factory by its type.\<close>

definition service_init :: "('rcl, 'op, 'c) ros_service_service \<times> service_event list \<Rightarrow> bool" where
  "service_init = (\<lambda>(s, es). \<exists>reg. s = RosServiceService reg (\<lambda>c. None) \<and> es = []
     \<and> (\<forall>t f. reg t = Some f \<longrightarrow> factory_type f = t))"

section \<open>What the steps keep\<close>

text \<open>An operation caller that is bound is bound to a client that lives and has a ROS client.\<close>

definition callers_bound :: "('rcl, 'op, 'c) ros_service_service \<Rightarrow> bool" where
  "callers_bound s \<longleftrightarrow> (\<forall>c a. bound_callers s c = Some a \<longrightarrow>
     (\<exists>n p. client_proxies s n = Some p \<and> cp_address p = a \<and> client p \<noteq> None))"

text \<open>A server proxy has its ROS service and an implementation that is ready.\<close>

definition servers_ready ::
  "('r, 'c, 'op, 'req, 'resp) service_env \<Rightarrow> ('rcl, 'op, 'c) ros_service_service \<Rightarrow> bool" where
  "servers_ready E s \<longleftrightarrow> (\<forall>n p. server_proxies s n = Some p \<longrightarrow> server p \<noteq> None
     \<and> (\<exists>v op. impl p = Some (v, op) \<and> ready E (sp_type p) v op))"

definition service_inv ::
  "('r, 'c, 'op, 'req, 'resp) service_env \<Rightarrow> ('rcl, 'op, 'c) ros_service_service \<times> service_event list \<Rightarrow> bool" where
  "service_inv E = (\<lambda>(s, es). service_ok s
     \<and> (Disconnected \<notin> set es \<longrightarrow> callers_bound s)
     \<and> (set es \<subseteq> {Connected True, Disconnected} \<longrightarrow> servers_ready E s))"

text \<open>The state after connecting a client, whether its proxy existed or is new.\<close>

lemma connect_client_state:
  assumes "connect_client R E g tc c name t s = (r, s')" and has: "hasServiceFactory (rosservice_registry s) t"
  obtains p node where
    "client_proxies s name = None \<or> client_proxies s name = Some p"
    "server_proxies s' = server_proxies s"
    "client_proxies s' = (client_proxies s)(name \<mapsto> fst (snd (client_connect E node c p (bound_callers s))))"
    "bound_callers s' = snd (snd (client_connect E node c p (bound_callers s)))"
proof (cases "client_proxies s name")
  case None
  from has obtain f where f: "getServiceFactory (rosservice_registry s) t = Some f"
    by (auto simp: getServiceFactory_def hasServiceFactory_def)
  show ?thesis
    using assms None f
    by (intro that [of "create_client_proxy f (next_address s) name"
        "getNode R g (Some (task_context.truncate tc))"])
       (auto simp: connect_client_def Let_def split: prod.splits)
next
  case (Some p)
  show ?thesis
    using assms Some by (intro that [of p "getNode R g (Some (task_context.truncate tc))"])
       (auto simp: connect_client_def Let_def split: prod.splits)
qed

lemma client_connect_client:
  "client p \<noteq> None \<or> fst (client_connect E node c p bound) = Inr True \<Longrightarrow> client (fst (snd (client_connect E node c p bound))) \<noteq> None"
  "cp_address (fst (snd (client_connect E node c p bound))) = cp_address p"
  "snd (snd (client_connect E node c p bound)) =
     (if fst (client_connect E node c p bound) = Inr True then bound(c \<mapsto> cp_address p) else bound)"
  by (auto simp: client_connect_def Let_def split: option.splits)

lemma connect_client_callers:
  assumes "connect_client R E g tc c name t s = (r, s')" "callers_bound s"
    and has: "hasServiceFactory (rosservice_registry s) t"
  shows "callers_bound s'"
proof -
  from assms(1) has obtain p node where
    p: "client_proxies s name = None \<or> client_proxies s name = Some p"
    and s': "client_proxies s' = (client_proxies s)(name \<mapsto> fst (snd (client_connect E node c p (bound_callers s))))"
      "bound_callers s' = snd (snd (client_connect E node c p (bound_callers s)))"
    by (rule connect_client_state) blast
  let ?p' = "fst (snd (client_connect E node c p (bound_callers s)))"
  have bound: "client_proxies s' name = Some ?p' \<and> cp_address ?p' = cp_address p \<and> client ?p' \<noteq> None"
    if "client p \<noteq> None \<or> fst (client_connect E node c p (bound_callers s)) = Inr True"
    using client_connect_client(1) [OF that] client_connect_client(2) [of E node c p "bound_callers s"]
    by (simp add: s'(1))
  show ?thesis
    unfolding callers_bound_def
  proof (intro allI impI)
    fix d a
    assume d: "bound_callers s' d = Some a"
    have "bound_callers s' = (if fst (client_connect E node c p (bound_callers s)) = Inr True
        then (bound_callers s)(c \<mapsto> cp_address p) else bound_callers s)"
      by (simp only: s'(2) client_connect_client(3))
    with d consider (new) "fst (client_connect E node c p (bound_callers s)) = Inr True" "a = cp_address p"
      | (old) "bound_callers s d = Some a"
      by (cases "fst (client_connect E node c p (bound_callers s)) = Inr True"; cases "d = c") simp_all
    then show "\<exists>n q. client_proxies s' n = Some q \<and> cp_address q = a \<and> client q \<noteq> None"
    proof cases
      case new
      with bound show ?thesis by blast
    next
      case old
      with assms(2) obtain n q where q: "client_proxies s n = Some q" "cp_address q = a" "client q \<noteq> None"
        unfolding callers_bound_def by blast
      show ?thesis
      proof (cases "n = name")
        case True
        with p q have "q = p" by auto
        with q bound show ?thesis by blast
      next
        case False
        with q show ?thesis by (intro exI [of _ n] exI [of _ q]) (simp add: s')
      qed
    qed
  qed
qed

lemma connect_server_callers:
  assumes "connect_server R E g tc op name t s = (r, s')" "callers_bound s"
  shows "callers_bound s'"
proof -
  have "client_proxies s' = client_proxies s \<and> bound_callers s' = bound_callers s"
    using assms(1) by (auto simp: connect_server_def Let_def split: option.splits prod.splits if_splits)
  with assms(2) show ?thesis by (simp add: callers_bound_def)
qed

lemma connect_callers:
  "connect R E g owner op_name name t s = (r, s') \<Longrightarrow> callers_bound s \<Longrightarrow> callers_bound s'"
  by (auto simp: connect_def dest: connect_client_callers connect_server_callers
      split: if_splits sum.splits option.splits)

lemma connect_true_servers:
  assumes ok: "service_ok s" and res: "connect R E g owner op_name name t s = (Inr True, s')"
    and ready: "servers_ready E s"
  shows "servers_ready E s'"
proof -
  have has: "hasServiceFactory (rosservice_registry s) t" and owner: "owner \<noteq> None"
    using connect_effect [OF ok res] by auto
  consider (client) c where "connect_client R E g (the owner) c name t s = (Inr True, s')"
    | (server) op where "connect_server R E g (the owner) op name t s = (Inr True, s')"
    using res has by (auto simp: connect_def split: sum.splits option.splits if_splits)
  then show ?thesis
  proof cases
    case client
    with connect_client_case [OF ok has client] ready show ?thesis by (simp add: servers_ready_def)
  next
    case server
    from connect_server_case [OF ok has server] have
      same: "\<And>m. m \<noteq> name \<Longrightarrow> server_proxies s' m = server_proxies s m"
      and new: "\<exists>p v. server_proxies s' name = Some p \<and> server p \<noteq> None \<and> impl p = Some (v, op)
        \<and> ready E (sp_type p) v op"
      by auto
    show ?thesis
      unfolding servers_ready_def
    proof (intro allI impI)
      fix n p
      assume "server_proxies s' n = Some p"
      with same new ready show "server p \<noteq> None \<and> (\<exists>v op. impl p = Some (v, op) \<and> ready E (sp_type p) v op)"
        by (cases "n = name") (fastforce simp: servers_ready_def)+
    qed
  qed
qed

lemma disconnect_servers:
  "servers_ready E s \<Longrightarrow> servers_ready E (snd (disconnect n s))"
  "servers_ready E (disconnectAll s)"
  by (auto simp: servers_ready_def disconnect_effect disconnectAll_def split: if_splits)

lemma service_step_inv:
  assumes "service_inv E (s, es)" "service_step R E g (s, es) t"
  shows "service_inv E t"
  using assms(2)
proof (cases rule: service_step.cases)
  case (connecting owner op_name name t b s')
  with assms(1) show ?thesis
    using connect_effect [of s R E g owner op_name name t "Inr b" s']
      connect_callers [of R E g owner op_name name t s "Inr b" s']
      connect_true_servers [of s R E g owner op_name name t s']
    by (auto simp: service_inv_def)
next
  case (failing owner op_name name t e s')
  with assms(1) show ?thesis
    using connect_effect [of s R E g owner op_name name t "Inl e" s']
      connect_callers [of R E g owner op_name name t s "Inl e" s']
    by (auto simp: service_inv_def)
qed (use assms(1) in \<open>auto simp: service_inv_def disconnect_ok disconnectAll_ok disconnect_servers\<close>)

lemma service_init_inv: "service_init x \<Longrightarrow> service_inv E x"
  by (auto simp: service_init_def service_inv_def service_ok_def callers_bound_def servers_ready_def
      RosServiceService_def)

interpretation services: invariant_system service_init "service_step R E g" "service_inv E"
  for R E g
proof unfold_locales
  show "service_inv E y" if "service_inv E x" "service_step R E g x y" for x y
    using that by (cases x) (simp add: service_step_inv)
qed (rule service_init_inv)

text \<open>C19: Over any sequence of calls, the connections of a service are sound under two conditions. As long as
  nothing was disconnected, every operation caller that is bound sends its requests to a ROS service
  whose proxy lives. As long as no \<open>connect\<close> returned false or threw, a request to any ROS service that
  is being served reaches an operation and throws nothing.\<close>

theorem connections_sound:
  assumes "reach service_init (service_step R E g) (s, es)" and names: "dom (client_proxies s) \<subseteq> set names"
  shows "(Disconnected \<notin> set es \<longrightarrow> bound_callers s c \<noteq> None \<longrightarrow>
      (\<exists>name \<in> dom (client_proxies s).
         call_operation_caller E names c request response s = Some (Inr (send_request E name request))))
    \<and> (set es \<subseteq> {Connected True, Disconnected} \<longrightarrow> server_proxies s n = Some p \<longrightarrow>
      server p \<noteq> None \<and> (\<exists>v op. ready E (sp_type p) v op
        \<and> server_callback E p request response = Inr (wrapper_dispatch E (sp_type p) v op request response)))"
proof (intro conjI impI)
  have inv: "service_inv E (s, es)" using assms(1) by (rule services.reach_inv)
  {
    assume "Disconnected \<notin> set es" "bound_callers s c \<noteq> None"
    with inv obtain a m q where q: "bound_callers s c = Some a" "client_proxies s m = Some q"
      "cp_address q = a" "client q \<noteq> None"
      by (fastforce simp: service_inv_def callers_bound_def)
    moreover have "proxy_at names (cp_address q) s = Some q"
      using inv q(2) names by (intro proxy_at_unique [of s m]) (auto simp: service_inv_def)
    moreover have "cp_name q = m" using inv q(2) by (auto simp: service_inv_def service_ok_def)
    ultimately show "\<exists>name \<in> dom (client_proxies s).
        call_operation_caller E names c request response s = Some (Inr (send_request E name request))"
      by (intro bexI [of _ m]) (auto simp: call_operation_caller_def)
  }
  assume "set es \<subseteq> {Connected True, Disconnected}" "server_proxies s n = Some p"
  with inv obtain v op where "server p \<noteq> None" "impl p = Some (v, op)" "ready E (sp_type p) v op"
    by (fastforce simp: service_inv_def servers_ready_def)
  then show "server p \<noteq> None" "\<exists>v op. ready E (sp_type p) v op
      \<and> server_callback E p request response = Inr (wrapper_dispatch E (sp_type p) v op request response)"
    by (auto simp: server_callback_def server_caller_dispatch_def)
qed

theorem connections_sound_witness:
  "\<exists>s. reach service_init (service_step tree_api demo_services demo_global) (s, [Connected True])
     \<and> call_operation_caller demo_services [''/w''] ''wanted'' 5 0 s = Some (Inr (send_request demo_services ''/w'' 5))"
proof -
  let ?s = "demo_service\<lparr>client_proxies := [''/w'' \<mapsto> \<lparr>cp_name = ''/w'', cp_type = ''Empty'', cp_address = 0,
    client = Some 7\<rparr>], bound_callers := [''wanted'' \<mapsto> 0], next_address := 1\<rparr>"
  have "reach service_init (service_step tree_api demo_services demo_global) (demo_service, [])"
    by (rule reach_init) (simp add: service_init_def demo_service_def,
      rule exI [of _ "[''Empty'' \<mapsto> \<lparr>factory_type = ''Empty''\<rparr>]"], simp)
  then have "reach service_init (service_step tree_api demo_services demo_global) (?s, [] @ [Connected True])"
    by (rule reach_step) (rule connecting [OF demo_connect_client])
  then have r: "reach service_init (service_step tree_api demo_services demo_global) (?s, [Connected True])"
    by simp
  show ?thesis
    using r connections_sound [OF r, of "[''/w'']" "''wanted''" 5 0] by (intro exI [of _ ?s]) auto
qed

end
