(* ===== verification/Params.thy ===== *)
theory Params
  imports Node
begin

text \<open>
  The package \<open>rtt_ros2_params\<close>: the service that reads, writes and declares ROS parameters and
  synchronises them with the properties of its component (\<open>rtt_ros2_params_service.cpp\<close>), the plugin
  that loads it (\<open>rtt_ros2_params_plugin.cpp\<close>) and the requester on the client side (\<open>rosparam.hpp\<close>). The
  parameters of a node and the properties of a component are third-party code.
\<close>

section \<open>Third-party interfaces\<close>

text \<open>
  The parameters of one node: \<open>get_parameter\<close> has no value when it returns false; \<open>set_parameter\<close>
  returns \<open>result.successful\<close>; both it and \<open>declare_parameter\<close> can throw. \<open>'v\<close> is
  \<open>rclcpp::ParameterValue\<close>, \<open>not_set\<close> its default.
\<close>

record ('ps, 'v) parameter_api =
  not_set :: 'v
  is_not_set :: "'v \<Rightarrow> bool"
  get_parameter :: "'ps \<Rightarrow> string \<Rightarrow> 'v option"
  has_parameter :: "'ps \<Rightarrow> string \<Rightarrow> bool"
  set_parameter :: "'ps \<Rightarrow> string \<Rightarrow> 'v \<Rightarrow> bool result \<times> 'ps"
  declare_parameter :: "'ps \<Rightarrow> string \<Rightarrow> 'v \<Rightarrow> cpp_exn option \<times> 'ps"

text \<open>
  A property's data source: \<open>update\<close> from a parameter value, which returns false when there is no
  conversion and can throw, and the conversion of the property to a parameter value.
\<close>

record ('ds, 'v) property_api =
  property_update :: "'ds \<Rightarrow> 'v \<Rightarrow> (bool \<times> 'ds) result"
  property_convert :: "'ds \<Rightarrow> 'v option result"

text \<open>The parameters of every node, by node.\<close>

type_synonym ('rcl, 'ps) node_parameters = "'rcl \<Rightarrow> 'ps"

text \<open>A component with its properties.\<close>

record ('s, 'ds) property_component = "'s task_context" +
  properties :: "string \<Rightarrow> 'ds option"

abbreviation owner_node ::
  "('s, 'rcl rosnode, 'op) rtt_service_api \<Rightarrow> 's \<Rightarrow> ('s, 'ds) property_component option \<Rightarrow> 'rcl option" where
  "owner_node R g owner \<equiv> getNode R g (map_option task_context.truncate owner)"

section \<open>The service\<close>

definition RosParamService_operations :: "bool \<Rightarrow> string list" where
  "RosParamService_operations has_owner =
     [''getParameter'', ''setParameter'', ''declareParameter'', ''setOrDeclareParameter'']
     @ (if has_owner then [''loadProperty'', ''storeProperty''] else [])"

definition getParameter ::
  "('ps, 'v) parameter_api \<Rightarrow> 'rcl option \<Rightarrow> string \<Rightarrow> ('rcl, 'ps) node_parameters \<Rightarrow> 'v" where
  "getParameter P rosnode name st =
     (case rosnode of
        Some node \<Rightarrow> (case get_parameter P (st node) name of Some v \<Rightarrow> v | None \<Rightarrow> not_set P)
      | None \<Rightarrow> not_set P)"

text \<open>The call of \<open>set_parameter\<close> in its \<open>try\<close> block, which catches one exception only.\<close>

definition try_set_parameter ::
  "('ps, 'v) parameter_api \<Rightarrow> 'rcl \<Rightarrow> string \<Rightarrow> 'v \<Rightarrow> ('rcl, 'ps) node_parameters \<Rightarrow>
   bool result \<times> ('rcl, 'ps) node_parameters" where
  "try_set_parameter P node name value st =
     (case set_parameter P (st node) name value of
        (r, ps) \<Rightarrow>
          (case r of
             Inr successful \<Rightarrow> Inr successful
           | Inl (ParameterNotDeclaredException e) \<Rightarrow> Inr False
           | Inl e \<Rightarrow> Inl e, st(node := ps)))"

definition setParameter ::
  "('ps, 'v) parameter_api \<Rightarrow> 'rcl option \<Rightarrow> string \<Rightarrow> 'v \<Rightarrow> ('rcl, 'ps) node_parameters \<Rightarrow>
   bool result \<times> ('rcl, 'ps) node_parameters" where
  "setParameter P rosnode name value st =
     (case rosnode of
        Some node \<Rightarrow> try_set_parameter P node name value st
      | None \<Rightarrow> (Inr False, st))"

definition declareParameter ::
  "('ps, 'v) parameter_api \<Rightarrow> 'rcl option \<Rightarrow> string \<Rightarrow> 'v \<Rightarrow> ('rcl, 'ps) node_parameters \<Rightarrow>
   bool result \<times> ('rcl, 'ps) node_parameters" where
  "declareParameter P rosnode name default_value st =
     (case rosnode of
        None \<Rightarrow> (Inr False, st)
      | Some node \<Rightarrow>
          (if \<not> has_parameter P (st node) name
           then (case declare_parameter P (st node) name default_value of
                   (None, ps) \<Rightarrow> (Inr True, st(node := ps))
                 | (Some e, ps) \<Rightarrow> (Inl e, st(node := ps)))
           else (Inr False, st)))"

definition setOrDeclareParameter ::
  "('ps, 'v) parameter_api \<Rightarrow> 'rcl option \<Rightarrow> string \<Rightarrow> 'v \<Rightarrow> ('rcl, 'ps) node_parameters \<Rightarrow>
   bool result \<times> ('rcl, 'ps) node_parameters" where
  "setOrDeclareParameter P rosnode name value st =
     (case rosnode of
        None \<Rightarrow> (Inr False, st)
      | Some node \<Rightarrow>
          (if \<not> has_parameter P (st node) name
           then (case declare_parameter P (st node) name value of
                   (None, ps) \<Rightarrow> (Inr True, st(node := ps))
                 | (Some e, ps) \<Rightarrow> (Inl e, st(node := ps)))
           else try_set_parameter P node name value st))"

definition loadProperty ::
  "('s, 'rcl rosnode, 'op) rtt_service_api \<Rightarrow> 's \<Rightarrow> ('ps, 'v) parameter_api \<Rightarrow> ('ds, 'v) property_api \<Rightarrow>
   string \<Rightarrow> string \<Rightarrow> ('rcl, 'ps) node_parameters \<Rightarrow> ('s, 'ds) property_component option \<Rightarrow>
   bool \<times> ('s, 'ds) property_component option" where
  "loadProperty R g P D property_name param_name st owner =
     (let paramvalue = getParameter P (owner_node R g owner) param_name st
      in if is_not_set P paramvalue then (False, owner)
         else case owner of
                None \<Rightarrow> (False, owner)
              | Some tc \<Rightarrow>
                  (case properties tc property_name of
                     None \<Rightarrow> (False, owner)
                   | Some prop \<Rightarrow>
                       (case property_update D prop paramvalue of
                          Inr (True, prop') \<Rightarrow>
                            (True, Some (tc\<lparr>properties := (properties tc)(property_name \<mapsto> prop')\<rparr>))
                        | Inr (False, prop') \<Rightarrow>
                            (False, Some (tc\<lparr>properties := (properties tc)(property_name \<mapsto> prop')\<rparr>))
                        | Inl e \<Rightarrow> (False, owner))))"

definition storeProperty ::
  "('s, 'rcl rosnode, 'op) rtt_service_api \<Rightarrow> 's \<Rightarrow> ('ps, 'v) parameter_api \<Rightarrow> ('ds, 'v) property_api \<Rightarrow>
   string \<Rightarrow> string \<Rightarrow> ('s, 'ds) property_component option \<Rightarrow> ('rcl, 'ps) node_parameters \<Rightarrow>
   bool result \<times> ('rcl, 'ps) node_parameters" where
  "storeProperty R g P D property_name param_name owner st =
     (case owner of
        None \<Rightarrow> (Inl (NullDereference ''getOwner()''), st)
      | Some tc \<Rightarrow>
          (case properties tc property_name of
             None \<Rightarrow> (Inr False, st)
           | Some prop \<Rightarrow>
               (case property_convert D prop of
                  Inl e \<Rightarrow> (Inr False, st)
                | Inr None \<Rightarrow> (Inr False, st)
                | Inr (Some v) \<Rightarrow> setParameter P (owner_node R g owner) param_name v st)))"

section \<open>The plugin and the requester\<close>

text \<open>\<open>mk\<close> makes the service \<open>RosParamService\<close>.\<close>

definition params_loadGlobalROSService ::
  "('s, 'n, 'op) rtt_service_api \<Rightarrow> 's \<Rightarrow> 's \<Rightarrow> bool \<times> 's" where
  "params_loadGlobalROSService R params global =
     (let ros = provides R global ''ros'';
          (added, ros') = addService R ros ''rosparam'' params
      in (added, put_service R global ''ros'' ros'))"

definition params_load_into_task_context ::
  "('s, 'n, 'op) rtt_service_api \<Rightarrow> ('s task_context \<Rightarrow> 's) \<Rightarrow> 's task_context \<Rightarrow> bool \<times> 's task_context" where
  "params_load_into_task_context R mk tc =
     (if hasService R (tc_provides tc) ''rosparam'' then (False, tc)
      else (True, tc\<lparr>tc_provides := snd (addService R (tc_provides tc) ''rosparam'' (mk tc))\<rparr>))"

definition params_loadRTTPlugin ::
  "('s, 'n, 'op) rtt_service_api \<Rightarrow> ('s task_context option \<Rightarrow> 's) \<Rightarrow> 's \<Rightarrow> 's task_context option \<Rightarrow>
   bool \<times> 's \<times> 's task_context option" where
  "params_loadRTTPlugin R mk global tc =
     (case tc of
        None \<Rightarrow> (let (b, g) = params_loadGlobalROSService R (mk None) global in (b, g, None))
      | Some t \<Rightarrow> (let (b, t') = params_load_into_task_context R (\<lambda>t. mk (Some t)) t in (b, global, Some t')))"

text \<open>
  The requester: the operation callers it has. Connecting to a service adds the two callers that
  only a component's service offers; adding a caller twice has no effect. The base class connects
  every caller to the operation of its name and returns whether all are connected.
\<close>

definition add_caller :: "string \<Rightarrow> string list \<Rightarrow> string list" where
  "add_caller n callers = (if n \<in> set callers then callers else callers @ [n])"

definition RosParam :: "string list" where
  "RosParam = [''getParameter'', ''setParameter'', ''declareParameter'', ''setOrDeclareParameter'']"

definition RosParam_connectTo :: "(string list \<Rightarrow> bool) \<Rightarrow> bool \<Rightarrow> string list \<Rightarrow> bool \<times> string list" where
  "RosParam_connectTo base_connectTo has_owner callers =
     (let callers' = (if has_owner
                      then add_caller ''storeProperty'' (add_caller ''loadProperty'' callers)
                      else callers)
      in (base_connectTo callers', callers'))"

section \<open>Properties\<close>

text \<open>
  What the node promises. \<open>overrides\<close> are the values given from outside when the node was started: a
  parameter that is declared takes its override instead of the value in the declaration.
\<close>

locale parameter_server =
  fixes P :: "('ps, 'v) parameter_api" and overrides :: "'ps \<Rightarrow> string \<Rightarrow> 'v option"
  assumes not_set_not_set: "is_not_set P (not_set P)"
    and set_ok: "set_parameter P ps n v = (Inr True, ps') \<Longrightarrow> \<not> is_not_set P v \<Longrightarrow>
      get_parameter P ps' m = (if m = n then Some v else get_parameter P ps m)"
    and set_failed: "set_parameter P ps n v = (r, ps') \<Longrightarrow> r \<noteq> Inr True \<Longrightarrow> get_parameter P ps' = get_parameter P ps"
    and declare_ok: "declare_parameter P ps n v = (None, ps') \<Longrightarrow> \<not> has_parameter P ps n \<Longrightarrow>
      get_parameter P ps' m =
        (if m = n then Some (case overrides ps n of Some w \<Rightarrow> w | None \<Rightarrow> v) else get_parameter P ps m)"
begin

lemma try_set_cases:
  assumes "try_set_parameter P node n v st = (r, st')"
  obtains ps r' where "set_parameter P (st node) n v = (r', ps)" "st' = st(node := ps)"
    "r = Inr True \<longleftrightarrow> r' = Inr True"
proof -
  obtain r' ps where s: "set_parameter P (st node) n v = (r', ps)" by fastforce
  with assms have "st' = st(node := ps)" "r = Inr True \<longleftrightarrow> r' = Inr True"
    by (auto simp: try_set_parameter_def split: sum.splits cpp_exn.splits)
  with s show ?thesis by (rule that)
qed

lemma try_set_get:
  assumes "try_set_parameter P node n v st = (r, st')" "\<not> is_not_set P v"
  shows "getParameter P (Some k) m st' =
    (if r = Inr True \<and> k = node \<and> m = n then v else getParameter P (Some k) m st)"
proof -
  obtain ps r' where s: "set_parameter P (st node) n v = (r', ps)" "st' = st(node := ps)"
    "r = Inr True \<longleftrightarrow> r' = Inr True"
    using try_set_cases [OF assms(1)] .
  show ?thesis
  proof (cases "r' = Inr True")
    case True
    with s set_ok [OF _ assms(2), of "st node" n ps] show ?thesis by (simp add: getParameter_def)
  next
    case False
    with s set_failed [OF s(1)] show ?thesis by (simp add: getParameter_def)
  qed
qed

lemma declare_get:
  assumes "\<not> has_parameter P (st node) n" "declare_parameter P (st node) n v = (None, ps)"
  shows "getParameter P (Some k) m (st(node := ps)) =
    (if k = node \<and> m = n then (case overrides (st node) n of Some w \<Rightarrow> w | None \<Rightarrow> v)
     else getParameter P (Some k) m st)"
  using declare_ok [OF assms(2,1)] by (simp add: getParameter_def)

end

text \<open>Setting a parameter through the service returns false without a node, and then, or whenever it
  does not return true, no parameter of any node changes. When it returns true, the parameter has the
  new value and all others are as before.\<close>

lemma setParameter_correct:
  assumes P: "parameter_server P overrides" and v: "\<not> is_not_set P v"
    and set: "setParameter P rosnode n v st = (r, st')"
  shows "(rosnode = None \<longrightarrow> r = Inr False)
    \<and> (r = Inr True \<longrightarrow> getParameter P rosnode n st' = v)
    \<and> (\<forall>k m. \<not> (r = Inr True \<and> rosnode = Some k \<and> m = n) \<longrightarrow>
         getParameter P (Some k) m st' = getParameter P (Some k) m st)"
proof (cases rosnode)
  case None
  with set show ?thesis by (auto simp: setParameter_def)
next
  case (Some node)
  with set have "try_set_parameter P node n v st = (r, st')" by (simp add: setParameter_def)
  note get = parameter_server.try_set_get [OF P this v]
  show ?thesis unfolding Some get by auto
qed

text \<open>\<open>setOrDeclareParameter\<close> declares what does not exist and sets what does. When it returns true the
  parameter has the value given, except that a parameter newly declared takes the override the node
  was started with, so that true is then returned for a value that was not set.\<close>

lemma setOrDeclareParameter_correct:
  assumes P: "parameter_server P overrides" and v: "\<not> is_not_set P v"
    and set: "setOrDeclareParameter P (Some node) n v st = (Inr True, st')"
  shows "getParameter P (Some node) n st' =
      (if has_parameter P (st node) n then v
       else case overrides (st node) n of None \<Rightarrow> v | Some w \<Rightarrow> w)
    \<and> (\<forall>k m. (k, m) \<noteq> (node, n) \<longrightarrow> getParameter P (Some k) m st' = getParameter P (Some k) m st)"
proof (cases "has_parameter P (st node) n")
  case True
  with set have "try_set_parameter P node n v st = (Inr True, st')"
    by (simp add: setOrDeclareParameter_def)
  note get = parameter_server.try_set_get [OF P this v]
  show ?thesis using True unfolding get by auto
next
  case False
  with set obtain ps where d: "declare_parameter P (st node) n v = (None, ps)" "st' = st(node := ps)"
    by (auto simp: setOrDeclareParameter_def split: prod.splits option.splits)
  note get = parameter_server.declare_get [OF P, of st node n v ps, OF False d(1)]
  show ?thesis using False unfolding d(2) get by (auto split: option.splits)
qed

text \<open>A property stored into a parameter and loaded again, into a property of any other value, has
  its value back, provided the two conversions of the type system are inverse to each other.\<close>

lemma store_then_load:
  assumes P: "parameter_server P overrides"
    and stored: "properties tc a = Some x" "property_convert D x = Inr (Some v)" "\<not> is_not_set P v"
    and again: "properties tc' b = Some y" "property_update D y v = Inr (True, x)"
    and same: "task_context.truncate tc' = task_context.truncate tc"
    and store: "storeProperty R g P D a param (Some tc) st = (Inr True, st')"
  shows "\<exists>tc''. loadProperty R g P D b param st' (Some tc') = (True, Some tc'')
    \<and> properties tc'' b = Some x \<and> (\<forall>c. c \<noteq> b \<longrightarrow> properties tc'' c = properties tc' c)"
proof -
  have set: "setParameter P (owner_node R g (Some tc)) param v st = (Inr True, st')"
    using store stored by (simp add: storeProperty_def)
  then obtain node where node: "getNode R g (Some (task_context.truncate tc)) = Some node"
    by (cases "getNode R g (Some (task_context.truncate tc))") (auto simp: setParameter_def)
  with set have "try_set_parameter P node param v st = (Inr True, st')"
    by (simp add: setParameter_def)
  from parameter_server.try_set_get [OF P this stored(3)]
  have "getParameter P (Some node) param st' = v" by simp
  with node same again stored(3) show ?thesis by (simp add: loadProperty_def Let_def)
qed

text \<open>The requester asks for exactly what the service offers, for a component and for the process.\<close>

lemma requester_matches_service:
  "set (snd (RosParam_connectTo base has_owner RosParam)) = set (RosParamService_operations has_owner)"
  by (auto simp: RosParam_connectTo_def RosParam_def RosParamService_operations_def add_caller_def Let_def)

section \<open>A concrete node\<close>

text \<open>Parameters as an association of names with numbers, zero for \<open>not set\<close>, and a table of overrides.\<close>

definition table_parameters :: "((string \<Rightarrow> nat option) \<times> (string \<Rightarrow> nat option), nat) parameter_api" where
  "table_parameters =
     \<lparr>not_set = 0, is_not_set = (\<lambda>v. v = 0), get_parameter = (\<lambda>ps n. fst ps n),
      has_parameter = (\<lambda>ps n. fst ps n \<noteq> None),
      set_parameter = (\<lambda>ps n v. if fst ps n = None then (Inl (ParameterNotDeclaredException n), ps)
                                else (Inr True, ((fst ps)(n \<mapsto> v), snd ps))),
      declare_parameter = (\<lambda>ps n v. (None, ((fst ps)(n \<mapsto> (case snd ps n of Some w \<Rightarrow> w | None \<Rightarrow> v)), snd ps)))\<rparr>"

interpretation table_parameters: parameter_server table_parameters snd
  by unfold_locales (auto simp: table_parameters_def split: if_splits)

end
