(* ===== verification/Param_Table.thy ===== *)
theory Param_Table
  imports Params
begin

text \<open>
  The parameter service over any sequence of calls: the parameters of all nodes behave like one table,
  from node and name to value, in which a call that returns true writes one entry and any other call
  writes nothing.
\<close>

section \<open>The table\<close>

text \<open>An entry is \<open>None\<close> for a parameter that is not declared.\<close>

type_synonym ('rcl, 'v) param_table = "'rcl \<times> string \<Rightarrow> 'v option"

definition table_of ::
  "('ps, 'v) parameter_api \<Rightarrow> ('rcl, 'ps) node_parameters \<Rightarrow> ('rcl, 'v) param_table" where
  "table_of P st = (\<lambda>(k, n). if has_parameter P (st k) n
     then Some (case get_parameter P (st k) n of Some v \<Rightarrow> v | None \<Rightarrow> not_set P) else None)"

text \<open>The calls of the service, each by a component whose node is given, if it has one.\<close>

datatype ('rcl, 'v) param_call =
    SetCall "'rcl option" string 'v
  | DeclareCall "'rcl option" string 'v
  | SetOrDeclareCall "'rcl option" string 'v

fun call_value :: "('rcl, 'v) param_call \<Rightarrow> 'v" where
  "call_value (SetCall k n v) = v"
| "call_value (DeclareCall k n v) = v"
| "call_value (SetOrDeclareCall k n v) = v"

fun run_call ::
  "('ps, 'v) parameter_api \<Rightarrow> ('rcl, 'v) param_call \<Rightarrow> ('rcl, 'ps) node_parameters \<Rightarrow>
   bool result \<times> ('rcl, 'ps) node_parameters" where
  "run_call P (SetCall k n v) st = setParameter P k n v st"
| "run_call P (DeclareCall k n v) st = declareParameter P k n v st"
| "run_call P (SetOrDeclareCall k n v) st = setOrDeclareParameter P k n v st"

fun run_calls ::
  "('ps, 'v) parameter_api \<Rightarrow> ('rcl, 'v) param_call list \<Rightarrow> ('rcl, 'ps) node_parameters \<Rightarrow>
   bool result list \<times> ('rcl, 'ps) node_parameters" where
  "run_calls P [] st = ([], st)"
| "run_calls P (c # cs) st =
     (let (r, st1) = run_call P c st; (rs, st2) = run_calls P cs st1 in (r # rs, st2))"

text \<open>
  The same calls on the table, given their results: what a call that returned true writes, where
  \<open>ov\<close> are the overrides of the nodes, and which results a call can have.
\<close>

fun table_call ::
  "('rcl \<Rightarrow> string \<Rightarrow> 'v option) \<Rightarrow> ('rcl, 'v) param_call \<Rightarrow> ('rcl, 'v) param_table \<Rightarrow> ('rcl, 'v) param_table" where
  "table_call ov (SetCall (Some k) n v) t = t((k, n) \<mapsto> v)"
| "table_call ov (DeclareCall (Some k) n v) t = t((k, n) \<mapsto> (case ov k n of Some w \<Rightarrow> w | None \<Rightarrow> v))"
| "table_call ov (SetOrDeclareCall (Some k) n v) t =
     t((k, n) \<mapsto> (if t (k, n) = None then (case ov k n of Some w \<Rightarrow> w | None \<Rightarrow> v) else v))"
| "table_call ov _ t = t"

fun table_allows :: "('rcl, 'v) param_call \<Rightarrow> bool result \<Rightarrow> ('rcl, 'v) param_table \<Rightarrow> bool" where
  "table_allows (SetCall k n v) r t \<longleftrightarrow> (k = None \<longrightarrow> r = Inr False)"
| "table_allows (DeclareCall None n v) r t \<longleftrightarrow> r = Inr False"
| "table_allows (DeclareCall (Some k) n v) r t \<longleftrightarrow> (r = Inr False \<longleftrightarrow> t (k, n) \<noteq> None)"
| "table_allows (SetOrDeclareCall None n v) r t \<longleftrightarrow> r = Inr False"
| "table_allows (SetOrDeclareCall (Some k) n v) r t \<longleftrightarrow> (t (k, n) = None \<longrightarrow> r \<noteq> Inr False)"

fun table_calls ::
  "('rcl \<Rightarrow> string \<Rightarrow> 'v option) \<Rightarrow> ('rcl, 'v) param_call list \<Rightarrow> bool result list \<Rightarrow>
   ('rcl, 'v) param_table \<Rightarrow> ('rcl, 'v) param_table option" where
  "table_calls ov [] [] t = Some t"
| "table_calls ov (c # cs) (r # rs) t =
     (if table_allows c r t then table_calls ov cs rs (if r = Inr True then table_call ov c t else t) else None)"
| "table_calls ov _ _ t = None"

text \<open>The entry a call can write.\<close>

fun call_target :: "('rcl, 'v) param_call \<Rightarrow> ('rcl \<times> string) option" where
  "call_target (SetCall k n v) = map_option (\<lambda>k. (k, n)) k"
| "call_target (DeclareCall k n v) = map_option (\<lambda>k. (k, n)) k"
| "call_target (SetOrDeclareCall k n v) = map_option (\<lambda>k. (k, n)) k"

lemma table_call_other: "call_target c \<noteq> Some e \<Longrightarrow> table_call ov c t e = t e"
  by (cases "(ov, c, t)" rule: table_call.cases) auto

lemma table_calls_other:
  "table_calls ov cs rs t = Some t' \<Longrightarrow> \<forall>c \<in> set cs. call_target c \<noteq> Some e \<Longrightarrow> t' e = t e"
proof (induction ov cs rs t rule: table_calls.induct)
  case (2 ov c cs r rs t)
  then show ?case by (auto simp: table_call_other split: if_splits)
qed auto

section \<open>Refinement\<close>

text \<open>
  What the node promises besides: a parameter that does not exist has no value, calls declare what
  they write and nothing else, and the overrides stay as they were given.
\<close>

locale parameter_tables = parameter_server P overrides
  for P :: "('ps, 'v) parameter_api" and overrides :: "'ps \<Rightarrow> string \<Rightarrow> 'v option" +
  assumes get_undeclared: "\<not> has_parameter P ps n \<Longrightarrow> get_parameter P ps n = None"
    and set_declared: "set_parameter P ps n v = (r, ps') \<Longrightarrow>
      has_parameter P ps' m = (has_parameter P ps m \<or> r = Inr True \<and> m = n)"
    and declare_declared: "declare_parameter P ps n v = (e, ps') \<Longrightarrow>
      has_parameter P ps' m = (has_parameter P ps m \<or> e = None \<and> m = n)"
    and declare_failed: "declare_parameter P ps n v = (Some x, ps') \<Longrightarrow> get_parameter P ps' = get_parameter P ps"
    and set_overrides: "set_parameter P ps n v = (r, ps') \<Longrightarrow> overrides ps' = overrides ps"
    and declare_overrides: "declare_parameter P ps n v = (e, ps') \<Longrightarrow> overrides ps' = overrides ps"
begin

lemma getParameter_table: "getParameter P (Some k) n st = (case table_of P st (k, n) of Some v \<Rightarrow> v | None \<Rightarrow> not_set P)"
  using get_undeclared [of "st k" n] by (auto simp: getParameter_def table_of_def split: option.splits)

lemma try_set_table:
  assumes "try_set_parameter P node n v st = (r, st')" "\<not> is_not_set P v"
  shows "table_of P st' = (if r = Inr True then (table_of P st)((node, n) \<mapsto> v) else table_of P st)"
    and "overrides \<circ> st' = overrides \<circ> st"
proof -
  obtain ps r' where s: "set_parameter P (st node) n v = (r', ps)" "st' = st(node := ps)"
    "r = Inr True \<longleftrightarrow> r' = Inr True"
    using try_set_cases [OF assms(1)] .
  show "table_of P st' = (if r = Inr True then (table_of P st)((node, n) \<mapsto> v) else table_of P st)"
    using s set_declared [OF s(1)] set_ok [OF _ assms(2), of "st node" n ps] set_failed [OF s(1)]
    by (cases "r' = Inr True") (auto simp: table_of_def fun_eq_iff)
  show "overrides \<circ> st' = overrides \<circ> st" using s(2) set_overrides [OF s(1)] by auto
qed

lemma declare_table:
  assumes "declare_parameter P (st node) n v = (e, ps)" "\<not> has_parameter P (st node) n"
  shows "table_of P (st(node := ps)) = (if e = None
      then (table_of P st)((node, n) \<mapsto> (case overrides (st node) n of Some w \<Rightarrow> w | None \<Rightarrow> v)) else table_of P st)"
    and "overrides \<circ> st(node := ps) = overrides \<circ> st"
proof -
  show "table_of P (st(node := ps)) = (if e = None
      then (table_of P st)((node, n) \<mapsto> (case overrides (st node) n of Some w \<Rightarrow> w | None \<Rightarrow> v)) else table_of P st)"
    using assms(2) declare_declared [OF assms(1)] declare_ok [of "st node" n v ps] assms(1)
      declare_failed [of "st node" n v _ ps]
    by (cases e) (auto simp: table_of_def fun_eq_iff)
  show "overrides \<circ> st(node := ps) = overrides \<circ> st" using declare_overrides [OF assms(1)] by auto
qed

lemma setOrDeclare_cases:
  "setOrDeclareParameter P (Some node) n v st =
     (if has_parameter P (st node) n then try_set_parameter P node n v st
      else declareParameter P (Some node) n v st)"
  by (simp add: setOrDeclareParameter_def declareParameter_def)

lemma declareParameter_table:
  assumes "declareParameter P (Some node) n v st = (r, st')"
  shows "table_of P st' = (if r = Inr True
      then (table_of P st)((node, n) \<mapsto> (case overrides (st node) n of Some w \<Rightarrow> w | None \<Rightarrow> v)) else table_of P st)"
    and "overrides \<circ> st' = overrides \<circ> st"
    and "r = Inr False \<longleftrightarrow> has_parameter P (st node) n"
proof -
  obtain e ps where d: "declare_parameter P (st node) n v = (e, ps)" by fastforce
  note tab = declare_table [of st node n v e ps, OF d]
  show "table_of P st' = (if r = Inr True
      then (table_of P st)((node, n) \<mapsto> (case overrides (st node) n of Some w \<Rightarrow> w | None \<Rightarrow> v)) else table_of P st)"
    "overrides \<circ> st' = overrides \<circ> st" "r = Inr False \<longleftrightarrow> has_parameter P (st node) n"
    using assms d tab by (auto simp: declareParameter_def split: if_splits option.splits)
qed

lemma run_call_table:
  assumes "run_call P c st = (r, st')" "\<not> is_not_set P (call_value c)"
  shows "table_allows c r (table_of P st)
    \<and> table_of P st' = (if r = Inr True then table_call (overrides \<circ> st) c (table_of P st) else table_of P st)
    \<and> overrides \<circ> st' = overrides \<circ> st"
proof (cases c)
  case (SetCall k n v)
  with assms show ?thesis
    using try_set_table [of _ n v st r st'] by (cases k) (auto simp: setParameter_def)
next
  case (DeclareCall k n v)
  show ?thesis
  proof (cases k)
    case None
    with DeclareCall assms show ?thesis by (auto simp: declareParameter_def)
  next
    case (Some node)
    with DeclareCall assms(1) have d: "declareParameter P (Some node) n v st = (r, st')" by simp
    show ?thesis
      using declareParameter_table [OF d] by (simp add: DeclareCall Some table_of_def [of P st] del: not_None_eq)
  qed
next
  case (SetOrDeclareCall k n v)
  show ?thesis
  proof (cases k)
    case None
    with SetOrDeclareCall assms show ?thesis by (auto simp: setOrDeclareParameter_def)
  next
    case (Some node)
    show ?thesis
    proof (cases "has_parameter P (st node) n")
      case True
      with SetOrDeclareCall Some assms have s: "try_set_parameter P node n v st = (r, st')" "\<not> is_not_set P v"
        by (simp_all add: setOrDeclare_cases)
      have "table_of P st (node, n) \<noteq> None" using True by (simp add: table_of_def)
      with try_set_table [OF s] show ?thesis by (auto simp: SetOrDeclareCall Some)
    next
      case False
      with SetOrDeclareCall Some assms have d: "declareParameter P (Some node) n v st = (r, st')"
        by (simp add: setOrDeclare_cases)
      have "table_of P st (node, n) = None" using False by (simp add: table_of_def)
      with declareParameter_table [OF d] False show ?thesis by (auto simp: SetOrDeclareCall Some)
    qed
  qed
qed

lemma run_calls_table:
  assumes "run_calls P cs st = (rs, st')" "\<forall>c \<in> set cs. \<not> is_not_set P (call_value c)"
  shows "table_calls (overrides \<circ> st) cs rs (table_of P st) = Some (table_of P st')"
  using assms
proof (induction cs arbitrary: st rs)
  case (Cons c cs)
  obtain r st1 where c: "run_call P c st = (r, st1)" by fastforce
  obtain rs' st2 where cs: "run_calls P cs st1 = (rs', st2)" by fastforce
  from Cons.prems c cs have rs: "rs = r # rs'" "st2 = st'" by (simp_all add: Let_def)
  note call = run_call_table [OF c]
  have "\<forall>c \<in> set cs. \<not> is_not_set P (call_value c)" using Cons.prems(2) by simp
  with cs [unfolded rs(2)] have "table_calls (overrides \<circ> st1) cs rs' (table_of P st1) = Some (table_of P st')"
    by (rule Cons.IH)
  with call Cons.prems(2) show ?case by (auto simp: rs comp_def)
qed simp

end



interpretation param_tables: parameter_tables table_parameters snd
  by unfold_locales (auto simp: table_parameters_def split: if_splits)


text \<open>
  Two components without a node of their own, whose properties are numbers, use the node of the process.
\<close>

definition number_properties :: "(nat, nat) property_api" where
  "number_properties = \<lparr>property_update = (\<lambda>x v. Inr (True, v)), property_convert = (\<lambda>x. Inr (Some x))\<rparr>"

definition process_global :: "(nat rosnode, nat) svc_tree" where
  "process_global = SvcTree None [] [(''ros'', SvcTree None [] [(''rosnode'', SvcTree (Some (rosnode.make 7 None None {} {} [])) [] [])])]"

definition plain_component :: "string \<Rightarrow> nat \<Rightarrow> ((nat rosnode, nat) svc_tree, nat) property_component" where
  "plain_component n x = \<lparr>tc_name = n, tc_provides = SvcTree None [] [], properties = [''gain'' \<mapsto> x]\<rparr>"

lemma plain_component_node: "owner_node tree_api process_global (Some (plain_component n x)) = Some 7"
  by (simp add: getNode_def getNodeService_def global_node_def process_global_def plain_component_def
      task_context.defs tree_api_def tree_get_def rosnode.make_def)


end
