(* ===== verification/Parameter_Value.thy ===== *)
theory Parameter_Value
  imports Prelude "HOL-Library.Word"
begin

text \<open>
  The conversions between C++ values and \<open>rclcpp::ParameterValue\<close>
  (\<open>parameter_value_conversions.hpp\<close>) and their registration with the type system of Orocos
  (\<open>ros2_parameter_value_type.cpp\<close>). \<open>ParameterValue\<close> is third-party: its constructors and the typed
  \<open>get\<close> are a record of functions. Signed integers are words read with \<open>sint\<close>; \<open>'f\<close> and \<open>'d\<close> are \<open>float\<close>
  and \<open>double\<close>, with the two conversions between them as functions of the record.
\<close>

section \<open>Parameter values\<close>

record ('v, 'f, 'd) pv_api =
  pv_of_bool :: "bool \<Rightarrow> 'v"
  pv_of_int :: "32 word \<Rightarrow> 'v"
  pv_of_int64 :: "64 word \<Rightarrow> 'v"
  pv_of_float :: "'f \<Rightarrow> 'v"
  pv_of_double :: "'d \<Rightarrow> 'v"
  pv_of_string :: "string \<Rightarrow> 'v"
  pv_of_bytes :: "8 word list \<Rightarrow> 'v"
  pv_of_bools :: "bool list \<Rightarrow> 'v"
  pv_of_ints :: "32 word list \<Rightarrow> 'v"
  pv_of_int64s :: "64 word list \<Rightarrow> 'v"
  pv_of_floats :: "'f list \<Rightarrow> 'v"
  pv_of_doubles :: "'d list \<Rightarrow> 'v"
  pv_of_strings :: "string list \<Rightarrow> 'v"
  pv_bool :: "'v \<Rightarrow> bool result"
  pv_int64 :: "'v \<Rightarrow> 64 word result"
  pv_double :: "'v \<Rightarrow> 'd result"
  pv_string :: "'v \<Rightarrow> string result"
  pv_bytes :: "'v \<Rightarrow> 8 word list result"
  pv_bools :: "'v \<Rightarrow> bool list result"
  pv_int64s :: "'v \<Rightarrow> 64 word list result"
  pv_doubles :: "'v \<Rightarrow> 'd list result"
  pv_strings :: "'v \<Rightarrow> string list result"
  float_of_double :: "'d \<Rightarrow> 'f"
  double_of_float :: "'f \<Rightarrow> 'd"

section \<open>The conversions\<close>

text \<open>\<open>static_cast<int>\<close> of an \<open>int64_t\<close> keeps the low 32 bits.\<close>

definition int_of_int64 :: "64 word \<Rightarrow> 32 word" where
  "int_of_int64 w = ucast w"

definition int64_of_int :: "32 word \<Rightarrow> 64 word" where
  "int64_of_int w = scast w"

definition parameter_value_to_bool :: "('v, 'f, 'd) pv_api \<Rightarrow> 'v \<Rightarrow> bool result" where
  "parameter_value_to_bool P t = pv_bool P t"

definition bool_to_parameter_value :: "('v, 'f, 'd) pv_api \<Rightarrow> bool \<Rightarrow> 'v" where
  "bool_to_parameter_value P b = pv_of_bool P b"

definition parameter_value_to_int :: "('v, 'f, 'd) pv_api \<Rightarrow> 'v \<Rightarrow> 32 word result" where
  "parameter_value_to_int P t = map_sum id int_of_int64 (pv_int64 P t)"

definition int_to_parameter_value :: "('v, 'f, 'd) pv_api \<Rightarrow> 32 word \<Rightarrow> 'v" where
  "int_to_parameter_value P i = pv_of_int P i"

definition parameter_value_to_int64 :: "('v, 'f, 'd) pv_api \<Rightarrow> 'v \<Rightarrow> 64 word result" where
  "parameter_value_to_int64 P t = pv_int64 P t"

definition int64_to_parameter_value :: "('v, 'f, 'd) pv_api \<Rightarrow> 64 word \<Rightarrow> 'v" where
  "int64_to_parameter_value P i = pv_of_int64 P i"

definition parameter_value_to_float :: "('v, 'f, 'd) pv_api \<Rightarrow> 'v \<Rightarrow> 'f result" where
  "parameter_value_to_float P t = map_sum id (float_of_double P) (pv_double P t)"

definition float_to_parameter_value :: "('v, 'f, 'd) pv_api \<Rightarrow> 'f \<Rightarrow> 'v" where
  "float_to_parameter_value P x = pv_of_float P x"

definition parameter_value_to_double :: "('v, 'f, 'd) pv_api \<Rightarrow> 'v \<Rightarrow> 'd result" where
  "parameter_value_to_double P t = pv_double P t"

definition double_to_parameter_value :: "('v, 'f, 'd) pv_api \<Rightarrow> 'd \<Rightarrow> 'v" where
  "double_to_parameter_value P x = pv_of_double P x"

definition parameter_value_to_string :: "('v, 'f, 'd) pv_api \<Rightarrow> 'v \<Rightarrow> string result" where
  "parameter_value_to_string P t = pv_string P t"

definition string_to_parameter_value :: "('v, 'f, 'd) pv_api \<Rightarrow> string \<Rightarrow> 'v" where
  "string_to_parameter_value P x = pv_of_string P x"

definition parameter_value_to_byte_array :: "('v, 'f, 'd) pv_api \<Rightarrow> 'v \<Rightarrow> 8 word list result" where
  "parameter_value_to_byte_array P t = pv_bytes P t"

definition byte_array_to_parameter_value :: "('v, 'f, 'd) pv_api \<Rightarrow> 8 word list \<Rightarrow> 'v" where
  "byte_array_to_parameter_value P x = pv_of_bytes P x"

definition parameter_value_to_bool_array :: "('v, 'f, 'd) pv_api \<Rightarrow> 'v \<Rightarrow> bool list result" where
  "parameter_value_to_bool_array P t = pv_bools P t"

definition bool_array_to_parameter_value :: "('v, 'f, 'd) pv_api \<Rightarrow> bool list \<Rightarrow> 'v" where
  "bool_array_to_parameter_value P x = pv_of_bools P x"

definition parameter_value_to_int64_array :: "('v, 'f, 'd) pv_api \<Rightarrow> 'v \<Rightarrow> 64 word list result" where
  "parameter_value_to_int64_array P t = pv_int64s P t"

definition int64_array_to_parameter_value :: "('v, 'f, 'd) pv_api \<Rightarrow> 64 word list \<Rightarrow> 'v" where
  "int64_array_to_parameter_value P x = pv_of_int64s P x"

text \<open>The range constructor of \<open>std::vector<int>\<close> converts every element.\<close>

definition parameter_value_to_int_array :: "('v, 'f, 'd) pv_api \<Rightarrow> 'v \<Rightarrow> 32 word list result" where
  "parameter_value_to_int_array P t = map_sum id (map int_of_int64) (pv_int64s P t)"

definition int_array_to_parameter_value :: "('v, 'f, 'd) pv_api \<Rightarrow> 32 word list \<Rightarrow> 'v" where
  "int_array_to_parameter_value P x = pv_of_ints P x"

definition parameter_value_to_float_array :: "('v, 'f, 'd) pv_api \<Rightarrow> 'v \<Rightarrow> 'f list result" where
  "parameter_value_to_float_array P t = map_sum id (map (float_of_double P)) (pv_doubles P t)"

definition float_array_to_parameter_value :: "('v, 'f, 'd) pv_api \<Rightarrow> 'f list \<Rightarrow> 'v" where
  "float_array_to_parameter_value P x = pv_of_floats P x"

definition parameter_value_to_double_array :: "('v, 'f, 'd) pv_api \<Rightarrow> 'v \<Rightarrow> 'd list result" where
  "parameter_value_to_double_array P t = pv_doubles P t"

definition double_array_to_parameter_value :: "('v, 'f, 'd) pv_api \<Rightarrow> 'd list \<Rightarrow> 'v" where
  "double_array_to_parameter_value P x = pv_of_doubles P x"

definition parameter_value_to_string_array :: "('v, 'f, 'd) pv_api \<Rightarrow> 'v \<Rightarrow> string list result" where
  "parameter_value_to_string_array P t = pv_strings P t"

definition string_array_to_parameter_value :: "('v, 'f, 'd) pv_api \<Rightarrow> string list \<Rightarrow> 'v" where
  "string_array_to_parameter_value P x = pv_of_strings P x"

section \<open>Their registration\<close>

datatype cpp_type = TBool | TInt | TInt64 | TFloat | TDouble | TString | TByteArray | TBoolArray
  | TInt64Array | TIntArray | TFloatArray | TDoubleArray | TStringArray

text \<open>
  A registered constructor: from a parameter value to the type, added to the type info of the type,
  or from the type to a parameter value, added to that of \<open>ParameterValue\<close> and automatic.
\<close>

datatype registered = ParameterTo cpp_type | ToParameter cpp_type

definition register_conversions :: "(cpp_type \<Rightarrow> bool) \<Rightarrow> cpp_type \<Rightarrow> registered list" where
  "register_conversions known t = (if known t then [ParameterTo t] else []) @ [ToParameter t]"

definition ParameterValue_installTypeInfoObject :: "(cpp_type \<Rightarrow> bool) \<Rightarrow> bool \<times> registered list" where
  "ParameterValue_installTypeInfoObject known =
     (False, concat (map (register_conversions known)
        [TBool, TInt, TInt64, TFloat, TDouble, TString, TByteArray, TBoolArray, TBoolArray,
         TInt64Array, TIntArray, TFloatArray, TDoubleArray, TStringArray]))"

text \<open>Writing prints the value; reading is not supported and sets the fail bit.\<close>

definition ParameterValue_write :: "('v \<Rightarrow> string) \<Rightarrow> 'v option \<Rightarrow> string \<Rightarrow> string" where
  "ParameterValue_write show_value d os = (case d of Some v \<Rightarrow> os @ show_value v | None \<Rightarrow> os)"

definition ParameterValue_read :: "bool \<Rightarrow> bool" where
  "ParameterValue_read failbit = True"

section \<open>Properties\<close>

text \<open>What the constructors and the typed \<open>get\<close> of \<open>rclcpp::ParameterValue\<close> promise.\<close>

locale parameter_values =
  fixes P :: "('v, 'f, 'd) pv_api"
  assumes of_bool: "pv_bool P (pv_of_bool P b) = Inr b"
    and of_int: "pv_int64 P (pv_of_int P i) = Inr (int64_of_int i)"
    and of_int64: "pv_int64 P (pv_of_int64 P w) = Inr w"
    and of_float: "pv_double P (pv_of_float P x) = Inr (double_of_float P x)"
    and of_double: "pv_double P (pv_of_double P y) = Inr y"
    and of_string: "pv_string P (pv_of_string P s) = Inr s"
    and of_bytes: "pv_bytes P (pv_of_bytes P ys) = Inr ys"
    and of_bools: "pv_bools P (pv_of_bools P bs) = Inr bs"
    and of_ints: "pv_int64s P (pv_of_ints P is) = Inr (map int64_of_int is)"
    and of_int64s: "pv_int64s P (pv_of_int64s P ws) = Inr ws"
    and of_floats: "pv_doubles P (pv_of_floats P xs) = Inr (map (double_of_float P) xs)"
    and of_doubles: "pv_doubles P (pv_of_doubles P ds) = Inr ds"
    and of_strings: "pv_strings P (pv_of_strings P ss) = Inr ss"
    and float_exact: "float_of_double P (double_of_float P x) = x"

text \<open>Widening an \<open>int\<close> and narrowing it again is exact; narrowing a value out of range is not.\<close>

lemma int_of_int64_of_int: "int_of_int64 (int64_of_int i) = i"
  unfolding int_of_int64_def int64_of_int_def by (rule bit_word_eqI) (auto simp add: bit_simps)

lemma int64_of_int_sint: "sint (int64_of_int i) = sint i"
  by (simp add: int64_of_int_def sint_up_scast is_up)

lemma int_of_int64_sint: "sint (int_of_int64 w) = signed_take_bit 31 (sint w)"
  unfolding int_of_int64_def by transfer (simp add: signed_take_bit_take_bit)

lemma int_narrow_exact:
  "sint (int_of_int64 w) = sint w \<longleftrightarrow> - (2 ^ 31) \<le> sint w \<and> sint w < 2 ^ 31"
  by (simp add: int_of_int64_sint signed_take_bit_int_eq_self_iff)

text \<open>A result read as an option, so that the conversions are codecs.\<close>

definition of_result :: "'a result \<Rightarrow> 'a option" where
  "of_result r = (case r of Inl e \<Rightarrow> None | Inr x \<Rightarrow> Some x)"

lemma of_result_Inr [simp]: "of_result (Inr x) = Some x"
  by (simp add: of_result_def)

lemma of_result_Some: "of_result r = Some x \<Longrightarrow> r = Inr x"
  by (cases r) (auto simp: of_result_def)

lemmas conversion_defs =
  parameter_value_to_bool_def bool_to_parameter_value_def parameter_value_to_int_def
  int_to_parameter_value_def parameter_value_to_int64_def int64_to_parameter_value_def
  parameter_value_to_float_def float_to_parameter_value_def parameter_value_to_double_def
  double_to_parameter_value_def parameter_value_to_string_def string_to_parameter_value_def
  parameter_value_to_byte_array_def byte_array_to_parameter_value_def
  parameter_value_to_bool_array_def bool_array_to_parameter_value_def
  parameter_value_to_int64_array_def int64_array_to_parameter_value_def
  parameter_value_to_int_array_def int_array_to_parameter_value_def
  parameter_value_to_float_array_def float_array_to_parameter_value_def
  parameter_value_to_double_array_def double_array_to_parameter_value_def
  parameter_value_to_string_array_def string_array_to_parameter_value_def

lemma map_int_narrow: "map int_of_int64 (map int64_of_int is) = is"
  by (simp add: comp_def int_of_int64_of_int)

sublocale parameter_values \<subseteq> int_codec:
  codec "int_to_parameter_value P" "\<lambda>v. of_result (parameter_value_to_int P v)" "\<lambda>i. True"
  by unfold_locales (simp add: conversion_defs of_int int_of_int64_of_int)

sublocale parameter_values \<subseteq> int64_codec:
  codec "int64_to_parameter_value P" "\<lambda>v. of_result (parameter_value_to_int64 P v)" "\<lambda>i. True"
  by unfold_locales (simp add: conversion_defs of_int64)

sublocale parameter_values \<subseteq> float_codec:
  codec "float_to_parameter_value P" "\<lambda>v. of_result (parameter_value_to_float P v)" "\<lambda>i. True"
  by unfold_locales (simp add: conversion_defs of_float float_exact)

sublocale parameter_values \<subseteq> string_codec:
  codec "string_to_parameter_value P" "\<lambda>v. of_result (parameter_value_to_string P v)" "\<lambda>i. True"
  by unfold_locales (simp add: conversion_defs of_string)

context parameter_values
begin

lemma scalar_round_trips:
  "parameter_value_to_bool P (bool_to_parameter_value P b) = Inr b"
  "parameter_value_to_int P (int_to_parameter_value P i) = Inr i"
  "parameter_value_to_int64 P (int64_to_parameter_value P w) = Inr w"
  "parameter_value_to_float P (float_to_parameter_value P x) = Inr x"
  "parameter_value_to_double P (double_to_parameter_value P y) = Inr y"
  "parameter_value_to_string P (string_to_parameter_value P s) = Inr s"
  by (simp_all add: conversion_defs of_bool of_int of_int64 of_float of_double of_string
      int_of_int64_of_int float_exact)

lemma array_round_trips:
  "parameter_value_to_byte_array P (byte_array_to_parameter_value P ys) = Inr ys"
  "parameter_value_to_bool_array P (bool_array_to_parameter_value P bs) = Inr bs"
  "parameter_value_to_int64_array P (int64_array_to_parameter_value P ws) = Inr ws"
  "parameter_value_to_int_array P (int_array_to_parameter_value P is) = Inr is"
  "parameter_value_to_float_array P (float_array_to_parameter_value P xs) = Inr xs"
  "parameter_value_to_double_array P (double_array_to_parameter_value P ds) = Inr ds"
  "parameter_value_to_string_array P (string_array_to_parameter_value P ss) = Inr ss"
  by (simp_all add: conversion_defs of_bytes of_bools of_int64s of_ints of_floats of_doubles of_strings
      comp_def int_of_int64_of_int float_exact)

lemma mixed_reads:
  "parameter_value_to_int P (int64_to_parameter_value P w) = Inr (int_of_int64 w)"
  "parameter_value_to_int_array P (int64_array_to_parameter_value P ws) = Inr (map int_of_int64 ws)"
  "parameter_value_to_int64 P (int_to_parameter_value P i) = Inr (int64_of_int i)"
  "parameter_value_to_int64_array P (int_array_to_parameter_value P is) = Inr (map int64_of_int is)"
  by (simp_all add: conversion_defs of_int of_int64 of_ints of_int64s)

end

section \<open>A concrete parameter value\<close>

text \<open>The kinds of parameter values, with numbers standing for \<open>float\<close> and \<open>double\<close>.\<close>

datatype pv = PNotSet | PBool bool | PInteger "64 word" | PDouble int | PString string
  | PBytes "8 word list" | PBools "bool list" | PIntegers "64 word list" | PDoubles "int list"
  | PStrings "string list"

abbreviation wrong_type :: "'a result" where
  "wrong_type \<equiv> Inl (ParameterTypeException [])"

definition pv_values :: "(pv, int, int) pv_api" where
  "pv_values =
     \<lparr>pv_of_bool = PBool, pv_of_int = PInteger \<circ> int64_of_int, pv_of_int64 = PInteger,
      pv_of_float = PDouble, pv_of_double = PDouble, pv_of_string = PString, pv_of_bytes = PBytes,
      pv_of_bools = PBools, pv_of_ints = PIntegers \<circ> map int64_of_int, pv_of_int64s = PIntegers,
      pv_of_floats = PDoubles, pv_of_doubles = PDoubles, pv_of_strings = PStrings,
      pv_bool = (\<lambda>v. case v of PBool b \<Rightarrow> Inr b | _ \<Rightarrow> wrong_type),
      pv_int64 = (\<lambda>v. case v of PInteger b \<Rightarrow> Inr b | _ \<Rightarrow> wrong_type),
      pv_double = (\<lambda>v. case v of PDouble b \<Rightarrow> Inr b | _ \<Rightarrow> wrong_type),
      pv_string = (\<lambda>v. case v of PString b \<Rightarrow> Inr b | _ \<Rightarrow> wrong_type),
      pv_bytes = (\<lambda>v. case v of PBytes b \<Rightarrow> Inr b | _ \<Rightarrow> wrong_type),
      pv_bools = (\<lambda>v. case v of PBools b \<Rightarrow> Inr b | _ \<Rightarrow> wrong_type),
      pv_int64s = (\<lambda>v. case v of PIntegers b \<Rightarrow> Inr b | _ \<Rightarrow> wrong_type),
      pv_doubles = (\<lambda>v. case v of PDoubles b \<Rightarrow> Inr b | _ \<Rightarrow> wrong_type),
      pv_strings = (\<lambda>v. case v of PStrings b \<Rightarrow> Inr b | _ \<Rightarrow> wrong_type),
      float_of_double = id, double_of_float = id\<rparr>"

interpretation pv_values: parameter_values pv_values
  by unfold_locales (simp_all add: pv_values_def)

text \<open>C34: Parameters hold only 64-bit integers and doubles. The narrower \<open>int\<close> and \<open>float\<close>, and arrays of
  them, survive the way into a parameter value and back, and an \<open>int\<close> can be read back as \<open>int64_t\<close>
  without a change of value. Reading 64-bit integers as \<open>int\<close> wraps around silently: the values are
  those of the parameter exactly when every one is in the range of 32 bits.\<close>

theorem parameter_round_trips:
  assumes P: "parameter_values P"
  shows "parameter_value_to_int P (int_to_parameter_value P i) = Inr i
    \<and> parameter_value_to_float P (float_to_parameter_value P x) = Inr x
    \<and> parameter_value_to_int_array P (int_array_to_parameter_value P js) = Inr js
    \<and> parameter_value_to_float_array P (float_array_to_parameter_value P xs) = Inr xs
    \<and> (\<exists>r. parameter_value_to_int64 P (int_to_parameter_value P i) = Inr r \<and> sint r = sint i)
    \<and> (\<exists>rs. parameter_value_to_int64_array P (int_array_to_parameter_value P js) = Inr rs
        \<and> map sint rs = map sint js)
    \<and> (\<exists>r. parameter_value_to_int P (int64_to_parameter_value P w) = Inr r
        \<and> (sint r = sint w \<longleftrightarrow> - (2 ^ 31) \<le> sint w \<and> sint w < 2 ^ 31))
    \<and> (\<exists>rs. parameter_value_to_int_array P (int64_array_to_parameter_value P ws) = Inr rs
        \<and> (map sint rs = map sint ws \<longleftrightarrow> list_all (\<lambda>w. - (2 ^ 31) \<le> sint w \<and> sint w < 2 ^ 31) ws))"
  using parameter_values.scalar_round_trips [OF P] parameter_values.array_round_trips [OF P]
    parameter_values.mixed_reads [OF P]
  by (simp add: int_narrow_exact int64_of_int_sint list_all_iff)

theorem parameter_round_trips_witness:
  "parameter_value_to_int pv_values (int64_to_parameter_value pv_values 4294967297) = Inr 1
    \<and> parameter_value_to_int_array pv_values (int_array_to_parameter_value pv_values [1, -1]) = Inr [1, -1]"
  using parameter_round_trips [OF pv_values.parameter_values_axioms, where js = "[1, -1]" and w = 4294967297]
  by (simp add: conversion_defs pv_values_def int_of_int64_def)

end
