(* ===== verification/Time_Typekit.thy ===== *)
theory Time_Typekit
  imports Prelude "HOL-Library.Word"
begin

text \<open>
  Times and durations in the package \<open>rtt_ros2_rclcpp_typekit\<close>: the conversions
  (\<open>time_conversions.hpp\<close>), the operators (\<open>time_operators.hpp\<close>), the streaming (\<open>time_io.hpp\<close>), the default
  constructible duration (\<open>wrapped_duration.hpp\<close>) and the constructors registered for both types
  (\<open>ros2_time_type.cpp\<close>, \<open>ros2_duration_type.cpp\<close>). \<open>rclcpp::Time\<close>, \<open>rclcpp::Duration\<close>, the messages and
  the arithmetic of \<open>double\<close> are parameters; \<open>rmw_time_t\<close> is a pair of 64-bit words.
\<close>

section \<open>Third-party interfaces\<close>

record 'd double_api =
  d_negative :: "'d \<Rightarrow> bool"
  d_of_uint64 :: "64 word \<Rightarrow> 'd"
  uint64_of_d :: "'d \<Rightarrow> 64 word"
  d_plus :: "'d \<Rightarrow> 'd \<Rightarrow> 'd"
  d_minus :: "'d \<Rightarrow> 'd \<Rightarrow> 'd"
  d_times :: "'d \<Rightarrow> 'd \<Rightarrow> 'd"
  d_1em9 :: 'd
  d_1e9 :: 'd
  d_zero :: 'd
  nanoseconds_of_seconds :: "'d \<Rightarrow> 64 word"

text \<open>\<open>'c\<close> is the clock type; the constructor of a time from nanoseconds throws when they are negative.\<close>

record ('t, 'u, 'd, 'tm, 'um, 'c) time_api =
  Time_of_ns :: "64 word \<Rightarrow> 't result"
  Time_of_ns_clock :: "64 word \<Rightarrow> 'c \<Rightarrow> 't result"
  Time_of_msg :: "'tm \<Rightarrow> 't result"
  Time_nanoseconds :: "'t \<Rightarrow> 64 word"
  Time_seconds :: "'t \<Rightarrow> 'd"
  Time_to_msg :: "'t \<Rightarrow> 'tm"
  Duration_of_sec_nsec :: "32 word \<Rightarrow> 32 word \<Rightarrow> 'u"
  Duration_of_ns :: "64 word \<Rightarrow> 'u"
  Duration_of_msg :: "'um \<Rightarrow> 'u"
  Duration_nanoseconds :: "'u \<Rightarrow> 64 word"
  Duration_seconds :: "'u \<Rightarrow> 'd"
  Duration_to_msg :: "'u \<Rightarrow> 'um"
  Duration_plus :: "'u \<Rightarrow> 'u \<Rightarrow> 'u result"
  Duration_minus :: "'u \<Rightarrow> 'u \<Rightarrow> 'u result"
  Time_plus :: "'t \<Rightarrow> 'u \<Rightarrow> 't result"
  Time_minus :: "'t \<Rightarrow> 'u \<Rightarrow> 't result"
  Time_diff :: "'t \<Rightarrow> 't \<Rightarrow> 'u result"

record rmw_time_t =
  sec :: "64 word"
  nsec :: "64 word"

section \<open>The wrapped duration\<close>

text \<open>The constructors of the derived class forward to those of the base class.\<close>

definition WrappedDuration :: "('t, 'u, 'd, 'tm, 'um, 'c) time_api \<Rightarrow> 'u" where
  "WrappedDuration A = Duration_of_sec_nsec A 0 0"

definition WrappedDuration_of_sec_nsec ::
  "('t, 'u, 'd, 'tm, 'um, 'c) time_api \<Rightarrow> 32 word \<Rightarrow> 32 word \<Rightarrow> 'u" where
  "WrappedDuration_of_sec_nsec A seconds nanoseconds = Duration_of_sec_nsec A seconds nanoseconds"

definition WrappedDuration_of_ns :: "('t, 'u, 'd, 'tm, 'um, 'c) time_api \<Rightarrow> 64 word \<Rightarrow> 'u" where
  "WrappedDuration_of_ns A nanoseconds = Duration_of_ns A nanoseconds"

definition WrappedDuration_of_msg :: "('t, 'u, 'd, 'tm, 'um, 'c) time_api \<Rightarrow> 'um \<Rightarrow> 'u" where
  "WrappedDuration_of_msg A duration_msg = Duration_of_msg A duration_msg"

definition WrappedDuration_of_Duration :: "'u \<Rightarrow> 'u" where
  "WrappedDuration_of_Duration duration = duration"

definition WrappedDuration_assign :: "'u \<Rightarrow> 'u \<Rightarrow> 'u" where
  "WrappedDuration_assign self duration = duration"

section \<open>Conversions\<close>

definition time_to_msg :: "('t, 'u, 'd, 'tm, 'um, 'c) time_api \<Rightarrow> 't \<Rightarrow> 'tm" where
  "time_to_msg A t = Time_to_msg A t"

definition msg_to_time :: "('t, 'u, 'd, 'tm, 'um, 'c) time_api \<Rightarrow> 'tm \<Rightarrow> 't result" where
  "msg_to_time A msg = Time_of_msg A msg"

definition time_to_double :: "('t, 'u, 'd, 'tm, 'um, 'c) time_api \<Rightarrow> 't \<Rightarrow> 'd" where
  "time_to_double A t = Time_seconds A t"

definition double_to_time :: "('t, 'u, 'd, 'tm, 'um, 'c) time_api \<Rightarrow> 'd double_api \<Rightarrow> 'd \<Rightarrow> 't result" where
  "double_to_time A D d = Time_of_ns A (nanoseconds_of_seconds D d)"

definition double_to_time2 ::
  "('t, 'u, 'd, 'tm, 'um, 'c) time_api \<Rightarrow> 'd double_api \<Rightarrow> 'd \<Rightarrow> 'c \<Rightarrow> 't result" where
  "double_to_time2 A D d clock = Time_of_ns_clock A (nanoseconds_of_seconds D d) clock"

definition time_to_int64 :: "('t, 'u, 'd, 'tm, 'um, 'c) time_api \<Rightarrow> 't \<Rightarrow> 64 word" where
  "time_to_int64 A t = Time_nanoseconds A t"

definition int64_to_time :: "('t, 'u, 'd, 'tm, 'um, 'c) time_api \<Rightarrow> 64 word \<Rightarrow> 't result" where
  "int64_to_time A i = Time_of_ns A i"

definition int64_to_time2 :: "('t, 'u, 'd, 'tm, 'um, 'c) time_api \<Rightarrow> 64 word \<Rightarrow> 'c \<Rightarrow> 't result" where
  "int64_to_time2 A i clock = Time_of_ns_clock A i clock"

definition duration_to_msg :: "('t, 'u, 'd, 'tm, 'um, 'c) time_api \<Rightarrow> 'u \<Rightarrow> 'um" where
  "duration_to_msg A t = Duration_to_msg A t"

definition msg_to_duration :: "('t, 'u, 'd, 'tm, 'um, 'c) time_api \<Rightarrow> 'um \<Rightarrow> 'u" where
  "msg_to_duration A msg = WrappedDuration_of_msg A msg"

definition duration_to_double :: "('t, 'u, 'd, 'tm, 'um, 'c) time_api \<Rightarrow> 'u \<Rightarrow> 'd" where
  "duration_to_double A t = Duration_seconds A t"

definition double_to_duration :: "('t, 'u, 'd, 'tm, 'um, 'c) time_api \<Rightarrow> 'd double_api \<Rightarrow> 'd \<Rightarrow> 'u" where
  "double_to_duration A D d = WrappedDuration_of_ns A (nanoseconds_of_seconds D d)"

definition duration_to_int64 :: "('t, 'u, 'd, 'tm, 'um, 'c) time_api \<Rightarrow> 'u \<Rightarrow> 64 word" where
  "duration_to_int64 A t = Duration_nanoseconds A t"

definition int64_to_duration :: "('t, 'u, 'd, 'tm, 'um, 'c) time_api \<Rightarrow> 64 word \<Rightarrow> 'u" where
  "int64_to_duration A i = WrappedDuration_of_ns A i"

definition rmw_time_t_to_double :: "'d double_api \<Rightarrow> rmw_time_t \<Rightarrow> 'd" where
  "rmw_time_t_to_double D t =
     d_plus D (d_of_uint64 D (sec t)) (d_times D (d_of_uint64 D (nsec t)) (d_1em9 D))"

definition double_to_rmw_time_t :: "'d double_api \<Rightarrow> 'd \<Rightarrow> rmw_time_t result" where
  "double_to_rmw_time_t D d =
     (if d_negative D d then Inl (InvalidArgument ''rmw_time_t cannot be negative'')
      else (let s = uint64_of_d D d
            in Inr \<lparr>sec = s, nsec = uint64_of_d D (d_times D (d_minus D d (d_of_uint64 D s)) (d_1e9 D))\<rparr>))"

definition rmw_time_t_to_uint64 :: "rmw_time_t \<Rightarrow> 64 word" where
  "rmw_time_t_to_uint64 t = sec t * 1000000000 + nsec t"

definition uint64_to_rmw_time_t :: "64 word \<Rightarrow> rmw_time_t" where
  "uint64_to_rmw_time_t d = \<lparr>sec = d div 1000000000, nsec = d mod 1000000000\<rparr>"

section \<open>Operators and streaming\<close>

definition duration_plus_duration :: "('t, 'u, 'd, 'tm, 'um, 'c) time_api \<Rightarrow> 'u \<Rightarrow> 'u \<Rightarrow> 'u result" where
  "duration_plus_duration A da db = Duration_plus A da db"

definition duration_minus_duration :: "('t, 'u, 'd, 'tm, 'um, 'c) time_api \<Rightarrow> 'u \<Rightarrow> 'u \<Rightarrow> 'u result" where
  "duration_minus_duration A da db = Duration_minus A da db"

definition time_plus_duration :: "('t, 'u, 'd, 'tm, 'um, 'c) time_api \<Rightarrow> 't \<Rightarrow> 'u \<Rightarrow> 't result" where
  "time_plus_duration A t d = Time_plus A t d"

definition time_minus_duration :: "('t, 'u, 'd, 'tm, 'um, 'c) time_api \<Rightarrow> 't \<Rightarrow> 'u \<Rightarrow> 't result" where
  "time_minus_duration A t d = Time_minus A t d"

definition time_minus_time :: "('t, 'u, 'd, 'tm, 'um, 'c) time_api \<Rightarrow> 't \<Rightarrow> 't \<Rightarrow> 'u result" where
  "time_minus_time A ta tb = Time_diff A ta tb"

text \<open>
  Reading a number from a stream: \<open>None\<close> is a failed read, after which the value stays as it is.
  The conversion of the number read can throw.
\<close>

definition read_time ::
  "('t, 'u, 'd, 'tm, 'um, 'c) time_api \<Rightarrow> 'd double_api \<Rightarrow> 'd option \<Rightarrow> 't \<Rightarrow> 't result" where
  "read_time A D input t = (case input of Some d \<Rightarrow> double_to_time A D d | None \<Rightarrow> Inr t)"

definition read_duration ::
  "('t, 'u, 'd, 'tm, 'um, 'c) time_api \<Rightarrow> 'd double_api \<Rightarrow> 'd option \<Rightarrow> 'u \<Rightarrow> 'u" where
  "read_duration A D input t = (case input of Some d \<Rightarrow> double_to_duration A D d | None \<Rightarrow> t)"

definition read_rclcpp_duration ::
  "('t, 'u, 'd, 'tm, 'um, 'c) time_api \<Rightarrow> 'd double_api \<Rightarrow> 'd option \<Rightarrow> 'u \<Rightarrow> 'u" where
  "read_rclcpp_duration A D input t = (case input of Some d \<Rightarrow> double_to_duration A D d | None \<Rightarrow> t)"

definition read_rmw_time_t :: "'d double_api \<Rightarrow> 'd option \<Rightarrow> rmw_time_t \<Rightarrow> rmw_time_t result" where
  "read_rmw_time_t D input t = (case input of Some d \<Rightarrow> double_to_rmw_time_t D d | None \<Rightarrow> Inr t)"

text \<open>\<open>put\<close> appends a number to the stream.\<close>

definition write_time ::
  "('t, 'u, 'd, 'tm, 'um, 'c) time_api \<Rightarrow> ('os \<Rightarrow> 'd \<Rightarrow> 'os) \<Rightarrow> 'os \<Rightarrow> 't \<Rightarrow> 'os" where
  "write_time A put os t = put os (Time_seconds A t)"

definition write_duration ::
  "('t, 'u, 'd, 'tm, 'um, 'c) time_api \<Rightarrow> ('os \<Rightarrow> 'd \<Rightarrow> 'os) \<Rightarrow> 'os \<Rightarrow> 'u \<Rightarrow> 'os" where
  "write_duration A put os t = put os (Duration_seconds A t)"

definition write_rclcpp_duration ::
  "('t, 'u, 'd, 'tm, 'um, 'c) time_api \<Rightarrow> ('os \<Rightarrow> 'd \<Rightarrow> 'os) \<Rightarrow> 'os \<Rightarrow> 'u \<Rightarrow> 'os" where
  "write_rclcpp_duration A put os t = put os (Duration_seconds A t)"

definition write_rmw_time_t :: "'d double_api \<Rightarrow> ('os \<Rightarrow> 'd \<Rightarrow> 'os) \<Rightarrow> 'os \<Rightarrow> rmw_time_t \<Rightarrow> 'os" where
  "write_rmw_time_t D put os t = put os (rmw_time_t_to_double D t)"

section \<open>Registration\<close>

text \<open>
  The constructors in the order they are added: to which type they belong, the function, and
  whether the conversion is automatic. A type that is not known gets none.
\<close>

datatype time_constructor = C_time_to_msg | C_msg_to_time | C_time_to_int64 | C_int64_to_time
  | C_int64_to_time2 | C_time_to_double | C_double_to_time | C_double_to_time2
  | C_duration_to_msg | C_msg_to_duration | C_duration_to_int64 | C_int64_to_duration
  | C_duration_to_double | C_double_to_duration

definition Time_installTypeInfoObject ::
  "bool \<Rightarrow> bool \<Rightarrow> bool \<Rightarrow> bool \<times> (time_constructor \<times> bool) list" where
  "Time_installTypeInfoObject msg_known int64_known double_known =
     (False,
      (if msg_known then [(C_time_to_msg, True)] else []) @ [(C_msg_to_time, True)]
      @ (if int64_known then [(C_time_to_int64, False)] else [])
      @ [(C_int64_to_time, True), (C_int64_to_time2, False)]
      @ (if double_known then [(C_time_to_double, False)] else [])
      @ [(C_double_to_time, True), (C_double_to_time2, False)])"

definition Duration_installTypeInfoObject ::
  "bool \<Rightarrow> bool \<Rightarrow> bool \<Rightarrow> bool \<times> (time_constructor \<times> bool) list" where
  "Duration_installTypeInfoObject msg_known int64_known double_known =
     (False,
      (if msg_known then [(C_duration_to_msg, True)] else []) @ [(C_msg_to_duration, True)]
      @ (if int64_known then [(C_duration_to_int64, False)] else []) @ [(C_int64_to_duration, True)]
      @ (if double_known then [(C_duration_to_double, False)] else []) @ [(C_double_to_duration, True)])"

section \<open>Properties\<close>

text \<open>The value in nanoseconds of an \<open>rmw_time_t\<close>, without bounds, and its normal form.\<close>

definition rmw_nanoseconds :: "rmw_time_t \<Rightarrow> nat" where
  "rmw_nanoseconds t = unat (sec t) * 1000000000 + unat (nsec t)"

definition rmw_normal :: "rmw_time_t \<Rightarrow> bool" where
  "rmw_normal t \<longleftrightarrow> unat (nsec t) < 1000000000 \<and> rmw_nanoseconds t < 2 ^ 64"

lemma unat_bound64: "unat (d :: 64 word) < 2 ^ 64"
  using unsigned_less [of d, where 'a = nat] by simp

lemma rmw_time_t_to_uint64_value:
  "unat (rmw_time_t_to_uint64 t) = rmw_nanoseconds t mod 2 ^ 64"
  by (simp add: rmw_time_t_to_uint64_def rmw_nanoseconds_def unat_word_ariths mod_simps)

lemma uint64_to_rmw_time_t_parts:
  "unat (sec (uint64_to_rmw_time_t d)) = unat d div 1000000000"
  "unat (nsec (uint64_to_rmw_time_t d)) = unat d mod 1000000000"
  by (simp_all add: uint64_to_rmw_time_t_def unat_div unat_mod)

lemma uint64_to_rmw_time_t_nanoseconds: "rmw_nanoseconds (uint64_to_rmw_time_t d) = unat d"
  by (simp add: rmw_nanoseconds_def uint64_to_rmw_time_t_parts)

lemma uint64_to_rmw_time_t_normal: "rmw_normal (uint64_to_rmw_time_t d)"
proof -
  have "unat d < 2 ^ 64" by (rule unat_bound64)
  then show ?thesis
    by (simp add: rmw_normal_def uint64_to_rmw_time_t_nanoseconds uint64_to_rmw_time_t_parts)
qed

lemma rmw_round_trip: "rmw_time_t_to_uint64 (uint64_to_rmw_time_t d) = d"
proof -
  have "unat d < 2 ^ 64" by (rule unat_bound64)
  then have "unat (rmw_time_t_to_uint64 (uint64_to_rmw_time_t d)) = unat d"
    by (simp add: rmw_time_t_to_uint64_value uint64_to_rmw_time_t_nanoseconds)
  then show ?thesis by (simp add: word_unat_eq_iff)
qed

lemma rmw_round_trip_back:
  assumes "rmw_normal t"
  shows "uint64_to_rmw_time_t (rmw_time_t_to_uint64 t) = t"
proof -
  have "unat (rmw_time_t_to_uint64 t) = unat (sec t) * 1000000000 + unat (nsec t)"
    using assms by (simp add: rmw_time_t_to_uint64_value rmw_normal_def rmw_nanoseconds_def)
  moreover have "unat (nsec t) < 1000000000" using assms by (simp add: rmw_normal_def)
  ultimately have "sec (uint64_to_rmw_time_t (rmw_time_t_to_uint64 t)) = sec t"
    "nsec (uint64_to_rmw_time_t (rmw_time_t_to_uint64 t)) = nsec t"
    by (simp_all add: word_unat_eq_iff uint64_to_rmw_time_t_parts)
  then show ?thesis by simp
qed

interpretation rmw_codec: codec rmw_time_t_to_uint64 "\<lambda>d. Some (uint64_to_rmw_time_t d)" rmw_normal
  by unfold_locales (simp add: rmw_round_trip_back)

text \<open>C26: Splitting a number of nanoseconds into seconds and nanoseconds loses nothing for any of the
  64-bit values, and the result has less than a second of nanoseconds. The way back is exact for
  every time whose nanoseconds fit 64 bits and wraps around modulo \<open>2^64\<close> otherwise; two different
  normal times never become the same number.\<close>

theorem rmw_time_uint64_correct:
  "rmw_time_t_to_uint64 (uint64_to_rmw_time_t d) = d
    \<and> unat (nsec (uint64_to_rmw_time_t d)) < 1000000000
    \<and> unat (rmw_time_t_to_uint64 t) = rmw_nanoseconds t mod 2 ^ 64
    \<and> (rmw_normal t \<longrightarrow> uint64_to_rmw_time_t (rmw_time_t_to_uint64 t) = t)
    \<and> (rmw_normal t \<and> rmw_normal u \<and> rmw_time_t_to_uint64 t = rmw_time_t_to_uint64 u \<longrightarrow> t = u)"
  using rmw_round_trip rmw_time_t_to_uint64_value rmw_round_trip_back rmw_codec.enc_inj
    uint64_to_rmw_time_t_parts(2)
  by auto

theorem rmw_time_uint64_correct_witness:
  "uint64_to_rmw_time_t (rmw_time_t_to_uint64 \<lparr>sec = 2, nsec = 5\<rparr>) = \<lparr>sec = 2, nsec = 5\<rparr>"
  using rmw_time_uint64_correct [where t = "\<lparr>sec = 2, nsec = 5\<rparr>"]
  by (simp add: rmw_normal_def rmw_nanoseconds_def)

end
