(* ===== verification/Data_Source.thy ===== *)
theory Data_Source
  imports Prelude
begin

text \<open>
  The data source that reads and writes a field of an object through a getter and a setter
  (\<open>getter_setter_datasource.hpp\<close>). The object itself is behind another assignable data source, which
  is third-party code or again such a field: the interface is a record of functions, its laws a
  locale, and the data source of the package satisfies the laws whenever its object does.
\<close>

section \<open>Assignable data sources\<close>

text \<open>
  \<open>'s\<close> is the state behind a data source. \<open>a_set_ref s f\<close> changes the value through the reference that
  \<open>set()\<close> returns; \<open>a_updated\<close> then announces the change.
\<close>

record ('s, 'o) assignable =
  a_get :: "'s \<Rightarrow> 'o \<times> 's"
  a_value :: "'s \<Rightarrow> 'o"
  a_rvalue :: "'s \<Rightarrow> 'o"
  a_set :: "'o \<Rightarrow> 's \<Rightarrow> 's"
  a_set_ref :: "('o \<Rightarrow> 'o) \<Rightarrow> 's \<Rightarrow> 's"
  a_evaluate :: "'s \<Rightarrow> bool \<times> 's"
  a_updated :: "'s \<Rightarrow> 's"

text \<open>The members other than the object and the cached value.\<close>

record ('o, 'f) getter_setter =
  getter :: "'o \<Rightarrow> 'f"
  setter :: "'o \<Rightarrow> 'f \<Rightarrow> 'o"

text \<open>
  The state of a \<open>GetterSetterDataSource\<close> is the state of its object and its member \<open>value_\<close>, which
  starts as the default value.
\<close>

definition GetterSetterDataSource :: "'s \<Rightarrow> 'f \<Rightarrow> 's \<times> 'f" where
  "GetterSetterDataSource object default_value = (object, default_value)"

definition gs_get :: "('o, 'f) getter_setter \<Rightarrow> ('s, 'o) assignable \<Rightarrow> 's \<times> 'f \<Rightarrow> 'f \<times> ('s \<times> 'f)" where
  "gs_get G A = (\<lambda>(s, v).
     let (object, s') = a_get A s; v' = getter G object in (v', (s', v')))"

definition gs_value :: "'s \<times> 'f \<Rightarrow> 'f" where
  "gs_value = (\<lambda>(s, v). v)"

definition gs_rvalue :: "'s \<times> 'f \<Rightarrow> 'f" where
  "gs_rvalue = (\<lambda>(s, v). v)"

definition gs_updated :: "('o, 'f) getter_setter \<Rightarrow> ('s, 'o) assignable \<Rightarrow> 's \<times> 'f \<Rightarrow> 's \<times> 'f" where
  "gs_updated G A = (\<lambda>(s, v). (a_updated A (a_set_ref A (\<lambda>object. setter G object v) s), v))"

definition gs_set :: "('o, 'f) getter_setter \<Rightarrow> ('s, 'o) assignable \<Rightarrow> 'f \<Rightarrow> 's \<times> 'f \<Rightarrow> 's \<times> 'f" where
  "gs_set G A t = (\<lambda>(s, v). gs_updated G A (s, t))"

definition gs_set_ref :: "('f \<Rightarrow> 'f) \<Rightarrow> 's \<times> 'f \<Rightarrow> 's \<times> 'f" where
  "gs_set_ref f = (\<lambda>(s, v). (s, f v))"

definition gs_evaluate :: "('o, 'f) getter_setter \<Rightarrow> ('s, 'o) assignable \<Rightarrow> 's \<times> 'f \<Rightarrow> bool \<times> ('s \<times> 'f)" where
  "gs_evaluate G A = (\<lambda>(s, v).
     let (ok, s') = a_evaluate A s
     in if \<not> ok then (False, (s', v)) else (True, (s', getter G (a_rvalue A s'))))"

text \<open>A clone shares the object and starts with the default value again.\<close>

definition gs_clone :: "'f \<Rightarrow> 's \<times> 'f \<Rightarrow> 's \<times> 'f" where
  "gs_clone na = (\<lambda>(s, v). GetterSetterDataSource s na)"

text \<open>
  \<open>copy\<close> works on addresses: \<open>replace\<close> maps a data source to its copy, \<open>copy_object\<close> copies the object
  and \<open>fresh\<close> is the address of the new data source.
\<close>

definition gs_copy ::
  "nat \<Rightarrow> ((nat \<Rightarrow> nat option) \<Rightarrow> 's \<times> (nat \<Rightarrow> nat option)) \<Rightarrow> nat \<Rightarrow> 'f \<Rightarrow> (nat \<Rightarrow> nat option) \<Rightarrow>
   nat \<times> ('s \<times> 'f) option \<times> (nat \<Rightarrow> nat option)" where
  "gs_copy this copy_object fresh na replace =
     (case replace this of
        Some c \<Rightarrow> (c, None, replace)
      | None \<Rightarrow>
          (let (object_copy, replace') = copy_object replace
           in (fresh, Some (GetterSetterDataSource object_copy na), replace'(this \<mapsto> fresh))))"

text \<open>The class as an assignable data source.\<close>

definition gs_source :: "('o, 'f) getter_setter \<Rightarrow> ('s, 'o) assignable \<Rightarrow> ('s \<times> 'f, 'f) assignable" where
  "gs_source G A =
     \<lparr>a_get = gs_get G A, a_value = gs_value, a_rvalue = gs_rvalue, a_set = gs_set G A,
      a_set_ref = gs_set_ref, a_evaluate = gs_evaluate G A, a_updated = gs_updated G A\<rparr>"

section \<open>Laws\<close>

text \<open>
  \<open>content\<close> is the value a data source stands for. Reading through \<open>get\<close> or \<open>evaluate\<close> gives it, and a
  change through the reference works on the value last read, \<open>a_rvalue\<close>.
\<close>

locale assignable_source =
  fixes A :: "('s, 'o) assignable" and content :: "'s \<Rightarrow> 'o"
  assumes get_content: "a_get A s = (x, s') \<Longrightarrow> x = content s \<and> content s' = content s"
    and evaluate_content: "a_evaluate A s = (b, s') \<Longrightarrow> b \<and> content s' = content s \<and> a_rvalue A s' = content s"
    and set_content: "content (a_set A x s) = x"
    and ref_content: "content (a_updated A (a_set_ref A f s)) = f (a_rvalue A s)"
begin

lemma write_through_fresh:
  "a_rvalue A s = content s \<Longrightarrow> content (a_updated A (a_set_ref A f s)) = f (content s)"
  by (simp add: ref_content)

end

locale field_lens =
  fixes G :: "('o, 'f) getter_setter"
  assumes get_set: "getter G (setter G object v) = v"

text \<open>A field of an object behind a lawful data source is again a lawful data source.\<close>

locale field_source = assignable_source A content + field_lens G
  for A :: "('s, 'o) assignable" and content :: "'s \<Rightarrow> 'o" and G :: "('o, 'f) getter_setter"

sublocale field_source \<subseteq> field: assignable_source "gs_source G A" "\<lambda>(s, v). getter G (content s)"
proof (unfold_locales, goal_cases)
  case (1 s x s')
  then show ?case
    by (auto simp: gs_source_def gs_get_def Let_def dest: get_content split: prod.splits)
next
  case (2 s b s')
  then show ?case
    by (auto simp: gs_source_def gs_evaluate_def gs_rvalue_def split: prod.splits if_splits
        dest: evaluate_content)
next
  case (3 x s)
  then show ?case
    by (cases s) (simp add: gs_source_def gs_set_def gs_updated_def ref_content get_set)
next
  case (4 f s)
  then show ?case
    by (cases s) (simp add: gs_source_def gs_set_ref_def gs_updated_def gs_rvalue_def ref_content get_set)
qed

context field_source
begin

lemma gs_set_get: "fst (gs_get G A (gs_set G A t x)) = t"
proof -
  have "a_get (gs_source G A) (gs_set G A t x) = gs_get G A (gs_set G A t x)"
    by (simp add: gs_source_def)
  then have "fst (gs_get G A (gs_set G A t x)) = (case gs_set G A t x of (s, v) \<Rightarrow> getter G (content s))"
    using field.get_content [of "gs_set G A t x"] by (cases "gs_get G A (gs_set G A t x)") simp
  also have "\<dots> = t"
    using field.set_content [of t x] by (simp add: gs_source_def)
  finally show ?thesis .
qed

lemma gs_set_object:
  "content (fst (gs_set G A t (s, v))) = setter G (a_rvalue A s) t"
  by (simp add: gs_set_def gs_updated_def ref_content)

end

section \<open>The data source of a value\<close>

text \<open>\<open>RTT::internal::ValueDataSource\<close>: the state is the value.\<close>

definition value_source :: "('o, 'o) assignable" where
  "value_source =
     \<lparr>a_get = (\<lambda>s. (s, s)), a_value = (\<lambda>s. s), a_rvalue = (\<lambda>s. s), a_set = (\<lambda>x s. x),
      a_set_ref = (\<lambda>f s. f s), a_evaluate = (\<lambda>s. (True, s)), a_updated = (\<lambda>s. s)\<rparr>"

interpretation value_source: assignable_source value_source "\<lambda>s. s"
  by unfold_locales (auto simp: value_source_def)

section \<open>Properties\<close>


text \<open>Writing a field of a field goes wrong when the field in between has not been read: the data
  source of the inner object passes on its cached value, which is still the default, so that all its
  other parts are overwritten with the default.\<close>

lemma nested_write_uses_stale_cache:
  assumes inner: "field_lens G" and other: "\<forall>x t. getter K (setter H x t) = getter K x"
  shows "getter K (getter G (fst (fst (gs_set H (gs_source G value_source) t
           (GetterSetterDataSource (GetterSetterDataSource object na) d))))) = getter K na
    \<and> getter K (getter G (fst (fst (gs_set H (gs_source G value_source) t
           (GetterSetterDataSource (snd (gs_evaluate G value_source (GetterSetterDataSource object na))) d)))))
        = getter K (getter G object)"
  using field_lens.get_set [OF inner] other
  by (simp add: GetterSetterDataSource_def gs_set_def gs_updated_def gs_source_def gs_set_ref_def
      gs_evaluate_def value_source_def)

section \<open>A concrete object\<close>

text \<open>Pairs, with their first component as the field, and the field \<open>snd\<close>.\<close>

definition fst_field :: "('a \<times> 'b, 'a) getter_setter" where
  "fst_field = \<lparr>getter = fst, setter = (\<lambda>object v. (v, snd object))\<rparr>"

definition snd_field :: "('a \<times> 'b, 'b) getter_setter" where
  "snd_field = \<lparr>getter = snd, setter = (\<lambda>object v. (fst object, v))\<rparr>"

interpretation fst_field: field_lens fst_field
  by unfold_locales (simp add: fst_field_def)

interpretation fst_source: field_source value_source "\<lambda>s. s" fst_field
  by unfold_locales


end
