(* ===== verification/Struct_Typekit.thy ===== *)
theory Struct_Typekit
  imports Data_Source
begin

text \<open>
  The other types of the package \<open>rtt_ros2_rclcpp_typekit\<close>: the members of node options, quality of
  service, publisher options and parameters as seen by the Orocos type system
  (\<open>ros2_node_options_type.cpp\<close>, \<open>ros2_qos_type.cpp\<close>, \<open>ros2_publisher_options_type.cpp\<close>,
  \<open>ros2_parameter_type.cpp\<close>) and the tables of types, operators, constructors and constants of the
  typekit (\<open>rtt_ros2_rclcpp_typekit.cpp\<close>).
\<close>

section \<open>Members\<close>

text \<open>
  The data source given to \<open>getMember\<close>: one that can be assigned, one that can only be read, or one of
  another type. Members refer to the object itself in the first case and to a copy in the second.
\<close>

datatype item = AssignableItem | ReadOnlyItem | OtherItem

datatype object = TheObject | CopyOfObject

definition adata :: "item \<Rightarrow> object option" where
  "adata item =
     (case item of
        AssignableItem \<Rightarrow> Some TheObject
      | ReadOnlyItem \<Rightarrow> Some CopyOfObject
      | OtherItem \<Rightarrow> None)"

text \<open>
  What \<open>getMember\<close> returns: a \<open>GetterSetterDataSource\<close> with the accessors of a name, a
  \<open>PartDataSource\<close> of a field, or a data source that calls a function on the object.
\<close>

datatype member_source = GetterSetter object string | Part object string | Functor object string

definition NodeOptions_getMemberNames :: "string list" where
  "NodeOptions_getMemberNames =
     [''context'',
      ''arguments'',
      ''parameter_overrides'',
      ''use_global_arguments'',
      ''use_intra_process_comms'',
      ''start_parameter_services'',
      ''start_parameter_event_publisher'',
      ''parameter_event_qos'',
      ''parameter_event_publisher_options'',
      ''allow_undeclared_parameters'',
      ''automatically_declare_parameters_from_overrides'',
      ''allocator'']"

definition NodeOptions_getMember :: "item \<Rightarrow> string \<Rightarrow> member_source option" where
  "NodeOptions_getMember item name =
     (case adata item of
        None \<Rightarrow> None
      | Some obj \<Rightarrow>
          if name = ''context'' then Some (GetterSetter obj ''context'')
          else if name = ''arguments'' then Some (GetterSetter obj ''arguments'')
          else if name = ''parameter_overrides'' then Some (GetterSetter obj ''parameter_overrides'')
          else if name = ''use_global_arguments'' then Some (GetterSetter obj ''use_global_arguments'')
          else if name = ''use_intra_process_comms'' then Some (GetterSetter obj ''use_intra_process_comms'')
          else if name = ''start_parameter_services'' then Some (GetterSetter obj ''start_parameter_services'')
          else if name = ''start_parameter_event_publisher'' then Some (GetterSetter obj ''start_parameter_event_publisher'')
          else if name = ''parameter_event_qos'' then Some (GetterSetter obj ''parameter_event_qos'')
          else if name = ''parameter_event_publisher_options'' then Some (GetterSetter obj ''parameter_event_publisher_options'')
          else if name = ''allow_undeclared_parameters'' then Some (GetterSetter obj ''allow_undeclared_parameters'')
          else if name = ''automatically_declare_parameters_from_overrides'' then Some (GetterSetter obj ''automatically_declare_parameters_from_overrides'')
          else if name = ''allocator'' then Some (GetterSetter obj ''allocator'')
          else None)"

definition QoS_getMemberNames :: "string list" where
  "QoS_getMemberNames =
     [''history'',
      ''depth'',
      ''reliability'',
      ''durability'',
      ''deadline'',
      ''lifespan'',
      ''liveliness'',
      ''liveliness_lease_duration'',
      ''avoid_ros_namespace_conventions'']"

definition QoS_getMember :: "item \<Rightarrow> string \<Rightarrow> member_source option" where
  "QoS_getMember item name =
     (case adata item of
        None \<Rightarrow> None
      | Some obj \<Rightarrow>
          if name = ''history'' then Some (Part obj ''history'')
          else if name = ''depth'' then Some (Part obj ''depth'')
          else if name = ''reliability'' then Some (Part obj ''reliability'')
          else if name = ''durability'' then Some (Part obj ''durability'')
          else if name = ''deadline'' then Some (Part obj ''deadline'')
          else if name = ''lifespan'' then Some (Part obj ''lifespan'')
          else if name = ''liveliness'' then Some (Part obj ''liveliness'')
          else if name = ''liveliness_lease_duration'' then Some (Part obj ''liveliness_lease_duration'')
          else if name = ''avoid_ros_namespace_conventions'' then Some (Part obj ''avoid_ros_namespace_conventions'')
          else None)"

definition PublisherOptionsBase_getMemberNames :: "string list" where
  "PublisherOptionsBase_getMemberNames =
     [''use_intra_process_comm'',
      ''event_callbacks'',
      ''callback_group'',
      ''rmw_implementation_payload'']"

definition PublisherOptionsBase_getMember :: "item \<Rightarrow> string \<Rightarrow> member_source option" where
  "PublisherOptionsBase_getMember item name =
     (case adata item of
        None \<Rightarrow> None
      | Some obj \<Rightarrow>
          if name = ''use_intra_process_comm'' then Some (Part obj ''use_intra_process_comm'')
          else if name = ''event_callbacks'' then Some (Part obj ''event_callbacks'')
          else if name = ''callback_group'' then Some (Part obj ''callback_group'')
          else if name = ''rmw_implementation_payload'' then Some (Part obj ''rmw_implementation_payload'')
          else None)"

definition Parameter_getMemberNames :: "string list" where
  "Parameter_getMemberNames =
     [''type_name'',
      ''name'',
      ''value'']"

definition Parameter_getMember :: "item \<Rightarrow> string \<Rightarrow> member_source option" where
  "Parameter_getMember item name =
     (case adata item of
        None \<Rightarrow> None
      | Some obj \<Rightarrow>
          if name = ''type_name'' then Some (Functor obj ''type_name'')
          else if name = ''name'' then Some (Functor obj ''name'')
          else if name = ''value'' then Some (Functor obj ''value'')
          else None)"

text \<open>
  The functions a member of a parameter calls: each asks the parameter, which is third-party code.
\<close>

record ('p, 'v) rclcpp_parameter_api =
  p_get_type_name :: "'p \<Rightarrow> string"
  p_get_name :: "'p \<Rightarrow> string"
  p_get_parameter_value :: "'p \<Rightarrow> 'v"
  p_make :: "string \<Rightarrow> 'p"
  p_make_value :: "string \<Rightarrow> 'v \<Rightarrow> 'p"

definition get_type_name :: "('p, 'v) rclcpp_parameter_api \<Rightarrow> 'p \<Rightarrow> string" where
  "get_type_name A p = p_get_type_name A p"

definition get_name :: "('p, 'v) rclcpp_parameter_api \<Rightarrow> 'p \<Rightarrow> string" where
  "get_name A p = p_get_name A p"

definition get_parameter_value :: "('p, 'v) rclcpp_parameter_api \<Rightarrow> 'p \<Rightarrow> 'v" where
  "get_parameter_value A p = p_get_parameter_value A p"

text \<open>What reading a member of a parameter returns: a string or a value.\<close>

definition Parameter_read :: "('p, 'v) rclcpp_parameter_api \<Rightarrow> 'p \<Rightarrow> string \<Rightarrow> (string + 'v) option" where
  "Parameter_read A p name =
     (case Parameter_getMember AssignableItem name of
        Some (Functor obj f) \<Rightarrow>
          if f = ''type_name'' then Some (Inl (get_type_name A p))
          else if f = ''name'' then Some (Inl (get_name A p))
          else if f = ''value'' then Some (Inr (get_parameter_value A p))
          else None
      | _ \<Rightarrow> None)"

text \<open>The constructors of a parameter: from a name alone and from a name and a value.\<close>

definition Parameter_construct1 :: "('p, 'v) rclcpp_parameter_api \<Rightarrow> string \<Rightarrow> 'p" where
  "Parameter_construct1 A name = p_make A name"

definition Parameter_construct2 :: "('p, 'v) rclcpp_parameter_api \<Rightarrow> string \<Rightarrow> 'v \<Rightarrow> 'p" where
  "Parameter_construct2 A name value = p_make_value A name value"

text \<open>
  Installing a type info into the type object of the type system: the name it was constructed with,
  the members it answers for, and the constructors added. \<open>base\<close> is the installation of the base class.
  The result is whether the caller deletes the type info: it never does.
\<close>

datatype struct_type = NodeOptionsType | QoSType | PublisherOptionsBaseType | ParameterType

record ti_object =
  ti_members :: "struct_type option"
  ti_constructors :: "string list"

definition NodeOptionsTypeInfo :: string where
  "NodeOptionsTypeInfo = ''/rclcpp/NodeOptions''"

definition QoSTypeInfo :: string where
  "QoSTypeInfo = ''/rclcpp/QoS''"

definition PublisherOptionsBaseTypeInfo :: string where
  "PublisherOptionsBaseTypeInfo = ''/rclcpp/PublisherOptionsBase''"

definition ParameterTypeInfo :: string where
  "ParameterTypeInfo = ''/rclcpp/Parameter''"

definition NodeOptions_installTypeInfoObject ::
  "(ti_object \<Rightarrow> ti_object) \<Rightarrow> ti_object \<Rightarrow> bool \<times> ti_object" where
  "NodeOptions_installTypeInfoObject base ti = (False, (base ti)\<lparr>ti_members := Some NodeOptionsType\<rparr>)"

definition QoS_installTypeInfoObject ::
  "(ti_object \<Rightarrow> ti_object) \<Rightarrow> ti_object \<Rightarrow> bool \<times> ti_object" where
  "QoS_installTypeInfoObject base ti = (False, (base ti)\<lparr>ti_members := Some QoSType\<rparr>)"

definition PublisherOptionsBase_installTypeInfoObject ::
  "(ti_object \<Rightarrow> ti_object) \<Rightarrow> ti_object \<Rightarrow> bool \<times> ti_object" where
  "PublisherOptionsBase_installTypeInfoObject base ti =
     (False, (base ti)\<lparr>ti_members := Some PublisherOptionsBaseType\<rparr>)"

definition Parameter_installTypeInfoObject ::
  "(ti_object \<Rightarrow> ti_object) \<Rightarrow> ti_object \<Rightarrow> bool \<times> ti_object" where
  "Parameter_installTypeInfoObject base ti =
     (let ti = (base ti)\<lparr>ti_members := Some ParameterType\<rparr>;
          ti = ti\<lparr>ti_constructors := ti_constructors ti @ [''construct1'']\<rparr>;
          ti = ti\<lparr>ti_constructors := ti_constructors ti @ [''construct2'']\<rparr>
      in (False, ti))"

text \<open>
  A default-constructed quality of service, which the type system needs and \<open>rclcpp::QoS\<close> does not
  have: keep the last zero samples. \<open>make_qos\<close> is the constructor of \<open>rclcpp::QoS\<close>.
\<close>

datatype qos_initialization = KeepLast nat | KeepAll

definition WrappedQoS :: "(qos_initialization \<Rightarrow> 'q) \<Rightarrow> 'q" where
  "WrappedQoS make_qos = make_qos (KeepLast 0)"

text \<open>Wrapping and assigning a quality of service keep it as it is.\<close>

definition WrappedQoS_of_QoS :: "'q \<Rightarrow> 'q" where
  "WrappedQoS_of_QoS qos = qos"

definition WrappedQoS_assign :: "'q \<Rightarrow> 'q \<Rightarrow> 'q" where
  "WrappedQoS_assign self qos = qos"

section \<open>The tables of the typekit\<close>

definition rclcpp_loadTypes :: "string list" where
  "rclcpp_loadTypes =
     [''/rclcpp/Duration'',
      ''/rclcpp/Time'',
      ''/rclcpp/NodeOptions'',
      ''/rclcpp/Parameter'',
      ''/rclcpp/Parameter[]'',
      ''/rclcpp/ParameterValue'',
      ''/rclcpp/PublisherOptionsBase'',
      ''/rclcpp/QoS'',
      ''/rclcpp/IntraProcessSetting'',
      ''/rclcpp/PublisherEventCallbacks'',
      ''/rclcpp/CallbackGroup'',
      ''/rclcpp/RMWImplementationSpecificPublisherPayload'',
      ''rmw_time_t'',
      ''rcl_allocator_t'',
      ''rcl_clock_type_t'',
      ''rmw_qos_history_policy_t'',
      ''rmw_qos_reliability_policy_t'',
      ''rmw_qos_durability_policy_t'',
      ''rmw_qos_liveliness_policy_t'']"

text \<open>Operators by symbol and argument types.\<close>

datatype time_type = Duration | Time

definition rclcpp_loadOperators :: "(string \<times> time_type \<times> time_type \<times> time_type) list" where
  "rclcpp_loadOperators =
     [(''+'', Duration, Duration, Duration), (''-'', Duration, Duration, Duration),
      (''+'', Time, Duration, Time), (''-'', Time, Duration, Time), (''-'', Time, Time, Duration)]"

definition rclcpp_loadConstructors :: "(string \<times> string) list" where
  "rclcpp_loadConstructors =
     [(''rmw_time_t'', ''double_to_rmw_time_t''), (''double'', ''rmw_time_t_to_double''),
      (''rmw_time_t'', ''uint64_to_rmw_time_t''), (''uint64'', ''rmw_time_t_to_uint64'')]"

text \<open>The constants, by type.\<close>

definition rclcpp_loadGlobals :: "(string \<times> string) list" where
  "rclcpp_loadGlobals =
     [(''IntraProcessSetting'', ''IntraProcessSettingEnable''),
      (''IntraProcessSetting'', ''IntraProcessSettingDisable''),
      (''IntraProcessSetting'', ''IntraProcessSettingNodeDefault''),
      (''rcl_clock_type_t'', ''RCL_CLOCK_UNINITIALIZED''),
      (''rcl_clock_type_t'', ''RCL_ROS_TIME''),
      (''rcl_clock_type_t'', ''RCL_SYSTEM_TIME''),
      (''rcl_clock_type_t'', ''RCL_STEADY_TIME''),
      (''rmw_qos_reliability_policy_t'', ''RMW_QOS_POLICY_RELIABILITY_SYSTEM_DEFAULT''),
      (''rmw_qos_reliability_policy_t'', ''RMW_QOS_POLICY_RELIABILITY_RELIABLE''),
      (''rmw_qos_reliability_policy_t'', ''RMW_QOS_POLICY_RELIABILITY_BEST_EFFORT''),
      (''rmw_qos_reliability_policy_t'', ''RMW_QOS_POLICY_RELIABILITY_UNKNOWN''),
      (''rmw_qos_history_policy_t'', ''RMW_QOS_POLICY_HISTORY_SYSTEM_DEFAULT''),
      (''rmw_qos_history_policy_t'', ''RMW_QOS_POLICY_HISTORY_KEEP_LAST''),
      (''rmw_qos_history_policy_t'', ''RMW_QOS_POLICY_HISTORY_KEEP_ALL''),
      (''rmw_qos_history_policy_t'', ''RMW_QOS_POLICY_HISTORY_UNKNOWN''),
      (''rmw_qos_durability_policy_t'', ''RMW_QOS_POLICY_DURABILITY_SYSTEM_DEFAULT''),
      (''rmw_qos_durability_policy_t'', ''RMW_QOS_POLICY_DURABILITY_TRANSIENT_LOCAL''),
      (''rmw_qos_durability_policy_t'', ''RMW_QOS_POLICY_DURABILITY_VOLATILE''),
      (''rmw_qos_durability_policy_t'', ''RMW_QOS_POLICY_DURABILITY_UNKNOWN''),
      (''rmw_qos_liveliness_policy_t'', ''RMW_QOS_POLICY_LIVELINESS_SYSTEM_DEFAULT''),
      (''rmw_qos_liveliness_policy_t'', ''RMW_QOS_POLICY_LIVELINESS_AUTOMATIC''),
      (''rmw_qos_liveliness_policy_t'', ''RMW_QOS_POLICY_LIVELINESS_MANUAL_BY_NODE''),
      (''rmw_qos_liveliness_policy_t'', ''RMW_QOS_POLICY_LIVELINESS_MANUAL_BY_TOPIC''),
      (''rmw_qos_liveliness_policy_t'', ''RMW_QOS_POLICY_LIVELINESS_UNKNOWN'')]"

section \<open>Properties\<close>

text \<open>
  A member list and a member function agree: exactly the listed names have a member, of an object of
  the right type, and different names have different members.
\<close>

definition members_agree :: "string list \<Rightarrow> (item \<Rightarrow> string \<Rightarrow> member_source option) \<Rightarrow> bool" where
  "members_agree names get \<longleftrightarrow>
     distinct names
     \<and> (\<forall>item n. get item n \<noteq> None \<longleftrightarrow> item \<noteq> OtherItem \<and> n \<in> set names)
     \<and> (\<forall>item n m. get item n \<noteq> None \<longrightarrow> get item n = get item m \<longrightarrow> n = m)"

lemma members_agreeI:
  assumes "distinct names" "\<And>obj n obj' m. K obj n = K obj' m \<Longrightarrow> n = m"
    and get: "\<And>item n. get item n = (case adata item of None \<Rightarrow> None
      | Some obj \<Rightarrow> if n \<in> set names then Some (K obj n) else None)"
  shows "members_agree names get"
proof -
  have "get item n \<noteq> None \<longleftrightarrow> item \<noteq> OtherItem \<and> n \<in> set names" for item n
    by (cases item) (auto simp: get adata_def)
  moreover have "n = m" if "get item n \<noteq> None" "get item n = get item m" for item n m
    using that assms(2) by (auto simp: get split: option.splits if_splits)
  ultimately show ?thesis using assms(1) unfolding members_agree_def by blast
qed

lemma NodeOptions_members: "members_agree NodeOptions_getMemberNames NodeOptions_getMember"
  by (rule members_agreeI [of _ GetterSetter])
     (simp_all add: NodeOptions_getMemberNames_def NodeOptions_getMember_def split: option.split)

lemma QoS_members: "members_agree QoS_getMemberNames QoS_getMember"
  by (rule members_agreeI [of _ Part])
     (simp_all add: QoS_getMemberNames_def QoS_getMember_def split: option.split)

lemma PublisherOptionsBase_members:
  "members_agree PublisherOptionsBase_getMemberNames PublisherOptionsBase_getMember"
  by (rule members_agreeI [of _ Part])
     (simp_all add: PublisherOptionsBase_getMemberNames_def PublisherOptionsBase_getMember_def
       split: option.split)

lemma Parameter_members: "members_agree Parameter_getMemberNames Parameter_getMember"
  by (rule members_agreeI [of _ Functor])
     (simp_all add: Parameter_getMemberNames_def Parameter_getMember_def split: option.split)

text \<open>The type object answers with the members of the type that was installed.\<close>

fun struct_getMember :: "struct_type \<Rightarrow> item \<Rightarrow> string \<Rightarrow> member_source option" where
  "struct_getMember NodeOptionsType = NodeOptions_getMember"
| "struct_getMember QoSType = QoS_getMember"
| "struct_getMember PublisherOptionsBaseType = PublisherOptionsBase_getMember"
| "struct_getMember ParameterType = Parameter_getMember"

definition installed_getMember :: "bool \<times> ti_object \<Rightarrow> item \<Rightarrow> string \<Rightarrow> member_source option" where
  "installed_getMember r = (case ti_members (snd r) of None \<Rightarrow> (\<lambda>item n. None) | Some k \<Rightarrow> struct_getMember k)"

text \<open>A parameter made of a name and a value shows both, and has no other member but its type.\<close>

lemma Parameter_read_construct2:
  assumes "p_get_name A (p_make_value A name v) = name"
    and "p_get_parameter_value A (p_make_value A name v) = v"
  shows "Parameter_read A (Parameter_construct2 A name v) ''name'' = Some (Inl name)"
    and "Parameter_read A (Parameter_construct2 A name v) ''value'' = Some (Inr v)"
    and "n \<notin> set Parameter_getMemberNames \<Longrightarrow> Parameter_read A (Parameter_construct2 A name v) n = None"
  using assms
  by (auto simp: Parameter_read_def Parameter_getMember_def adata_def get_name_def get_type_name_def
      get_parameter_value_def Parameter_construct2_def Parameter_getMemberNames_def)


end
