(* ===== verification/Idl.thy ===== *)
theory Idl
  imports Struct_Typekit
begin

text \<open>
  The package \<open>rtt_ros2_idl\<close>: the members of a ROS message as seen by the Orocos type system, through
  the introspection data of the message type (\<open>RosIntrospectionTypeInfo.hpp\<close>). The introspection data
  and the type system are third-party; a pointer into the array of members is its index, and the
  index after the last one is the end pointer.
\<close>

section \<open>Data\<close>

datatype ros_type = ROS_TYPE_FLOAT | ROS_TYPE_DOUBLE | ROS_TYPE_LONG_DOUBLE | ROS_TYPE_CHAR
  | ROS_TYPE_WCHAR | ROS_TYPE_BOOLEAN | ROS_TYPE_OCTET | ROS_TYPE_UINT8 | ROS_TYPE_INT8
  | ROS_TYPE_UINT16 | ROS_TYPE_INT16 | ROS_TYPE_UINT32 | ROS_TYPE_INT32 | ROS_TYPE_UINT64
  | ROS_TYPE_INT64 | ROS_TYPE_STRING | ROS_TYPE_WSTRING | ROS_TYPE_MESSAGE | ROS_TYPE_OTHER nat

datatype value_type = V_float | V_double | V_long_double | V_char | V_uint16 | V_bool | V_uint8
  | V_int8 | V_int16 | V_uint32 | V_int32 | V_uint64 | V_int64 | V_string | V_u16string

text \<open>The types asked for in the type system by C++ type.\<close>

datatype value_shape = Scalar value_type | Vector value_type | CArray value_type

text \<open>A member; \<open>nested\<close> are namespace and name of the message type when the member is a message.\<close>

record message_member =
  member_name :: string
  type_id :: ros_type
  is_array :: bool
  array_size :: nat
  is_upper_bound :: bool
  nested :: "(string \<times> string) option"
  offset :: nat

record 'ti type_system =
  getTypeInfo :: "value_shape \<Rightarrow> 'ti option"
  type_by_name :: "string \<Rightarrow> 'ti option"

section \<open>The code\<close>

text \<open>\<open>std::find_if\<close>: the index of the first member of that name, or of the end.\<close>

fun find_member_index :: "message_member list \<Rightarrow> string \<Rightarrow> nat" where
  "find_member_index [] name = 0"
| "find_member_index (m # ms) name = (if member_name m = name then 0 else Suc (find_member_index ms name))"

definition findMessageMember :: "message_member list option \<Rightarrow> string \<Rightarrow> nat option" where
  "findMessageMember members name =
     (case members of
        None \<Rightarrow> None
      | Some ms \<Rightarrow> Some (find_member_index ms name))"

definition findTypeInfoByValueType :: "'ti type_system \<Rightarrow> value_type \<Rightarrow> message_member \<Rightarrow> 'ti option" where
  "findTypeInfoByValueType T v m =
     (if is_array m then
        if array_size m = 0 then getTypeInfo T (Vector v)
        else if \<not> is_upper_bound m then getTypeInfo T (CArray v)
        else getTypeInfo T (Vector v)
      else getTypeInfo T (Scalar v))"

definition findTypeInfoByName :: "'ti type_system \<Rightarrow> string \<Rightarrow> message_member \<Rightarrow> 'ti option" where
  "findTypeInfoByName T name m =
     (if is_array m then
        if array_size m = 0 then type_by_name T (name @ ''[]'')
        else if \<not> is_upper_bound m then type_by_name T (name @ ''[c]'')
        else type_by_name T (name @ ''[]'')
      else type_by_name T name)"

text \<open>\<open>std::regex_replace\<close> of every \<open>::\<close> by \<open>/\<close>, from the left.\<close>

fun replace_separator :: "string \<Rightarrow> string" where
  "replace_separator (a # b # cs) =
     (if a = CHR '':'' \<and> b = CHR '':'' then CHR ''/'' # replace_separator cs
      else a # replace_separator (b # cs))"
| "replace_separator cs = cs"

definition message_type_name :: "string \<Rightarrow> string \<Rightarrow> string" where
  "message_type_name message_namespace message_name =
     ''/'' @ replace_separator message_namespace @ ''/'' @ message_name"

definition findTypeInfo :: "'ti type_system \<Rightarrow> message_member \<Rightarrow> 'ti option" where
  "findTypeInfo T m =
     (case type_id m of
        ROS_TYPE_FLOAT \<Rightarrow> findTypeInfoByValueType T V_float m
      | ROS_TYPE_DOUBLE \<Rightarrow> findTypeInfoByValueType T V_double m
      | ROS_TYPE_LONG_DOUBLE \<Rightarrow> findTypeInfoByValueType T V_long_double m
      | ROS_TYPE_CHAR \<Rightarrow> findTypeInfoByValueType T V_char m
      | ROS_TYPE_WCHAR \<Rightarrow> findTypeInfoByValueType T V_uint16 m
      | ROS_TYPE_BOOLEAN \<Rightarrow> findTypeInfoByValueType T V_bool m
      | ROS_TYPE_OCTET \<Rightarrow> findTypeInfoByValueType T V_uint8 m
      | ROS_TYPE_UINT8 \<Rightarrow> findTypeInfoByValueType T V_uint8 m
      | ROS_TYPE_INT8 \<Rightarrow> findTypeInfoByValueType T V_int8 m
      | ROS_TYPE_UINT16 \<Rightarrow> findTypeInfoByValueType T V_uint16 m
      | ROS_TYPE_INT16 \<Rightarrow> findTypeInfoByValueType T V_int16 m
      | ROS_TYPE_UINT32 \<Rightarrow> findTypeInfoByValueType T V_uint32 m
      | ROS_TYPE_INT32 \<Rightarrow> findTypeInfoByValueType T V_int32 m
      | ROS_TYPE_UINT64 \<Rightarrow> findTypeInfoByValueType T V_uint64 m
      | ROS_TYPE_INT64 \<Rightarrow> findTypeInfoByValueType T V_int64 m
      | ROS_TYPE_STRING \<Rightarrow> findTypeInfoByValueType T V_string m
      | ROS_TYPE_WSTRING \<Rightarrow> findTypeInfoByValueType T V_u16string m
      | ROS_TYPE_MESSAGE \<Rightarrow>
          (case nested m of
             None \<Rightarrow> None
           | Some (message_namespace, message_name) \<Rightarrow>
               findTypeInfoByName T (message_type_name message_namespace message_name) m)
      | ROS_TYPE_OTHER n \<Rightarrow> None)"

definition idl_getMemberNames :: "message_member list option \<Rightarrow> string list" where
  "idl_getMemberNames members = (case members of None \<Rightarrow> [] | Some ms \<Rightarrow> map member_name ms)"

text \<open>\<open>buildPart\<close> of the type: the address in the object and the size.\<close>

record 'ti message_part =
  part_type :: 'ti
  part_object :: object
  part_offset :: nat
  part_size :: nat

definition idl_getMember ::
  "'ti type_system \<Rightarrow> message_member list option \<Rightarrow> item \<Rightarrow> string \<Rightarrow> 'ti message_part option result" where
  "idl_getMember T members item name =
     (case findMessageMember members name of
        None \<Rightarrow> Inr None
      | Some i \<Rightarrow>
          (if length (the members) \<le> i then Inl (OutOfBounds ''members_'')
           else let m = the members ! i
                in case findTypeInfo T m of
                     None \<Rightarrow> Inr None
                   | Some ti \<Rightarrow>
                       (case adata item of
                          None \<Rightarrow> Inl (NullDereference ''adata'')
                        | Some obj \<Rightarrow>
                            Inr (Some \<lparr>part_type = ti, part_object = obj, part_offset = offset m,
                                       part_size = array_size m\<rparr>))))"

text \<open>The index operator and \<open>resize\<close> are not implemented for messages.\<close>

definition idl_getMember_by_id :: "item \<Rightarrow> 'id \<Rightarrow> 'ti message_part option" where
  "idl_getMember_by_id item ident = None"

definition idl_resize :: "item \<Rightarrow> int \<Rightarrow> bool" where
  "idl_resize arg size' = False"

definition idl_installTypeInfoObject :: "message_member list option \<Rightarrow> bool \<times> bool" where
  "idl_installTypeInfoObject members = (False, members \<noteq> None)"

section \<open>Properties\<close>

lemma find_member_index_le: "find_member_index ms name \<le> length ms"
  by (induction ms) auto

lemma find_member_index_found:
  "find_member_index ms name < length ms \<longleftrightarrow> name \<in> member_name ` set ms"
  by (induction ms) auto

lemma find_member_index_nth:
  "distinct (map member_name ms) \<Longrightarrow> i < length ms \<Longrightarrow> find_member_index ms (member_name (ms ! i)) = i"
proof (induction ms arbitrary: i)
  case (Cons m ms)
  show ?case
  proof (cases i)
    case (Suc k)
    with Cons.prems have "k < length ms" "member_name m \<noteq> member_name (ms ! k)"
      by (auto simp: image_iff)
    with Cons Suc show ?thesis by simp
  qed simp
qed simp


definition demo_members :: "message_member list" where
  "demo_members =
     [\<lparr>member_name = ''x'', type_id = ROS_TYPE_DOUBLE, is_array = False, array_size = 0, is_upper_bound = False,
       nested = None, offset = 0\<rparr>,
      \<lparr>member_name = ''pose'', type_id = ROS_TYPE_MESSAGE, is_array = True, array_size = 3, is_upper_bound = False,
       nested = Some (''a::msg'', ''P''), offset = 8\<rparr>]"


end
