(* ===== verification/Primitives_Typekit.thy ===== *)
theory Primitives_Typekit
  imports Prelude "HOL-Library.Word"
begin

text \<open>
  The package \<open>rtt_ros2_primitives_typekit\<close>: the primitive types of ROS messages and the conversions
  between them that are registered with the Orocos type system (\<open>ros2_primitives_typekit.cpp\<close>).
\<close>

section \<open>The tables\<close>

datatype prim = Float | Double | Int8 | Int16 | Int32 | Int64 | UInt8 | UInt16 | UInt32 | UInt64

definition primitives_loadTypes :: "string list" where
  "primitives_loadTypes =
     [''float32'', ''float32[]'', ''float32[c]'', ''float64'', ''float64[]'', ''float64[c]'',
      ''bool[]'', ''bool[c]'', ''int8'', ''int8[]'', ''int8[c]'', ''uint8'',
      ''uint8[]'', ''uint8[c]'', ''int16'', ''int16[]'', ''int16[c]'', ''uint16'',
      ''uint16[]'', ''uint16[c]'', ''int32'', ''int32[]'', ''int32[c]'', ''uint32'',
      ''uint32[]'', ''uint32[c]'', ''int64'', ''int64[]'', ''int64[c]'', ''uint64'',
      ''uint64[]'', ''uint64[c]'', ''string[]'', ''string[c]'', ''wstring'', ''wstring[]'',
      ''wstring[c]'']"

text \<open>
  The constructors: the type they belong to, the source and the target of the conversion, and
  whether the type system may apply it on its own.
\<close>

definition primitives_loadConstructors :: "(string \<times> prim \<times> prim \<times> bool) list" where
  "primitives_loadConstructors =
     [(''float'', Double, Float, False), (''float'', Int8, Float, False), (''float'', Int16, Float, False),
      (''float'', Int32, Float, False), (''float'', Int64, Float, False), (''float'', UInt8, Float, False),
      (''float'', UInt16, Float, False), (''float'', UInt32, Float, False), (''float'', UInt64, Float, False),
      (''double'', Float, Double, True), (''double'', Int8, Double, False), (''double'', Int16, Double, False),
      (''double'', Int32, Double, False), (''double'', Int64, Double, False), (''double'', UInt8, Double, False),
      (''double'', UInt16, Double, False), (''double'', UInt32, Double, False), (''double'', UInt64, Double, False),
      (''int8'', Int16, Int8, False), (''int8'', Int32, Int8, False), (''int8'', Int64, Int8, False),
      (''int8'', UInt8, Int8, False), (''int8'', UInt16, Int8, False), (''int8'', UInt32, Int8, False),
      (''int8'', UInt64, Int8, False), (''uint8'', Int8, UInt8, False), (''uint8'', Int16, UInt8, False),
      (''uint8'', Int32, UInt8, False), (''uint8'', Int64, UInt8, False), (''uint8'', UInt16, UInt8, False),
      (''uint8'', UInt32, UInt8, False), (''uint8'', UInt64, UInt8, False), (''int16'', UInt8, Int16, True),
      (''int16'', UInt16, Int16, False), (''int16'', UInt32, Int16, False), (''int16'', UInt64, Int16, False),
      (''int16'', Int8, Int16, True), (''int16'', Int32, Int16, False), (''int16'', Int64, Int16, False),
      (''uint16'', Int8, UInt16, False), (''uint16'', Int16, UInt16, False), (''uint16'', Int32, UInt16, False),
      (''uint16'', Int64, UInt16, False), (''uint16'', UInt8, UInt16, True), (''uint16'', UInt32, UInt16, False),
      (''uint16'', UInt64, UInt16, False), (''int32'', UInt8, Int32, True), (''int32'', UInt16, Int32, True),
      (''int32'', UInt32, Int32, False), (''int32'', UInt64, Int32, False), (''int32'', Int8, Int32, True),
      (''int32'', Int16, Int32, True), (''int32'', Int64, Int32, False), (''uint32'', Int8, UInt32, False),
      (''uint32'', Int16, UInt32, False), (''uint32'', Int32, UInt32, False), (''uint32'', Int64, UInt32, False),
      (''uint32'', UInt8, UInt32, True), (''uint32'', UInt16, UInt32, True), (''uint32'', UInt64, UInt32, False),
      (''int64'', UInt8, Int64, True), (''int64'', UInt16, Int64, True), (''int64'', UInt32, Int64, True),
      (''int64'', UInt64, Int64, False), (''int64'', Int8, Int64, True), (''int64'', Int16, Int64, True),
      (''int64'', Int32, Int64, True), (''uint64'', Int8, UInt64, False), (''uint64'', Int16, UInt64, False),
      (''uint64'', Int32, UInt64, False), (''uint64'', Int64, UInt64, False), (''uint64'', UInt8, UInt64, True),
      (''uint64'', UInt16, UInt64, True), (''uint64'', UInt32, UInt64, True)]"

text \<open>
  The string constructor: \<open>size\<close> characters of value zero. A negative size becomes a huge one.
\<close>

definition string_ctor_size :: "32 word \<Rightarrow> 64 word" where
  "string_ctor_size size' = scast size'"

section \<open>The conversion\<close>

fun bits :: "prim \<Rightarrow> nat" where
  "bits Int8 = 8" | "bits UInt8 = 8" | "bits Int16 = 16" | "bits UInt16 = 16" | "bits Int32 = 32"
| "bits UInt32 = 32" | "bits Int64 = 64" | "bits UInt64 = 64" | "bits Float = 0" | "bits Double = 0"

fun signed :: "prim \<Rightarrow> bool" where
  "signed Int8 = True" | "signed Int16 = True" | "signed Int32 = True" | "signed Int64 = True"
| "signed p = False"

definition integral :: "prim \<Rightarrow> bool" where
  "integral p \<longleftrightarrow> p \<noteq> Float \<and> p \<noteq> Double"

text \<open>The values of an integer type.\<close>

definition in_range :: "prim \<Rightarrow> int \<Rightarrow> bool" where
  "in_range p v \<longleftrightarrow>
     (if signed p then - (2 ^ (bits p - 1)) \<le> v \<and> v < 2 ^ (bits p - 1) else 0 \<le> v \<and> v < 2 ^ bits p)"

text \<open>\<open>static_cast\<close> between integer types: the value modulo the width of the target.\<close>

definition convert :: "prim \<Rightarrow> int \<Rightarrow> int" where
  "convert target v = (if signed target then signed_take_bit (bits target - 1) v else take_bit (bits target) v)"

section \<open>Properties\<close>

lemma convert_exact: "integral p \<Longrightarrow> convert p v = v \<longleftrightarrow> in_range p v"
  by (cases p)
     (simp_all add: convert_def in_range_def integral_def signed_take_bit_int_eq_self_iff take_bit_int_eq_self_iff)

lemma convert_in_range: "in_range p (convert p v)"
  by (simp add: convert_def in_range_def signed_take_bit_int_greater_eq_minus_exp
       signed_take_bit_int_less_exp take_bit_int_less_exp)

text \<open>The ranges as inclusions of intervals: a type covers another when it covers its bounds.\<close>

definition lowest :: "prim \<Rightarrow> int" where
  "lowest p = (if signed p then - (2 ^ (bits p - 1)) else 0)"

definition highest :: "prim \<Rightarrow> int" where
  "highest p = (if signed p then 2 ^ (bits p - 1) - 1 else 2 ^ bits p - 1)"

definition covers :: "prim \<Rightarrow> prim \<Rightarrow> bool" where
  "covers t s \<longleftrightarrow> lowest t \<le> lowest s \<and> highest s \<le> highest t"

lemma in_range_bounds: "in_range p v \<longleftrightarrow> lowest p \<le> v \<and> v \<le> highest p"
  by (auto simp: in_range_def lowest_def highest_def)

lemma bounds_ordered: "lowest p \<le> highest p"
  by (cases p) (simp_all add: lowest_def highest_def)

lemma covers_iff: "covers t s \<longleftrightarrow> (\<forall>v. in_range s v \<longrightarrow> in_range t v)"
  using bounds_ordered [of s] by (auto simp: covers_def in_range_bounds intro: order_trans)

text \<open>The table: automatic conversions between integers are the ones to an including type.\<close>

lemma table_automatic:
  "list_all (\<lambda>(n, s, t, automatic). integral s \<and> integral t \<longrightarrow> (automatic \<longleftrightarrow> covers t s))
     primitives_loadConstructors"
  by (simp add: primitives_loadConstructors_def integral_def covers_def lowest_def highest_def)

lemma table_distinct: "distinct (map (\<lambda>(n, s, t, automatic). (s, t)) primitives_loadConstructors)"
  by (simp add: primitives_loadConstructors_def)

text \<open>C33: Among the registered conversions between integer types, exactly those are automatic that keep
  every value of the source type; each of the others changes some value. Every conversion stays in
  the range of its target and no pair of types is registered twice.\<close>

theorem automatic_conversions_exact:
  assumes "(n, s, t, automatic) \<in> set primitives_loadConstructors" "integral s" "integral t"
  shows "(automatic \<longleftrightarrow> (\<forall>v. in_range s v \<longrightarrow> convert t v = v))
    \<and> (\<forall>v. in_range t (convert t v))
    \<and> distinct (map (\<lambda>(n, s, t, automatic). (s, t)) primitives_loadConstructors)"
proof -
  have "automatic \<longleftrightarrow> covers t s"
    using table_automatic assms by (auto simp: list_all_iff)
  then show ?thesis
    using assms(2,3) table_distinct by (simp add: covers_iff convert_exact convert_in_range)
qed

theorem automatic_conversions_exact_witness:
  "convert Int32 65535 = 65535 \<and> (\<exists>v. in_range Int64 v \<and> convert Int32 v \<noteq> v)"
proof -
  have "(''int32'', UInt16, Int32, True) \<in> set primitives_loadConstructors"
    "(''int32'', Int64, Int32, False) \<in> set primitives_loadConstructors"
    by (simp_all add: primitives_loadConstructors_def)
  then show ?thesis
    using automatic_conversions_exact [of "''int32''" UInt16 Int32 True]
      automatic_conversions_exact [of "''int32''" Int64 Int32 False]
    by (auto simp: integral_def in_range_def lowest_def highest_def)
qed

end
