(* ===== verification/Kdl_Msgs.thy ===== *)
theory Kdl_Msgs
  imports Prelude
begin

text \<open>
  The package \<open>kdl_msgs\<close>: the conversions between the geometric types of KDL and the ROS messages
  (\<open>conversions.hpp\<close>). \<open>'d\<close> is \<open>double\<close>. A KDL rotation keeps its nine numbers in the array \<open>data\<close>, row
  by row, and so does the message.
\<close>

section \<open>Types\<close>

record 'd kdl_vector =
  kx :: 'd
  ky :: 'd
  kz :: 'd

text \<open>A rotation is the list of its nine numbers.\<close>

type_synonym 'd kdl_rotation = "'d list"

definition rotation_ok :: "'d kdl_rotation \<Rightarrow> bool" where
  "rotation_ok r \<longleftrightarrow> length r = 9"

record 'd kdl_frame =
  frame_M :: "'d kdl_rotation"
  frame_p :: "'d kdl_vector"

record 'd kdl_twist =
  twist_vel :: "'d kdl_vector"
  twist_rot :: "'d kdl_vector"

record 'd kdl_wrench =
  wrench_force :: "'d kdl_vector"
  wrench_torque :: "'d kdl_vector"

text \<open>The messages.\<close>

record 'd vector_msg =
  msg_x :: 'd
  msg_y :: 'd
  msg_z :: 'd

record 'd rotation_msg =
  msg_data :: "'d list"

record 'd frame_msg =
  msg_p :: "'d vector_msg"
  msg_m :: "'d rotation_msg"

record 'd twist_msg =
  msg_linear :: "'d vector_msg"
  msg_angular :: "'d vector_msg"

record 'd wrench_msg =
  msg_force :: "'d vector_msg"
  msg_torque :: "'d vector_msg"

section \<open>Conversions\<close>

text \<open>
  The two forms of \<open>toMsg\<close>: one that fills a message given by reference, and one that fills a fresh
  message, whose initial value is the argument \<open>fresh\<close>.
\<close>

definition vector_fromMsg :: "'d vector_msg \<Rightarrow> 'd kdl_vector" where
  "vector_fromMsg m = \<lparr>kx = msg_x m, ky = msg_y m, kz = msg_z m\<rparr>"

definition vector_toMsg_ref :: "'d kdl_vector \<Rightarrow> 'd vector_msg \<Rightarrow> 'd vector_msg" where
  "vector_toMsg_ref v m = m\<lparr>msg_x := kx v, msg_y := ky v, msg_z := kz v\<rparr>"

definition vector_toMsg :: "'d vector_msg \<Rightarrow> 'd kdl_vector \<Rightarrow> 'd vector_msg" where
  "vector_toMsg fresh v = vector_toMsg_ref v fresh"

text \<open>The loop over the nine elements, from index \<open>i\<close>.\<close>

definition copy_nine :: "'d list \<Rightarrow> 'd list \<Rightarrow> 'd list" where
  "copy_nine source target = foldl (\<lambda>t i. t[i := source ! i]) target [0..<9]"

definition rotation_fromMsg :: "'d kdl_rotation \<Rightarrow> 'd rotation_msg \<Rightarrow> 'd kdl_rotation" where
  "rotation_fromMsg identity m = copy_nine (msg_data m) identity"

definition rotation_toMsg_ref :: "'d kdl_rotation \<Rightarrow> 'd rotation_msg \<Rightarrow> 'd rotation_msg" where
  "rotation_toMsg_ref r m = m\<lparr>msg_data := copy_nine r (msg_data m)\<rparr>"

definition rotation_toMsg :: "'d rotation_msg \<Rightarrow> 'd kdl_rotation \<Rightarrow> 'd rotation_msg" where
  "rotation_toMsg fresh r = rotation_toMsg_ref r fresh"

definition frame_fromMsg :: "'d kdl_rotation \<Rightarrow> 'd frame_msg \<Rightarrow> 'd kdl_frame" where
  "frame_fromMsg identity m = \<lparr>frame_M = rotation_fromMsg identity (msg_m m), frame_p = vector_fromMsg (msg_p m)\<rparr>"

definition frame_toMsg_ref :: "'d kdl_frame \<Rightarrow> 'd frame_msg \<Rightarrow> 'd frame_msg" where
  "frame_toMsg_ref f m =
     m\<lparr>msg_p := vector_toMsg_ref (frame_p f) (msg_p m), msg_m := rotation_toMsg_ref (frame_M f) (msg_m m)\<rparr>"

definition frame_toMsg :: "'d frame_msg \<Rightarrow> 'd kdl_frame \<Rightarrow> 'd frame_msg" where
  "frame_toMsg fresh f = frame_toMsg_ref f fresh"

definition twist_fromMsg :: "'d twist_msg \<Rightarrow> 'd kdl_twist" where
  "twist_fromMsg m = \<lparr>twist_vel = vector_fromMsg (msg_linear m), twist_rot = vector_fromMsg (msg_angular m)\<rparr>"

definition twist_toMsg_ref :: "'d kdl_twist \<Rightarrow> 'd twist_msg \<Rightarrow> 'd twist_msg" where
  "twist_toMsg_ref t m =
     m\<lparr>msg_linear := vector_toMsg_ref (twist_vel t) (msg_linear m),
       msg_angular := vector_toMsg_ref (twist_rot t) (msg_angular m)\<rparr>"

definition twist_toMsg :: "'d twist_msg \<Rightarrow> 'd kdl_twist \<Rightarrow> 'd twist_msg" where
  "twist_toMsg fresh t = twist_toMsg_ref t fresh"

definition wrench_fromMsg :: "'d wrench_msg \<Rightarrow> 'd kdl_wrench" where
  "wrench_fromMsg m = \<lparr>wrench_force = vector_fromMsg (msg_force m), wrench_torque = vector_fromMsg (msg_torque m)\<rparr>"

definition wrench_toMsg_ref :: "'d kdl_wrench \<Rightarrow> 'd wrench_msg \<Rightarrow> 'd wrench_msg" where
  "wrench_toMsg_ref w m =
     m\<lparr>msg_force := vector_toMsg_ref (wrench_force w) (msg_force m),
       msg_torque := vector_toMsg_ref (wrench_torque w) (msg_torque m)\<rparr>"

definition wrench_toMsg :: "'d wrench_msg \<Rightarrow> 'd kdl_wrench \<Rightarrow> 'd wrench_msg" where
  "wrench_toMsg fresh w = wrench_toMsg_ref w fresh"

section \<open>Properties\<close>

lemma copy_nine_all:
  assumes "length source = 9" "length target = 9"
  shows "copy_nine source target = source"
proof -
  have "length (foldl (\<lambda>t i. t[i := source ! i]) target [0..<n]) = 9
      \<and> (\<forall>j < n. foldl (\<lambda>t i. t[i := source ! i]) target [0..<n] ! j = source ! j)" if "n \<le> 9" for n
    using that assms by (induction n) (auto simp: nth_list_update less_Suc_eq)
  from this [of 9] assms show ?thesis
    by (auto simp: copy_nine_def intro: nth_equalityI)
qed

lemma vector_round_trip [codec_simps]: "vector_fromMsg (vector_toMsg_ref v m) = v"
  by (simp add: vector_fromMsg_def vector_toMsg_ref_def)

lemma vector_msg_round_trip [codec_simps]: "vector_toMsg_ref (vector_fromMsg m) m' = m"
  by (simp add: vector_fromMsg_def vector_toMsg_ref_def)

lemma rotation_round_trip [codec_simps]:
  "rotation_ok r \<Longrightarrow> rotation_ok identity \<Longrightarrow> length (msg_data m) = 9 \<Longrightarrow>
    rotation_fromMsg identity (rotation_toMsg_ref r m) = r"
  by (simp add: rotation_ok_def rotation_fromMsg_def rotation_toMsg_ref_def copy_nine_all)

lemma rotation_msg_round_trip [codec_simps]:
  "rotation_ok identity \<Longrightarrow> length (msg_data m) = 9 \<Longrightarrow> length (msg_data m') = 9 \<Longrightarrow>
    rotation_toMsg_ref (rotation_fromMsg identity m) m' = m"
  by (simp add: rotation_ok_def rotation_fromMsg_def rotation_toMsg_ref_def copy_nine_all)

interpretation vector_msgs: codec "vector_toMsg fresh" "\<lambda>m. Some (vector_fromMsg m)" "\<lambda>v. True" for fresh
  by unfold_locales (simp add: vector_toMsg_def codec_simps)

interpretation twist_msgs: codec "twist_toMsg fresh" "\<lambda>m. Some (twist_fromMsg m)" "\<lambda>v. True" for fresh
  by unfold_locales (simp add: twist_toMsg_def twist_fromMsg_def twist_toMsg_ref_def codec_simps)

text \<open>Every geometric value survives the way into its message and back, and every message the way
  into KDL and back; the sizes of the arrays are those of the message definition. Linear and angular
  part, force and torque are never exchanged.\<close>

lemma kdl_msgs_round_trips:
  assumes id: "rotation_ok identity" and r: "rotation_ok (frame_M f)"
    and size: "length (msg_data (msg_m fresh)) = 9" "length (msg_data (msg_m m)) = 9"
  shows "vector_fromMsg (vector_toMsg ev v) = v
    \<and> frame_fromMsg identity (frame_toMsg fresh f) = f
    \<and> twist_fromMsg (twist_toMsg et t) = t
    \<and> wrench_fromMsg (wrench_toMsg ew w) = w
    \<and> frame_toMsg fresh (frame_fromMsg identity m) = m
    \<and> twist_toMsg et (twist_fromMsg mt) = mt
    \<and> wrench_toMsg ew (wrench_fromMsg mw) = mw"
  using assms
  by (simp add: vector_toMsg_def frame_toMsg_def frame_fromMsg_def frame_toMsg_ref_def
      twist_toMsg_def twist_fromMsg_def twist_toMsg_ref_def
      wrench_toMsg_def wrench_fromMsg_def wrench_toMsg_ref_def codec_simps)

end
