(* ===== verification/Kdl_Mqueue.thy ===== *)
theory Kdl_Mqueue
  imports Kdl_Msgs
begin

text \<open>
  The message queue transport of the package \<open>kdl_typekit\<close> (\<open>src/mqueue/kdl_mqueue.cpp\<close>): the
  serialisation of KDL values and Eigen matrices, and the registration of the transport. In Boost one
  function serves both directions: \<open>ar & x\<close> writes \<open>x\<close> to an output archive and replaces it by what an
  input archive holds. An archive is third-party: a record of functions, with the documented
  behaviour of a pair of archives as a locale.
\<close>

section \<open>Archives and matrices\<close>

record ('a, 'd) archive =
  is_saving :: bool
  ar_int :: "'a \<Rightarrow> int \<Rightarrow> ('a \<times> int) result"
  ar_array :: "'a \<Rightarrow> 'd list \<Rightarrow> ('a \<times> 'd list) result"

text \<open>An Eigen matrix: its dimensions and its elements, column by column.\<close>

record 'd eigen =
  m_rows :: nat
  m_cols :: nat
  m_data :: "'d list"

text \<open>The dimensions the type fixes, \<open>Rows_\<close> and \<open>Cols_\<close>, with \<open>None\<close> for a dynamic one.\<close>

type_synonym dims = "nat option \<times> nat option"

definition fits :: "dims \<Rightarrow> int \<Rightarrow> int \<Rightarrow> bool" where
  "fits D rows cols \<longleftrightarrow> 0 \<le> rows \<and> 0 \<le> cols
     \<and> (fst D = None \<or> fst D = Some (nat rows)) \<and> (snd D = None \<or> snd D = Some (nat cols))"

definition jacobian_dims :: dims where
  "jacobian_dims = (Some 6, None)"

definition jntarray_dims :: dims where
  "jntarray_dims = (None, Some 1)"

text \<open>An index of 64 bits stored in an \<open>int\<close>; an \<open>int\<close> product that must not overflow.\<close>

definition to_int :: "nat \<Rightarrow> int" where
  "to_int n = signed_take_bit 31 (int n)"

definition int_product :: "int \<Rightarrow> int \<Rightarrow> nat result" where
  "int_product rows cols =
     (if 0 \<le> rows * cols \<and> rows * cols < 2 ^ 31 then Inr (nat (rows * cols))
      else Inl (OutOfBounds ''rows * cols''))"

section \<open>Serialisation\<close>

definition bind_result :: "'a result \<Rightarrow> ('a \<Rightarrow> 'b result) \<Rightarrow> 'b result" where
  "bind_result r f = (case r of Inl e \<Rightarrow> Inl e | Inr x \<Rightarrow> f x)"

definition save_matrix :: "('a, 'd) archive \<Rightarrow> 'a \<Rightarrow> 'd eigen \<Rightarrow> 'a result" where
  "save_matrix A ar g =
     (let rows = to_int (m_rows g); cols = to_int (m_cols g)
      in bind_result (ar_int A ar rows) (\<lambda>(ar, rows).
         bind_result (ar_int A ar cols) (\<lambda>(ar, cols).
         bind_result (int_product rows cols) (\<lambda>n.
           if length (m_data g) < n then Inl (OutOfBounds ''g.data()'')
           else bind_result (ar_array A ar (take n (m_data g))) (\<lambda>(ar, xs). Inr ar)))))"

text \<open>
  The elements of a resized matrix are not initialised, here \<open>na\<close>; a size the type does not allow
  fails an assertion of Eigen.
\<close>

definition load_matrix ::
  "dims \<Rightarrow> 'd \<Rightarrow> ('a, 'd) archive \<Rightarrow> 'a \<Rightarrow> ('a \<times> 'd eigen) result" where
  "load_matrix D na A ar =
     bind_result (ar_int A ar 0) (\<lambda>(ar, rows).
     bind_result (ar_int A ar 0) (\<lambda>(ar, cols).
       if \<not> fits D rows cols then Inl (InvalidArgument ''resize'')
       else bind_result (int_product rows cols) (\<lambda>n.
         bind_result (ar_array A ar (replicate n na)) (\<lambda>(ar, xs).
           Inr (ar, \<lparr>m_rows = nat rows, m_cols = nat cols, m_data = xs\<rparr>)))))"

definition serialize_matrix ::
  "dims \<Rightarrow> 'd \<Rightarrow> ('a, 'd) archive \<Rightarrow> 'a \<Rightarrow> 'd eigen \<Rightarrow> ('a \<times> 'd eigen) result" where
  "serialize_matrix D na A ar g =
     (if is_saving A then bind_result (save_matrix A ar g) (\<lambda>ar. Inr (ar, g))
      else load_matrix D na A ar)"

text \<open>The three numbers of a vector, \<open>v.data\<close>.\<close>

definition vector_data :: "'d kdl_vector \<Rightarrow> 'd list" where
  "vector_data v = [kx v, ky v, kz v]"

definition vector_of_data :: "'d list \<Rightarrow> 'd kdl_vector" where
  "vector_of_data xs = \<lparr>kx = xs ! 0, ky = xs ! 1, kz = xs ! 2\<rparr>"

definition serialize_rotation ::
  "('a, 'd) archive \<Rightarrow> 'a \<Rightarrow> 'd kdl_rotation \<Rightarrow> ('a \<times> 'd kdl_rotation) result" where
  "serialize_rotation A ar g = ar_array A ar g"

definition serialize_vector ::
  "('a, 'd) archive \<Rightarrow> 'a \<Rightarrow> 'd kdl_vector \<Rightarrow> ('a \<times> 'd kdl_vector) result" where
  "serialize_vector A ar g =
     bind_result (ar_array A ar (vector_data g)) (\<lambda>(ar, xs). Inr (ar, vector_of_data xs))"

definition serialize_twist ::
  "('a, 'd) archive \<Rightarrow> 'a \<Rightarrow> 'd kdl_twist \<Rightarrow> ('a \<times> 'd kdl_twist) result" where
  "serialize_twist A ar g =
     bind_result (ar_array A ar (vector_data (twist_rot g))) (\<lambda>(ar, rot).
     bind_result (ar_array A ar (vector_data (twist_vel g))) (\<lambda>(ar, vel).
       Inr (ar, g\<lparr>twist_rot := vector_of_data rot, twist_vel := vector_of_data vel\<rparr>)))"

definition serialize_wrench ::
  "('a, 'd) archive \<Rightarrow> 'a \<Rightarrow> 'd kdl_wrench \<Rightarrow> ('a \<times> 'd kdl_wrench) result" where
  "serialize_wrench A ar g =
     bind_result (ar_array A ar (vector_data (wrench_force g))) (\<lambda>(ar, force).
     bind_result (ar_array A ar (vector_data (wrench_torque g))) (\<lambda>(ar, torque).
       Inr (ar, g\<lparr>wrench_force := vector_of_data force, wrench_torque := vector_of_data torque\<rparr>)))"

definition serialize_frame ::
  "('a, 'd) archive \<Rightarrow> 'a \<Rightarrow> 'd kdl_frame \<Rightarrow> ('a \<times> 'd kdl_frame) result" where
  "serialize_frame A ar g =
     bind_result (ar_array A ar (vector_data (frame_p g))) (\<lambda>(ar, p).
     bind_result (ar_array A ar (frame_M g)) (\<lambda>(ar, m).
       Inr (ar, g\<lparr>frame_p := vector_of_data p, frame_M := m\<rparr>)))"

definition serialize_jacobian ::
  "'d \<Rightarrow> ('a, 'd) archive \<Rightarrow> 'a \<Rightarrow> 'd eigen \<Rightarrow> ('a \<times> 'd eigen) result" where
  "serialize_jacobian na A ar g = serialize_matrix jacobian_dims na A ar g"

definition serialize_jntarray ::
  "'d \<Rightarrow> ('a, 'd) archive \<Rightarrow> 'a \<Rightarrow> 'd eigen \<Rightarrow> ('a \<times> 'd eigen) result" where
  "serialize_jntarray na A ar g = serialize_matrix jntarray_dims na A ar g"

record 'd jntarrayvel =
  vel_q :: "'d eigen"
  vel_qdot :: "'d eigen"

definition serialize_jntarrayvel ::
  "'d \<Rightarrow> ('a, 'd) archive \<Rightarrow> 'a \<Rightarrow> 'd jntarrayvel \<Rightarrow> ('a \<times> 'd jntarrayvel) result" where
  "serialize_jntarrayvel na A ar g =
     bind_result (serialize_matrix jntarray_dims na A ar (vel_q g)) (\<lambda>(ar, q).
     bind_result (serialize_matrix jntarray_dims na A ar (vel_qdot g)) (\<lambda>(ar, qdot).
       Inr (ar, g\<lparr>vel_q := q, vel_qdot := qdot\<rparr>)))"

section \<open>The plugin\<close>

text \<open>\<open>addProtocol\<close> of the type info is third-party; it gets the protocol of the type of that name.\<close>

definition mqueue_types :: "string list" where
  "mqueue_types = [''KDL.Vector'', ''KDL.Rotation'', ''KDL.Frame'', ''KDL.Wrench'', ''KDL.Twist'',
     ''KDL.Jacobian'', ''KDL.JntArray'', ''KDL.JntArrayVel'']"

definition registerTransport :: "(string \<Rightarrow> 'ti \<Rightarrow> bool \<times> 'ti) \<Rightarrow> string \<Rightarrow> 'ti \<Rightarrow> bool \<times> 'ti" where
  "registerTransport addProtocol name ti =
     (if name \<in> set mqueue_types then addProtocol name ti else (False, ti))"

definition getTransportName :: string where
  "getTransportName = ''mqueue''"

definition getTypekitName :: string where
  "getTypekitName = ''KDL''"

definition mqueue_getName :: string where
  "mqueue_getName = ''kdl-mqueue-types''"

section \<open>A pair of archives\<close>

text \<open>
  What Boost documents of archives: an output archive takes any value, leaves it as it is and appends
  it; an input archive that comes to an item of the kind it is asked for delivers it, whatever the
  variable held before. An array has the length the program gives.
\<close>

datatype 'd wire = IntItem int | ArrayItem "'d list"

locale archives =
  fixes out :: "('o, 'd) archive" and inp :: "('i, 'd) archive"
    and written :: "'o \<Rightarrow> 'd wire list" and remaining :: "'i \<Rightarrow> 'd wire list"
  assumes saving: "is_saving out" "\<not> is_saving inp"
    and out_int: "\<exists>w'. ar_int out w i = Inr (w', i) \<and> written w' = written w @ [IntItem i]"
    and out_array: "\<exists>w'. ar_array out w xs = Inr (w', xs) \<and> written w' = written w @ [ArrayItem xs]"
    and in_int: "remaining s = IntItem i # r \<Longrightarrow> \<exists>s'. ar_int inp s j = Inr (s', i) \<and> remaining s' = r"
    and in_array: "remaining s = ArrayItem xs # r \<Longrightarrow> length ys = length xs \<Longrightarrow>
      \<exists>s'. ar_array inp s ys = Inr (s', xs) \<and> remaining s' = r"

context archives
begin

text \<open>The steps of a serialisation, in both directions, as rules for the state after each.\<close>

lemma put_int:
  assumes "\<And>w'. written w' = written w @ [IntItem i] \<Longrightarrow>
      \<exists>w2. f (w', i) = Inr (w2, y) \<and> written w2 = written w' @ its"
  shows "\<exists>w2. bind_result (ar_int out w i) f = Inr (w2, y) \<and> written w2 = written w @ IntItem i # its"
proof -
  obtain w' where w': "ar_int out w i = Inr (w', i)" "written w' = written w @ [IntItem i]"
    using out_int by blast
  from assms [OF w'(2)] show ?thesis by (auto simp: bind_result_def w')
qed

lemma put_array:
  assumes "\<And>w'. written w' = written w @ [ArrayItem xs] \<Longrightarrow>
      \<exists>w2. f (w', xs) = Inr (w2, y) \<and> written w2 = written w' @ its"
  shows "\<exists>w2. bind_result (ar_array out w xs) f = Inr (w2, y) \<and> written w2 = written w @ ArrayItem xs # its"
proof -
  obtain w' where w': "ar_array out w xs = Inr (w', xs)" "written w' = written w @ [ArrayItem xs]"
    using out_array by blast
  from assms [OF w'(2)] show ?thesis by (auto simp: bind_result_def w')
qed

lemma take_int:
  assumes "remaining s = IntItem i # r"
    and "\<And>s'. remaining s' = r \<Longrightarrow> \<exists>s2. f (s', i) = Inr (s2, y) \<and> remaining s2 = q"
  shows "\<exists>s2. bind_result (ar_int inp s j) f = Inr (s2, y) \<and> remaining s2 = q"
  using in_int [OF assms(1), of j] assms(2) by (auto simp: bind_result_def)

lemma take_array:
  assumes "remaining s = ArrayItem xs # r" "length ys = length xs"
    and "\<And>s'. remaining s' = r \<Longrightarrow> \<exists>s2. f (s', xs) = Inr (s2, y) \<and> remaining s2 = q"
  shows "\<exists>s2. bind_result (ar_array inp s ys) f = Inr (s2, y) \<and> remaining s2 = q"
  using in_array [OF assms(1,2)] assms(3) by (auto simp: bind_result_def)

end

text \<open>
  A serialisation is carried when writing appends items that reading, into a variable of the right
  shape, turns into the value again, leaving what follows.
\<close>

definition transmits ::
  "('o \<Rightarrow> 'x \<Rightarrow> ('o \<times> 'x) result) \<Rightarrow> ('i \<Rightarrow> 'x \<Rightarrow> ('i \<times> 'x) result) \<Rightarrow> ('o \<Rightarrow> 'w list) \<Rightarrow>
   ('i \<Rightarrow> 'w list) \<Rightarrow> 'x \<Rightarrow> 'x \<Rightarrow> bool" where
  "transmits ser_out ser_in written remaining x y \<longleftrightarrow>
     (\<forall>w. \<exists>w'. ser_out w x = Inr (w', x) \<and>
       (\<forall>s r. written w @ remaining s = written w' @ r \<longrightarrow>
          (\<exists>s'. ser_in s y = Inr (s', x) \<and> remaining s' = r)))"

locale carried = archives out inp written remaining
  for out :: "('o, 'd) archive" and inp :: "('i, 'd) archive"
    and written :: "'o \<Rightarrow> 'd wire list" and remaining :: "'i \<Rightarrow> 'd wire list" +
  fixes ser_out :: "'o \<Rightarrow> 'x \<Rightarrow> ('o \<times> 'x) result" and ser_in :: "'i \<Rightarrow> 'x \<Rightarrow> ('i \<times> 'x) result"
    and items :: "'x \<Rightarrow> 'd wire list" and ok :: "'x \<Rightarrow> bool" and shape :: "'x \<Rightarrow> bool"
  assumes ser_out: "ok x \<Longrightarrow> \<exists>w'. ser_out w x = Inr (w', x) \<and> written w' = written w @ items x"
    and ser_in: "ok x \<Longrightarrow> shape y \<Longrightarrow> remaining s = items x @ r \<Longrightarrow>
      \<exists>s'. ser_in s y = Inr (s', x) \<and> remaining s' = r"
begin

lemma transmitted:
  assumes "ok x" "shape y"
  shows "transmits ser_out ser_in written remaining x y"
  unfolding transmits_def
proof
  fix w
  obtain w' where w': "ser_out w x = Inr (w', x)" "written w' = written w @ items x"
    using ser_out [OF assms(1)] by blast
  have "\<exists>s'. ser_in s y = Inr (s', x) \<and> remaining s' = r" if "written w @ remaining s = written w' @ r" for s r
    using that ser_in [OF assms, of s r] by (simp add: w'(2))
  with w'(1) show "\<exists>w'. ser_out w x = Inr (w', x) \<and> (\<forall>s r. written w @ remaining s = written w' @ r \<longrightarrow>
      (\<exists>s'. ser_in s y = Inr (s', x) \<and> remaining s' = r))" by blast
qed

end

section \<open>Every serialisation is carried\<close>

lemma vector_of_data_inverse [simp]: "vector_of_data (vector_data v) = v"
  by (simp add: vector_of_data_def vector_data_def)

lemma length_vector_data [simp]: "length (vector_data v) = 3"
  by (simp add: vector_data_def)

sublocale archives \<subseteq> vector: carried out inp written remaining "serialize_vector out"
  "serialize_vector inp" "\<lambda>v. [ArrayItem (vector_data v)]" "\<lambda>v. True" "\<lambda>v. True"
proof
  fix x y :: "'d kdl_vector" and w s r
  show "\<exists>w'. serialize_vector out w x = Inr (w', x) \<and> written w' = written w @ [ArrayItem (vector_data x)]"
    unfolding serialize_vector_def by (rule put_array) simp
  show "\<exists>s'. serialize_vector inp s y = Inr (s', x) \<and> remaining s' = r"
    if "remaining s = [ArrayItem (vector_data x)] @ r"
    unfolding serialize_vector_def by (rule take_array [OF that [simplified]]) simp_all
qed

sublocale archives \<subseteq> rotation: carried out inp written remaining "serialize_rotation out"
  "serialize_rotation inp" "\<lambda>g. [ArrayItem g]" rotation_ok rotation_ok
  by unfold_locales (auto simp: serialize_rotation_def rotation_ok_def intro: out_array in_array)

sublocale archives \<subseteq> twist: carried out inp written remaining "serialize_twist out" "serialize_twist inp"
  "\<lambda>t. [ArrayItem (vector_data (twist_rot t)), ArrayItem (vector_data (twist_vel t))]" "\<lambda>t. True" "\<lambda>t. True"
proof
  fix x y :: "'d kdl_twist" and w s r
  show "\<exists>w'. serialize_twist out w x = Inr (w', x) \<and> written w' =
      written w @ [ArrayItem (vector_data (twist_rot x)), ArrayItem (vector_data (twist_vel x))]"
    unfolding serialize_twist_def by (rule put_array, unfold prod.case, rule put_array) simp
  show "\<exists>s'. serialize_twist inp s y = Inr (s', x) \<and> remaining s' = r"
    if "remaining s = [ArrayItem (vector_data (twist_rot x)), ArrayItem (vector_data (twist_vel x))] @ r"
    unfolding serialize_twist_def by (rule take_array [OF that [simplified]], simp, unfold prod.case, rule take_array, assumption) simp_all
qed

sublocale archives \<subseteq> wrench: carried out inp written remaining "serialize_wrench out" "serialize_wrench inp"
  "\<lambda>t. [ArrayItem (vector_data (wrench_force t)), ArrayItem (vector_data (wrench_torque t))]" "\<lambda>t. True" "\<lambda>t. True"
proof
  fix x y :: "'d kdl_wrench" and w s r
  show "\<exists>w'. serialize_wrench out w x = Inr (w', x) \<and> written w' =
      written w @ [ArrayItem (vector_data (wrench_force x)), ArrayItem (vector_data (wrench_torque x))]"
    unfolding serialize_wrench_def by (rule put_array, unfold prod.case, rule put_array) simp
  show "\<exists>s'. serialize_wrench inp s y = Inr (s', x) \<and> remaining s' = r"
    if "remaining s = [ArrayItem (vector_data (wrench_force x)), ArrayItem (vector_data (wrench_torque x))] @ r"
    unfolding serialize_wrench_def
    by (rule take_array [OF that [simplified]], simp, unfold prod.case, rule take_array, assumption) simp_all
qed

sublocale archives \<subseteq> frame: carried out inp written remaining "serialize_frame out" "serialize_frame inp"
  "\<lambda>f. [ArrayItem (vector_data (frame_p f)), ArrayItem (frame_M f)]" "\<lambda>f. rotation_ok (frame_M f)"
  "\<lambda>f. rotation_ok (frame_M f)"
proof
  fix x y :: "'d kdl_frame" and w s r
  show "\<exists>w'. serialize_frame out w x = Inr (w', x) \<and> written w' =
      written w @ [ArrayItem (vector_data (frame_p x)), ArrayItem (frame_M x)]"
    unfolding serialize_frame_def by (rule put_array, unfold prod.case, rule put_array) simp
  show "\<exists>s'. serialize_frame inp s y = Inr (s', x) \<and> remaining s' = r"
    if "rotation_ok (frame_M x)" "rotation_ok (frame_M y)"
      "remaining s = [ArrayItem (vector_data (frame_p x)), ArrayItem (frame_M x)] @ r"
    unfolding serialize_frame_def
    by (rule take_array [OF that(3) [simplified]], simp, unfold prod.case, rule take_array, assumption)
      (use that(1,2) in \<open>simp_all add: rotation_ok_def\<close>)
qed

text \<open>Matrices whose dimensions their type allows and whose elements can be counted with an \<open>int\<close>.\<close>

definition matrix_ok :: "dims \<Rightarrow> 'd eigen \<Rightarrow> bool" where
  "matrix_ok D g \<longleftrightarrow> fits D (int (m_rows g)) (int (m_cols g)) \<and> length (m_data g) = m_rows g * m_cols g
     \<and> m_rows g < 2 ^ 31 \<and> m_cols g < 2 ^ 31 \<and> m_rows g * m_cols g < 2 ^ 31"

definition matrix_items :: "'d eigen \<Rightarrow> 'd wire list" where
  "matrix_items g = [IntItem (int (m_rows g)), IntItem (int (m_cols g)), ArrayItem (m_data g)]"

lemma to_int_small: "n < 2 ^ 31 \<Longrightarrow> to_int n = int n"
  by (simp add: to_int_def signed_take_bit_int_eq_self)

lemma int_product_small:
  assumes "m * n < 2 ^ 31"
  shows "int_product (int m) (int n) = Inr (m * n)"
proof -
  have "int m * int n = int (m * n)" by simp
  moreover have "int (m * n) < 2 ^ 31" using assms by (metis of_nat_less_iff of_nat_numeral of_nat_power)
  ultimately show ?thesis by (simp add: int_product_def nat_mult_distrib)
qed

sublocale archives \<subseteq> matrix: carried out inp written remaining "serialize_matrix D na out"
  "serialize_matrix D na inp" matrix_items "matrix_ok D" "\<lambda>g. True" for D na
proof
  fix x y :: "'d eigen" and w s r
  assume ok: "matrix_ok D x"
  then have small: "to_int (m_rows x) = int (m_rows x)" "to_int (m_cols x) = int (m_cols x)"
    and prod: "int_product (int (m_rows x)) (int (m_cols x)) = Inr (length (m_data x))"
    by (simp_all add: matrix_ok_def to_int_small int_product_small)
  obtain w1 where w1: "ar_int out w (int (m_rows x)) = Inr (w1, int (m_rows x))"
      "written w1 = written w @ [IntItem (int (m_rows x))]" using out_int by blast
  obtain w2 where w2: "ar_int out w1 (int (m_cols x)) = Inr (w2, int (m_cols x))"
      "written w2 = written w1 @ [IntItem (int (m_cols x))]" using out_int by blast
  obtain w3 where w3: "ar_array out w2 (m_data x) = Inr (w3, m_data x)"
      "written w3 = written w2 @ [ArrayItem (m_data x)]" using out_array by blast
  show "\<exists>w'. serialize_matrix D na out w x = Inr (w', x) \<and> written w' = written w @ matrix_items x"
    by (simp add: serialize_matrix_def save_matrix_def saving bind_result_def small prod w1 w2 w3 matrix_items_def)
next
  fix x y :: "'d eigen" and s r
  assume ok: "matrix_ok D x" and s: "remaining s = matrix_items x @ r"
  then have fit: "fits D (int (m_rows x)) (int (m_cols x))"
    and prod: "int_product (int (m_rows x)) (int (m_cols x)) = Inr (length (m_data x))"
    by (simp_all add: matrix_ok_def int_product_small)
  obtain s1 where s1: "ar_int inp s 0 = Inr (s1, int (m_rows x))"
      "remaining s1 = IntItem (int (m_cols x)) # ArrayItem (m_data x) # r"
    using in_int s by (fastforce simp: matrix_items_def)
  obtain s2 where s2: "ar_int inp s1 0 = Inr (s2, int (m_cols x))" "remaining s2 = ArrayItem (m_data x) # r"
    using in_int [OF s1(2)] by blast
  obtain s3 where s3: "ar_array inp s2 (replicate (length (m_data x)) na) = Inr (s3, m_data x)" "remaining s3 = r"
    using in_array [OF s2(2) length_replicate] by blast
  show "\<exists>s'. serialize_matrix D na inp s y = Inr (s', x) \<and> remaining s' = r"
    by (simp add: serialize_matrix_def load_matrix_def saving bind_result_def fit prod s1 s2 s3)
qed

sublocale archives \<subseteq> jntarrayvel: carried out inp written remaining "serialize_jntarrayvel na out"
  "serialize_jntarrayvel na inp" "\<lambda>g. matrix_items (vel_q g) @ matrix_items (vel_qdot g)"
  "\<lambda>g. matrix_ok jntarray_dims (vel_q g) \<and> matrix_ok jntarray_dims (vel_qdot g)" "\<lambda>g. True" for na
proof
  fix x y :: "'d jntarrayvel" and w
  assume ok: "matrix_ok jntarray_dims (vel_q x) \<and> matrix_ok jntarray_dims (vel_qdot x)"
  then obtain w1 where "serialize_matrix jntarray_dims na out w (vel_q x) = Inr (w1, vel_q x)"
      "written w1 = written w @ matrix_items (vel_q x)" using matrix.ser_out by blast
  moreover obtain w2 where "serialize_matrix jntarray_dims na out w1 (vel_qdot x) = Inr (w2, vel_qdot x)"
      "written w2 = written w1 @ matrix_items (vel_qdot x)" using matrix.ser_out ok by blast
  ultimately show "\<exists>w'. serialize_jntarrayvel na out w x = Inr (w', x)
      \<and> written w' = written w @ matrix_items (vel_q x) @ matrix_items (vel_qdot x)"
    by (simp add: serialize_jntarrayvel_def bind_result_def)
next
  fix x y :: "'d jntarrayvel" and s r
  assume ok: "matrix_ok jntarray_dims (vel_q x) \<and> matrix_ok jntarray_dims (vel_qdot x)"
    and s: "remaining s = (matrix_items (vel_q x) @ matrix_items (vel_qdot x)) @ r"
  then obtain s1 where "serialize_matrix jntarray_dims na inp s (vel_q y) = Inr (s1, vel_q x)"
      and s1: "remaining s1 = matrix_items (vel_qdot x) @ r"
    using matrix.ser_in by (metis append.assoc)
  moreover obtain s2 where "serialize_matrix jntarray_dims na inp s1 (vel_qdot y) = Inr (s2, vel_qdot x)"
      "remaining s2 = r" using matrix.ser_in [OF _ _ s1] ok by blast
  ultimately show "\<exists>s'. serialize_jntarrayvel na inp s y = Inr (s', x) \<and> remaining s' = r"
    by (simp add: serialize_jntarrayvel_def bind_result_def)
qed

text \<open>A matrix whose dimensions the type does not allow is not loaded.\<close>

context archives
begin

lemma load_misfit:
  assumes "remaining s = matrix_items g @ r" "\<not> fits D (int (m_rows g)) (int (m_cols g))"
  shows "serialize_matrix D na inp s y = Inl (InvalidArgument ''resize'')"
proof -
  obtain s1 where s1: "ar_int inp s 0 = Inr (s1, int (m_rows g))"
      "remaining s1 = IntItem (int (m_cols g)) # ArrayItem (m_data g) # r"
    using in_int assms(1) by (fastforce simp: matrix_items_def)
  obtain s2 where "ar_int inp s1 0 = Inr (s2, int (m_cols g))"
    using in_int [OF s1(2)] by blast
  with s1 assms(2) show ?thesis
    by (simp add: serialize_matrix_def load_matrix_def saving bind_result_def)
qed

lemma values_transmitted:
  "transmits (serialize_twist out) (serialize_twist inp) written remaining t t0"
  "transmits (serialize_wrench out) (serialize_wrench inp) written remaining w w0"
  "rotation_ok (frame_M f) \<Longrightarrow> rotation_ok (frame_M f0) \<Longrightarrow>
    transmits (serialize_frame out) (serialize_frame inp) written remaining f f0"
  by (simp_all add: twist.transmitted wrench.transmitted frame.transmitted)

lemma matrices_transmitted:
  "matrix_ok jacobian_dims J \<Longrightarrow>
    transmits (serialize_jacobian na out) (serialize_jacobian na inp) written remaining J J0"
  "matrix_ok jntarray_dims q \<Longrightarrow>
    transmits (serialize_jntarray na out) (serialize_jntarray na inp) written remaining q q0"
  "matrix_ok jntarray_dims (vel_q v) \<Longrightarrow> matrix_ok jntarray_dims (vel_qdot v) \<Longrightarrow>
    transmits (serialize_jntarrayvel na out) (serialize_jntarrayvel na inp) written remaining v v0"
  by (simp_all add: matrix.transmitted jntarrayvel.transmitted serialize_jacobian_def [abs_def]
      serialize_jntarray_def [abs_def])

end

section \<open>Archives as lists of items\<close>

definition list_out :: "('d wire list, 'd) archive" where
  "list_out = \<lparr>is_saving = True, ar_int = (\<lambda>w i. Inr (w @ [IntItem i], i)),
     ar_array = (\<lambda>w xs. Inr (w @ [ArrayItem xs], xs))\<rparr>"

definition list_in :: "('d wire list, 'd) archive" where
  "list_in = \<lparr>is_saving = False,
     ar_int = (\<lambda>s i. case s of IntItem j # r \<Rightarrow> Inr (r, j) | _ \<Rightarrow> Inl (StdException ''input stream error'')),
     ar_array = (\<lambda>s xs. case s of ArrayItem ys # r \<Rightarrow> (if length ys = length xs then Inr (r, ys)
        else Inl (StdException ''input stream error'')) | _ \<Rightarrow> Inl (StdException ''input stream error''))\<rparr>"

interpretation list_archives: archives list_out list_in "\<lambda>w. w" "\<lambda>s. s"
  by unfold_locales (auto simp: list_out_def list_in_def)



end
