(* ===== verification/Kdl_Corba.thy ===== *)
theory Kdl_Corba
  imports Kdl_Mqueue
begin

text \<open>
  The CORBA transport of the package \<open>kdl_typekit\<close> (\<open>CorbaKDLConversion.hpp\<close>): the specialisations of
  \<open>AnyConversion\<close>, which turn KDL values into sequences of doubles and back. The sequence is a list, and
  an access beyond its length, which the generated class does not check, is \<open>OutOfBounds\<close>. A
  \<open>CORBA::Any\<close> is third-party: inserting a sequence and extracting one, which fails for other content.
\<close>

section \<open>Specialisations of \<open>AnyConversion\<close>\<close>

record ('x, 'd) conversion =
  toAny :: "'x \<Rightarrow> 'd list result"
  toStdType :: "'x \<Rightarrow> 'd list \<Rightarrow> (bool \<times> 'x) result"

record ('any, 'd) any_api =
  any_insert :: "'d list \<Rightarrow> 'any"
  any_extract :: "'any \<Rightarrow> 'd list option"

text \<open>The functions whose bodies are the same in every specialisation.\<close>

definition updateAny :: "('x, 'd) conversion \<Rightarrow> ('any, 'd) any_api \<Rightarrow> 'x \<Rightarrow> 'any \<Rightarrow> (bool \<times> 'any) result" where
  "updateAny C N t any = bind_result (toAny C t) (\<lambda>cb. Inr (True, any_insert N cb))"

definition update :: "('x, 'd) conversion \<Rightarrow> ('any, 'd) any_api \<Rightarrow> 'any \<Rightarrow> 'x \<Rightarrow> (bool \<times> 'x) result" where
  "update C N any value =
     (case any_extract N any of Some result \<Rightarrow> toStdType C value result | None \<Rightarrow> Inr (False, value))"

definition createAny :: "('x, 'd) conversion \<Rightarrow> ('any, 'd) any_api \<Rightarrow> 'x \<Rightarrow> 'any result" where
  "createAny C N t = bind_result (toAny C t) (\<lambda>cb. Inr (any_insert N cb))"

definition toCorbaType :: "('x, 'd) conversion \<Rightarrow> 'd list \<Rightarrow> 'x \<Rightarrow> (bool \<times> 'd list) result" where
  "toCorbaType C cb tp = bind_result (toAny C tp) (\<lambda>cb. Inr (True, cb))"

text \<open>An element of the sequence.\<close>

definition at :: "'d list \<Rightarrow> nat \<Rightarrow> 'd result" where
  "at cb i = (if i < length cb then Inr (cb ! i) else Inl (OutOfBounds ''cb''))"

text \<open>The first \<open>n\<close> elements from index \<open>i\<close>, read one after the other.\<close>

fun read_from :: "'d list \<Rightarrow> nat \<Rightarrow> nat \<Rightarrow> 'd list result" where
  "read_from cb i 0 = Inr []"
| "read_from cb i (Suc n) =
     bind_result (at cb i) (\<lambda>x. bind_result (read_from cb (Suc i) n) (\<lambda>xs. Inr (x # xs)))"

text \<open>The elements of a rotation in the order of the source: \<open>orig(0,0)\<close>, \<open>orig(0,1)\<close> and so on.\<close>

definition rotation_elements :: "'d kdl_rotation \<Rightarrow> 'd list" where
  "rotation_elements M = concat (map (\<lambda>i. map (\<lambda>j. M ! (3 * i + j)) [0, 1, 2]) [0, 1, 2])"

section \<open>The types\<close>

definition AnyConversion_Vector :: "('d kdl_vector, 'd) conversion" where
  "AnyConversion_Vector =
     \<lparr>toAny = (\<lambda>orig. Inr [kx orig, ky orig, kz orig]),
      toStdType = (\<lambda>tp cb. bind_result (read_from cb 0 3) (\<lambda>xs.
        Inr (True, tp\<lparr>kx := xs ! 0, ky := xs ! 1, kz := xs ! 2\<rparr>)))\<rparr>"

definition AnyConversion_Rotation :: "('d kdl_rotation, 'd) conversion" where
  "AnyConversion_Rotation =
     \<lparr>toAny = (\<lambda>orig. Inr (rotation_elements orig)),
      toStdType = (\<lambda>tp cb. bind_result (read_from cb 0 9) (\<lambda>xs. Inr (True, xs)))\<rparr>"

definition AnyConversion_Frame :: "('d kdl_frame, 'd) conversion" where
  "AnyConversion_Frame =
     \<lparr>toAny = (\<lambda>orig. Inr ([kx (frame_p orig), ky (frame_p orig), kz (frame_p orig)]
         @ rotation_elements (frame_M orig))),
      toStdType = (\<lambda>tp cb. bind_result (read_from cb 0 3) (\<lambda>p. bind_result (read_from cb 3 9) (\<lambda>m.
        Inr (True, tp\<lparr>frame_p := \<lparr>kx = p ! 0, ky = p ! 1, kz = p ! 2\<rparr>, frame_M := m\<rparr>))))\<rparr>"

definition AnyConversion_Wrench :: "('d kdl_wrench, 'd) conversion" where
  "AnyConversion_Wrench =
     \<lparr>toAny = (\<lambda>orig. Inr [kx (wrench_force orig), ky (wrench_force orig), kz (wrench_force orig),
         kx (wrench_torque orig), ky (wrench_torque orig), kz (wrench_torque orig)]),
      toStdType = (\<lambda>tp cb. bind_result (read_from cb 0 6) (\<lambda>xs.
        Inr (True, tp\<lparr>wrench_force := \<lparr>kx = xs ! 0, ky = xs ! 1, kz = xs ! 2\<rparr>,
                      wrench_torque := \<lparr>kx = xs ! 3, ky = xs ! 4, kz = xs ! 5\<rparr>\<rparr>)))\<rparr>"

definition AnyConversion_Twist :: "('d kdl_twist, 'd) conversion" where
  "AnyConversion_Twist =
     \<lparr>toAny = (\<lambda>orig. Inr [kx (twist_vel orig), ky (twist_vel orig), kz (twist_vel orig),
         kx (twist_rot orig), ky (twist_rot orig), kz (twist_rot orig)]),
      toStdType = (\<lambda>tp cb. bind_result (read_from cb 0 6) (\<lambda>xs.
        Inr (True, tp\<lparr>twist_vel := \<lparr>kx = xs ! 0, ky = xs ! 1, kz = xs ! 2\<rparr>,
                      twist_rot := \<lparr>kx = xs ! 3, ky = xs ! 4, kz = xs ! 5\<rparr>\<rparr>)))\<rparr>"

text \<open>
  Lengths of sequences are \<open>CORBA::ULong\<close>, 32 bits. \<open>of_size\<close> and \<open>to_size\<close> are the casts between
  \<open>size_t\<close> and \<open>double\<close>; the second is undefined outside the range of \<open>size_t\<close>. A Jacobian has six rows:
  assigning another number of rows fails an assertion of Eigen, and the matrix is read from the
  buffer whatever the length of the sequence.
\<close>

definition ulong :: "nat \<Rightarrow> nat" where
  "ulong n = n mod 2 ^ 32"

definition jacobian_toAny :: "(nat \<Rightarrow> 'd) \<Rightarrow> 'd eigen \<Rightarrow> 'd list result" where
  "jacobian_toAny of_size tp =
     (if ulong (length (m_data tp) + 2) < length (m_data tp) + 2 then Inl (OutOfBounds ''cb'')
      else Inr (of_size (m_rows tp) # of_size (m_cols tp) # m_data tp))"

definition jacobian_toStdType ::
  "('d \<Rightarrow> nat option) \<Rightarrow> 'd eigen \<Rightarrow> 'd list \<Rightarrow> (bool \<times> 'd eigen) result" where
  "jacobian_toStdType to_size tp cb =
     (if length cb < 2 then Inr (False, tp)
      else case (to_size (cb ! 0), to_size (cb ! 1)) of
             (Some rows, Some cols) \<Rightarrow>
               if rows \<noteq> 6 then Inl (InvalidArgument ''resize'')
               else if length cb < 2 + rows * cols then Inl (OutOfBounds ''cb'')
               else Inr (True, \<lparr>m_rows = rows, m_cols = cols, m_data = take (rows * cols) (drop 2 cb)\<rparr>)
           | _ \<Rightarrow> Inl (InvalidArgument ''static_cast<size_t>''))"

definition AnyConversion_Jacobian ::
  "(nat \<Rightarrow> 'd) \<Rightarrow> ('d \<Rightarrow> nat option) \<Rightarrow> ('d eigen, 'd) conversion" where
  "AnyConversion_Jacobian of_size to_size =
     \<lparr>toAny = jacobian_toAny of_size, toStdType = jacobian_toStdType to_size\<rparr>"

definition AnyConversion_JntArray :: "('d eigen, 'd) conversion" where
  "AnyConversion_JntArray =
     \<lparr>toAny = (\<lambda>tp. if ulong (m_rows tp) \<noteq> m_rows tp then Inl (InvalidArgument ''resize'')
                    else Inr (m_data tp)),
      toStdType = (\<lambda>tp cb. Inr (True, \<lparr>m_rows = length cb, m_cols = 1, m_data = cb\<rparr>))\<rparr>"

section \<open>Reading sequences\<close>

lemma read_from_short:
  "i \<le> length cb \<Longrightarrow> length cb < i + n \<Longrightarrow> read_from cb i n = Inl (OutOfBounds ''cb'')"
  by (induction n arbitrary: i) (auto simp: bind_result_def at_def)

lemma read_from_enough: "i + n \<le> length cb \<Longrightarrow> read_from cb i n = Inr (take n (drop i cb))"
proof (induction n arbitrary: i)
  case (Suc n)
  then show ?case
    by (simp add: bind_result_def at_def Cons_nth_drop_Suc [symmetric])
qed simp

lemma read_from_eq:
  "i \<le> length cb \<Longrightarrow> read_from cb i n =
    (if length cb < i + n then Inl (OutOfBounds ''cb'') else Inr (take n (drop i cb)))"
  by (simp add: read_from_short read_from_enough)

lemma short_sequences:
  "toStdType AnyConversion_Vector v cb = Inl (OutOfBounds ''cb'') \<longleftrightarrow> length cb < 3"
  "toStdType AnyConversion_Twist t cb = Inl (OutOfBounds ''cb'') \<longleftrightarrow> length cb < 6"
  "toStdType AnyConversion_Wrench w cb = Inl (OutOfBounds ''cb'') \<longleftrightarrow> length cb < 6"
  by (simp_all add: AnyConversion_Vector_def AnyConversion_Twist_def AnyConversion_Wrench_def
      bind_result_def read_from_eq)

lemma short_frames: "toStdType AnyConversion_Frame f cb = Inl (OutOfBounds ''cb'') \<longleftrightarrow> length cb < 12"
  by (cases "length cb < 3") (simp_all add: AnyConversion_Frame_def bind_result_def read_from_eq)

lemma jacobian_headers:
  "toStdType (AnyConversion_Jacobian of_size to_size) J cb = Inr (False, J) \<longleftrightarrow> length cb < 2"
  "2 \<le> length cb \<Longrightarrow> to_size (cb ! 0) = Some rows \<Longrightarrow> to_size (cb ! 1) = Some cols \<Longrightarrow>
    toStdType (AnyConversion_Jacobian of_size to_size) J cb = Inl (OutOfBounds ''cb'')
      \<longleftrightarrow> rows = 6 \<and> length cb < 2 + 6 * cols"
  by (auto simp: AnyConversion_Jacobian_def jacobian_toStdType_def split: option.splits)

lemma rotation_elements_id: "rotation_ok M \<Longrightarrow> rotation_elements M = M"
  by (rule nth_equalityI) (auto simp: rotation_elements_def rotation_ok_def less_Suc_eq numeral_eq_Suc)

lemma ulong_small: "n < 2 ^ 32 \<Longrightarrow> ulong n = n"
  by (simp add: ulong_def)

section \<open>Round trips\<close>

text \<open>
  A conversion that gives its value back, and what follows for the functions that pass it through a
  \<open>CORBA::Any\<close> from which a sequence can be extracted that was inserted.
\<close>

locale any_conversion =
  fixes C :: "('x, 'd) conversion" and N :: "('any, 'd) any_api" and ok :: "'x \<Rightarrow> bool"
  assumes extract_insert: "any_extract N (any_insert N cb) = Some cb"
    and std_any: "ok x \<Longrightarrow> \<exists>cb. toAny C x = Inr cb \<and> toStdType C y cb = Inr (True, x)"
begin

lemma any_round_trip:
  assumes "ok x"
  shows "\<exists>any. createAny C N x = Inr any \<and> update C N any y = Inr (True, x)"
  using std_any [OF assms, of y] by (auto simp: createAny_def update_def bind_result_def extract_insert)

lemma updateAny_round_trip:
  assumes "ok x"
  shows "\<exists>any'. updateAny C N x any = Inr (True, any') \<and> update C N any' y = Inr (True, x)"
  using std_any [OF assms, of y] by (auto simp: updateAny_def update_def bind_result_def extract_insert)

lemma corba_round_trip:
  assumes "ok x"
  shows "\<exists>cb'. toCorbaType C cb x = Inr (True, cb') \<and> toStdType C y cb' = Inr (True, x)"
  using std_any [OF assms, of y] by (auto simp: toCorbaType_def bind_result_def)

end

text \<open>An \<open>Any\<close> that holds what was inserted, and casts that are exact for the integers a double can hold.\<close>

locale any_values =
  fixes N :: "('any, 'd) any_api" and of_size :: "nat \<Rightarrow> 'd" and to_size :: "'d \<Rightarrow> nat option"
  assumes insert_extract: "any_extract N (any_insert N cb) = Some cb"
    and casts: "n < 2 ^ 53 \<Longrightarrow> to_size (of_size n) = Some n"

lemmas conversion_defs_corba =
  AnyConversion_Vector_def AnyConversion_Rotation_def AnyConversion_Frame_def AnyConversion_Wrench_def
  AnyConversion_Twist_def AnyConversion_Jacobian_def AnyConversion_JntArray_def

definition jacobian_ok :: "'d eigen \<Rightarrow> bool" where
  "jacobian_ok J \<longleftrightarrow> m_rows J = 6 \<and> length (m_data J) = 6 * m_cols J \<and> length (m_data J) + 2 < 2 ^ 32"

definition jntarray_ok :: "'d eigen \<Rightarrow> bool" where
  "jntarray_ok q \<longleftrightarrow> m_cols q = 1 \<and> length (m_data q) = m_rows q \<and> m_rows q < 2 ^ 32"

sublocale any_values \<subseteq> vector: any_conversion AnyConversion_Vector N "\<lambda>x. True"
  by unfold_locales (simp_all add: insert_extract AnyConversion_Vector_def read_from_enough bind_result_def)

sublocale any_values \<subseteq> rotation: any_conversion AnyConversion_Rotation N rotation_ok
  by unfold_locales (simp_all add: insert_extract AnyConversion_Rotation_def rotation_elements_id
      rotation_ok_def read_from_enough bind_result_def)

sublocale any_values \<subseteq> frame: any_conversion AnyConversion_Frame N "\<lambda>f. rotation_ok (frame_M f)"
  by unfold_locales (simp_all add: insert_extract AnyConversion_Frame_def rotation_elements_id
      rotation_ok_def read_from_enough bind_result_def)

sublocale any_values \<subseteq> wrench: any_conversion AnyConversion_Wrench N "\<lambda>x. True"
  by unfold_locales (simp_all add: insert_extract AnyConversion_Wrench_def read_from_enough bind_result_def)

sublocale any_values \<subseteq> twist: any_conversion AnyConversion_Twist N "\<lambda>x. True"
  by unfold_locales (simp_all add: insert_extract AnyConversion_Twist_def read_from_enough bind_result_def)

sublocale any_values \<subseteq> jntarray: any_conversion AnyConversion_JntArray N jntarray_ok
  by unfold_locales (simp_all add: insert_extract AnyConversion_JntArray_def jntarray_ok_def ulong_small)

sublocale any_values \<subseteq> jacobian: any_conversion "AnyConversion_Jacobian of_size to_size" N jacobian_ok
proof
  fix x y :: "'d eigen"
  assume x: "jacobian_ok x"
  then have "m_cols x < 2 ^ 53" "(6 :: nat) < 2 ^ 53" by (simp_all add: jacobian_ok_def)
  then show "\<exists>cb. toAny (AnyConversion_Jacobian of_size to_size) x = Inr cb
      \<and> toStdType (AnyConversion_Jacobian of_size to_size) y cb = Inr (True, x)"
    using x casts [of "m_cols x"] casts [of 6]
    by (simp add: AnyConversion_Jacobian_def jacobian_toAny_def jacobian_toStdType_def jacobian_ok_def ulong_small)
qed (simp add: insert_extract)

context any_values
begin

lemma geometry_round_trips:
  "\<exists>any. createAny AnyConversion_Vector N v = Inr any \<and> update AnyConversion_Vector N any v0 = Inr (True, v)"
  "\<exists>any. createAny AnyConversion_Twist N t = Inr any \<and> update AnyConversion_Twist N any t0 = Inr (True, t)"
  "\<exists>any. createAny AnyConversion_Wrench N w = Inr any \<and> update AnyConversion_Wrench N any w0 = Inr (True, w)"
  "rotation_ok (frame_M f) \<Longrightarrow>
    \<exists>any. createAny AnyConversion_Frame N f = Inr any \<and> update AnyConversion_Frame N any f0 = Inr (True, f)"
  by (simp_all add: vector.any_round_trip twist.any_round_trip wrench.any_round_trip frame.any_round_trip)

lemma matrix_round_trips:
  "jntarray_ok q \<Longrightarrow>
    \<exists>any. createAny AnyConversion_JntArray N q = Inr any \<and> update AnyConversion_JntArray N any q0 = Inr (True, q)"
  "jacobian_ok J \<Longrightarrow> \<exists>any. createAny (AnyConversion_Jacobian of_size to_size) N J = Inr any
      \<and> update (AnyConversion_Jacobian of_size to_size) N any J0 = Inr (True, J)"
  by (simp_all add: jntarray.any_round_trip jacobian.any_round_trip)

end

section \<open>Claims\<close>

text \<open>A concrete \<open>Any\<close>: a sequence or something else, with integers for doubles.\<close>

definition sequences :: "(int list option, int) any_api" where
  "sequences = \<lparr>any_insert = Some, any_extract = id\<rparr>"

definition size_of_int :: "int \<Rightarrow> nat option" where
  "size_of_int i = (if 0 \<le> i then Some (nat i) else None)"

interpretation sequences: any_values sequences int size_of_int
  by unfold_locales (simp_all add: sequences_def size_of_int_def)

text \<open>C29: Every KDL value put into a \<open>CORBA::Any\<close> is extracted unchanged, whatever the variable held
  before: twists, wrenches, frames, joint arrays and Jacobians, the latter two up to the 32-bit length
  of a sequence. Other content is refused without a change. But of the length of a sequence only the
  header of a Jacobian is checked: a sequence too short for a vector, twist or frame, or whose header
  promises more columns than follow, is read beyond its end.\<close>

theorem corba_conversions_correct:
  assumes N: "any_values N of_size to_size"
    and ok: "rotation_ok (frame_M f)" "jntarray_ok q" "jacobian_ok J"
    and cb: "any_extract N any = Some cb" and other: "any_extract N any' = None"
  shows "(\<exists>a. createAny AnyConversion_Twist N t = Inr a \<and> update AnyConversion_Twist N a t0 = Inr (True, t))
    \<and> (\<exists>a. createAny AnyConversion_Wrench N w = Inr a \<and> update AnyConversion_Wrench N a w0 = Inr (True, w))
    \<and> (\<exists>a. createAny AnyConversion_Frame N f = Inr a \<and> update AnyConversion_Frame N a f0 = Inr (True, f))
    \<and> (\<exists>a. createAny AnyConversion_JntArray N q = Inr a \<and> update AnyConversion_JntArray N a q0 = Inr (True, q))
    \<and> (\<exists>a. createAny (AnyConversion_Jacobian of_size to_size) N J = Inr a
        \<and> update (AnyConversion_Jacobian of_size to_size) N a J0 = Inr (True, J))
    \<and> update C N any' x = Inr (False, x)
    \<and> (update AnyConversion_Vector N any v = Inl (OutOfBounds ''cb'') \<longleftrightarrow> length cb < 3)
    \<and> (update AnyConversion_Twist N any t = Inl (OutOfBounds ''cb'') \<longleftrightarrow> length cb < 6)
    \<and> (update AnyConversion_Frame N any f = Inl (OutOfBounds ''cb'') \<longleftrightarrow> length cb < 12)
    \<and> (update (AnyConversion_Jacobian of_size to_size) N any J0 = Inr (False, J0) \<longleftrightarrow> length cb < 2)
    \<and> (\<forall>cols. 2 \<le> length cb \<and> to_size (cb ! 0) = Some 6 \<and> to_size (cb ! 1) = Some cols \<and> length cb < 2 + 6 * cols \<longrightarrow>
         update (AnyConversion_Jacobian of_size to_size) N any J0 = Inl (OutOfBounds ''cb''))"
proof -
  note read = update_def cb other short_sequences short_frames jacobian_headers
  show ?thesis
    using any_values.geometry_round_trips(2-4) [OF N] any_values.matrix_round_trips [OF N] ok
    by (intro conjI allI impI; (elim conjE)?; (blast | simp add: read))
qed

theorem corba_conversions_correct_witness:
  "(\<exists>a. createAny (AnyConversion_Jacobian int size_of_int) sequences
        \<lparr>m_rows = 6, m_cols = 1, m_data = [1, 2, 3, 4, 5, 6]\<rparr> = Inr a
      \<and> update (AnyConversion_Jacobian int size_of_int) sequences a \<lparr>m_rows = 6, m_cols = 0, m_data = []\<rparr>
          = Inr (True, \<lparr>m_rows = 6, m_cols = 1, m_data = [1, 2, 3, 4, 5, 6]\<rparr>))
    \<and> update AnyConversion_Vector sequences (Some [1, 2]) \<lparr>kx = 0, ky = 0, kz = 0\<rparr> = Inl (OutOfBounds ''cb'')"
proof -
  have ok: "rotation_ok (frame_M \<lparr>frame_M = [1 .. 9], frame_p = \<lparr>kx = 1, ky = 2, kz = 3 :: int\<rparr>\<rparr>)"
    "jntarray_ok \<lparr>m_rows = 1, m_cols = 1, m_data = [1 :: int]\<rparr>"
    "jacobian_ok \<lparr>m_rows = 6, m_cols = 1, m_data = [1, 2, 3, 4, 5, 6 :: int]\<rparr>"
    by (simp_all add: rotation_ok_def jntarray_ok_def jacobian_ok_def)
  have any: "any_extract sequences (Some [1, 2]) = Some [1, 2]" "any_extract sequences None = None"
    by (simp_all add: sequences_def)
  note all = corba_conversions_correct [OF sequences.any_values_axioms ok any,
      where v = "\<lparr>kx = 0, ky = 0, kz = 0\<rparr>" and ?J0.0 = "\<lparr>m_rows = 6, m_cols = 0, m_data = []\<rparr>",
      THEN conjunct2, THEN conjunct2, THEN conjunct2, THEN conjunct2]
  show ?thesis
    using all [THEN conjunct1] all [THEN conjunct2, THEN conjunct2, THEN conjunct1] by simp
qed

end
