(* ===== verification/Kdl_Properties.thy ===== *)
theory Kdl_Properties
  imports Kdl_Msgs
begin

text \<open>
  The package \<open>kdl_typekit\<close>: writing geometric values and kinematic chains into property bags and
  reading them back (\<open>motionproperties.cpp\<close>, \<open>kinfamproperties.cpp\<close>). A property bag of RTT is a type
  name and a list of named properties, in which a search by name finds the first of that name. The
  build defines \<open>ROTATION_PROPERTIES_RPY\<close>, so that rotations are written as roll, pitch and yaw; the
  functions between matrices and angles are KDL's and parameters.
\<close>

section \<open>Property bags\<close>

datatype 'd property_value = DoubleP 'd | StringP string | BagP "'d bag"
  and 'd bag = Bag (getType: string) (getProperties: "(string \<times> 'd property_value) list")

definition bag_find :: "'d bag \<Rightarrow> string \<Rightarrow> 'd property_value option" where
  "bag_find b n = map_of (getProperties b) n"

text \<open>The searches that also require a type: \<open>dynamic_cast\<close> and \<open>getPropertyType\<close>.\<close>

definition find_double :: "'d bag \<Rightarrow> string \<Rightarrow> 'd option" where
  "find_double b n = (case bag_find b n of Some (DoubleP x) \<Rightarrow> Some x | _ \<Rightarrow> None)"

definition find_string :: "'d bag \<Rightarrow> string \<Rightarrow> string option" where
  "find_string b n = (case bag_find b n of Some (StringP x) \<Rightarrow> Some x | _ \<Rightarrow> None)"

definition find_bag :: "'d bag \<Rightarrow> string \<Rightarrow> 'd bag option" where
  "find_bag b n = (case bag_find b n of Some (BagP x) \<Rightarrow> Some x | _ \<Rightarrow> None)"

definition setType :: "string \<Rightarrow> 'd bag \<Rightarrow> 'd bag" where
  "setType t b = Bag t (getProperties b)"

definition bag_add :: "string \<Rightarrow> 'd property_value \<Rightarrow> 'd bag \<Rightarrow> 'd bag" where
  "bag_add n v b = Bag (getType b) (getProperties b @ [(n, v)])"

definition empty_bag :: "'d bag" where
  "empty_bag = Bag [] []"

section \<open>Vectors and rotations\<close>

text \<open>
  A composer fills its argument: the result is whether it succeeded, and the value afterwards.
\<close>

definition VectorDecomposer :: "'d kdl_vector \<Rightarrow> 'd bag" where
  "VectorDecomposer v =
     Bag ''KDL.Vector'' [(''X'', DoubleP (kx v)), (''Y'', DoubleP (ky v)), (''Z'', DoubleP (kz v))]"

definition VectorComposer :: "'d bag \<Rightarrow> 'd kdl_vector \<Rightarrow> bool \<times> 'd kdl_vector" where
  "VectorComposer b res =
     (if getType b = ''MotCon::Vector'' \<or> getType b = ''KDL.Vector''
      then case (find_double b ''X'', find_double b ''Y'', find_double b ''Z'') of
             (Some px, Some py, Some pz) \<Rightarrow> (True, \<lparr>kx = px, ky = py, kz = pz\<rparr>)
           | _ \<Rightarrow> (False, res)
      else (False, res))"

record 'd rotation_api =
  GetRPY :: "'d kdl_rotation \<Rightarrow> 'd \<times> 'd \<times> 'd"
  RPY :: "'d \<Rightarrow> 'd \<Rightarrow> 'd \<Rightarrow> 'd kdl_rotation"
  GetEulerZYX :: "'d kdl_rotation \<Rightarrow> 'd \<times> 'd \<times> 'd"
  EulerZYX :: "'d \<Rightarrow> 'd \<Rightarrow> 'd \<Rightarrow> 'd kdl_rotation"

text \<open>The element in row \<open>i\<close> and column \<open>j\<close>.\<close>

definition rot_at :: "'d kdl_rotation \<Rightarrow> nat \<Rightarrow> nat \<Rightarrow> 'd" where
  "rot_at r i j = r ! (3 * i + j)"

definition RotationDecomposer :: "'d kdl_rotation \<Rightarrow> 'd bag" where
  "RotationDecomposer r =
     Bag ''KDL.Rotation''
       [(''X_x'', DoubleP (rot_at r 0 0)), (''X_y'', DoubleP (rot_at r 1 0)), (''X_z'', DoubleP (rot_at r 2 0)),
        (''Y_x'', DoubleP (rot_at r 0 1)), (''Y_y'', DoubleP (rot_at r 1 1)), (''Y_z'', DoubleP (rot_at r 2 1)),
        (''Z_x'', DoubleP (rot_at r 0 2)), (''Z_y'', DoubleP (rot_at r 1 2)), (''Z_z'', DoubleP (rot_at r 2 2))]"

definition RotationComposer :: "'d bag \<Rightarrow> 'd kdl_rotation \<Rightarrow> bool \<times> 'd kdl_rotation" where
  "RotationComposer b res =
     (if getType b = ''MotCon::Rotation'' \<or> getType b = ''KDL.Rotation''
      then case (find_double b ''X_x'', find_double b ''X_y'', find_double b ''X_z'',
                 find_double b ''Y_x'', find_double b ''Y_y'', find_double b ''Y_z'',
                 find_double b ''Z_x'', find_double b ''Z_y'', find_double b ''Z_z'') of
             (Some Xx, Some Xy, Some Xz, Some Yx, Some Yy, Some Yz, Some Zx, Some Zy, Some Zz) \<Rightarrow>
               (True, [Xx, Yx, Zx, Xy, Yy, Zy, Xz, Yz, Zz])
           | _ \<Rightarrow> (False, res)
      else (False, res))"

definition EulerZYXDecomposer :: "'d rotation_api \<Rightarrow> 'd kdl_rotation \<Rightarrow> 'd bag" where
  "EulerZYXDecomposer K r =
     (case GetEulerZYX K r of (a, b, g) \<Rightarrow>
        Bag ''KDL.Rotation'' [(''alpha'', DoubleP a), (''beta'', DoubleP b), (''gamma'', DoubleP g)])"

definition find_or :: "'d bag \<Rightarrow> string \<Rightarrow> string \<Rightarrow> 'd option" where
  "find_or b n deprecated = (case find_double b n of Some x \<Rightarrow> Some x | None \<Rightarrow> find_double b deprecated)"

definition EulerZYXComposer :: "'d rotation_api \<Rightarrow> 'd bag \<Rightarrow> 'd kdl_rotation \<Rightarrow> bool \<times> 'd kdl_rotation" where
  "EulerZYXComposer K bg res =
     (if getType bg = ''KDL.Rotation'' \<or> getType bg = ''MotCon::Rotation''
      then case (find_or bg ''alpha'' ''Z'', find_or bg ''beta'' ''Y'', find_or bg ''gamma'' ''X'') of
             (Some a, Some b, Some g) \<Rightarrow> (True, EulerZYX K a b g)
           | _ \<Rightarrow> (False, res)
      else (False, res))"

definition RPYDecomposer :: "'d rotation_api \<Rightarrow> 'd kdl_rotation \<Rightarrow> 'd bag" where
  "RPYDecomposer K r =
     (case GetRPY K r of (ro, pi', ya) \<Rightarrow>
        Bag ''KDL.Rotation'' [(''R'', DoubleP ro), (''P'', DoubleP pi'), (''Y'', DoubleP ya)])"

definition RPYComposer :: "'d rotation_api \<Rightarrow> 'd bag \<Rightarrow> 'd kdl_rotation \<Rightarrow> bool \<times> 'd kdl_rotation" where
  "RPYComposer K b res =
     (if getType b = ''KDL.Rotation'' \<or> getType b = ''MotCon::Rotation''
      then case (find_double b ''R'', find_double b ''P'', find_double b ''Y'') of
             (Some r, Some p, Some y) \<Rightarrow> (True, RPY K r p y)
           | _ \<Rightarrow> (False, res)
      else (False, res))"

definition vector_decompose :: "'d kdl_vector \<Rightarrow> 'd bag \<Rightarrow> 'd bag" where
  "vector_decompose v targetbag = VectorDecomposer v"

definition vector_compose :: "'d bag \<Rightarrow> 'd kdl_vector \<Rightarrow> bool \<times> 'd kdl_vector" where
  "vector_compose b v = VectorComposer b v"

definition rotation_decompose :: "'d rotation_api \<Rightarrow> 'd kdl_rotation \<Rightarrow> 'd bag \<Rightarrow> 'd bag" where
  "rotation_decompose K r targetbag = RPYDecomposer K r"

text \<open>The three composers in turn.\<close>

definition compose_rotation :: "'d rotation_api \<Rightarrow> 'd bag \<Rightarrow> 'd kdl_rotation \<Rightarrow> bool \<times> 'd kdl_rotation" where
  "compose_rotation K b r =
     (case RPYComposer K b r of
        (True, r1) \<Rightarrow> (True, r1)
      | (False, r1) \<Rightarrow>
          (case EulerZYXComposer K b r1 of
             (True, r2) \<Rightarrow> (True, r2)
           | (False, r2) \<Rightarrow> RotationComposer b r2))"

definition rotation_compose :: "'d rotation_api \<Rightarrow> 'd bag \<Rightarrow> 'd kdl_rotation \<Rightarrow> bool \<times> 'd kdl_rotation" where
  "rotation_compose K b r = compose_rotation K b r"

section \<open>Twists, wrenches and frames\<close>

definition twist_decompose :: "'d kdl_twist \<Rightarrow> 'd bag \<Rightarrow> 'd bag" where
  "twist_decompose t targetbag =
     bag_add ''rot'' (BagP (VectorDecomposer (twist_rot t)))
       (bag_add ''vel'' (BagP (VectorDecomposer (twist_vel t))) (setType ''KDL.Twist'' targetbag))"

definition twist_compose :: "'d bag \<Rightarrow> 'd kdl_twist \<Rightarrow> bool \<times> 'd kdl_twist" where
  "twist_compose b t =
     (if getType b = ''KDL.Twist'' \<or> getType b = ''MotCon::Twist''
      then case find_bag b ''vel'' of
             None \<Rightarrow> (False, t)
           | Some vel \<Rightarrow>
               (case find_bag b ''rot'' of
                  None \<Rightarrow> (False, t)
                | Some rot \<Rightarrow>
                    (case VectorComposer vel (twist_vel t) of
                       (False, v) \<Rightarrow> (False, t\<lparr>twist_vel := v\<rparr>)
                     | (True, v) \<Rightarrow>
                         (case VectorComposer rot (twist_rot t) of
                            (ok, w) \<Rightarrow> (ok, t\<lparr>twist_vel := v, twist_rot := w\<rparr>))))
      else (False, t))"

definition wrench_decompose :: "'d kdl_wrench \<Rightarrow> 'd bag \<Rightarrow> 'd bag" where
  "wrench_decompose w targetbag =
     bag_add ''torque'' (BagP (VectorDecomposer (wrench_torque w)))
       (bag_add ''force'' (BagP (VectorDecomposer (wrench_force w))) (setType ''KDL.Wrench'' targetbag))"

definition wrench_compose :: "'d bag \<Rightarrow> 'd kdl_wrench \<Rightarrow> bool \<times> 'd kdl_wrench" where
  "wrench_compose b w =
     (if getType b = ''KDL.Wrench'' \<or> getType b = ''Motcon::Wrench''
      then case find_bag b ''force'' of
             None \<Rightarrow> (False, w)
           | Some force \<Rightarrow>
               (case find_bag b ''torque'' of
                  None \<Rightarrow> (False, w)
                | Some torque \<Rightarrow>
                    (case VectorComposer force (wrench_force w) of
                       (False, v) \<Rightarrow> (False, w\<lparr>wrench_force := v\<rparr>)
                     | (True, v) \<Rightarrow>
                         (case VectorComposer torque (wrench_torque w) of
                            (ok, u) \<Rightarrow> (ok, w\<lparr>wrench_force := v, wrench_torque := u\<rparr>))))
      else (False, w))"

definition frame_decompose :: "'d rotation_api \<Rightarrow> 'd kdl_frame \<Rightarrow> 'd bag \<Rightarrow> 'd bag" where
  "frame_decompose K f targetbag =
     bag_add ''M'' (BagP (RPYDecomposer K (frame_M f)))
       (bag_add ''p'' (BagP (VectorDecomposer (frame_p f))) (setType ''KDL.Frame'' targetbag))"

definition frame_compose :: "'d rotation_api \<Rightarrow> 'd bag \<Rightarrow> 'd kdl_frame \<Rightarrow> bool \<times> 'd kdl_frame" where
  "frame_compose K b f =
     (if getType b = ''KDL.Frame'' \<or> getType b = ''MotCon::Frame''
      then case find_bag b ''p'' of
             None \<Rightarrow> (False, f)
           | Some p \<Rightarrow>
               (case find_bag b ''M'' of
                  None \<Rightarrow> (False, f)
                | Some M \<Rightarrow>
                    (case VectorComposer p (frame_p f) of
                       (False, v) \<Rightarrow> (False, f\<lparr>frame_p := v\<rparr>)
                     | (True, v) \<Rightarrow>
                         (case compose_rotation K M (frame_M f) of
                            (ok, r) \<Rightarrow> (ok, f\<lparr>frame_p := v, frame_M := r\<rparr>))))
      else (False, f))"

section \<open>Kinematic families\<close>

text \<open>A joint is known by its type; \<open>getTypeName\<close> is KDL's.\<close>

datatype joint = RotAxis | RotX | RotY | RotZ | TransAxis | TransX | TransY | TransZ | JointNone

definition joint_decompose :: "(joint \<Rightarrow> string) \<Rightarrow> joint \<Rightarrow> 'd bag \<Rightarrow> 'd bag" where
  "joint_decompose getTypeName j targetbag =
     bag_add ''Type'' (StringP (getTypeName j)) (setType ''KDL.Joint'' targetbag)"

definition joint_compose :: "'d bag \<Rightarrow> joint \<Rightarrow> bool \<times> joint" where
  "joint_compose b j =
     (if getType b = ''KDL.Joint''
      then case find_string b ''Type'' of
             None \<Rightarrow> (False, j)
           | Some type_name \<Rightarrow>
               if type_name = ''RotX'' then (True, RotX)
               else if type_name = ''RotY'' then (True, RotY)
               else if type_name = ''RotZ'' then (True, RotZ)
               else if type_name = ''TransX'' then (True, TransX)
               else if type_name = ''TransY'' then (True, TransY)
               else if type_name = ''TransZ'' then (True, TransZ)
               else if type_name = ''None'' then (True, JointNone)
               else (False, j)
      else (False, j))"

type_synonym 'd segment = "joint \<times> 'd kdl_frame"

definition segment_decompose ::
  "(joint \<Rightarrow> string) \<Rightarrow> 'd rotation_api \<Rightarrow> 'd segment \<Rightarrow> 'd bag \<Rightarrow> 'd bag" where
  "segment_decompose getTypeName K s targetbag =
     (let targetbag = setType ''KDL.Segment'' targetbag;
          joint_bag = joint_decompose getTypeName (fst s) empty_bag;
          targetbag = bag_add ''joint'' (BagP joint_bag) targetbag;
          frame_bag = frame_decompose K (snd s) empty_bag
      in bag_add ''frame'' (BagP frame_bag) targetbag)"

text \<open>
  \<open>composeType\<close> of the joint and the frame fills a property that starts with the default value; whether
  it succeeded is not asked.
\<close>

definition segment_compose ::
  "'d rotation_api \<Rightarrow> 'd segment \<Rightarrow> 'd bag \<Rightarrow> 'd segment \<Rightarrow> bool \<times> 'd segment" where
  "segment_compose K dflt b s =
     (if getType b = ''KDL.Segment''
      then case (find_bag b ''frame'', find_bag b ''joint'') of
             (Some frame_bag, Some joint_bag) \<Rightarrow>
               (True, (snd (joint_compose joint_bag (fst dflt)), snd (frame_compose K frame_bag (snd dflt))))
           | _ \<Rightarrow> (False, s)
      else (False, s))"

text \<open>The bag of a segment is declared outside of the loop.\<close>

fun chain_items ::
  "(joint \<Rightarrow> string) \<Rightarrow> 'd rotation_api \<Rightarrow> 'd bag \<Rightarrow> 'd segment list \<Rightarrow> (string \<times> 'd property_value) list" where
  "chain_items getTypeName K segment_bag [] = []"
| "chain_items getTypeName K segment_bag (s # ss) =
     (let segment_bag = segment_decompose getTypeName K s segment_bag
      in (''Segment'', BagP segment_bag) # chain_items getTypeName K segment_bag ss)"

definition chain_decompose ::
  "(joint \<Rightarrow> string) \<Rightarrow> 'd rotation_api \<Rightarrow> 'd segment list \<Rightarrow> 'd bag \<Rightarrow> 'd bag" where
  "chain_decompose getTypeName K chain targetbag =
     Bag ''KDL.Chain'' (getProperties targetbag @ chain_items getTypeName K empty_bag chain)"

definition item_segment :: "'d rotation_api \<Rightarrow> 'd segment \<Rightarrow> 'd property_value \<Rightarrow> 'd segment" where
  "item_segment K dflt v = (case v of BagP b \<Rightarrow> snd (segment_compose K dflt b dflt) | _ \<Rightarrow> dflt)"

definition chain_compose ::
  "'d rotation_api \<Rightarrow> 'd segment \<Rightarrow> 'd bag \<Rightarrow> 'd segment list \<Rightarrow> bool \<times> 'd segment list" where
  "chain_compose K dflt b chain =
     (if getType b = ''KDL.Chain''
      then (True, map (\<lambda>(n, v). item_segment K dflt v) (getProperties b))
      else (False, chain))"

text \<open>Arrays of joint values and Jacobians, the latter a list of six rows.\<close>

definition jntarray_decompose :: "'d list \<Rightarrow> 'd bag \<Rightarrow> 'd bag" where
  "jntarray_decompose q targetbag =
     Bag ''KDL.JntArray'' (getProperties targetbag @
       map (\<lambda>i. (''Element'' @ show_nat i, DoubleP (q ! i))) [0..<length q])"

definition item_double :: "'d \<Rightarrow> 'd property_value \<Rightarrow> 'd" where
  "item_double dflt v = (case v of DoubleP x \<Rightarrow> x | _ \<Rightarrow> dflt)"

definition jntarray_compose :: "'d \<Rightarrow> 'd bag \<Rightarrow> 'd list \<Rightarrow> bool \<times> 'd list" where
  "jntarray_compose dflt b q =
     (if getType b = ''KDL.JntArray''
      then (True, map (\<lambda>i. item_double dflt (snd (getProperties b ! i))) [0..<length (getProperties b)])
      else (False, q))"

definition jacobian_decompose :: "'d list list \<Rightarrow> 'd bag \<Rightarrow> 'd bag" where
  "jacobian_decompose J targetbag =
     Bag ''KDL.Jacobian'' (getProperties targetbag @
       concat (map (\<lambda>i. map (\<lambda>j. (''Element ('' @ show_nat i @ '','' @ show_nat j @ '')'', DoubleP (J ! i ! j)))
                          [0..<length (J ! i)]) [0..<length J]))"

definition jacobian_compose :: "'d \<Rightarrow> 'd bag \<Rightarrow> 'd list list \<Rightarrow> bool \<times> 'd list list" where
  "jacobian_compose dflt b J =
     (let size' = length (getProperties b)
      in if getType b = ''KDL.Jacobian''
         then (True, map (\<lambda>i. map (\<lambda>j. item_double dflt (snd (getProperties b ! ((size' div 6) * i + j))))
                                [0..<size' div 6]) [0..<6])
         else (False, J))"

section \<open>Round trips\<close>

lemmas bag_simps = bag_find_def find_double_def find_string_def find_bag_def bag_add_def setType_def empty_bag_def

lemma vector_bag_round_trip [codec_simps]: "VectorComposer (VectorDecomposer v) r = (True, v)"
  by (simp add: VectorComposer_def VectorDecomposer_def bag_simps)

lemma rotation_bag_round_trip:
  assumes "rotation_ok r"
  shows "RotationComposer (RotationDecomposer r) r0 = (True, r)"
proof -
  have "r = [rot_at r 0 0, rot_at r 0 1, rot_at r 0 2, rot_at r 1 0, rot_at r 1 1, rot_at r 1 2,
      rot_at r 2 0, rot_at r 2 1, rot_at r 2 2]"
    using assms by (auto simp: rotation_ok_def rot_at_def numeral_eq_Suc length_Suc_conv)
  then show ?thesis
    by (simp add: RotationComposer_def RotationDecomposer_def bag_simps)
qed

text \<open>The angles of a rotation give the rotation back.\<close>

definition rpy_exact :: "'d rotation_api \<Rightarrow> 'd kdl_rotation \<Rightarrow> bool" where
  "rpy_exact K r \<longleftrightarrow> (case GetRPY K r of (a, b, c) \<Rightarrow> RPY K a b c = r)"

lemma rpy_bag_round_trip: "rpy_exact K r \<Longrightarrow> compose_rotation K (RPYDecomposer K r) r0 = (True, r)"
  by (cases "GetRPY K r")
     (simp add: rpy_exact_def compose_rotation_def RPYComposer_def RPYDecomposer_def bag_simps)

lemma twist_bag_round_trip: "twist_compose (twist_decompose t empty_bag) t0 = (True, t)"
  by (simp add: twist_compose_def twist_decompose_def bag_simps codec_simps)

lemma wrench_bag_round_trip: "wrench_compose (wrench_decompose w empty_bag) w0 = (True, w)"
  by (simp add: wrench_compose_def wrench_decompose_def bag_simps codec_simps)

lemma frame_bag_round_trip:
  "rpy_exact K (frame_M f) \<Longrightarrow> frame_compose K (frame_decompose K f empty_bag) f0 = (True, f)"
  by (simp add: frame_compose_def frame_decompose_def bag_simps codec_simps rpy_bag_round_trip)

text \<open>What a composer found.\<close>

definition composed :: "bool \<times> 'a \<Rightarrow> 'a option" where
  "composed r = (if fst r then Some (snd r) else None)"

interpretation twist_bags:
  codec "\<lambda>t. twist_decompose t empty_bag" "\<lambda>b. composed (twist_compose b t0)" "\<lambda>t. True" for t0
  by unfold_locales (simp add: twist_bag_round_trip composed_def)

interpretation frame_bags:
  codec "\<lambda>f. frame_decompose K f empty_bag" "\<lambda>b. composed (frame_compose K b f0)" "\<lambda>f. rpy_exact K (frame_M f)"
  for K f0
  by unfold_locales (simp add: frame_bag_round_trip composed_def)

lemma jntarray_bag_round_trip: "jntarray_compose d (jntarray_decompose q empty_bag) q0 = (True, q)"
  by (auto simp: jntarray_compose_def jntarray_decompose_def empty_bag_def item_double_def intro: nth_equalityI)

lemma concat_equal_length:
  assumes "\<forall>i < n. length (f i) = c" "i < n" "j < c"
  shows "concat (map f [0..<n]) ! (c * i + j) = f i ! j" and "length (concat (map f [0..<n])) = n * c"
proof -
  have len: "length (concat (map f [0..<m])) = m * c" if "m \<le> n" for m
    using that assms(1) by (induction m) auto
  then show "length (concat (map f [0..<n])) = n * c" by simp
  have "[0..<n] = [0..<i] @ i # [Suc i..<n]"
    using assms(2) by (metis le_add1 less_imp_le upt_conv_Cons upt_add_eq_append [of 0 i "n - i"] le_add_diff_inverse add_0)
  then have eq: "concat (map f [0..<n]) = concat (map f [0..<i]) @ f i @ concat (map f [Suc i..<n])"
    by simp
  have "length (concat (map f [0..<i])) = c * i" using len [of i] assms(2) by (simp add: mult.commute)
  then show "concat (map f [0..<n]) ! (c * i + j) = f i ! j"
    using assms unfolding eq by (simp add: nth_append)
qed

lemma jacobian_bag_round_trip:
  assumes "length J = 6" "\<forall>i < 6. length (J ! i) = c"
  shows "jacobian_compose d (jacobian_decompose J empty_bag) J0 = (True, J)"
proof -
  define row where "row i = map (\<lambda>j. (''Element ('' @ show_nat i @ '','' @ show_nat j @ '')'', DoubleP (J ! i ! j)))
    [0..<length (J ! i)]" for i
  have rows: "\<forall>i < 6. length (row i) = c" using assms by (simp add: row_def)
  have bag: "jacobian_decompose J empty_bag = Bag ''KDL.Jacobian'' (concat (map row [0..<6]))"
    using assms(1) by (simp add: jacobian_decompose_def empty_bag_def row_def [abs_def])
  have "length (concat (map row [0..<m])) = m * c" if "m \<le> 6" for m
    using that rows by (induction m) auto
  then have size: "length (concat (map row [0..<6])) = 6 * c" by simp
  have elem: "item_double d (snd (concat (map row [0..<6]) ! (c * i + j))) = J ! i ! j" if "i < 6" "j < c" for i j
    unfolding concat_equal_length(1) [OF rows that] using that assms(2) by (simp add: row_def item_double_def)
  have "map (\<lambda>i. map (\<lambda>j. item_double d (snd (concat (map row [0..<6]) ! (c * i + j)))) [0..<c]) [0..<6] = J"
    using elem assms by (auto intro!: nth_equalityI)
  then show ?thesis
    by (simp add: jacobian_compose_def bag size)
qed

text \<open>The joints whose names the composer knows.\<close>

definition joint_named :: "(joint \<Rightarrow> string) \<Rightarrow> joint \<Rightarrow> bool" where
  "joint_named getTypeName j \<longleftrightarrow>
     (j, getTypeName j) \<in> {(RotX, ''RotX''), (RotY, ''RotY''), (RotZ, ''RotZ''), (TransX, ''TransX''),
       (TransY, ''TransY''), (TransZ, ''TransZ''), (JointNone, ''None'')}"

lemma joint_bag_round_trip:
  "joint_named getTypeName j \<Longrightarrow> joint_compose (joint_decompose getTypeName j empty_bag) j0 = (True, j)"
  by (auto simp: joint_named_def joint_compose_def joint_decompose_def bag_simps)

definition segment_exact :: "(joint \<Rightarrow> string) \<Rightarrow> 'd rotation_api \<Rightarrow> 'd segment \<Rightarrow> bool" where
  "segment_exact getTypeName K s \<longleftrightarrow> joint_named getTypeName (fst s) \<and> rpy_exact K (frame_M (snd s))"

text \<open>
  The bag of a segment that is filled again keeps its first joint and frame at the front, and they are
  what the composer finds.
\<close>

definition segment_front :: "(joint \<Rightarrow> string) \<Rightarrow> 'd rotation_api \<Rightarrow> 'd segment \<Rightarrow> 'd bag \<Rightarrow> bool" where
  "segment_front getTypeName K s b \<longleftrightarrow>
     find_bag b ''joint'' = Some (joint_decompose getTypeName (fst s) empty_bag)
     \<and> find_bag b ''frame'' = Some (frame_decompose K (snd s) empty_bag)"

lemma segment_decompose_first: "segment_front getTypeName K s (segment_decompose getTypeName K s empty_bag)"
  by (simp add: segment_front_def segment_decompose_def bag_simps)

lemma segment_decompose_again:
  assumes "segment_front getTypeName K s b"
  shows "segment_front getTypeName K s (segment_decompose getTypeName K s' b)"
  using assms
  by (auto simp: segment_front_def segment_decompose_def find_bag_def bag_find_def bag_add_def setType_def
      map_of_append map_add_def Let_def split: option.splits)

lemma segment_decompose_type: "getType (segment_decompose getTypeName K s b) = ''KDL.Segment''"
  by (simp add: segment_decompose_def bag_add_def setType_def Let_def)

lemma segment_front_compose:
  assumes "segment_front getTypeName K s b" "segment_exact getTypeName K s" "getType b = ''KDL.Segment''"
  shows "segment_compose K dflt b s0 = (True, s)"
  using assms
  by (simp add: segment_front_def segment_compose_def segment_exact_def joint_bag_round_trip
      frame_bag_round_trip)

lemma chain_items_repeat_first:
  assumes "segment_front getTypeName K s b" "segment_exact getTypeName K s"
  shows "map (\<lambda>(n, v). item_segment K dflt v) (chain_items getTypeName K b ss) = replicate (length ss) s"
  using assms
proof (induction ss arbitrary: b)
  case (Cons s' ss)
  note front = segment_decompose_again [OF Cons.prems(1), of s']
  show ?case
    using Cons.IH [OF front Cons.prems(2)]
      segment_front_compose [OF front Cons.prems(2) segment_decompose_type]
    by (simp add: item_segment_def Let_def)
qed simp



section \<open>Concrete values\<close>

text \<open>Integers for numbers and the first three elements of a matrix for its angles.\<close>

definition demo_rotations :: "int rotation_api" where
  "demo_rotations =
     \<lparr>GetRPY = (\<lambda>r. (r ! 0, r ! 1, r ! 2)), RPY = (\<lambda>a b c. [a, b, c, 0, 0, 0, 0, 0, 0]),
      GetEulerZYX = (\<lambda>r. (r ! 0, r ! 1, r ! 2)), EulerZYX = (\<lambda>a b c. [a, b, c, 0, 0, 0, 0, 0, 0])\<rparr>"

definition demo_joint_name :: "joint \<Rightarrow> string" where
  "demo_joint_name j =
     (case j of RotX \<Rightarrow> ''RotX'' | RotY \<Rightarrow> ''RotY'' | RotZ \<Rightarrow> ''RotZ'' | TransX \<Rightarrow> ''TransX''
      | TransY \<Rightarrow> ''TransY'' | TransZ \<Rightarrow> ''TransZ'' | JointNone \<Rightarrow> ''None'' | RotAxis \<Rightarrow> ''RotAxis''
      | TransAxis \<Rightarrow> ''TransAxis'')"

definition demo_segment :: "joint \<Rightarrow> int \<Rightarrow> int segment" where
  "demo_segment j x = (j, \<lparr>frame_M = [x, 0, 0, 0, 0, 0, 0, 0, 0], frame_p = \<lparr>kx = x, ky = 2, kz = 3\<rparr>\<rparr>)"

lemma demo_segment_exact:
  "j \<noteq> RotAxis \<Longrightarrow> j \<noteq> TransAxis \<Longrightarrow> segment_exact demo_joint_name demo_rotations (demo_segment j x)"
  by (cases j) (simp_all add: segment_exact_def demo_segment_def joint_named_def demo_joint_name_def
      rpy_exact_def demo_rotations_def)



end
