(* ===== verification/Kdl_Typekit.thy ===== *)
theory Kdl_Typekit
  imports Kdl_Properties Kdl_Mqueue
begin

text \<open>
  The types of the package \<open>kdl_typekit\<close> as seen by the Orocos scripting language: members of vectors,
  twists and wrenches by index (\<open>kdlTypekit.hpp\<close>), joint arrays as sequences
  (\<open>kdlTypekitJntArray.cpp\<close>), the functions behind constructors and operators
  (\<open>kdlTypekitConstructors.cpp\<close>, \<open>kdlTypekitOperators.cpp\<close>) and the tables of what is registered. The
  element access of KDL's classes, \<open>operator[]\<close> and \<open>operator()\<close>, is third-party: a record with a locale.
\<close>

section \<open>Members by index\<close>

record ('c, 'd) kdl_index =
  item_at :: "'c \<Rightarrow> nat \<Rightarrow> 'd"
  set_item_at :: "'c \<Rightarrow> nat \<Rightarrow> 'd \<Rightarrow> 'c"

text \<open>A reference to an element, or to the placeholder \<open>NA\<close> of RTT, which belongs to no container.\<close>

datatype member_ref = NaRef | ItemRef nat

definition get_container_item :: "int \<Rightarrow> int \<Rightarrow> member_ref" where
  "get_container_item sz index = (if index \<ge> sz \<or> index < 0 then NaRef else ItemRef (nat index))"

definition get_container_item_copy :: "('c, 'd) kdl_index \<Rightarrow> 'd \<Rightarrow> int \<Rightarrow> 'c \<Rightarrow> int \<Rightarrow> 'd" where
  "get_container_item_copy K na sz cont index =
     (if index \<ge> sz \<or> index < 0 then na else item_at K cont (nat index))"

definition deref :: "('c, 'd) kdl_index \<Rightarrow> 'd \<Rightarrow> 'c \<Rightarrow> member_ref \<Rightarrow> 'd" where
  "deref K na c r = (case r of NaRef \<Rightarrow> na | ItemRef i \<Rightarrow> item_at K c i)"

definition assign :: "('c, 'd) kdl_index \<Rightarrow> 'c \<Rightarrow> member_ref \<Rightarrow> 'd \<Rightarrow> 'c" where
  "assign K c r x = (case r of NaRef \<Rightarrow> c | ItemRef i \<Rightarrow> set_item_at K c i x)"

text \<open>
  What \<open>newFunctorDataSource\<close> returns: a function that is evaluated on the item, by reference or on a
  copy. \<open>generates\<close> tells whether the item has the type of the function's argument: otherwise building
  the data source throws, and the exception is caught.
\<close>

datatype member_functor = ByReference int | ByCopy int | Size

datatype member_id = IntId int | StringId string | OtherId

definition KDLVector_getMember ::
  "(member_id \<Rightarrow> int option) \<Rightarrow> bool \<Rightarrow> bool \<Rightarrow> member_id \<Rightarrow> member_functor option" where
  "KDLVector_getMember convert_int generates assignable part =
     (case convert_int part of
        Some id_indx \<Rightarrow>
          if generates then Some (if assignable then ByReference id_indx else ByCopy id_indx) else None
      | None \<Rightarrow> None)"

definition functor_get :: "('c, 'd) kdl_index \<Rightarrow> 'd \<Rightarrow> int \<Rightarrow> 'c \<Rightarrow> member_functor \<Rightarrow> 'd" where
  "functor_get K na sz c m =
     (case m of ByReference i \<Rightarrow> deref K na c (get_container_item sz i)
      | ByCopy i \<Rightarrow> get_container_item_copy K na sz c i
      | Size \<Rightarrow> na)"

text \<open>Only a reference can be assigned to.\<close>

definition functor_set :: "('c, 'd) kdl_index \<Rightarrow> int \<Rightarrow> 'c \<Rightarrow> member_functor \<Rightarrow> 'd \<Rightarrow> 'c" where
  "functor_set K sz c m x =
     (case m of ByReference i \<Rightarrow> assign K c (get_container_item sz i) x | _ \<Rightarrow> c)"

text \<open>The type infos hand composition and decomposition to the functions for property bags.\<close>

definition decomposeTypeImpl :: "('x \<Rightarrow> 'd bag \<Rightarrow> 'd bag) \<Rightarrow> 'x \<Rightarrow> 'd bag \<Rightarrow> bool \<times> 'd bag" where
  "decomposeTypeImpl decomposeProperty source targetbag = (True, decomposeProperty source targetbag)"

definition composeTypeImpl :: "('d bag \<Rightarrow> 'x \<Rightarrow> bool \<times> 'x) \<Rightarrow> 'd bag \<Rightarrow> 'x \<Rightarrow> bool \<times> 'x" where
  "composeTypeImpl composeProperty source result = composeProperty source result"

definition KDLTypeInfo_decomposeTypeImpl ::
  "('x \<Rightarrow> 'd bag \<Rightarrow> 'd bag) \<Rightarrow> 'x \<Rightarrow> 'd bag \<Rightarrow> bool \<times> 'd bag" where
  "KDLTypeInfo_decomposeTypeImpl decomposeProperty source targetbag = (True, decomposeProperty source targetbag)"

definition KDLTypeInfo_composeTypeImpl ::
  "('d bag \<Rightarrow> 'x \<Rightarrow> bool \<times> 'x) \<Rightarrow> 'd bag \<Rightarrow> 'x \<Rightarrow> bool \<times> 'x" where
  "KDLTypeInfo_composeTypeImpl composeProperty source result = composeProperty source result"

section \<open>Joint arrays\<close>

definition get_item :: "'d list \<Rightarrow> int \<Rightarrow> member_ref" where
  "get_item v index = (if index \<ge> to_int (length v) \<or> index < 0 then NaRef else ItemRef (nat index))"

definition get_item_copy :: "'d \<Rightarrow> 'd list \<Rightarrow> int \<Rightarrow> 'd" where
  "get_item_copy na v index =
     (if index \<ge> to_int (length v) \<or> index < 0 then na else v ! nat index)"

definition get_size :: "'d list \<Rightarrow> int" where
  "get_size v = to_int (length v)"

text \<open>\<open>resize\<close> of KDL is a parameter; only an assignable array is resized.\<close>

definition JntArray_resize :: "('d list \<Rightarrow> int \<Rightarrow> 'd list) \<Rightarrow> bool \<Rightarrow> 'd list \<Rightarrow> int \<Rightarrow> bool \<times> 'd list" where
  "JntArray_resize resize assignable v sz = (if assignable then (True, resize v sz) else (False, v))"

definition JntArray_getMemberNames :: "string list" where
  "JntArray_getMemberNames = [''size'', ''capacity'']"

definition JntArray_getMember_id ::
  "(member_id \<Rightarrow> int option) \<Rightarrow> bool \<Rightarrow> bool \<Rightarrow> member_id \<Rightarrow> member_functor option" where
  "JntArray_getMember_id convert_int generates assignable part =
     (if (part = StringId ''size'' \<or> part = StringId ''capacity'') \<and> generates then Some Size
      else case convert_int part of
             Some id_indx \<Rightarrow>
               if generates then Some (if assignable then ByReference id_indx else ByCopy id_indx) else None
           | None \<Rightarrow> None)"

text \<open>A name that is a number is an index; the cast from \<open>unsigned int\<close> to \<open>int\<close> keeps its 32 bits.\<close>

definition JntArray_getMember ::
  "(string \<Rightarrow> nat option) \<Rightarrow> (member_id \<Rightarrow> int option) \<Rightarrow> bool \<Rightarrow> bool \<Rightarrow> string \<Rightarrow> member_functor option" where
  "JntArray_getMember lexical_cast convert_int generates assignable name =
     (case lexical_cast name of
        Some indx \<Rightarrow> JntArray_getMember_id convert_int generates assignable (IntId (to_int indx))
      | None \<Rightarrow> JntArray_getMember_id convert_int generates assignable (StringId name))"

text \<open>Reading a member of a joint array gives a \<open>double\<close> or an \<open>int\<close>; writing goes through a reference.\<close>

definition JntArray_get :: "'d \<Rightarrow> 'd list \<Rightarrow> member_functor \<Rightarrow> 'd + int" where
  "JntArray_get na v m =
     (case m of ByReference i \<Rightarrow> Inl (case get_item v i of NaRef \<Rightarrow> na | ItemRef k \<Rightarrow> v ! k)
      | ByCopy i \<Rightarrow> Inl (get_item_copy na v i)
      | Size \<Rightarrow> Inr (get_size v))"

definition JntArray_set :: "'d list \<Rightarrow> member_functor \<Rightarrow> 'd \<Rightarrow> 'd list" where
  "JntArray_set v m x =
     (case m of ByReference i \<Rightarrow> (case get_item v i of NaRef \<Rightarrow> v | ItemRef k \<Rightarrow> v[k := x]) | _ \<Rightarrow> v)"

text \<open>
  Composition from a property bag. The functions of RTT on bags are parameters: composing the
  children into a target, decomposing the array, and refreshing the array through the decomposition.
  \<open>as_int\<close> narrows a property to an \<open>int\<close>. The three assertions are checked in the order of the source.
\<close>

record 'd bag_api =
  composePropertyBag :: "'d bag \<Rightarrow> 'd bag \<Rightarrow> bool \<times> 'd bag"
  typeDecomposition :: "'d list \<Rightarrow> bool \<times> 'd bag"
  refreshProperties :: "'d list \<Rightarrow> 'd bag \<Rightarrow> 'd bag \<Rightarrow> bool \<times> 'd list"
  as_int :: "'d property_value \<Rightarrow> int option"
  resize_array :: "'d list \<Rightarrow> int \<Rightarrow> 'd list"

definition bag_size :: "'d bag \<Rightarrow> nat" where
  "bag_size b = length (getProperties b)"

definition sized_array :: "'d bag_api \<Rightarrow> 'd bag \<Rightarrow> 'd list \<Rightarrow> 'd list" where
  "sized_array B source result =
     (case (case bag_find source ''Size'' of Some sz \<Rightarrow> Some sz | None \<Rightarrow> bag_find source ''size'') of
        Some sz \<Rightarrow> (case as_int B sz of Some n \<Rightarrow> resize_array B result n | None \<Rightarrow> result)
      | None \<Rightarrow> resize_array B result (int (bag_size source)))"

definition JntArray_composeType ::
  "'d bag_api \<Rightarrow> 'd bag option \<Rightarrow> 'd list option \<Rightarrow> (bool \<times> 'd list option) result" where
  "JntArray_composeType B dssource dsresult =
     (case (dssource, dsresult) of
        (Some source, Some result) \<Rightarrow>
          (let result = sized_array B source result;
               (composed, target) = composePropertyBag B source (Bag (getType source) []);
               (decomposed, decomp) = typeDecomposition B result
           in if \<not> composed \<or> \<not> decomposed \<or> getType decomp \<noteq> getType target then Inr (False, Some result)
              else case refreshProperties B result decomp target of
                     (False, result) \<Rightarrow> Inr (False, Some result)
                   | (True, result) \<Rightarrow>
                       if length result \<noteq> bag_size source then Inl (InvalidArgument ''result.rows() == source.size()'')
                       else if bag_size source \<noteq> bag_size target then Inl (InvalidArgument ''source.size() == target.size()'')
                       else if bag_size source \<noteq> bag_size decomp then Inl (InvalidArgument ''source.size() == decomp.size()'')
                       else Inr (True, Some result))
      | _ \<Rightarrow> Inr (False, dsresult))"

text \<open>Decomposition is left to the members: there is no bag.\<close>

definition JntArray_decomposeType :: "'ds \<Rightarrow> 'bag option" where
  "JntArray_decomposeType source = None"

text \<open>The base installs its factories, then the member factory is set; the object is kept.\<close>

definition JntArray_installTypeInfoObject :: "('ti \<Rightarrow> 'ti) \<Rightarrow> ('ti \<Rightarrow> 'ti) \<Rightarrow> 'ti \<Rightarrow> bool \<times> 'ti" where
  "JntArray_installTypeInfoObject base_install setMemberFactory ti = (False, setMemberFactory (base_install ti))"

section \<open>Constructors and operators\<close>

definition framevr :: "'d kdl_vector \<Rightarrow> 'd kdl_rotation \<Rightarrow> 'd kdl_frame" where
  "framevr v r = \<lparr>frame_M = r, frame_p = v\<rparr>"

definition framerv :: "'d kdl_rotation \<Rightarrow> 'd kdl_vector \<Rightarrow> 'd kdl_frame" where
  "framerv r v = \<lparr>frame_M = r, frame_p = v\<rparr>"

definition wrenchft :: "'d kdl_vector \<Rightarrow> 'd kdl_vector \<Rightarrow> 'd kdl_wrench" where
  "wrenchft force torque = \<lparr>wrench_force = force, wrench_torque = torque\<rparr>"

definition twistvw :: "'d kdl_vector \<Rightarrow> 'd kdl_vector \<Rightarrow> 'd kdl_twist" where
  "twistvw tr rot = \<lparr>twist_vel = tr, twist_rot = rot\<rparr>"

definition vectorxyz :: "'d \<Rightarrow> 'd \<Rightarrow> 'd \<Rightarrow> 'd kdl_vector" where
  "vectorxyz a b c = \<lparr>kx = a, ky = b, kz = c\<rparr>"

definition wrenchtwist_index :: "('c, 'd :: zero) kdl_index \<Rightarrow> 'c \<Rightarrow> int \<Rightarrow> 'd" where
  "wrenchtwist_index K w index = (if index > 5 \<or> index < 0 then 0 else item_at K w (nat index))"

definition vector_index :: "('c, 'd :: zero) kdl_index \<Rightarrow> 'c \<Rightarrow> int \<Rightarrow> 'd" where
  "vector_index K v index = (if index > 2 \<or> index < 0 then 0 else item_at K v (nat index))"

definition vector_dot :: "('c, 'd) kdl_index \<Rightarrow> nat \<Rightarrow> 'c \<Rightarrow> 'd" where
  "vector_dot K I v = item_at K v I"

definition frame_pos :: "'d kdl_frame \<Rightarrow> 'd kdl_vector" where
  "frame_pos f = frame_p f"

definition frame_rot :: "'d kdl_frame \<Rightarrow> 'd kdl_rotation" where
  "frame_rot f = frame_M f"

definition twist_vel_op :: "'d kdl_twist \<Rightarrow> 'd kdl_vector" where
  "twist_vel_op t = twist_vel t"

definition twist_rot_op :: "'d kdl_twist \<Rightarrow> 'd kdl_vector" where
  "twist_rot_op t = twist_rot t"

definition wrench_force_op :: "'d kdl_wrench \<Rightarrow> 'd kdl_vector" where
  "wrench_force_op w = wrench_force w"

definition wrench_torque_op :: "'d kdl_wrench \<Rightarrow> 'd kdl_vector" where
  "wrench_torque_op w = wrench_torque w"

definition rotation_roll :: "'d rotation_api \<Rightarrow> 'd kdl_rotation \<Rightarrow> 'd" where
  "rotation_roll A rot = (let (r, p, y) = GetRPY A rot in r)"

definition rotation_pitch :: "'d rotation_api \<Rightarrow> 'd kdl_rotation \<Rightarrow> 'd" where
  "rotation_pitch A rot = (let (r, p, y) = GetRPY A rot in p)"

definition rotation_yaw :: "'d rotation_api \<Rightarrow> 'd kdl_rotation \<Rightarrow> 'd" where
  "rotation_yaw A rot = (let (r, p, y) = GetRPY A rot in y)"

text \<open>
  The functions that hand the work to a method of KDL, which is given: the inverse of a rotation and
  of a frame, the rotation about an axis, and the four numbers of a quaternion, which overwrite the
  variables passed.
\<close>

record 'd inverse_api =
  rotation_Inverse :: "'d kdl_rotation \<Rightarrow> 'd kdl_rotation"
  frame_Inverse :: "'d kdl_frame \<Rightarrow> 'd kdl_frame"
  rotation_Rot :: "'d kdl_vector \<Rightarrow> 'd \<Rightarrow> 'd kdl_rotation"
  rotation_GetQuaternion :: "'d kdl_rotation \<Rightarrow> 'd \<times> 'd \<times> 'd \<times> 'd"

definition frame_inv :: "'d inverse_api \<Rightarrow> 'd kdl_frame \<Rightarrow> 'd kdl_frame" where
  "frame_inv A f = frame_Inverse A f"

definition rotation_inv :: "'d inverse_api \<Rightarrow> 'd kdl_rotation \<Rightarrow> 'd kdl_rotation" where
  "rotation_inv A rot = rotation_Inverse A rot"

definition rotationAngleAxis :: "'d inverse_api \<Rightarrow> 'd kdl_vector \<Rightarrow> 'd \<Rightarrow> 'd kdl_rotation" where
  "rotationAngleAxis A axis angle = rotation_Rot A axis angle"

definition Inverse_rotation :: "'d inverse_api \<Rightarrow> 'd kdl_rotation \<Rightarrow> 'd kdl_rotation" where
  "Inverse_rotation A rot = rotation_Inverse A rot"

definition Inverse_frame :: "'d inverse_api \<Rightarrow> 'd kdl_frame \<Rightarrow> 'd kdl_frame" where
  "Inverse_frame A f = frame_Inverse A f"

definition GetQuaternion ::
  "'d inverse_api \<Rightarrow> 'd kdl_rotation \<Rightarrow> 'd \<times> 'd \<times> 'd \<times> 'd \<Rightarrow> 'd \<times> 'd \<times> 'd \<times> 'd" where
  "GetQuaternion A rot xyzw = rotation_GetQuaternion A rot"

section \<open>What is registered\<close>

text \<open>Types: the structure, the sequence and the C array of each, under the given names.\<close>

datatype type_info = StructInfo string | ContainerInfo string nat | JntArrayInfo | SequenceInfo string | CArrayInfo string

fun type_name :: "type_info \<Rightarrow> string" where
  "type_name (StructInfo n) = n"
| "type_name (ContainerInfo n k) = n"
| "type_name JntArrayInfo = ''KDL.JntArray''"
| "type_name (SequenceInfo n) = n"
| "type_name (CArrayInfo n) = n"

definition loadChainTypes :: "type_info list" where
  "loadChainTypes = [StructInfo ''KDL.Chain'', SequenceInfo ''KDL.Chain[]'', CArrayInfo ''KDL.cChain[]'']"

definition loadFrameTypes :: "type_info list" where
  "loadFrameTypes = [StructInfo ''KDL.Frame'', SequenceInfo ''KDL.Frame[]'', CArrayInfo ''KDL.cFrame[]'']"

definition loadJacobianTypes :: "type_info list" where
  "loadJacobianTypes = [StructInfo ''KDL.Jacobian'', SequenceInfo ''KDL.Jacobian[]'', CArrayInfo ''KDL.cJacobian[]'']"

definition loadJntArrayTypes :: "type_info list" where
  "loadJntArrayTypes = [JntArrayInfo, SequenceInfo ''KDL.JntArray[]'', CArrayInfo ''KDL.cJntArray[]'']"

definition loadJointTypes :: "type_info list" where
  "loadJointTypes = [StructInfo ''KDL.Joint'', SequenceInfo ''KDL.Joint[]'', CArrayInfo ''KDL.cJoint[]'']"

definition loadRotationTypes :: "type_info list" where
  "loadRotationTypes = [StructInfo ''KDL.Rotation'', SequenceInfo ''KDL.Rotation[]'', CArrayInfo ''KDL.cRotation[]'']"

definition loadSegmentTypes :: "type_info list" where
  "loadSegmentTypes = [StructInfo ''KDL.Segment'', SequenceInfo ''KDL.Segment[]'', CArrayInfo ''KDL.cSegment[]'']"

definition loadTwistTypes :: "type_info list" where
  "loadTwistTypes = [ContainerInfo ''KDL.Twist'' 6, SequenceInfo ''KDL.Twist[]'', CArrayInfo ''KDL.cTwist[]'']"

definition loadVectorTypes :: "type_info list" where
  "loadVectorTypes = [ContainerInfo ''KDL.Vector'' 3, SequenceInfo ''KDL.Vector[]'', CArrayInfo ''KDL.cVector[]'']"

definition loadWrenchTypes :: "type_info list" where
  "loadWrenchTypes = [ContainerInfo ''KDL.Wrench'' 6, SequenceInfo ''KDL.Wrench[]'', CArrayInfo ''KDL.cWrench[]'']"

definition kdl_loadTypes :: "bool \<times> type_info list" where
  "kdl_loadTypes = (True, loadChainTypes @ loadFrameTypes @ loadJacobianTypes @ loadJntArrayTypes
     @ loadJointTypes @ loadRotationTypes @ loadSegmentTypes @ loadTwistTypes @ loadVectorTypes @ loadWrenchTypes)"

definition kdl_getName :: string where
  "kdl_getName = ''KDL''"

text \<open>Argument types, by the name the scripting language knows them under.\<close>

datatype script_type = TyDouble | TyInt | TyKdl string

abbreviation "Vec \<equiv> TyKdl ''KDL.Vector''"
abbreviation "Rot \<equiv> TyKdl ''KDL.Rotation''"
abbreviation "Frm \<equiv> TyKdl ''KDL.Frame''"
abbreviation "Wre \<equiv> TyKdl ''KDL.Wrench''"
abbreviation "Twi \<equiv> TyKdl ''KDL.Twist''"

text \<open>A constructor: the type it builds and the types of its arguments.\<close>

definition kdl_loadConstructors :: "(string \<times> script_type list) list" where
  "kdl_loadConstructors =
     [(''KDL.Vector'', [TyDouble, TyDouble, TyDouble]), (''KDL.Rotation'', [TyDouble, TyDouble, TyDouble]),
      (''KDL.Rotation'', [Vec, TyDouble]), (''KDL.Frame'', [Rot, Vec]), (''KDL.Frame'', [Vec, Rot]),
      (''KDL.Wrench'', [Vec, Vec]), (''KDL.Twist'', [Vec, Vec])]"

text \<open>The operations added to the global services \<open>KDL.Rotation\<close> with the constructors.\<close>

definition kdl_rotation_operations :: "(string \<times> string) list" where
  "kdl_rotation_operations =
     map (Pair ''Rotation'') [''RotX'', ''RotY'', ''RotZ'', ''RPY'', ''EulerZYX'', ''EulerZYZ'', ''Quaternion'']"

text \<open>An operator: its symbol, the type of its result and the types of its arguments.\<close>

definition kdl_loadOperators :: "(string \<times> script_type option \<times> script_type list) list" where
  "kdl_loadOperators =
     concat (map (\<lambda>t. [(''=='', None, [t, t]), (''!='', None, [t, t])]) [Frm, Vec, Rot, Wre, Twi])
     @ [(''-'', Some Vec, [Vec]), (''*'', Some Vec, [Vec, Vec]), (''*'', Some Frm, [Frm, Frm]),
        (''*'', Some Rot, [Rot, Rot]), (''+'', Some Vec, [Vec, Vec]), (''-'', Some Vec, [Vec, Vec]),
        (''+'', Some Wre, [Wre, Wre]), (''-'', Some Wre, [Wre, Wre]), (''+'', Some Twi, [Twi, Twi]),
        (''-'', Some Twi, [Twi, Twi]), (''*'', Some Vec, [TyInt, Vec]), (''*'', Some Vec, [Vec, TyInt]),
        (''*'', Some Vec, [TyDouble, Vec]), (''*'', Some Vec, [Vec, TyDouble]), (''*'', Some Wre, [Frm, Wre]),
        (''*'', Some Twi, [Frm, Twi]), (''*'', Some Vec, [Frm, Vec]), (''*'', Some Vec, [Rot, Vec]),
        (''/'', Some Vec, [Vec, TyDouble]), (''/'', Some Wre, [Wre, TyDouble]), (''/'', Some Twi, [Twi, TyDouble])]"

definition kdl_operations :: "(string \<times> string) list" where
  "kdl_operations =
     [(''Vector'', ''diff''), (''Vector'', ''addDelta''), (''Rotation'', ''diff''), (''Rotation'', ''addDelta''),
      (''Rotation'', ''Inverse''), (''Rotation'', ''GetQuaternion''), (''Twist'', ''diff''), (''Wrench'', ''diff''),
      (''Frame'', ''diff''), (''Frame'', ''addDelta''), (''Frame'', ''Inverse'')]"

section \<open>Element access\<close>

text \<open>What the classes of KDL promise of their elements.\<close>

locale indexed =
  fixes K :: "('c, 'd) kdl_index" and dim :: "'c \<Rightarrow> nat"
  assumes item_set: "i < dim c \<Longrightarrow> j < dim c \<Longrightarrow>
      item_at K (set_item_at K c i x) j = (if j = i then x else item_at K c j)"
    and dim_set: "i < dim c \<Longrightarrow> dim (set_item_at K c i x) = dim c"
begin

lemma member_in_range:
  assumes "int (dim c) = n" "0 \<le> i" "i < n"
  shows "functor_get K na n c (ByReference i) = item_at K c (nat i)"
    and "functor_get K na n c (ByCopy i) = item_at K c (nat i)"
    and "functor_get K na n (functor_set K n c (ByReference i) x) (ByReference i) = x"
    and "j < dim c \<Longrightarrow> j \<noteq> nat i \<Longrightarrow> item_at K (functor_set K n c (ByReference i) x) j = item_at K c j"
proof -
  have "nat i < dim c" using assms by linarith
  then show "functor_get K na n c (ByReference i) = item_at K c (nat i)"
    "functor_get K na n c (ByCopy i) = item_at K c (nat i)"
    "functor_get K na n (functor_set K n c (ByReference i) x) (ByReference i) = x"
    "j < dim c \<Longrightarrow> j \<noteq> nat i \<Longrightarrow> item_at K (functor_set K n c (ByReference i) x) j = item_at K c j"
    using assms by (auto simp: functor_get_def functor_set_def get_container_item_def get_container_item_copy_def
        deref_def assign_def item_set)
qed

end

lemma member_out_of_range:
  assumes "i < 0 \<or> n \<le> i"
  shows "functor_get K na n c (ByReference i) = na" "functor_get K na n c (ByCopy i) = na"
    and "functor_set K n c (ByReference i) x = c"
  using assms by (auto simp: functor_get_def functor_set_def get_container_item_def get_container_item_copy_def
      deref_def assign_def)

definition vector_access :: "('d kdl_vector, 'd) kdl_index" where
  "vector_access =
     \<lparr>item_at = (\<lambda>v i. if i = 0 then kx v else if i = 1 then ky v else kz v),
      set_item_at = (\<lambda>v i x. if i = 0 then v\<lparr>kx := x\<rparr> else if i = 1 then v\<lparr>ky := x\<rparr> else v\<lparr>kz := x\<rparr>)\<rparr>"

text \<open>Twists and wrenches of KDL have the elements of their first vector before those of the second.\<close>

definition twist_access :: "('d kdl_twist, 'd) kdl_index" where
  "twist_access =
     \<lparr>item_at = (\<lambda>t i. if i < 3 then item_at vector_access (twist_vel t) i
                       else item_at vector_access (twist_rot t) (i - 3)),
      set_item_at = (\<lambda>t i x. if i < 3 then t\<lparr>twist_vel := set_item_at vector_access (twist_vel t) i x\<rparr>
                       else t\<lparr>twist_rot := set_item_at vector_access (twist_rot t) (i - 3) x\<rparr>)\<rparr>"

definition wrench_access :: "('d kdl_wrench, 'd) kdl_index" where
  "wrench_access =
     \<lparr>item_at = (\<lambda>w i. if i < 3 then item_at vector_access (wrench_force w) i
                       else item_at vector_access (wrench_torque w) (i - 3)),
      set_item_at = (\<lambda>w i x. if i < 3 then w\<lparr>wrench_force := set_item_at vector_access (wrench_force w) i x\<rparr>
                       else w\<lparr>wrench_torque := set_item_at vector_access (wrench_torque w) (i - 3) x\<rparr>)\<rparr>"

definition array_access :: "('d list, 'd) kdl_index" where
  "array_access = \<lparr>item_at = nth, set_item_at = list_update\<rparr>"

interpretation vectors: indexed vector_access "\<lambda>v. 3"
  by unfold_locales (auto simp: vector_access_def)

interpretation twists: indexed twist_access "\<lambda>t. 6"
  by unfold_locales (auto simp: twist_access_def vectors.item_set)

interpretation wrenches: indexed wrench_access "\<lambda>w. 6"
  by unfold_locales (auto simp: wrench_access_def vectors.item_set)

interpretation arrays: indexed array_access length
  by unfold_locales (auto simp: array_access_def)

text \<open>The functions for joint arrays are those for containers of a fixed size, at the current size.\<close>

lemma JntArray_container:
  assumes "length v < 2 ^ 31"
  shows "JntArray_get na v (ByReference i) = Inl (functor_get array_access na (int (length v)) v (ByReference i))"
    and "JntArray_get na v (ByCopy i) = Inl (functor_get array_access na (int (length v)) v (ByCopy i))"
    and "JntArray_set v (ByReference i) x = functor_set array_access (int (length v)) v (ByReference i) x"
    and "JntArray_get na v Size = Inr (int (length v))"
  using assms by (auto simp: JntArray_get_def JntArray_set_def get_item_def get_item_copy_def functor_get_def
      functor_set_def get_container_item_def get_container_item_copy_def deref_def assign_def array_access_def
      get_size_def to_int_small)

text \<open>A member of a vector, twist or wrench taken by index is the element of that index: reading gives
  the element, writing changes it and no other element. An index out of range is no member: reading
  gives the placeholder and writing changes nothing. A read-only object is never written.\<close>

lemma kdl_members_correct:
  assumes K: "indexed K dim" and n: "int (dim c) = n"
    and m: "KDLVector_getMember convert_int generates assignable part = Some m" "convert_int part = Some i"
  shows "(0 \<le> i \<and> i < n \<longrightarrow> functor_get K na n c m = item_at K c (nat i)
        \<and> (assignable \<longrightarrow> functor_get K na n (functor_set K n c m x) m = x
             \<and> (\<forall>j < dim c. j \<noteq> nat i \<longrightarrow> item_at K (functor_set K n c m x) j = item_at K c j)))
    \<and> (i < 0 \<or> n \<le> i \<longrightarrow> functor_get K na n c m = na \<and> functor_set K n c m x = c)
    \<and> (\<not> assignable \<longrightarrow> functor_set K n c m x = c)"
proof -
  have "m = (if assignable then ByReference i else ByCopy i)"
    using m by (simp add: KDLVector_getMember_def split: if_splits)
  moreover have "functor_set K n c (ByCopy i) x = c" by (simp add: functor_set_def)
  ultimately show ?thesis
    using indexed.member_in_range [OF K n] member_out_of_range [of i n] by auto
qed

section \<open>Joint arrays as sequences\<close>

lemma to_int_index:
  assumes "k < 2 ^ 32" "n < 2 ^ 31"
  shows "(0 \<le> to_int k \<and> to_int k < int n) \<longleftrightarrow> k < n" "k < n \<Longrightarrow> to_int k = int k"
proof -
  show eq: "k < n \<Longrightarrow> to_int k = int k" using assms(2) by (simp add: to_int_small)
  have "to_int k < 0" if "2 ^ 31 \<le> k"
  proof -
    have "(int k - 2 ^ 31 + 2 ^ 32) mod 2 ^ 32 = int k - 2 ^ 31"
      using that assms(1) by (simp only: mod_add_self2) (simp add: mod_pos_pos_trivial)
    moreover have "int k - 2 ^ 31 < 2 ^ 31" using assms(1) by simp
    ultimately have "(int k + 2 ^ 31) mod 2 ^ 32 < 2 ^ 31" by (simp add: add.commute)
    then show ?thesis by (simp add: to_int_def signed_take_bit_eq_take_bit_shift take_bit_eq_mod)
  qed
  then show "(0 \<le> to_int k \<and> to_int k < int n) \<longleftrightarrow> k < n"
    using eq to_int_small [of k] by (cases "k < 2 ^ 31") auto
qed



text \<open>Composing a joint array from a bag. When it succeeds, the array has as many elements as the bag has
  properties; so a bag that gives its size in a property of its own never succeeds with that size,
  because that property is counted too. Sources and results of other types are refused unchanged.\<close>

lemma jntarray_compose_size:
  assumes res: "JntArray_composeType B dssource dsresult = Inr (b, dsresult')"
    and keep: "\<forall>q d t b q'. refreshProperties B q d t = (b, q') \<longrightarrow> length q' = length q"
  shows "(b \<longrightarrow> (\<exists>source q. dssource = Some source \<and> dsresult' = Some q \<and> length q = bag_size source
        \<and> (\<exists>q0. dsresult = Some q0 \<and> length (sized_array B source q0) = bag_size source)))
    \<and> (dssource = None \<or> dsresult = None \<longrightarrow> \<not> b \<and> dsresult' = dsresult)"
proof (cases "dssource = None \<or> dsresult = None")
  case True
  then show ?thesis using res by (auto simp: JntArray_composeType_def split: option.splits)
next
  case False
  then obtain source q0 where some: "dssource = Some source" "dsresult = Some q0" by auto
  show ?thesis
    using res keep unfolding some
    by (fastforce simp: JntArray_composeType_def Let_def split: prod.splits if_splits bool.splits)
qed

section \<open>The tables\<close>

lemma all_types: "map type_name (snd kdl_loadTypes) = concat (map (\<lambda>t. [''KDL.'' @ t, ''KDL.'' @ t @ ''[]'', ''KDL.c'' @ t @ ''[]''])
    [''Chain'', ''Frame'', ''Jacobian'', ''JntArray'', ''Joint'', ''Rotation'', ''Segment'', ''Twist'', ''Vector'', ''Wrench''])"
  by (simp add: kdl_loadTypes_def loadChainTypes_def loadFrameTypes_def loadJacobianTypes_def loadJntArrayTypes_def
      loadJointTypes_def loadRotationTypes_def loadSegmentTypes_def loadTwistTypes_def loadVectorTypes_def loadWrenchTypes_def)

text \<open>The type names that a script type mentions.\<close>

fun mentions :: "script_type \<Rightarrow> string list" where
  "mentions (TyKdl n) = [n]"
| "mentions _ = []"

text \<open>What is registered is well-typed: no type is registered twice; every type a constructor builds
  or takes, every type an operator takes or gives and every type the message queue transport supports
  but joint arrays with velocities is one that is loaded; and no two constructors of a type, and no
  two operators of the same symbol, take the same types of arguments.\<close>

lemma kdl_tables_well_typed:
  "distinct (map type_name (snd kdl_loadTypes))
    \<and> list_all (\<lambda>(t, args). list_all (\<lambda>n. n \<in> set (map type_name (snd kdl_loadTypes))) (t # concat (map mentions args)))
        kdl_loadConstructors
    \<and> list_all (\<lambda>(s, r, args). list_all (\<lambda>n. n \<in> set (map type_name (snd kdl_loadTypes)))
         (concat (map mentions (args @ (case r of None \<Rightarrow> [] | Some t \<Rightarrow> [t]))))) kdl_loadOperators
    \<and> list_all (\<lambda>n. n \<in> set (map type_name (snd kdl_loadTypes))) (remove1 ''KDL.JntArrayVel'' mqueue_types)
    \<and> ''KDL.JntArrayVel'' \<notin> set (map type_name (snd kdl_loadTypes))
    \<and> distinct kdl_loadConstructors
    \<and> distinct (map (\<lambda>(s, r, args). (s, args)) kdl_loadOperators)"
  unfolding all_types
  by (simp add: kdl_loadConstructors_def kdl_loadOperators_def mqueue_types_def)

end
