(* ===== verification/Spec2Isabelle.thy ===== *)
theory Spec2Isabelle
  imports Action_Liveness Import Channel_Machine Service_Machine Param_Table Parameter_Value Time_Typekit Idl
    Primitives_Typekit Kdl_Corba Kdl_Typekit
begin

text \<open>
  A verification development of the packages that connect Orocos RTT components with ROS 2.

  \<^bold>\<open>The program.\<close> A component (\<open>RTT::TaskContext\<close>) gets a ROS node of its own or uses the one of the
  process (\<open>rtt_ros2_node\<close>). Through that node its ports become topics (\<open>rtt_ros2_topics\<close>), its operations
  become services and its operation callers service clients (\<open>rtt_ros2_services\<close>), its properties are
  exchanged with parameters (\<open>rtt_ros2_params\<close>), and it can be an action server (\<open>rtt_ros2_actions\<close>).
  \<open>rtt_ros2\<close> finds and imports the plugins of other packages. Typekits and \<open>rtt_ros2_idl\<close> make the types of
  ROS and of KDL known to the Orocos type system.

  \<^bold>\<open>Theories and sources\<close> (paths under \<open>src/\<close>).
  \<^item> \<open>Prelude\<close>: exceptions of the C++ code as values of \<open>cpp_exn\<close>, results \<open>cpp_exn + 'a\<close>, reachability
    and the locales \<open>invariant_system\<close>, \<open>simulation\<close> (refinement), \<open>terminating_system\<close> (a rank) and \<open>codec\<close> (a
    round trip), decimal numbers.
  \<^item> \<open>Goal_Handle\<close>: the goal handles of \<open>rclcpp_action\<close>, third-party, as a record of functions with the
    locale \<open>goal_handles\<close> of their documented state machine; \<open>rcl_api\<close> satisfies it.
  \<^item> \<open>Rtt_Action_Server\<close>, \<open>Simple_Action_Server\<close>: the two classes of \<open>rtt_ros2_actions\<close>, one definition per
    method; the record \<open>sas\<close> has the fields of the class and \<open>world\<close> for the state of the middleware.
    A method that holds the mutex for a part only has a definition for that part (\<open>_locked\<close>).
  \<^item> \<open>Action_Machine\<close>, \<open>Action_Theorems\<close>: the step relation \<open>sas_step\<close> of the server with the ROS executor,
    the middleware, the owner's thread, the user's hooks and other threads, its invariant, the abstract
    ROS 1 server \<open>ros1_server\<close> and the properties. \<open>sas_progress\<close> are the steps that need no new request or
    call; \<open>Action_Liveness\<close> shows that they end with every request served.
  \<^item> \<open>Rtt_Service\<close>: services of RTT, third-party, as a record of functions with the locale \<open>rtt_services\<close>.
  \<^item> \<open>Node\<close>: \<open>rtt_ros2_node/src\<close>. The start of the spinner thread is an event of its own; a join of a thread
    whose \<open>spin()\<close> was not running when it was cancelled never returns and is \<open>None\<close>.
  \<^item> \<open>Import\<close>: \<open>rtt_ros2/src\<close>. The worklist loop is a \<open>partial_function\<close> and \<open>None\<close> is a loop that never
    ends; the ament index, the file system and the component loader are parameters.
  \<^item> \<open>Topics\<close>: \<open>rtt_ros2_topics\<close>. In \<open>Channel_Machine\<close> the step relation \<open>channel_step\<close> interleaves writers, whose
    trigger is two separate writes, with the executor and the destruction of the channel; \<open>queue_spec\<close> is
    the abstract queue of samples.
  \<^item> \<open>Services\<close>: \<open>rtt_ros2_services\<close>, with proxies at addresses, so that a caller bound to a destroyed proxy
    is visible; null dereferences and uses after free are values of \<open>cpp_exn\<close>. \<open>Service_Machine\<close> has the
    states that any sequence of \<open>connect\<close>, \<open>disconnect\<close> and \<open>disconnectAll\<close> leads to.
  \<^item> \<open>Params\<close>: \<open>rtt_ros2_params\<close>; the parameters of nodes have the locale \<open>parameter_server\<close>.
    \<open>Param_Table\<close> has the abstract table of parameters and sequences of calls.
  \<^item> \<open>Data_Source\<close>: \<open>rtt_ros2/include/orocos/rtt_ros2/getter_setter_datasource.hpp\<close>.
  \<^item> \<open>Parameter_Value\<close>, \<open>Time_Typekit\<close>, \<open>Struct_Typekit\<close>: \<open>typekits/rtt_ros2_rclcpp_typekit\<close>; integers are
    words of their width.
  \<^item> \<open>Primitives_Typekit\<close>: \<open>typekits/rtt_ros2_primitives_typekit\<close>, \<open>Idl\<close>: \<open>rtt_ros2_idl/include\<close>.
  \<^item> \<open>Kdl_Msgs\<close>: \<open>typekits/kdl_msgs\<close>; the package \<open>typekits/kdl_typekit\<close> is in \<open>Kdl_Properties\<close> (property bags),
    \<open>Kdl_Mqueue\<close> (message queues: one function writes to an output archive or reads from an input archive),
    \<open>Kdl_Corba\<close> (sequences of doubles, where an access beyond the end is \<open>OutOfBounds\<close>) and \<open>Kdl_Typekit\<close>
    (members, joint arrays, constructors and the tables of the scripting language).

  \<^bold>\<open>What the lemmas show.\<close>
  \<^item> Actions: at most one goal executes, the slots mean what the methods report, no deferred goal is
    forgotten, the status of a goal only moves forward and a finished goal stays as it is, in every
    interleaving; every accepted cancel request is concluded; the methods refine the ROS 1 server; the
    effect of each handler; the dispatch of a constructed server; and the race between the cancel
    handler and the transition to \<open>CANCELING\<close>, in which both outcomes are possible.
  \<^item> Nodes: spinning and cancelling follow an automaton, which says when a call blocks; which node a
    component gets; one node per process.
  \<^item> Import: it loops for ever exactly when there is an endless chain of dependencies below the
    package, and otherwise returns and reports its failures, having imported dependencies first; it
    throws for names the index refuses and for malformed manifests.
  \<^item> Topics: a channel refines a queue of samples, the executor drains it, no wake-up is lost, samples
    are published once and in order, a destroyed publisher stays silent, streams and topic names are
    those of the policy.
  \<^item> Services: what \<open>connect\<close> establishes, also when the name of the service is refused, and how calls
    are forwarded then; that connections stay sound while no call fails and nothing is disconnected;
    two ways in which a later \<open>connect\<close> or \<open>disconnect\<close> leaves a dangling or null pointer behind.
  \<^item> Parameters: any sequence of calls refines the same writes to a table; the round trip between
    properties and parameters, also with other calls in between.
  \<^item> Types: round trips and bounds of the conversions, writing through fields of objects, members of
    messages, of options and of joint arrays, the tables, and the round trips of KDL values through
    property bags, which fail for chains, through message queues and through CORBA, where short
    sequences are read beyond their end.

  \<^bold>\<open>Parameters of the model.\<close> RTT, rclcpp, rclcpp_action, KDL, the ament index, libxml2 and floating-point
  arithmetic are records of functions given to the definitions. Their laws are locales, each
  interpreted on a concrete instance with which the witnesses compute. There is no fuel: loops are
  structural, well-founded or \<open>partial_function (option)\<close>, and for the latter returning is proved.

  \<^bold>\<open>Not modelled.\<close> Logging; the memory allocation and real-time behaviour of RTT; calls of \<open>spin\<close> and
  \<open>cancel\<close> of one node that run at the same time in two threads; the loss of an operation sent to the
  owner's thread, which RTT drops when the owner's engine is not active; the CORBA plugin, which
  \<open>corbatoolkit.hpp\<close> declares and no file implements; explicit template instantiations; the Python,
  CMake and template files that generate typekits and transports; the tests.
\<close>

section \<open>Properties that span components\<close>



end
